(* ===== verification/Py_Strings.thy ===== *)
theory Py_Strings
  imports Prelude "HOL-Library.Char_ord" "HOL-Library.List_Lexorder"
begin

text \<open>
  The string operations of Python that the code uses.  A Python string is a HOL string whose
  characters are the code points below 256; \<open>str.upper\<close> is modelled on ASCII letters, the only
  letters in the names it is applied to.  Strings are ordered as Python orders them, character
  by character (\<open>Char_ord\<close> and \<open>List_Lexorder\<close> give the instance).
\<close>

named_theorems str_simps \<open>evaluation and algebra of the string operations\<close>

subsection \<open>Whitespace and stripping\<close>

definition py_isspace :: "char \<Rightarrow> bool" where
  "py_isspace c = (of_char c \<in> {9, 10, 11, 12, 13, 28, 29, 30, 31, 32, 133, 160 :: nat})"

definition strip_by :: "(char \<Rightarrow> bool) \<Rightarrow> string \<Rightarrow> string" where
  "strip_by p s = rev (dropWhile p (rev (dropWhile p s)))"

definition py_strip :: "string \<Rightarrow> string" where
  "py_strip = strip_by py_isspace"

definition py_rstrip :: "string \<Rightarrow> string" where
  "py_rstrip s = rev (dropWhile py_isspace (rev s))"

definition strip_char :: "char \<Rightarrow> string \<Rightarrow> string" where
  "strip_char c = strip_by (\<lambda>d. d = c)"

lemma set_dropWhile: "set (dropWhile p xs) \<subseteq> set xs"
  by (induction xs) auto

lemma dropWhile_id: "xs = [] \<or> \<not> p (hd xs) \<Longrightarrow> dropWhile p xs = xs"
  by (cases xs) auto

lemma strip_by_set: "set (strip_by p s) \<subseteq> set s"
  using set_dropWhile [of p s] set_dropWhile [of p "rev (dropWhile p s)"]
  by (auto simp: strip_by_def)

lemma strip_by_id:
  assumes "s = [] \<or> (\<not> p (hd s) \<and> \<not> p (last s))"
  shows "strip_by p s = s"
  using assms by (auto simp: strip_by_def dropWhile_id hd_rev)

lemma strip_by_none: "(\<forall>c \<in> set s. \<not> p c) \<Longrightarrow> strip_by p s = s"
  by (rule strip_by_id) (cases s; auto)

lemma strip_by_ends:
  "strip_by p s \<noteq> [] \<Longrightarrow> \<not> p (hd (strip_by p s)) \<and> \<not> p (last (strip_by p s))"
proof -
  assume ne: "strip_by p s \<noteq> []"
  define t where "t = dropWhile p s"
  have u: "strip_by p s = rev (dropWhile p (rev t))"
    by (simp add: strip_by_def t_def)
  have "dropWhile p (rev t) \<noteq> []" using ne u by simp
  then have l: "\<not> p (last (strip_by p s))"
    unfolding u by (simp add: last_rev hd_dropWhile)
  have "\<exists>zs. t = strip_by p s @ zs"
    unfolding u using takeWhile_dropWhile_id [of p "rev t"]
    by (metis rev_append rev_rev_ident)
  then obtain zs where "t = strip_by p s @ zs" ..
  then have "hd t = hd (strip_by p s)" "t \<noteq> []" using ne by auto
  moreover have "\<not> p (hd t)" using \<open>t \<noteq> []\<close> unfolding t_def by (rule hd_dropWhile)
  ultimately show ?thesis using l by simp
qed

lemma strip_by_idem: "strip_by p (strip_by p s) = strip_by p s"
  using strip_by_ends by (intro strip_by_id) blast

subsection \<open>Splitting and joining at a character\<close>

text \<open>\<open>s.split(c)\<close> for a one-character separator: always at least one part.\<close>

fun py_split :: "char \<Rightarrow> string \<Rightarrow> string list" where
  "py_split c [] = [[]]"
| "py_split c (x # xs) =
     (if x = c then [] # py_split c xs
      else (case py_split c xs of [] \<Rightarrow> [[x]] | p # ps \<Rightarrow> (x # p) # ps))"

fun py_join :: "string \<Rightarrow> string list \<Rightarrow> string" where
  "py_join sep [] = []"
| "py_join sep [x] = x"
| "py_join sep (x # y # ys) = x @ sep @ py_join sep (y # ys)"

lemma py_split_not_Nil [simp]: "py_split c s \<noteq> []"
  by (induction s) (auto split: list.splits)

lemma py_split_no_sep: "p \<in> set (py_split c s) \<Longrightarrow> c \<notin> set p"
  by (induction s arbitrary: p) (auto split: list.splits if_splits)

lemma py_split_id: "c \<notin> set s \<Longrightarrow> py_split c s = [s]"
  by (induction s) auto

lemma py_split_append: "c \<notin> set x \<Longrightarrow> py_split c (x @ c # s) = x # py_split c s"
  by (induction x) auto

lemma py_join_split: "py_join [c] (py_split c s) = s"
proof (induction s)
  case Nil
  then show ?case by simp
next
  case (Cons x xs)
  obtain p ps where pp: "py_split c xs = p # ps"
    by (cases "py_split c xs") auto
  with Cons.IH show ?case by (cases ps) auto
qed

lemma py_split_join:
  assumes "xs \<noteq> []" and "\<forall>x \<in> set xs. c \<notin> set x"
  shows "py_split c (py_join [c] xs) = xs"
  using assms
proof (induction "[c]" xs rule: py_join.induct)
  case (3 x y ys)
  then show ?case by (simp add: py_split_append)
qed (auto simp: py_split_id)

lemma py_join_Cons: "xs \<noteq> [] \<Longrightarrow> py_join sep (x # xs) = x @ sep @ py_join sep xs"
  by (cases xs) auto

lemma py_join_set: "set (py_join sep xs) \<subseteq> set sep \<union> (\<Union>x \<in> set xs. set x)"
  by (induction sep xs rule: py_join.induct) auto

lemma py_join_inj:
  assumes "xs \<noteq> []" "ys \<noteq> []" "\<forall>x \<in> set xs. c \<notin> set x" "\<forall>y \<in> set ys. c \<notin> set y"
    and "py_join [c] xs = py_join [c] ys"
  shows "xs = ys"
  using assms by (metis py_split_join)

text \<open>\<open>s.split(c, 1)[0]\<close>, and \<open>s.rsplit(c, 1)[0]\<close>.\<close>

definition before_first :: "char \<Rightarrow> string \<Rightarrow> string" where
  "before_first c s = takeWhile (\<lambda>d. d \<noteq> c) s"

definition rsplit1_head :: "char \<Rightarrow> string \<Rightarrow> string" where
  "rsplit1_head c s = (if c \<in> set s then rev (tl (dropWhile (\<lambda>d. d \<noteq> c) (rev s))) else s)"

lemma before_first_split: "before_first c s = hd (py_split c s)"
proof (induction s)
  case (Cons x xs)
  obtain p ps where "py_split c xs = p # ps" by (cases "py_split c xs") auto
  with Cons show ?case by (auto simp: before_first_def)
qed (simp add: before_first_def)

subsection \<open>Prefixes, replacement, upper case\<close>

definition startswith :: "string \<Rightarrow> string \<Rightarrow> bool" where
  "startswith s p = (take (length p) s = p)"

definition endswith :: "string \<Rightarrow> string \<Rightarrow> bool" where
  "endswith s p = startswith (rev s) (rev p)"

text \<open>\<open>pat in s\<close> for strings.\<close>

fun contains :: "string \<Rightarrow> string \<Rightarrow> bool" where
  "contains pat [] = (pat = [])"
| "contains pat (c # cs) = (startswith (c # cs) pat \<or> contains pat cs)"

text \<open>
  \<open>s.replace(pat, rep)\<close> for a non-empty pattern: leftmost matches, no overlap.  The second
  number counts the characters of a match that are still to be skipped.
\<close>

fun replace_from :: "string \<Rightarrow> string \<Rightarrow> nat \<Rightarrow> string \<Rightarrow> string" where
  "replace_from pat rep k [] = []"
| "replace_from pat rep 0 (c # cs) =
     (if startswith (c # cs) pat then rep @ replace_from pat rep (length pat - 1) cs
      else c # replace_from pat rep 0 cs)"
| "replace_from pat rep (Suc k) (c # cs) = replace_from pat rep k cs"

definition py_replace :: "string \<Rightarrow> string \<Rightarrow> string \<Rightarrow> string" where
  "py_replace s pat rep = replace_from pat rep 0 s"

lemma py_replace_char: "py_replace s [c] r = concat (map (\<lambda>d. if d = c then r else [d]) s)"
  unfolding py_replace_def by (induction s) (auto simp: startswith_def)

lemma py_replace_char_notin: "c \<notin> set r \<Longrightarrow> c \<notin> set (py_replace s [c] r)"
  by (auto simp: py_replace_char)

lemma replace_from_length:
  "length rep \<le> length pat \<Longrightarrow> pat \<noteq> [] \<Longrightarrow>
    length (replace_from pat rep k s) \<le> length s - k"
proof (induction pat rep k s rule: replace_from.induct)
  case (2 pat rep c cs)
  show ?case
  proof (cases "startswith (c # cs) pat")
    case True
    then have "length pat \<le> Suc (length cs)"
      unfolding startswith_def by (metis length_Cons length_take min.absorb_iff1 nat_le_linear)
    with True 2 show ?thesis by simp
  next
    case False
    with 2 show ?thesis by simp
  qed
qed auto

definition upper_char :: "char \<Rightarrow> char" where
  "upper_char c = (let n = of_char c :: nat
     in if 97 \<le> n \<and> n \<le> 122 then char_of (n - 32) else c)"

definition py_upper :: "string \<Rightarrow> string" where
  "py_upper = map upper_char"

text \<open>\<open>s[:n]\<close> and \<open>s[-n:]\<close> for a literal \<open>n > 0\<close>.\<close>

definition str_first :: "nat \<Rightarrow> string \<Rightarrow> string" where
  "str_first n s = take n s"

definition str_last :: "nat \<Rightarrow> string \<Rightarrow> string" where
  "str_last n s = drop (length s - n) s"

subsection \<open>Integers as text\<close>

definition digit_char :: "nat \<Rightarrow> char" where
  "digit_char d = char_of (48 + d)"

fun str_nat :: "nat \<Rightarrow> string" where
  "str_nat n = (if n < 10 then [digit_char n] else str_nat (n div 10) @ [digit_char (n mod 10)])"

declare str_nat.simps [simp del]

definition str_int :: "int \<Rightarrow> string" where
  "str_int i = (if i < 0 then CHR ''-'' # str_nat (nat (- i)) else str_nat (nat i))"

definition is_digit :: "char \<Rightarrow> bool" where
  "is_digit c = (48 \<le> (of_char c :: nat) \<and> (of_char c :: nat) \<le> 57)"

definition digit_val :: "char \<Rightarrow> nat" where
  "digit_val c = of_char c - 48"

text \<open>
  \<open>int(s)\<close>: surrounding whitespace, an optional sign, then digits that single underscores may
  separate; anything else raises \<open>ValueError\<close>.
\<close>

fun digits_ok :: "bool \<Rightarrow> string \<Rightarrow> bool" where
  "digits_ok after_digit [] = after_digit"
| "digits_ok after_digit (c # cs) =
     (if is_digit c then digits_ok True cs
      else c = CHR ''_'' \<and> after_digit \<and> cs \<noteq> [] \<and> digits_ok False cs)"

fun digits_val :: "nat \<Rightarrow> string \<Rightarrow> nat" where
  "digits_val acc [] = acc"
| "digits_val acc (c # cs) =
     digits_val (if is_digit c then 10 * acc + digit_val c else acc) cs"

definition parse_nat :: "string \<Rightarrow> int res" where
  "parse_nat s = (if digits_ok False s then Inr (int (digits_val 0 s)) else Inl (ValueError s))"

definition py_int :: "string \<Rightarrow> int res" where
  "py_int s = (case py_strip s of
       [] \<Rightarrow> Inl (ValueError s)
     | c # cs \<Rightarrow> (if c = CHR ''-'' then bindR (parse_nat cs) (\<lambda>n. Inr (- n))
                 else if c = CHR ''+'' then parse_nat cs
                 else parse_nat (c # cs)))"

lemma digit_char_props:
  assumes "d < 10"
  shows "is_digit (digit_char d)" "digit_val (digit_char d) = d"
    "\<not> py_isspace (digit_char d)" "digit_char d \<noteq> CHR ''-''" "digit_char d \<noteq> CHR ''+''"
    "digit_char d \<noteq> CHR ''.''" "digit_char d \<noteq> CHR ''#''"
proof -
  have e: "(of_char (digit_char d) :: nat) = 48 + d"
    using assms by (simp add: digit_char_def of_char_of)
  show "is_digit (digit_char d)" "digit_val (digit_char d) = d"
    using assms by (simp_all add: is_digit_def digit_val_def e)
  show "\<not> py_isspace (digit_char d)"
    using assms by (auto simp: py_isspace_def e)
  have neq: "digit_char d \<noteq> c" if "(of_char c :: nat) < 48" for c
    using that e by (metis le_add1 not_le)
  show "digit_char d \<noteq> CHR ''-''" "digit_char d \<noteq> CHR ''+''"
    "digit_char d \<noteq> CHR ''.''" "digit_char d \<noteq> CHR ''#''"
    by (rule neq; simp)+
qed

lemma str_nat_chars: "c \<in> set (str_nat n) \<Longrightarrow> \<exists>d < 10. c = digit_char d"
proof (induction n rule: str_nat.induct)
  case (1 n)
  have m: "n mod 10 < 10" by simp
  show ?case
  proof (cases "n < 10")
    case True
    with "1.prems" show ?thesis by (auto simp: str_nat.simps [of n])
  next
    case False
    with "1.prems" have "c \<in> set (str_nat (n div 10)) \<or> c = digit_char (n mod 10)"
      by (auto simp: str_nat.simps [of n])
    with False "1.IH" m show ?thesis by blast
  qed
qed

lemma str_nat_not_Nil [simp]: "str_nat n \<noteq> []"
  by (subst str_nat.simps) simp

lemma digits_val_append: "digits_val a (xs @ ys) = digits_val (digits_val a xs) ys"
  by (induction xs arbitrary: a) auto

lemma digits_ok_all: "(\<forall>c \<in> set s. is_digit c) \<Longrightarrow> digits_ok b s = (b \<or> s \<noteq> [])"
  by (induction s arbitrary: b) auto

lemma digits_val_str_nat: "digits_val 0 (str_nat n) = n"
proof (induction n rule: str_nat.induct)
  case (1 n)
  show ?case
  proof (cases "n < 10")
    case True
    then show ?thesis by (subst str_nat.simps) (simp add: digit_char_props)
  next
    case False
    with 1 show ?thesis
      by (subst str_nat.simps) (simp add: digits_val_append digit_char_props)
  qed
qed

lemma parse_str_nat: "parse_nat (str_nat n) = Inr (int n)"
proof -
  have "\<forall>c \<in> set (str_nat n). is_digit c"
    using str_nat_chars digit_char_props(1) by blast
  then show ?thesis
    by (simp add: parse_nat_def digits_val_str_nat digits_ok_all)
qed

lemma strip_by_digits: "py_strip (str_nat n) = str_nat n"
  unfolding py_strip_def
  by (rule strip_by_none) (use str_nat_chars digit_char_props in blast)

lemma py_int_str_nat: "py_int (str_nat n) = Inr (int n)"
proof -
  obtain c cs where c: "str_nat n = c # cs" by (cases "str_nat n") auto
  then have "c \<in> set (str_nat n)" by simp
  then obtain d where d: "d < 10" "c = digit_char d" using str_nat_chars by blast
  then show ?thesis
    using parse_str_nat [of n] c digit_char_props [OF d(1)] strip_by_digits [of n]
    by (simp add: py_int_def)
qed

text \<open>Printing an integer and parsing it back is the identity.\<close>

lemma py_int_str_int: "py_int (str_int i) = Inr i"
proof (cases "i < 0")
  case False
  then show ?thesis by (simp add: str_int_def py_int_str_nat)
next
  case True
  define n where "n = nat (- i)"
  have "\<not> py_isspace c" if "c \<in> set (CHR ''-'' # str_nat n)" for c
  proof (cases "c = CHR ''-''")
    case True
    then show ?thesis by (simp add: py_isspace_def)
  next
    case False
    with that show ?thesis using str_nat_chars digit_char_props(3) by fastforce
  qed
  then have "py_strip (CHR ''-'' # str_nat n) = CHR ''-'' # str_nat n"
    unfolding py_strip_def by (intro strip_by_none) blast
  with True show ?thesis
    by (simp add: str_int_def py_int_def parse_str_nat n_def)
qed

lemma str_int_inj: "str_int i = str_int j \<Longrightarrow> i = j"
proof -
  assume "str_int i = str_int j"
  then have "py_int (str_int i) = py_int (str_int j)" by simp
  then show "i = j" by (simp only: py_int_str_int sum.inject)
qed

lemma str_int_no_dot: "CHR ''.'' \<notin> set (str_int i)"
proof -
  have "CHR ''.'' \<notin> set (str_nat n)" for n
    using str_nat_chars digit_char_props(6) by metis
  then show ?thesis by (simp add: str_int_def)
qed

subsection \<open>Cutting into lines of a fixed length\<close>

text \<open>\<open>[s[i:i+n] for i in range(0, len(s), n)]\<close>; \<open>range\<close> raises on a zero step.\<close>

function chunks :: "nat \<Rightarrow> 'a list \<Rightarrow> 'a list list" where
  "chunks n xs = (if n = 0 \<or> xs = [] then [] else take n xs # chunks n (drop n xs))"
  by pat_completeness auto
termination
  by (relation "measure (\<lambda>(n, xs). length xs)") auto

declare chunks.simps [simp del]

lemma chunks_concat: "0 < n \<Longrightarrow> concat (chunks n xs) = xs"
proof (induction n xs rule: chunks.induct)
  case (1 n xs)
  then show ?case by (subst chunks.simps) auto
qed

lemma chunks_length: "c \<in> set (chunks n xs) \<Longrightarrow> 0 < length c \<and> length c \<le> n"
proof (induction n xs rule: chunks.induct)
  case (1 n xs)
  show ?case
  proof (cases "n = 0 \<or> xs = []")
    case True
    with "1.prems" show ?thesis by (simp add: chunks.simps [of n xs])
  next
    case False
    with 1 show ?thesis by (auto simp: chunks.simps [of n xs])
  qed
qed

lemma chunks_subset: "c \<in> set (chunks n xs) \<Longrightarrow> set c \<subseteq> set xs"
proof (induction n xs rule: chunks.induct)
  case (1 n xs)
  show ?case
  proof (cases "n = 0 \<or> xs = []")
    case True
    with "1.prems" show ?thesis by (simp add: chunks.simps [of n xs])
  next
    case False
    with 1 show ?thesis
      by (auto simp: chunks.simps [of n xs] dest!: in_set_takeD subsetD intro: in_set_dropD)
  qed
qed

end
