(* ===== verification/Tekton_Model.thy ===== *)
theory Tekton_Model
  imports Py_Strings
begin

text \<open>
  The data of \<open>ci/tkn/model.py\<close>: the Tekton resources that the rendering scripts build and hand to
  the YAML dumper.  A class is a record, an optional attribute an option, and \<open>_NamedParamBase\<close> with
  its two subclasses a datatype (dataclass equality compares the class and the fields, as equality
  of its values does).  Untyped dictionaries are values of \<open>pobj\<close>.
\<close>

subsection \<open>Plain Python objects\<close>

datatype pobj =
    PNone
  | PBool bool
  | PInt int
  | PFloat string
  | PStr string
  | PList "pobj list"
  | PDict "(string \<times> pobj) list"

text \<open>\<open>d[k]\<close>, \<open>k in d\<close> and truth of a Python object.\<close>

definition pget :: "string \<Rightarrow> (string \<times> pobj) list \<Rightarrow> pobj res" where
  "pget k d = (case map_of d k of None \<Rightarrow> Inl (KeyError k) | Some v \<Rightarrow> Inr v)"

fun truthy :: "pobj \<Rightarrow> bool" where
  "truthy PNone = False"
| "truthy (PBool b) = b"
| "truthy (PInt i) = (i \<noteq> 0)"
| "truthy (PFloat s) = (s \<noteq> ''0.0'')"
| "truthy (PStr s) = (s \<noteq> [])"
| "truthy (PList xs) = (xs \<noteq> [])"
| "truthy (PDict d) = (d \<noteq> [])"

subsection \<open>Parameters\<close>

datatype named_param =
    NamedParamBase string
  | NamedParamWithValue string "string option"
  | NamedParamWithDefault string string "string option"

fun np_name :: "named_param \<Rightarrow> string" where
  "np_name (NamedParamBase n) = n"
| "np_name (NamedParamWithValue n v) = n"
| "np_name (NamedParamWithDefault n d descr) = n"

text \<open>The factory function \<open>NamedParam\<close>; \<open>and default\<close> tests that the default is not empty.\<close>

definition NamedParam ::
  "string \<Rightarrow> string option \<Rightarrow> string option \<Rightarrow> string option \<Rightarrow> named_param" where
  "NamedParam name val dflt description =
     (case val of
        Some v \<Rightarrow> NamedParamWithValue name (Some v)
      | None \<Rightarrow>
          (case dflt of
             None \<Rightarrow> NamedParamBase name
           | Some d \<Rightarrow> if d \<noteq> [] then NamedParamWithDefault name d description
                      else NamedParamWithValue name None))"

lemma np_name_NamedParam [simp]: "np_name (NamedParam n v d descr) = n"
  by (simp add: NamedParam_def split: option.splits)

subsection \<open>Tasks\<close>

record metadata =
  md_name :: string

record volume_mount =
  vm_mountPath :: string
  vm_name :: string

text \<open>The volumes of a task: the classes of the module and the dictionaries that tasks append.\<close>

datatype volume =
    HostPathVolume string string string
  | EmptyDirVolume string string
  | SecretVolume string string
  | RawVolume pobj

record task_step =
  ts_name :: string
  ts_image :: string
  ts_script :: string
  ts_volumeMounts :: "volume_mount list"
  ts_env :: "(string \<times> string) list"
  ts_resources :: pobj
  ts_securityContext :: pobj

record task_spec =
  tsp_params :: "named_param list"
  tsp_steps :: "task_step list"
  tsp_workspaces :: "named_param list"
  tsp_volumes :: "volume list"
  tsp_results :: "named_param list option"

record task =
  t_metadata :: metadata
  t_spec :: task_spec
  t_apiVersion :: string
  t_kind :: string

definition mk_task :: "string \<Rightarrow> task_spec \<Rightarrow> task" where
  "mk_task name spec = \<lparr>t_metadata = \<lparr>md_name = name\<rparr>, t_spec = spec,
     t_apiVersion = ''tekton.dev/v1beta1'', t_kind = ''Task''\<rparr>"

abbreviation task_name :: "task \<Rightarrow> string" where
  "task_name t \<equiv> md_name (t_metadata t)"

abbreviation task_params :: "task \<Rightarrow> named_param list" where
  "task_params t \<equiv> tsp_params (t_spec t)"

abbreviation task_steps :: "task \<Rightarrow> task_step list" where
  "task_steps t \<equiv> tsp_steps (t_spec t)"

subsection \<open>Pipelines\<close>

record task_ref =
  tr_name :: string

record pipeline_task =
  pt_name :: string
  pt_taskRef :: task_ref
  pt_params :: "named_param list"
  pt_workspaces :: "pobj list"
  pt_runAfter :: "string list option"
  pt_timeout :: string

record pipeline_spec =
  ps_finally :: "pipeline_task list"
  ps_tasks :: "pipeline_task list"
  ps_params :: "named_param list"
  ps_results :: "named_param list option"
  ps_workspaces :: "named_param list"

record pipeline =
  pl_metadata :: metadata
  pl_spec :: pipeline_spec
  pl_apiVersion :: string
  pl_kind :: string

definition mk_pipeline_resource :: "string \<Rightarrow> pipeline_spec \<Rightarrow> pipeline" where
  "mk_pipeline_resource name spec = \<lparr>pl_metadata = \<lparr>md_name = name\<rparr>, pl_spec = spec,
     pl_apiVersion = ''tekton.dev/v1beta1'', pl_kind = ''Pipeline''\<rparr>"

subsection \<open>Pipeline runs and limits\<close>

record pipeline_ref =
  pr_name :: string

record pod_template =
  pod_nodeSelector :: pobj
  pod_securityContext :: pobj

record pipeline_run_spec =
  prs_params :: "named_param list"
  prs_pipelineRef :: pipeline_ref
  prs_podTemplate :: pod_template
  prs_workspaces :: "pobj list"
  prs_timeout :: string

record pipeline_run =
  plr_spec :: pipeline_run_spec
  plr_metadata :: metadata
  plr_apiVersion :: string
  plr_kind :: string

definition mk_pipeline_run_resource :: "string \<Rightarrow> pipeline_run_spec \<Rightarrow> pipeline_run" where
  "mk_pipeline_run_resource name spec = \<lparr>plr_spec = spec, plr_metadata = \<lparr>md_name = name\<rparr>,
     plr_apiVersion = ''tekton.dev/v1beta1'', plr_kind = ''PipelineRun''\<rparr>"

record limit_object =
  lo_ephemeral_storage :: "string option"
  lo_memory :: "string option"
  lo_cpu :: "string option"

record limits =
  li_type :: string
  li_max :: limit_object
  li_min :: limit_object
  li_default :: limit_object
  li_defaultRequest :: limit_object

record limit_spec =
  ls_limits :: "limits list"

record limit_range =
  lr_metadata :: metadata
  lr_spec :: limit_spec
  lr_apiVersion :: string
  lr_kind :: string

text \<open>The dictionary factory that renames \<open>ephemeral_storage\<close> and drops the attributes left out.\<close>

definition convert_field :: "string \<Rightarrow> string" where
  "convert_field k = (if k = ''ephemeral_storage'' then ''ephemeral-storage'' else k)"

definition limits_asdict_factory :: "(string \<times> pobj) list \<Rightarrow> (string \<times> pobj) list" where
  "limits_asdict_factory data =
     dict_of (map (\<lambda>(k, v). (convert_field k, v)) (filter (\<lambda>(k, v). v \<noteq> PNone) data))"

definition opt_str :: "string option \<Rightarrow> pobj" where
  "opt_str s = (case s of None \<Rightarrow> PNone | Some v \<Rightarrow> PStr v)"

definition limit_object_asdict :: "limit_object \<Rightarrow> pobj" where
  "limit_object_asdict l = PDict (limits_asdict_factory
     [(''ephemeral_storage'', opt_str (lo_ephemeral_storage l)), (''memory'', opt_str (lo_memory l)),
      (''cpu'', case lo_cpu l of None \<Rightarrow> PNone | Some c \<Rightarrow> PFloat c)])"

end
