(* ===== verification/Params.thy ===== *)
theory Params
  imports Tekton_Model
begin

text \<open>
  \<open>AllParams\<close> of \<open>ci/params.py\<close> and \<open>AllResults\<close> of \<open>ci/results.py\<close>: the parameters that the tasks
  declare and the results they write.  \<open>param_attr\<close> has the attributes of the class in its order
  (\<open>status_dict_str\<close> is assigned twice there, with the same value), \<open>all_params\<close> their values.
\<close>

datatype param_attr =
    P_additional_recipients
  | P_architecture
  | P_branch
  | P_build_tasks
  | P_build_image
  | P_cicd_cfg_name
  | P_cfssl_dir
  | P_skip_cfssl_build
  | P_cfssl_committish
  | P_cfssl_git_url
  | P_ctx_repository_config_name
  | P_committish
  | P_disable_notifications
  | P_flavour_set_name
  | P_gardenlinux_build_deb_image
  | P_giturl
  | P_gardenlinux_epoch
  | P_key_config_name
  | P_modifiers
  | P_namespace
  | P_oci_path
  | P_only_recipients
  | P_outfile
  | P_pkg_names
  | P_pkg_name
  | P_pipeline_name
  | P_pipeline_run_name
  | P_platform
  | P_platform_set
  | P_build_targets
  | P_pytest_cfg
  | P_promote_target
  | P_repo_dir
  | P_s3_package_path
  | P_snapshot_ctx_repository_config_name
  | P_snapshot_timestamp
  | P_status_dict_str
  | P_suite
  | P_version
  | P_version_label
  | P_pr_id

definition param_attrs :: "param_attr list" where
  "param_attrs = [P_additional_recipients, P_architecture, P_branch, P_build_tasks, P_build_image,
     P_cicd_cfg_name, P_cfssl_dir, P_skip_cfssl_build, P_cfssl_committish,
     P_cfssl_git_url, P_ctx_repository_config_name, P_committish,
     P_disable_notifications, P_flavour_set_name, P_gardenlinux_build_deb_image,
     P_giturl, P_gardenlinux_epoch, P_key_config_name, P_modifiers, P_namespace,
     P_oci_path, P_only_recipients, P_outfile, P_pkg_names, P_pkg_name,
     P_pipeline_name, P_pipeline_run_name, P_platform, P_platform_set,
     P_build_targets, P_pytest_cfg, P_promote_target, P_repo_dir, P_s3_package_path,
     P_snapshot_ctx_repository_config_name, P_snapshot_timestamp, P_status_dict_str,
     P_suite, P_version, P_version_label, P_pr_id]"

primrec all_params :: "param_attr \<Rightarrow> named_param" where
  "all_params P_additional_recipients = NamedParam ''additional_recipients'' None None
     None"
| "all_params P_architecture = NamedParam ''architecture'' None (Some ''amd64'')
     (Some ''the build architecture (currently, only amd64 is supported)'')"
| "all_params P_branch = NamedParam ''branch'' None None
     (Some ''branch of git repository'')"
| "all_params P_build_tasks = NamedParam ''build_tasks'' None (Some ''null'')
     (Some ''comma separated list of all tasks building gardenlinux'')"
| "all_params P_build_image = NamedParam ''build_image'' None None
     (Some ''the container image for gardenlinux build (dynamically created)'')"
| "all_params P_cicd_cfg_name = NamedParam ''cicd_cfg_name'' None (Some ''default'')
     None"
| "all_params P_cfssl_dir = NamedParam ''cfssl_dir'' None (Some ''/workspace/cfssl'')
     (Some ''git wokring dir to clone and build cfssl'')"
| "all_params P_skip_cfssl_build = NamedParam ''skip_cfssl_build'' None (Some ''False'')
     (Some ''bypass cfssl build, use binaries from base-image'')"
| "all_params P_cfssl_committish = NamedParam ''cfssl_committish'' None (Some ''master'')
     (Some ''cfssl branch to clone'')"
| "all_params P_cfssl_git_url = NamedParam ''cfssl_git_url'' None (Some ''https://github.com/cloudflare/cfssl.git'')
     (Some ''cfssl git url to clone'')"
| "all_params P_ctx_repository_config_name = NamedParam ''ctx_repository_config_name'' None (Some ''gardener-dev'')
     (Some ''Name of the component-descriptor repository-context config to use'')"
| "all_params P_committish = NamedParam ''committish'' None (Some ''main'')
     (Some ''commit to build'')"
| "all_params P_disable_notifications = NamedParam ''disable_notifications'' None (Some ''false'')
     (Some ''if true no notification emails are sent'')"
| "all_params P_flavour_set_name = NamedParam ''flavour_set_name'' None (Some ''all'')
     (Some ''the name of the flavour set this task is a part of'')"
| "all_params P_gardenlinux_build_deb_image = NamedParam ''gardenlinux_build_deb_image'' None None
     (Some ''image to use for package build'')"
| "all_params P_giturl = NamedParam ''giturl'' None (Some ''ssh://git@github.com/gardenlinux/gardenlinux'')
     None"
| "all_params P_gardenlinux_epoch = NamedParam ''gardenlinux_epoch'' None None
     (Some ''the gardenlinux epoch to use for as snapshot repo timestamp'')"
| "all_params P_key_config_name = NamedParam ''key_config_name'' None (Some ''gardenlinux'')
     (Some ''config name of the key to use for signing the packages'')"
| "all_params P_modifiers = NamedParam ''modifiers'' None None
     (Some ''the build modifiers'')"
| "all_params P_namespace = NamedParam ''namespace'' None None
     (Some ''Namespace of current pipeline run'')"
| "all_params P_oci_path = NamedParam ''oci_path'' None (Some ''eu.gcr.io/gardener-project/test/gardenlinux-test'')
     (Some ''path in OCI-registry where to store output'')"
| "all_params P_only_recipients = NamedParam ''only_recipients'' None None
     None"
| "all_params P_outfile = NamedParam ''outfile'' None (Some ''/workspace/gardenlinux.out'')
     (Some ''build result file (parameter is used to pass between steps)'')"
| "all_params P_pkg_names = NamedParam ''pkg_names'' None None
     (Some ''list of kernel-package to build (comma separated string)'')"
| "all_params P_pkg_name = NamedParam ''pkg_name'' None None
     (Some ''name of package to build'')"
| "all_params P_pipeline_name = NamedParam ''pipeline_name'' None None
     (Some ''Namespace of current pipeline'')"
| "all_params P_pipeline_run_name = NamedParam ''pipeline_run_name'' None None
     (Some ''Name of current pipeline run'')"
| "all_params P_platform = NamedParam ''platform'' None None
     (Some ''the target platform (aws, gcp, metal, kvm, ..)'')"
| "all_params P_platform_set = NamedParam ''platform_set'' None None
     (Some ''set of platforms built in this pipeline (aws, gcp, metal, kvm, ..)'')"
| "all_params P_build_targets = NamedParam ''build_targets'' None (Some ''manifests'')
     (Some ''how artifacts should be published (glci.model.BuildTarget)'')"
| "all_params P_pytest_cfg = NamedParam ''pytest_cfg'' None (Some ''default'')
     (Some ''configuration name of testsuite in file test_cfg.yaml'')"
| "all_params P_promote_target = NamedParam ''promote_target'' None (Some ''snapshots'')
     (Some ''the promotion target (snapshots|daily|release)'')"
| "all_params P_repo_dir = NamedParam ''repo_dir'' None (Some ''/workspace/gardenlinux_git'')
     (Some ''Gardenlinux working dir'')"
| "all_params P_s3_package_path = NamedParam ''package_path_s3_prefix'' None (Some ''packages/pool'')
     (Some ''path relative to the root of the s3 bucket to upload the built packages to'')"
| "all_params P_snapshot_ctx_repository_config_name = NamedParam ''snapshot_ctx_repository_config_name'' None (Some ''gardener-public'')
     (Some ''Name of the snapshot component-descriptor repository-context config to use'')"
| "all_params P_snapshot_timestamp = NamedParam ''snapshot_timestamp'' None None
     (Some ''the snapshot timestamp (calculated from gardenlinux_epoch)'')"
| "all_params P_status_dict_str = NamedParam ''status_dict_str'' None (Some ''~'')
     (Some ''JSON string with status for all tasks'')"
| "all_params P_suite = NamedParam ''suite'' None (Some ''bookworm'')
     (Some ''Debian release (buster, bullseye, ..)'')"
| "all_params P_version = NamedParam ''version'' None None
     (Some ''the target version to build / release'')"
| "all_params P_version_label = NamedParam ''version_label'' None None
     (Some ''version label uses as tag for upload'')"
| "all_params P_pr_id = NamedParam ''pr_id'' None None
     (Some ''The PR-id for PR-builds'')"

text \<open>Both results are declared without a value and without a default.\<close>

datatype result_attr = R_build_result | R_manifest_set_key_result

primrec all_results :: "result_attr \<Rightarrow> named_param" where
  "all_results R_build_result = NamedParam ''build_result'' None None
     (Some ''manifest key if build was successful'')"
| "all_results R_manifest_set_key_result = NamedParam ''manifest_set_key_result'' None None
     (Some ''s3 key with timestamp when manifest-set is created'')"

abbreviation param_name :: "param_attr \<Rightarrow> string" where
  "param_name a \<equiv> np_name (all_params a)"

subsection \<open>Names identify parameters\<close>

lemma set_param_attrs: "a \<in> set param_attrs"
  by (cases a) (simp_all add: param_attrs_def)

lemma distinct_param_names: "distinct (map param_name param_attrs)"
  by (simp add: param_attrs_def)

lemma param_name_inj: "param_name a = param_name b \<Longrightarrow> a = b"
  using distinct_param_names set_param_attrs by (auto simp: distinct_map dest: inj_onD)

lemma all_params_inj: "all_params a = all_params b \<longleftrightarrow> a = b"
  using param_name_inj by auto

text \<open>The parameters that a run must supply: those without a default.\<close>

definition needs_value :: "param_attr \<Rightarrow> bool" where
  "needs_value a = (case all_params a of NamedParamWithDefault _ _ _ \<Rightarrow> False | _ \<Rightarrow> True)"

lemma needs_value_iff: "needs_value a \<longleftrightarrow> a \<in> {P_additional_recipients, P_branch, P_build_image, P_gardenlinux_build_deb_image, P_gardenlinux_epoch, P_modifiers, P_namespace, P_only_recipients, P_pkg_names, P_pkg_name, P_pipeline_name, P_pipeline_run_name, P_platform, P_platform_set, P_snapshot_timestamp, P_version, P_version_label, P_pr_id}"
  by (cases a) (simp_all add: needs_value_def NamedParam_def)

text \<open>Every name is an identifier: what \<open>task_step_script\<close> turns into a keyword argument.\<close>

definition ident_char :: "char \<Rightarrow> bool" where
  "ident_char c \<longleftrightarrow> c \<noteq> CHR '')'' \<and> c \<noteq> CHR ''$'' \<and> c \<noteq> CHR ''-'' \<and> c \<noteq> CHR 0x0A"

lemma param_name_ident: "list_all ident_char (param_name a)"
  by (cases a) (simp_all add: ident_char_def)

text \<open>From here on a parameter is known by its name, not by its unfolded definition.\<close>

lemma param_name_simps [simp]:
  "param_name P_additional_recipients = ''additional_recipients''"
  "param_name P_architecture = ''architecture''"
  "param_name P_branch = ''branch''"
  "param_name P_build_tasks = ''build_tasks''"
  "param_name P_build_image = ''build_image''"
  "param_name P_cicd_cfg_name = ''cicd_cfg_name''"
  "param_name P_cfssl_dir = ''cfssl_dir''"
  "param_name P_skip_cfssl_build = ''skip_cfssl_build''"
  "param_name P_cfssl_committish = ''cfssl_committish''"
  "param_name P_cfssl_git_url = ''cfssl_git_url''"
  "param_name P_ctx_repository_config_name = ''ctx_repository_config_name''"
  "param_name P_committish = ''committish''"
  "param_name P_disable_notifications = ''disable_notifications''"
  "param_name P_flavour_set_name = ''flavour_set_name''"
  "param_name P_gardenlinux_build_deb_image = ''gardenlinux_build_deb_image''"
  "param_name P_giturl = ''giturl''"
  "param_name P_gardenlinux_epoch = ''gardenlinux_epoch''"
  "param_name P_key_config_name = ''key_config_name''"
  "param_name P_modifiers = ''modifiers''"
  "param_name P_namespace = ''namespace''"
  "param_name P_oci_path = ''oci_path''"
  "param_name P_only_recipients = ''only_recipients''"
  "param_name P_outfile = ''outfile''"
  "param_name P_pkg_names = ''pkg_names''"
  "param_name P_pkg_name = ''pkg_name''"
  "param_name P_pipeline_name = ''pipeline_name''"
  "param_name P_pipeline_run_name = ''pipeline_run_name''"
  "param_name P_platform = ''platform''"
  "param_name P_platform_set = ''platform_set''"
  "param_name P_build_targets = ''build_targets''"
  "param_name P_pytest_cfg = ''pytest_cfg''"
  "param_name P_promote_target = ''promote_target''"
  "param_name P_repo_dir = ''repo_dir''"
  "param_name P_s3_package_path = ''package_path_s3_prefix''"
  "param_name P_snapshot_ctx_repository_config_name = ''snapshot_ctx_repository_config_name''"
  "param_name P_snapshot_timestamp = ''snapshot_timestamp''"
  "param_name P_status_dict_str = ''status_dict_str''"
  "param_name P_suite = ''suite''"
  "param_name P_version = ''version''"
  "param_name P_version_label = ''version_label''"
  "param_name P_pr_id = ''pr_id''"
  by simp_all

lemma result_name_simps [simp]:
  "np_name (all_results R_build_result) = ''build_result''"
  "np_name (all_results R_manifest_set_key_result) = ''manifest_set_key_result''"
  by simp_all

declare all_params.simps [simp del] all_results.simps [simp del]

end
