(* ===== verification/Step_Script.thy ===== *)
theory Step_Script
  imports Params
begin

text \<open>
  The script of a task step, \<open>ci/steps.py\<close>: \<open>task_step_script\<close> renders a shebang, a preamble, the text
  of a file and the call of its function, in which each parameter is a Tekton reference
  \<open>$(params.name)\<close>.  \<open>refs\<close> reads those references back, as Tekton does when it runs the task.
  \<open>create_patch\<close> packs the local changes into the first step's script as Base64 text, and
  \<open>apply_patch\<close> of \<open>ci/steps/clone_repo_step.py\<close> unpacks them.
\<close>

named_theorems ref_simps \<open>the references of the pieces of a script\<close>

subsection \<open>UTF-8 and Base64\<close>

text \<open>The characters of the model are the code points below 256: one or two bytes each.\<close>

fun utf8_encode :: "string \<Rightarrow> nat list" where
  "utf8_encode [] = []"
| "utf8_encode (c # cs) =
     (let n = of_char c :: nat
      in (if n < 128 then [n] else [192 + n div 64, 128 + n mod 64]) @ utf8_encode cs)"

fun utf8_decode :: "nat list \<Rightarrow> string res" where
  "utf8_decode [] = Inr []"
| "utf8_decode (b # bs) =
     (if b < 128 then bindR (utf8_decode bs) (\<lambda>s. Inr (char_of b # s))
      else (case bs of
          [] \<Rightarrow> Inl (OtherException ''UnicodeDecodeError'')
        | b' # bs' \<Rightarrow>
            (if 194 \<le> b \<and> b \<le> 195 \<and> 128 \<le> b' \<and> b' < 192
             then bindR (utf8_decode bs') (\<lambda>s. Inr (char_of ((b - 192) * 64 + (b' - 128)) # s))
             else Inl (OtherException ''UnicodeDecodeError''))))"

definition b64_char :: "nat \<Rightarrow> char" where
  "b64_char n = char_of (if n < 26 then 65 + n else if n < 52 then 71 + n
     else if n < 62 then n - 4 else if n = 62 then 43 else (47 :: nat))"

definition b64_val :: "char \<Rightarrow> nat option" where
  "b64_val c = (let n = of_char c :: nat in
     if 65 \<le> n \<and> n \<le> 90 then Some (n - 65) else if 97 \<le> n \<and> n \<le> 122 then Some (n - 71)
     else if 48 \<le> n \<and> n \<le> 57 then Some (n + 4) else if n = 43 then Some 62
     else if n = 47 then Some 63 else None)"

fun b64encode :: "nat list \<Rightarrow> string" where
  "b64encode [] = []"
| "b64encode [a] = [b64_char (a div 4), b64_char (a mod 4 * 16), CHR ''='', CHR ''='']"
| "b64encode [a, b] =
     [b64_char (a div 4), b64_char (a mod 4 * 16 + b div 16), b64_char (b mod 16 * 4), CHR ''='']"
| "b64encode (a # b # c # bs) =
     [b64_char (a div 4), b64_char (a mod 4 * 16 + b div 16), b64_char (b mod 16 * 4 + c div 64),
      b64_char (c mod 64)] @ b64encode bs"

text \<open>
  \<open>base64.b64decode\<close> drops the characters that are not of the alphabet; padding ends the data, and
  data that is no sequence of complete groups raises \<open>binascii.Error\<close>.
\<close>

fun b64_groups :: "string \<Rightarrow> nat list res" where
  "b64_groups (w # x # y # z # cs) =
     (case (b64_val w, b64_val x, b64_val y, b64_val z) of
        (Some a, Some b, Some c, Some d) \<Rightarrow>
          bindR (b64_groups cs) (\<lambda>bs. Inr ([a * 4 + b div 16, b mod 16 * 16 + c div 4, c mod 4 * 64 + d] @ bs))
      | (Some a, Some b, Some c, None) \<Rightarrow> Inr [a * 4 + b div 16, b mod 16 * 16 + c div 4]
      | (Some a, Some b, None, None) \<Rightarrow> Inr [a * 4 + b div 16]
      | _ \<Rightarrow> Inl (OtherException ''binascii.Error''))"
| "b64_groups [] = Inr []"
| "b64_groups cs = Inl (OtherException ''binascii.Error'')"

definition b64decode :: "string \<Rightarrow> nat list res" where
  "b64decode s = b64_groups (filter (\<lambda>c. b64_val c \<noteq> None \<or> c = CHR ''='') s)"

lemma utf8_bytes: "\<forall>b \<in> set (utf8_encode s). b < 256"
proof (induction s)
  case (Cons c s)
  have le: "(of_char c :: nat) \<le> 255" using nat_of_char_less_256 [of c] by linarith
  then have "(of_char c :: nat) div 64 \<le> 255 div 64" by (rule div_le_mono)
  then show ?case using Cons le by (auto simp: Let_def)
qed simp

lemma utf8_roundtrip: "utf8_decode (utf8_encode s) = Inr s"
proof (induction s)
  case (Cons c s)
  let ?n = "of_char c :: nat"
  have n: "?n \<le> 255" using nat_of_char_less_256 [of c] by linarith
  show ?case
  proof (cases "?n < 128")
    case True
    then show ?thesis using Cons by (simp add: char_of_char)
  next
    case False
    have "(?n div 64) * 64 + ?n mod 64 = ?n" by simp
    moreover have "128 div 64 \<le> ?n div 64" "?n div 64 \<le> 255 div 64"
      using False n by (intro div_le_mono; linarith)+
    then have "2 \<le> ?n div 64" "?n div 64 \<le> 3" by simp_all
    moreover have "192 + ?n div 64 - 192 = ?n div 64" "128 + ?n mod 64 - 128 = ?n mod 64" by simp_all
    ultimately show ?thesis using False Cons by (simp add: Let_def char_of_char)
  qed
qed simp

lemma b64_val_char: "n < 64 \<Longrightarrow> b64_val (b64_char n) = Some n"
  by (auto simp: b64_char_def b64_val_def Let_def of_char_of)

lemma b64_val_pad [simp]: "b64_val CHR ''='' = None"
  by (simp add: b64_val_def)

lemma b64encode_chars: "\<forall>b \<in> set bs. b < 256 \<Longrightarrow> c \<in> set (b64encode bs) \<Longrightarrow>
    b64_val c \<noteq> None \<or> c = CHR ''=''"
proof (induction bs rule: b64encode.induct)
  case (4 a b c' bs)
  then show ?case by (auto simp: b64_val_char)
qed (auto simp: b64_val_char)

lemma byte_pair:
  assumes "(a :: nat) < 256" "b < 256"
  shows "a div 4 < 64" "a mod 4 * 16 < 64" "a mod 4 * 16 + b div 16 < 64" "b mod 16 * 4 < 64"
    "a div 4 * 4 + a mod 4 * 16 div 16 = a"
    "a div 4 * 4 + (a mod 4 * 16 + b div 16) div 16 = a"
    "(a mod 4 * 16 + b div 16) mod 16 * 16 + b mod 16 * 4 div 4 = b"
  using assms by auto

lemma byte_triple:
  assumes "(b :: nat) < 256" "c < 256"
  shows "b mod 16 * 4 + c div 64 < 64" "c mod 64 < 64"
    "(b mod 16 * 4 + c div 64) mod 4 * 64 + c mod 64 = c"
  using assms by auto

lemma byte_middle:
  "(b :: nat) < 256 \<Longrightarrow> c < 256 \<Longrightarrow>
    (x * 16 + b div 16) mod 16 * 16 + (b mod 16 * 4 + c div 64) div 4 = b"
  by auto

lemma b64_groups_encode: "\<forall>b \<in> set bs. b < 256 \<Longrightarrow> b64_groups (b64encode bs) = Inr bs"
proof (induction bs rule: b64encode.induct)
  case (2 a)
  then show ?case using byte_pair [of a a] by (simp add: b64_val_char)
next
  case (3 a b)
  then show ?case using byte_pair [of a b] by (simp add: b64_val_char)
next
  case (4 a b c bs)
  then show ?case
    using byte_pair [of a b] byte_triple [of b c] byte_middle [of b c "a mod 4"] by (simp add: b64_val_char)
qed simp

lemma filter_py_join:
  "filter P sep = [] \<Longrightarrow> filter P (py_join sep xs) = filter P (concat xs)"
  by (induction sep xs rule: py_join.induct) auto

subsection \<open>The patch of the local changes\<close>

text \<open>
  The commands sent to the local repository.  \<open>ce_diff\<close> stands for \<open>git diff\<close> against the remote
  branch after the given untracked files were added with \<open>--intent-to-add\<close>.
\<close>

datatype git_cmd =
    Git_fetch string
  | Git_add_intent string
  | Git_diff_names string
  | Git_diff string
  | Git_reset_mixed

record clone_env =
  ce_untracked :: "string list"
  ce_diff :: "string list \<Rightarrow> string \<Rightarrow> string"

text \<open>\<open>cached\<close> is the module variable \<open>CACHED_PATCH\<close>; the result has its new value and the commands.\<close>

definition create_patch ::
  "clone_env \<Rightarrow> string option \<Rightarrow> string \<Rightarrow> string \<times> string option \<times> git_cmd list" where
  "create_patch env cached branch =
     (if cached \<noteq> None \<and> the cached \<noteq> [] then (the cached, cached, [])
      else
        let patch = ce_diff env (ce_untracked env) branch @ [CHR 0x0A];
            enc_patch = b64encode (utf8_encode patch);
            lines = py_join [CHR 0x0A] (chunks 64 enc_patch) @ [CHR 0x0A]
        in (lines, Some lines,
            [Git_fetch branch] @ map Git_add_intent (ce_untracked env) @
            [Git_diff_names branch, Git_diff branch, Git_reset_mixed]))"

text \<open>What \<open>apply_patch\<close> writes to the patch file.\<close>

definition decoded_patch :: "string \<Rightarrow> string res" where
  "decoded_patch content = bindR (b64decode content) utf8_decode"

lemma decoded_patch_lines:
  "decoded_patch (py_join [CHR 0x0A] (chunks 64 (b64encode (utf8_encode s))) @ [CHR 0x0A]) = Inr s"
proof -
  let ?P = "\<lambda>c. b64_val c \<noteq> None \<or> c = CHR ''=''" and ?e = "b64encode (utf8_encode s)"
  have nl: "\<not> ?P (CHR 0x0A)" by (simp add: b64_val_def)
  then have "filter ?P (py_join [CHR 0x0A] (chunks 64 ?e) @ [CHR 0x0A]) = filter ?P (concat (chunks 64 ?e))"
    using filter_py_join [of ?P "[CHR 0x0A]" "chunks 64 ?e"] by simp
  also have "\<dots> = ?e"
    using b64encode_chars [OF utf8_bytes] by (simp add: chunks_concat filter_id_conv)
  finally show ?thesis
    by (simp add: decoded_patch_def b64decode_def b64_groups_encode [OF utf8_bytes] utf8_roundtrip)
qed

text \<open>
  C10: the patch survives the transport. The text that \<open>create_patch\<close> puts into the script is cut
  into lines of at most 64 characters, and what \<open>apply_patch\<close> decodes from it is the diff, with
  all untracked files in it, and the newline that is appended; every file that was added for the
  diff is reset afterwards, and a second call gives the same patch without touching the repository.
\<close>

theorem create_patch_roundtrip:
  "\<exists>content cmds. create_patch env None branch = (content, Some content, cmds) \<and>
     decoded_patch content = Inr (ce_diff env (ce_untracked env) branch @ [CHR 0x0A]) \<and>
     (\<exists>ls. content = py_join [CHR 0x0A] ls @ [CHR 0x0A] \<and> list_all (\<lambda>l. length l \<le> 64) ls) \<and>
     last cmds = Git_reset_mixed \<and> {f. Git_add_intent f \<in> set cmds} = set (ce_untracked env) \<and>
     create_patch env (Some content) branch = (content, Some content, [])"
proof -
  define ls where "ls = chunks 64 (b64encode (utf8_encode (ce_diff env (ce_untracked env) branch @ [CHR 0x0A])))"
  define cmds where "cmds = [Git_fetch branch] @ map Git_add_intent (ce_untracked env) @
      [Git_diff_names branch, Git_diff branch, Git_reset_mixed]"
  have "create_patch env None branch =
      (py_join [CHR 0x0A] ls @ [CHR 0x0A], Some (py_join [CHR 0x0A] ls @ [CHR 0x0A]), cmds)"
    by (simp add: create_patch_def Let_def ls_def cmds_def)
  moreover have "list_all (\<lambda>l. length l \<le> 64) ls"
    using chunks_length [of _ 64] by (auto simp: list_all_iff ls_def)
  moreover have "decoded_patch (py_join [CHR 0x0A] ls @ [CHR 0x0A]) =
      Inr (ce_diff env (ce_untracked env) branch @ [CHR 0x0A])"
    unfolding ls_def by (rule decoded_patch_lines)
  moreover have "{f. Git_add_intent f \<in> set cmds} = set (ce_untracked env)" "last cmds = Git_reset_mixed"
    by (auto simp: cmds_def)
  ultimately show ?thesis by (auto simp: create_patch_def)
qed

subsection \<open>Rendering a step's script\<close>

datatype script_type = BOURNE_SHELL | PYTHON3

definition nl :: string where
  "nl = [CHR 0x0A]"

definition scripts_dir_name :: string where
  "scripts_dir_name = ''ci''"

definition param_ref :: "string \<Rightarrow> string" where
  "param_ref n = ''$(params.'' @ n @ '')''"

definition result_path_ref :: "string \<Rightarrow> string" where
  "result_path_ref n = ''$(results.'' @ n @ ''.path)''"

definition extend_python_path_snippet :: "string \<Rightarrow> string" where
  "extend_python_path_snippet n =
     ''sys.path.insert(1,os.path.abspath(os.path.join(\"'' @ param_ref n @ ''\",\"'' @
     scripts_dir_name @ ''\")))''"

definition python_arg :: "(string \<Rightarrow> string) \<Rightarrow> named_param \<Rightarrow> string" where
  "python_arg ref p = py_replace (np_name p) ''-'' ''_'' @ ''='' @ [CHR 0x27] @ ref (np_name p) @ [CHR 0x27]"

definition shell_arg :: "(string \<Rightarrow> string) \<Rightarrow> named_param \<Rightarrow> string" where
  "shell_arg ref p = [CHR 0x22] @ ref (np_name p) @ [CHR 0x22]"

text \<open>
  \<open>read\<close> stands for reading a file of \<open>ci/steps\<close>.  A missing script (neither \<open>path\<close> nor
  \<open>inline_script\<close>) leaves the variable \<open>script\<close> unbound.  For shell scripts the results' arguments
  replace the parameters': \<open>args = ' ' + ...\<close>.
\<close>

definition task_step_script :: "(string \<Rightarrow> string res) \<Rightarrow> script_type \<Rightarrow> string \<Rightarrow> named_param list \<Rightarrow>
    named_param list \<Rightarrow> named_param option \<Rightarrow> string option \<Rightarrow> string option \<Rightarrow> string option \<Rightarrow>
    string res" where
  "task_step_script read script_type callable params results repo_path_param path inline_script
      additional_prefix =
     (let given = (\<lambda>x. x \<noteq> None \<and> x \<noteq> Some []) in
      if given path \<and> given inline_script then Inl (ValueError ''path and inline_script'')
      else bindR (if given path then read (the path)
                  else if given inline_script then Inr (the inline_script)
                  else Inl (UnboundLocalError ''script'')) (\<lambda>script0.
        let script = (if given additional_prefix
              then nl @ nl @ the additional_prefix @ nl @ nl @ script0 else script0);
            (shebang, preamble, callable_str) =
             (case script_type of
                PYTHON3 \<Rightarrow>
                  (''#!/usr/bin/env python3'',
                   (case repo_path_param of
                      Some p \<Rightarrow> ''import sys,os;'' @ extend_python_path_snippet (np_name p)
                    | None \<Rightarrow> []),
                   callable @ ''('' @
                   (py_join '','' (map (python_arg param_ref) params) @
                    (if results \<noteq> [] then '','' @ py_join '','' (map (python_arg result_path_ref) results)
                     else [])) @ '')'')
              | BOURNE_SHELL \<Rightarrow>
                  (''#!/usr/bin/env bash'', [],
                   callable @ '' '' @
                   (if results \<noteq> [] then '' '' @ py_join '' '' (map (shell_arg result_path_ref) results)
                    else py_join '' '' (map (shell_arg param_ref) params))))
        in Inr (if callable \<noteq> [] then py_join nl [shebang, preamble, script, callable_str]
                else py_join nl [shebang, preamble, script])))"

subsection \<open>The references in a text\<close>

definition ref_open :: string where
  "ref_open = ''$(params.''"

definition ref_at :: "string \<Rightarrow> string list" where
  "ref_at x = (if startswith x ref_open then [takeWhile (\<lambda>d. d \<noteq> CHR '')'') (drop 9 x)] else [])"

fun refs :: "string \<Rightarrow> string list" where
  "refs [] = []"
| "refs (c # cs) = ref_at (c # cs) @ refs cs"

text \<open>
  A text in which every reference is closed and which does not end within the opening of one, so
  that what follows it does not change its references.
\<close>

definition closed_at :: "string \<Rightarrow> bool" where
  "closed_at x = (if length x < 9 then take (length x) ref_open \<noteq> x
     else startswith x ref_open \<longrightarrow> CHR '')'' \<in> set (drop 9 x))"

fun closed_refs :: "string \<Rightarrow> bool" where
  "closed_refs [] = True"
| "closed_refs (c # cs) = (closed_at (c # cs) \<and> closed_refs cs)"

lemma length_ref_open [simp]: "length ref_open = 9"
  by (simp add: ref_open_def)

lemma startswith_long: "length p \<le> length x \<Longrightarrow> startswith (x @ y) p = startswith x p"
  by (simp add: startswith_def)

lemma startswith_short: "length x < length p \<Longrightarrow> startswith (x @ y) p \<Longrightarrow> take (length x) p = x"
proof -
  assume l: "length x < length p" and s: "startswith (x @ y) p"
  from s have "p = x @ take (length p - length x) y"
    using l by (simp add: startswith_def)
  then show "take (length x) p = x" by (metis append_eq_conv_conj)
qed

lemma takeWhile_closed: "c \<in> set x \<Longrightarrow> takeWhile (\<lambda>d. d \<noteq> c) (x @ y) = takeWhile (\<lambda>d. d \<noteq> c) x"
  by (induction x) auto

lemma ref_at_append: "closed_at x \<Longrightarrow> ref_at (x @ y) = ref_at x"
proof (cases "length x < 9")
  case True
  assume c: "closed_at x"
  have "\<not> startswith (x @ y) ref_open"
    using startswith_short [of x ref_open y] True c by (auto simp: closed_at_def)
  moreover have "\<not> startswith x ref_open"
    using True by (auto simp: startswith_def dest: arg_cong [where f = length])
  ultimately show ?thesis by (simp add: ref_at_def)
next
  case False
  assume "closed_at x"
  then show ?thesis
    using False startswith_long [of ref_open x y] takeWhile_closed [of _ "drop 9 x" y]
    by (auto simp: ref_at_def closed_at_def)
qed

lemma closed_at_append: "closed_at x \<Longrightarrow> closed_at (x @ y)"
proof (cases "length x < 9")
  case True
  assume c: "closed_at x"
  then have ne: "take (length x) ref_open \<noteq> x" using True by (simp add: closed_at_def)
  have "take (length (x @ y)) ref_open \<noteq> x @ y"
  proof
    assume "take (length (x @ y)) ref_open = x @ y"
    then have "take (length x) (take (length (x @ y)) ref_open) = take (length x) (x @ y)"
      by (simp only:)
    then show False using ne by (simp add: take_take)
  qed
  moreover have "\<not> startswith (x @ y) ref_open"
    using ne True startswith_short [of x ref_open y] by auto
  ultimately show ?thesis by (simp add: closed_at_def)
next
  case False
  assume "closed_at x"
  then show ?thesis
    using False startswith_long [of ref_open x y] by (auto simp: closed_at_def)
qed

lemma refs_append: "closed_refs x \<Longrightarrow> refs (x @ y) = refs x @ refs y"
proof (induction x)
  case (Cons c cs)
  then show ?case using ref_at_append [of "c # cs" y] by simp
qed simp

lemma closed_refs_append: "closed_refs x \<Longrightarrow> closed_refs y \<Longrightarrow> closed_refs (x @ y)"
proof (induction x)
  case (Cons c cs)
  then show ?case using closed_at_append [of "c # cs" y] by simp
qed simp

lemma no_dollar_at: "c \<noteq> CHR ''$'' \<Longrightarrow> ref_at (c # cs) = [] \<and> closed_at (c # cs)"
  by (simp add: ref_at_def closed_at_def startswith_def ref_open_def)

lemma no_dollar: "CHR ''$'' \<notin> set x \<Longrightarrow> closed_refs x \<and> refs x = []"
  by (induction x) (auto simp: no_dollar_at)

declare refs.simps(2) [simp del] closed_refs.simps(2) [simp del]

definition plain :: "string \<Rightarrow> bool" where
  "plain x \<longleftrightarrow> CHR ''$'' \<notin> set x"

lemma plain_append [simp]: "plain (x @ y) \<longleftrightarrow> plain x \<and> plain y"
  and plain_Cons: "plain (c # x) \<longleftrightarrow> c \<noteq> CHR ''$'' \<and> plain x"
  and plain_Nil [simp]: "plain []"
  by (auto simp: plain_def)

lemma plain_refs [ref_simps]: "plain x \<Longrightarrow> refs (x @ y) = refs y" "plain x \<Longrightarrow> refs x = []"
  and plain_closed [ref_simps]: "plain x \<Longrightarrow> closed_refs x"
  using no_dollar [of x] refs_append [of x y] by (auto simp: plain_def)

lemma ident_plain: "list_all ident_char n \<Longrightarrow> plain n"
  by (auto simp: plain_def list_all_iff ident_char_def)

lemma param_ref_refs:
  assumes "list_all ident_char n"
  shows "refs (param_ref n) = [n]" "closed_refs (param_ref n)"
proof -
  let ?t = "''(params.'' @ n @ '')''"
  have t: "closed_refs ?t" "refs ?t = []"
    using no_dollar [of ?t] ident_plain [OF assms] by (auto simp: plain_def)
  have s: "startswith (CHR ''$'' # ?t) ref_open" by (simp add: startswith_def ref_open_def)
  have d: "drop 9 (CHR ''$'' # ?t) = n @ '')''" by simp
  have n: "\<And>c. c \<in> set n \<Longrightarrow> c \<noteq> CHR '')''" using assms by (auto simp: list_all_iff ident_char_def)
  have "takeWhile (\<lambda>c. c \<noteq> CHR '')'') (n @ '')'') = n @ takeWhile (\<lambda>c. c \<noteq> CHR '')'') '')''"
    by (rule takeWhile_append2) (rule n)
  then have "ref_at (CHR ''$'' # ?t) = [n]"
    by (simp only: ref_at_def s d if_True takeWhile.simps) simp
  moreover have "closed_at (CHR ''$'' # ?t)"
    unfolding closed_at_def d by simp
  moreover have p: "param_ref n = CHR ''$'' # ?t" by (simp add: param_ref_def)
  ultimately show "refs (param_ref n) = [n]" "closed_refs (param_ref n)"
    using t by (simp_all only: p refs.simps(2) closed_refs.simps(2) append_Nil2 simp_thms)
qed

lemma result_ref_refs:
  assumes "list_all ident_char n"
  shows "refs (result_path_ref n) = []" "closed_refs (result_path_ref n)"
proof -
  let ?t = "''(results.'' @ n @ ''.path)''"
  have t: "closed_refs ?t" "refs ?t = []"
    using no_dollar [of ?t] ident_plain [OF assms] by (auto simp: plain_def)
  have s: "\<not> startswith (CHR ''$'' # ?t) ref_open" by (simp add: startswith_def ref_open_def)
  then have "ref_at (CHR ''$'' # ?t) = []" by (simp only: ref_at_def if_False)
  moreover have "closed_at (CHR ''$'' # ?t)" using s by (simp add: closed_at_def)
  moreover have p: "result_path_ref n = CHR ''$'' # ?t" by (simp add: result_path_ref_def)
  ultimately show "refs (result_path_ref n) = []" "closed_refs (result_path_ref n)"
    using t by (simp_all only: p refs.simps(2) closed_refs.simps(2) append_Nil simp_thms)
qed

lemma refs_py_join:
  assumes "\<forall>x \<in> set xs. closed_refs x" "plain sep"
  shows "refs (py_join sep xs) = concat (map refs xs) \<and> closed_refs (py_join sep xs)"
  using assms
proof (induction sep xs rule: py_join.induct)
  case (3 sep x y ys)
  then show ?case
    by (auto simp: refs_append plain_refs plain_closed intro!: closed_refs_append)
qed auto

lemma py_replace_plain: "plain s \<Longrightarrow> plain r \<Longrightarrow> plain (py_replace s [c] r)"
  by (auto simp: py_replace_char plain_def)

lemma wrap_refs:
  "plain a \<Longrightarrow> closed_refs x \<Longrightarrow> plain b \<Longrightarrow> refs (a @ x @ b) = refs x \<and> closed_refs (a @ x @ b)"
  by (simp add: plain_refs refs_append plain_closed closed_refs_append)

lemma arg_refs:
  assumes "list_all ident_char (np_name p)"
  shows "refs (python_arg param_ref p) = [np_name p] \<and> closed_refs (python_arg param_ref p)"
    and "refs (python_arg result_path_ref p) = [] \<and> closed_refs (python_arg result_path_ref p)"
    and "refs (shell_arg param_ref p) = [np_name p] \<and> closed_refs (shell_arg param_ref p)"
    and "refs (shell_arg result_path_ref p) = [] \<and> closed_refs (shell_arg result_path_ref p)"
proof -
  have key: "plain (py_replace (np_name p) ''-'' ''_'' @ ''='' @ [CHR 0x27])"
    using ident_plain [OF assms] py_replace_plain [of "np_name p" "''_''" "CHR ''-''"]
    by (simp add: plain_Cons)
  have q: "plain [CHR 0x27]" "plain [CHR 0x22]" by (simp_all add: plain_Cons)
  note pr = param_ref_refs [OF assms] and rr = result_ref_refs [OF assms]
  show "refs (python_arg param_ref p) = [np_name p] \<and> closed_refs (python_arg param_ref p)"
    "refs (python_arg result_path_ref p) = [] \<and> closed_refs (python_arg result_path_ref p)"
    using wrap_refs [OF key pr(2) q(1)] wrap_refs [OF key rr(2) q(1)] pr rr
    by (simp_all add: python_arg_def)
  show "refs (shell_arg param_ref p) = [np_name p] \<and> closed_refs (shell_arg param_ref p)"
    "refs (shell_arg result_path_ref p) = [] \<and> closed_refs (shell_arg result_path_ref p)"
    using wrap_refs [OF q(2) pr(2) q(2)] wrap_refs [OF q(2) rr(2) q(2)] pr rr
    by (simp_all add: shell_arg_def)
qed

lemma args_refs:
  assumes "\<forall>p \<in> set ps. refs (arg p) = f p \<and> closed_refs (arg p)" "plain sep"
  shows "refs (py_join sep (map arg ps)) = concat (map f ps) \<and> closed_refs (py_join sep (map arg ps))"
proof -
  have "map refs (map arg ps) = map f ps" using assms(1) by simp
  moreover have "\<forall>x \<in> set (map arg ps). closed_refs x" using assms(1) by simp
  ultimately show ?thesis using refs_py_join [of "map arg ps" sep] assms(2) by (simp only: simp_thms)
qed

definition call_refs :: "script_type \<Rightarrow> named_param list \<Rightarrow> named_param list \<Rightarrow> string list" where
  "call_refs st params results =
     (if st = BOURNE_SHELL \<and> results \<noteq> [] then [] else map np_name params)"

definition preamble_refs :: "script_type \<Rightarrow> named_param option \<Rightarrow> string list" where
  "preamble_refs st repo =
     (case repo of Some p \<Rightarrow> if st = PYTHON3 then [np_name p] else [] | None \<Rightarrow> [])"

lemma snippet_refs:
  assumes "list_all ident_char n"
  shows "refs (''import sys,os;'' @ extend_python_path_snippet n) = [n] \<and>
    closed_refs (''import sys,os;'' @ extend_python_path_snippet n)"
proof -
  have a: "plain (''import sys,os;'' @ ''sys.path.insert(1,os.path.abspath(os.path.join(\"'')"
    and b: "plain (''\",\"'' @ scripts_dir_name @ ''\")))'')"
    by (simp_all add: plain_def scripts_dir_name_def)
  have e: "''import sys,os;'' @ extend_python_path_snippet n =
      (''import sys,os;'' @ ''sys.path.insert(1,os.path.abspath(os.path.join(\"'') @ param_ref n @
      (''\",\"'' @ scripts_dir_name @ ''\")))'')"
    unfolding extend_python_path_snippet_def by simp
  show ?thesis
    unfolding e using wrap_refs [OF a param_ref_refs(2) [OF assms] b] param_ref_refs(1) [OF assms]
    by (simp only: simp_thms)
qed

lemma join4_refs:
  assumes "plain a" "closed_refs b" "closed_refs c" "closed_refs d"
  shows "refs (py_join nl [a, b, c, d]) = refs b @ refs c @ refs d \<and>
    closed_refs (py_join nl [a, b, c, d])"
proof -
  have "plain nl" by (simp add: nl_def plain_Cons)
  then show ?thesis
    using refs_py_join [of "[a, b, c, d]" nl] assms by (simp add: plain_refs plain_closed)
qed

lemma task_step_script_lemma:
  assumes "read path = Inr file" and "path \<noteq> []" and "callable \<noteq> []" and "plain callable"
    and "closed_refs file" and "closed_refs pfx"
    and "list_all (\<lambda>p. list_all ident_char (np_name p)) (params @ results)"
    and "\<And>p. repo = Some p \<Longrightarrow> list_all ident_char (np_name p)"
  shows "\<exists>script. task_step_script read st callable params results repo (Some path) None (Some pfx)
      = Inr script \<and> closed_refs script \<and>
    refs script = preamble_refs st repo @ refs pfx @ refs file @ call_refs st params results"
proof -
  define body where "body = (if pfx \<noteq> [] then nl @ nl @ pfx @ nl @ nl @ file else file)"
  have nlp: "plain (nl @ nl)" by (simp add: nl_def plain_Cons)
  have body: "closed_refs body \<and> refs body = refs pfx @ refs file"
  proof (cases "pfx = []")
    case False
    then have "body = (nl @ nl) @ pfx @ (nl @ nl) @ file" by (simp add: body_def)
    then show ?thesis
      using plain_refs [OF nlp] plain_closed [OF nlp] assms(5,6)
      by (simp only: refs_append closed_refs_append simp_thms append_Nil)
  qed (simp add: body_def assms(5))
  have id: "\<forall>p \<in> set params. list_all ident_char (np_name p)"
    "\<forall>p \<in> set results. list_all ident_char (np_name p)"
    using assms(7) by (auto simp: list_all_iff)
  have sep: "plain '',''" "plain '' ''" "plain ''(''" "plain '')''" by (simp_all add: plain_def)
  have pp: "refs (py_join '','' (map (python_arg param_ref) params)) = map np_name params \<and>
      closed_refs (py_join '','' (map (python_arg param_ref) params))"
    using args_refs [of params "python_arg param_ref" "\<lambda>p. [np_name p]", OF _ sep(1)] id(1) arg_refs(1)
    by simp
  have pr: "refs (py_join '','' (map (python_arg result_path_ref) results)) = [] \<and>
      closed_refs (py_join '','' (map (python_arg result_path_ref) results))"
    using args_refs [of results "python_arg result_path_ref" "\<lambda>p. []", OF _ sep(1)] id(2) arg_refs(2)
    by simp
  have sp: "refs (py_join '' '' (map (shell_arg param_ref) params)) = map np_name params \<and>
      closed_refs (py_join '' '' (map (shell_arg param_ref) params))"
    using args_refs [of params "shell_arg param_ref" "\<lambda>p. [np_name p]", OF _ sep(2)] id(1) arg_refs(3)
    by simp
  have sr: "refs (py_join '' '' (map (shell_arg result_path_ref) results)) = [] \<and>
      closed_refs (py_join '' '' (map (shell_arg result_path_ref) results))"
    using args_refs [of results "shell_arg result_path_ref" "\<lambda>p. []", OF _ sep(2)] id(2) arg_refs(4)
    by simp
  show ?thesis
  proof (cases st)
    case PYTHON3
    define call where "call = callable @ ''('' @ (py_join '','' (map (python_arg param_ref) params) @
      (if results \<noteq> [] then '','' @ py_join '','' (map (python_arg result_path_ref) results) else [])) @ '')''"
    define pre where "pre = (case repo of Some p \<Rightarrow> ''import sys,os;'' @ extend_python_path_snippet (np_name p)
      | None \<Rightarrow> [])"
    define args where "args = py_join '','' (map (python_arg param_ref) params) @
      (if results \<noteq> [] then '','' @ py_join '','' (map (python_arg result_path_ref) results) else [])"
    have args: "refs args = map np_name params \<and> closed_refs args"
      unfolding args_def using pp pr plain_refs [OF sep(1)] plain_closed [OF sep(1)]
      by (cases "results = []") (simp_all only: if_True if_False simp_thms append_Nil2 refs_append
          closed_refs_append)
    have op: "plain (callable @ ''('')" using assms(4) sep(3) by (simp only: plain_append simp_thms)
    have call: "refs call = map np_name params \<and> closed_refs call"
      unfolding call_def args_def [symmetric] using wrap_refs [OF op _ sep(4), of args] args
      by (simp only: append_assoc simp_thms)
    have pre: "refs pre = preamble_refs PYTHON3 repo \<and> closed_refs pre"
      unfolding pre_def using snippet_refs assms(8)
      by (auto simp: preamble_refs_def split: option.splits)
    have sb: "plain ''#!/usr/bin/env python3''" by (simp add: plain_def)
    have "task_step_script read st callable params results repo (Some path) None (Some pfx) =
        Inr (py_join nl [''#!/usr/bin/env python3'', pre, body, call])"
      using assms(1-3) PYTHON3
      by (simp add: task_step_script_def Let_def body_def call_def pre_def del: py_join.simps)
    then show ?thesis
      using join4_refs [OF sb, of pre body call] pre body call PYTHON3
      by (simp add: call_refs_def del: py_join.simps)
  next
    case BOURNE_SHELL
    define call where "call = callable @ '' '' @
      (if results \<noteq> [] then '' '' @ py_join '' '' (map (shell_arg result_path_ref) results)
       else py_join '' '' (map (shell_arg param_ref) params))"
    have call: "refs call = call_refs BOURNE_SHELL params results \<and> closed_refs call"
      unfolding call_def call_refs_def
      using sp sr assms(4) plain_refs [OF assms(4)] plain_closed [OF assms(4)] plain_refs [OF sep(2)]
        plain_closed [OF sep(2)]
      by (cases "results = []") (simp_all only: if_True if_False simp_thms append_Nil refs_append
          closed_refs_append)
    have sb: "plain ''#!/usr/bin/env bash''" by (simp add: plain_def)
    have "task_step_script read st callable params results repo (Some path) None (Some pfx) =
        Inr (py_join nl [''#!/usr/bin/env bash'', [], body, call])"
      using assms(1-3) BOURNE_SHELL
      by (simp add: task_step_script_def Let_def body_def call_def del: py_join.simps)
    then show ?thesis
      using join4_refs [OF sb, of "[]" body call] body call BOURNE_SHELL
      by (auto simp: preamble_refs_def simp del: py_join.simps split: option.splits)
  qed
qed



end
