(* ===== verification/Steps.thy ===== *)
theory Steps
  imports Step_Script
begin

text \<open>
  The steps of \<open>ci/steps.py\<close>, one definition per function: the parameters it asks for
  (\<open>*_params\<close>) and the step it builds.  Each returns the step with its parameters, as the functions
  do.  \<open>re_read\<close> stands for reading a file of \<open>ci/steps\<close>, \<open>re_patch_branch\<close> for the environment
  variable \<open>PATCH_BRANCH\<close>, \<open>re_clone\<close> for the local repository; the module variable
  \<open>CACHED_PATCH\<close> is threaded through \<open>clone_step\<close>.  The \<open>*_sig\<close> definitions are the signatures of
  the functions in \<open>ci/steps/*.py\<close> that the rendered scripts call.
\<close>

named_theorems step_params_defs \<open>the parameter lists of the steps\<close>
named_theorems step_defs \<open>the step builders\<close>

record render_env =
  re_read :: "string \<Rightarrow> string res"
  re_patch_branch :: "string option"
  re_clone :: clone_env

definition image_version :: string where
  "image_version = ''1.1544.0''"

definition default_image :: string where
  "default_image = ''eu.gcr.io/gardener-project/cc/job-image:'' @ image_version"

definition kaniko_image :: string where
  "kaniko_image = ''eu.gcr.io/gardener-project/cc/job-image-kaniko:'' @ image_version"

definition step_path :: "string \<Rightarrow> string" where
  "step_path f = ''ci/steps/'' @ f"

text \<open>The construction all step functions share.\<close>

definition mk_step :: "render_env \<Rightarrow> string \<Rightarrow> string \<Rightarrow> script_type \<Rightarrow> string \<Rightarrow> string \<Rightarrow>
    named_param list \<Rightarrow> named_param list \<Rightarrow> named_param option \<Rightarrow> string option \<Rightarrow>
    (string \<times> string) list \<Rightarrow> volume_mount list \<Rightarrow> (task_step \<times> named_param list) res" where
  "mk_step re name img st file callable params results repo pfx env_vars volume_mounts =
     bindR (task_step_script (re_read re) st callable params results repo (Some (step_path file)) None pfx)
       (\<lambda>script. Inr (\<lparr>ts_name = name, ts_image = img, ts_script = script,
          ts_volumeMounts = volume_mounts, ts_env = env_vars, ts_resources = PDict [],
          ts_securityContext = PDict []\<rparr>, params))"

definition clone_step_params :: "named_param list" where
  [step_params_defs]: "clone_step_params = map all_params
    [P_committish, P_giturl, P_repo_dir, P_pr_id]"

text \<open>The patch of the local changes is put into the script as a triple-quoted literal.\<close>

definition patch_prefix :: "string option \<Rightarrow> string" where
  "patch_prefix content =
     (case content of
        None \<Rightarrow> ''PATCH_CONTENT='' @ [CHR 0x27, CHR 0x27]
      | Some c \<Rightarrow> ''PATCH_CONTENT='' @ [CHR 0x27, CHR 0x27, CHR 0x27, CHR 0x5C] @ nl @ c @
          [CHR 0x27, CHR 0x27, CHR 0x27] @ nl)"

definition clone_step :: "render_env \<Rightarrow> (string \<times> string) list \<Rightarrow> volume_mount list \<Rightarrow> string option \<Rightarrow>
    ((task_step \<times> named_param list) \<times> string option) res" where
  [step_defs]: "clone_step re env_vars volume_mounts cached =
     (let (code_prefix, cached') =
        (case re_patch_branch re of
           Some b \<Rightarrow> if b \<noteq> []
             then (let (content, c, cmds) = create_patch (re_clone re) cached b
                   in (patch_prefix (Some content), c))
             else (patch_prefix None, cached)
         | None \<Rightarrow> (patch_prefix None, cached))
      in bindR (mk_step re ''clone-repo-step'' default_image PYTHON3 ''clone_repo_step.py'' ''clone_and_copy''
           clone_step_params [] (Some (all_params P_repo_dir)) (Some code_prefix) env_vars volume_mounts)
         (\<lambda>step. Inr (step, cached')))"

definition status_step_params :: "named_param list" where
  [step_params_defs]: "status_step_params = map all_params
    [P_committish, P_giturl, P_pipeline_run_name, P_namespace]"

definition status_step ::
  "render_env \<Rightarrow> (string \<times> string) list \<Rightarrow> volume_mount list \<Rightarrow> (task_step \<times> named_param list) res" where
  [step_defs]: "status_step re env_vars volume_mounts =
     mk_step re ''update-status-step'' default_image PYTHON3 ''update_status.py'' ''update_status''
       status_step_params [] (Some (all_params P_repo_dir)) None env_vars volume_mounts"

definition upload_results_step_params :: "named_param list" where
  [step_params_defs]: "upload_results_step_params = map all_params
    [P_architecture, P_cicd_cfg_name, P_committish, P_gardenlinux_epoch, P_modifiers,
     P_outfile, P_platform, P_build_targets, P_version, P_build_image]"

definition upload_results_step ::
  "render_env \<Rightarrow> (string \<times> string) list \<Rightarrow> volume_mount list \<Rightarrow> (task_step \<times> named_param list) res" where
  [step_defs]: "upload_results_step re env_vars volume_mounts =
     mk_step re ''upload-results'' default_image PYTHON3 ''upload_results_step.py'' ''upload_results_step''
       upload_results_step_params [all_results R_build_result] (Some (all_params P_repo_dir)) None env_vars volume_mounts"

definition promote_single_step_params :: "named_param list" where
  [step_params_defs]: "promote_single_step_params = map all_params
    [P_architecture, P_cicd_cfg_name, P_committish, P_gardenlinux_epoch, P_modifiers,
     P_platform, P_build_targets, P_version]"

definition promote_single_step ::
  "render_env \<Rightarrow> (string \<times> string) list \<Rightarrow> volume_mount list \<Rightarrow> (task_step \<times> named_param list) res" where
  [step_defs]: "promote_single_step re env_vars volume_mounts =
     mk_step re ''promote-step'' default_image PYTHON3 ''promote_step.py'' ''promote_single_step''
       promote_single_step_params [] (Some (all_params P_repo_dir)) None env_vars volume_mounts"

definition promote_step_params :: "named_param list" where
  [step_params_defs]: "promote_step_params = map all_params
    [P_cicd_cfg_name, P_committish, P_flavour_set_name, P_gardenlinux_epoch, P_promote_target,
     P_build_targets, P_version]"

definition promote_step ::
  "render_env \<Rightarrow> (string \<times> string) list \<Rightarrow> volume_mount list \<Rightarrow> (task_step \<times> named_param list) res" where
  [step_defs]: "promote_step re env_vars volume_mounts =
     mk_step re ''finalise-promotion-step'' default_image PYTHON3 ''promote_step.py'' ''promote_step''
       promote_step_params [all_results R_manifest_set_key_result] (Some (all_params P_repo_dir)) None env_vars volume_mounts"

definition pre_build_step_params :: "named_param list" where
  [step_params_defs]: "pre_build_step_params = map all_params
    [P_architecture, P_cicd_cfg_name, P_committish, P_gardenlinux_epoch, P_modifiers,
     P_platform, P_build_targets, P_version]"

definition pre_build_step ::
  "render_env \<Rightarrow> (string \<times> string) list \<Rightarrow> volume_mount list \<Rightarrow> (task_step \<times> named_param list) res" where
  [step_defs]: "pre_build_step re env_vars volume_mounts =
     mk_step re ''prebuild-step'' default_image PYTHON3 ''pre_build_step.py'' ''pre_build_step''
       pre_build_step_params [] (Some (all_params P_repo_dir)) None env_vars volume_mounts"

definition release_step_params :: "named_param list" where
  [step_params_defs]: "release_step_params = map all_params
    [P_build_targets, P_cicd_cfg_name, P_committish, P_ctx_repository_config_name,
     P_flavour_set_name, P_gardenlinux_epoch, P_giturl, P_repo_dir, P_version]"

definition release_step ::
  "render_env \<Rightarrow> (string \<times> string) list \<Rightarrow> volume_mount list \<Rightarrow> (task_step \<times> named_param list) res" where
  [step_defs]: "release_step re env_vars volume_mounts =
     mk_step re ''release-step'' default_image PYTHON3 ''release_step.py'' ''release_step''
       release_step_params [] (Some (all_params P_repo_dir)) None env_vars volume_mounts"

definition write_key_step_params :: "named_param list" where
  [step_params_defs]: "write_key_step_params = map all_params
    [P_repo_dir, P_key_config_name]"

definition write_key_step ::
  "render_env \<Rightarrow> (string \<times> string) list \<Rightarrow> volume_mount list \<Rightarrow> (task_step \<times> named_param list) res" where
  [step_defs]: "write_key_step re env_vars volume_mounts =
     mk_step re ''write-key'' default_image PYTHON3 ''write_key.py'' ''write_key''
       write_key_step_params [] (Some (all_params P_repo_dir)) None env_vars volume_mounts"

definition build_cert_step_params :: "named_param list" where
  [step_params_defs]: "build_cert_step_params = map all_params
    [P_repo_dir]"

definition build_cert_step ::
  "render_env \<Rightarrow> (string \<times> string) list \<Rightarrow> volume_mount list \<Rightarrow> (task_step \<times> named_param list) res" where
  [step_defs]: "build_cert_step re env_vars volume_mounts =
     mk_step re ''build-cert'' ''$(params.gardenlinux_build_deb_image)'' BOURNE_SHELL ''build_cert.sh'' ''build_cert''
       build_cert_step_params [] (Some (all_params P_repo_dir)) None env_vars volume_mounts"

definition build_package_step_params :: "named_param list" where
  [step_params_defs]: "build_package_step_params = map all_params
    [P_repo_dir, P_pkg_name]"

definition build_package_step ::
  "render_env \<Rightarrow> (string \<times> string) list \<Rightarrow> volume_mount list \<Rightarrow> (task_step \<times> named_param list) res" where
  [step_defs]: "build_package_step re env_vars volume_mounts =
     mk_step re ''build-package'' ''$(params.gardenlinux_build_deb_image)'' BOURNE_SHELL ''build_package.sh'' ''build_package''
       build_package_step_params [] None None env_vars volume_mounts"

definition build_kernel_package_step_params :: "named_param list" where
  [step_params_defs]: "build_kernel_package_step_params = map all_params
    [P_repo_dir, P_pkg_names]"

definition build_kernel_package_step ::
  "render_env \<Rightarrow> (string \<times> string) list \<Rightarrow> volume_mount list \<Rightarrow> (task_step \<times> named_param list) res" where
  [step_defs]: "build_kernel_package_step re env_vars volume_mounts =
     mk_step re ''build-package'' ''$(params.gardenlinux_build_deb_image)'' BOURNE_SHELL ''build_kernel_package.sh'' ''build_kernel_package''
       build_kernel_package_step_params [] None None env_vars volume_mounts"

definition build_upload_packages_step_params :: "named_param list" where
  [step_params_defs]: "build_upload_packages_step_params = map all_params
    [P_cicd_cfg_name, P_s3_package_path]"

definition build_upload_packages_step ::
  "render_env \<Rightarrow> (string \<times> string) list \<Rightarrow> volume_mount list \<Rightarrow> (task_step \<times> named_param list) res" where
  [step_defs]: "build_upload_packages_step re env_vars volume_mounts =
     mk_step re ''upload-packages-s3'' default_image PYTHON3 ''upload_packages.py'' ''upload_packages''
       build_upload_packages_step_params [] (Some (all_params P_repo_dir)) None env_vars volume_mounts"

definition build_publish_packages_repository_step_params :: "named_param list" where
  [step_params_defs]: "build_publish_packages_repository_step_params = map all_params
    [P_cicd_cfg_name, P_s3_package_path]"

definition build_publish_packages_repository_step ::
  "render_env \<Rightarrow> (string \<times> string) list \<Rightarrow> volume_mount list \<Rightarrow> (task_step \<times> named_param list) res" where
  [step_defs]: "build_publish_packages_repository_step re env_vars volume_mounts =
     mk_step re ''publish-package-repository-s3'' ''$(params.gardenlinux_build_deb_image)'' PYTHON3 ''publish_package_repository.py'' ''main''
       build_publish_packages_repository_step_params [] (Some (all_params P_repo_dir)) None env_vars volume_mounts"

definition build_image_step_params :: "named_param list" where
  [step_params_defs]: "build_image_step_params = map all_params
    [P_suite, P_gardenlinux_epoch, P_snapshot_timestamp, P_platform, P_modifiers,
     P_architecture, P_committish, P_version]"

definition build_image_step ::
  "render_env \<Rightarrow> (string \<times> string) list \<Rightarrow> volume_mount list \<Rightarrow> (task_step \<times> named_param list) res" where
  [step_defs]: "build_image_step re env_vars volume_mounts =
     bindR (mk_step re ''build-image'' ''$(params.build_image)'' BOURNE_SHELL ''build_image.sh'' ''build_image''
        build_image_step_params [] (Some (all_params P_repo_dir)) None env_vars
        (volume_mounts @ [\<lparr>vm_mountPath = ''/dev'', vm_name = ''dev''\<rparr>,
                          \<lparr>vm_mountPath = ''/build'', vm_name = ''build''\<rparr>]))
       (\<lambda>(step, params). Inr (step\<lparr>
          ts_resources := PDict [(''requests'', PDict [(''memory'', PStr ''1Gi'')]),
                                 (''limits'', PDict [(''memory'', PStr ''1.5Gi'')])],
          ts_securityContext := PDict [(''privileged'', PBool True),
            (''allowPrivilegeEscalation'', PBool True),
            (''capabilities'', PDict [(''add'', PList [PStr ''SYS_ADMIN''])])]\<rparr>, params))"

definition build_base_image_step_params :: "named_param list" where
  [step_params_defs]: "build_base_image_step_params = map all_params
    [P_build_image, P_gardenlinux_build_deb_image, P_oci_path, P_repo_dir, P_version_label,
     P_build_targets]"

definition build_base_image_step ::
  "render_env \<Rightarrow> (string \<times> string) list \<Rightarrow> volume_mount list \<Rightarrow> (task_step \<times> named_param list) res" where
  [step_defs]: "build_base_image_step re env_vars volume_mounts =
     mk_step re ''basebuild'' kaniko_image PYTHON3 ''build_base_image.py'' ''build_base_image''
       build_base_image_step_params [] (Some (all_params P_repo_dir)) None env_vars volume_mounts"

definition create_component_descriptor_step_params :: "named_param list" where
  [step_params_defs]: "create_component_descriptor_step_params = map all_params
    [P_branch, P_build_targets, P_cicd_cfg_name, P_committish, P_ctx_repository_config_name,
     P_flavour_set_name, P_gardenlinux_epoch, P_snapshot_ctx_repository_config_name, P_version]"

definition create_component_descriptor_step ::
  "render_env \<Rightarrow> (string \<times> string) list \<Rightarrow> volume_mount list \<Rightarrow> (task_step \<times> named_param list) res" where
  [step_defs]: "create_component_descriptor_step re env_vars volume_mounts =
     mk_step re ''component-descriptor'' default_image PYTHON3 ''component_descriptor.py'' ''build_component_descriptor''
       create_component_descriptor_step_params [] (Some (all_params P_repo_dir)) None env_vars volume_mounts"

definition notify_step_params :: "named_param list" where
  [step_params_defs]: "notify_step_params = map all_params
    [P_additional_recipients, P_branch, P_cicd_cfg_name, P_committish, P_disable_notifications,
     P_giturl, P_namespace, P_only_recipients, P_pipeline_name, P_pipeline_run_name,
     P_repo_dir, P_status_dict_str, P_pr_id]"

definition notify_step ::
  "render_env \<Rightarrow> (string \<times> string) list \<Rightarrow> volume_mount list \<Rightarrow> (task_step \<times> named_param list) res" where
  [step_defs]: "notify_step re env_vars volume_mounts =
     mk_step re ''notify-status'' default_image PYTHON3 ''notify.py'' ''send_notification''
       notify_step_params [] (Some (all_params P_repo_dir)) None env_vars volume_mounts"

definition get_logs_step_params :: "named_param list" where
  [step_params_defs]: "get_logs_step_params = map all_params
    [P_repo_dir, P_pipeline_run_name, P_namespace]"

definition get_logs_step ::
  "render_env \<Rightarrow> (string \<times> string) list \<Rightarrow> volume_mount list \<Rightarrow> (task_step \<times> named_param list) res" where
  [step_defs]: "get_logs_step re env_vars volume_mounts =
     mk_step re ''get-logs'' default_image PYTHON3 ''get_logs.py'' ''getlogs''
       get_logs_step_params [] (Some (all_params P_repo_dir)) None env_vars volume_mounts"

definition pre_check_tests_step_params :: "named_param list" where
  [step_params_defs]: "pre_check_tests_step_params = map all_params
    [P_architecture, P_cicd_cfg_name, P_committish, P_gardenlinux_epoch, P_modifiers,
     P_platform, P_build_targets, P_version]"

definition pre_check_tests_step ::
  "render_env \<Rightarrow> (string \<times> string) list \<Rightarrow> volume_mount list \<Rightarrow> (task_step \<times> named_param list) res" where
  [step_defs]: "pre_check_tests_step re env_vars volume_mounts =
     mk_step re ''pre-check-tests'' default_image PYTHON3 ''pre_check_tests.py'' ''pre_check_tests''
       pre_check_tests_step_params [] (Some (all_params P_repo_dir)) None env_vars volume_mounts"

definition test_step_params :: "named_param list" where
  [step_params_defs]: "test_step_params = map all_params
    [P_architecture, P_cicd_cfg_name, P_committish, P_gardenlinux_epoch, P_modifiers,
     P_platform, P_build_targets, P_repo_dir, P_snapshot_timestamp, P_suite, P_version,
     P_pytest_cfg]"

definition test_step ::
  "render_env \<Rightarrow> (string \<times> string) list \<Rightarrow> volume_mount list \<Rightarrow> (task_step \<times> named_param list) res" where
  [step_defs]: "test_step re env_vars volume_mounts =
     mk_step re ''run-tests'' default_image PYTHON3 ''run_tests.py'' ''run_tests''
       test_step_params [] (Some (all_params P_repo_dir)) None env_vars volume_mounts"

definition upload_test_results_step_params :: "named_param list" where
  [step_params_defs]: "upload_test_results_step_params = map all_params
    [P_architecture, P_cicd_cfg_name, P_committish, P_gardenlinux_epoch, P_modifiers,
     P_platform, P_build_targets, P_repo_dir, P_version]"

definition upload_test_results_step ::
  "render_env \<Rightarrow> (string \<times> string) list \<Rightarrow> volume_mount list \<Rightarrow> (task_step \<times> named_param list) res" where
  [step_defs]: "upload_test_results_step re env_vars volume_mounts =
     mk_step re ''upload-test-results'' default_image PYTHON3 ''upload_test_results.py'' ''upload_test_results''
       upload_test_results_step_params [] (Some (all_params P_repo_dir)) None env_vars volume_mounts"

definition attach_log_step_params :: "named_param list" where
  [step_params_defs]: "attach_log_step_params = map all_params
    [P_architecture, P_build_tasks, P_build_targets, P_cicd_cfg_name, P_committish,
     P_flavour_set_name, P_gardenlinux_epoch, P_namespace, P_pipeline_run_name, P_platform_set,
     P_repo_dir, P_version]"

definition attach_log_step ::
  "render_env \<Rightarrow> (string \<times> string) list \<Rightarrow> volume_mount list \<Rightarrow> (task_step \<times> named_param list) res" where
  [step_defs]: "attach_log_step re env_vars volume_mounts =
     mk_step re ''upload-logs-step'' default_image PYTHON3 ''attach_logs.py'' ''upload_logs''
       attach_log_step_params [] (Some (all_params P_repo_dir)) None env_vars volume_mounts"

subsection \<open>The functions the scripts call\<close>

record callable_sig =
  cs_file :: string
  cs_name :: string
  cs_required :: "string list"
  cs_optional :: "string list"

definition py_clone_and_copy_sig :: callable_sig where
  "py_clone_and_copy_sig = \<lparr>cs_file = ''clone_repo_step.py'', cs_name = ''clone_and_copy'',
     cs_required = [''giturl'', ''committish'', ''repo_dir''],
     cs_optional = [''pr_id'']\<rparr>"

definition py_update_status_sig :: callable_sig where
  "py_update_status_sig = \<lparr>cs_file = ''update_status.py'', cs_name = ''update_status'',
     cs_required = [''giturl'', ''committish'', ''namespace'', ''pipeline_run_name''],
     cs_optional = []\<rparr>"

definition py_upload_results_step_sig :: callable_sig where
  "py_upload_results_step_sig = \<lparr>cs_file = ''upload_results_step.py'', cs_name = ''upload_results_step'',
     cs_required = [''cicd_cfg_name'', ''committish'', ''architecture'', ''platform'',
       ''gardenlinux_epoch'', ''modifiers'', ''version'', ''outfile'', ''build_targets'',
       ''build_result'', ''build_image''],
     cs_optional = []\<rparr>"

definition py_promote_single_step_sig :: callable_sig where
  "py_promote_single_step_sig = \<lparr>cs_file = ''promote_step.py'', cs_name = ''promote_single_step'',
     cs_required = [''cicd_cfg_name'', ''committish'', ''architecture'', ''platform'',
       ''gardenlinux_epoch'', ''modifiers'', ''version'', ''build_targets''],
     cs_optional = []\<rparr>"

definition py_promote_step_sig :: callable_sig where
  "py_promote_step_sig = \<lparr>cs_file = ''promote_step.py'', cs_name = ''promote_step'',
     cs_required = [''cicd_cfg_name'', ''flavour_set_name'', ''build_targets'', ''gardenlinux_epoch'',
       ''committish'', ''version'', ''promote_target'', ''manifest_set_key_result''],
     cs_optional = []\<rparr>"

definition py_pre_build_step_sig :: callable_sig where
  "py_pre_build_step_sig = \<lparr>cs_file = ''pre_build_step.py'', cs_name = ''pre_build_step'',
     cs_required = [''cicd_cfg_name'', ''modifiers'', ''committish'', ''version'', ''gardenlinux_epoch'',
       ''architecture'', ''platform'', ''build_targets''],
     cs_optional = []\<rparr>"

definition py_release_step_sig :: callable_sig where
  "py_release_step_sig = \<lparr>cs_file = ''release_step.py'', cs_name = ''release_step'',
     cs_required = [''build_targets'', ''cicd_cfg_name'', ''committish'', ''ctx_repository_config_name'',
       ''flavour_set_name'', ''gardenlinux_epoch'', ''giturl'', ''repo_dir'', ''version''],
     cs_optional = []\<rparr>"

definition py_write_key_sig :: callable_sig where
  "py_write_key_sig = \<lparr>cs_file = ''write_key.py'', cs_name = ''write_key'',
     cs_required = [''repo_dir'', ''key_config_name''],
     cs_optional = []\<rparr>"

definition py_upload_packages_sig :: callable_sig where
  "py_upload_packages_sig = \<lparr>cs_file = ''upload_packages.py'', cs_name = ''upload_packages'',
     cs_required = [''cicd_cfg_name'', ''package_path_s3_prefix''],
     cs_optional = [''src_dir_path'']\<rparr>"

definition py_build_base_image_sig :: callable_sig where
  "py_build_base_image_sig = \<lparr>cs_file = ''build_base_image.py'', cs_name = ''build_base_image'',
     cs_required = [''build_image'', ''gardenlinux_build_deb_image'', ''repo_dir'', ''oci_path'',
       ''version_label'', ''build_targets''],
     cs_optional = []\<rparr>"

definition py_build_component_descriptor_sig :: callable_sig where
  "py_build_component_descriptor_sig = \<lparr>cs_file = ''component_descriptor.py'', cs_name = ''build_component_descriptor'',
     cs_required = [''version'', ''committish'', ''cicd_cfg_name'', ''gardenlinux_epoch'',
       ''build_targets'', ''flavour_set_name'', ''ctx_repository_config_name'', ''branch''],
     cs_optional = [''snapshot_ctx_repository_config_name'']\<rparr>"

definition py_send_notification_sig :: callable_sig where
  "py_send_notification_sig = \<lparr>cs_file = ''notify.py'', cs_name = ''send_notification'',
     cs_required = [''branch'', ''cicd_cfg_name'', ''committish'', ''disable_notifications'',
       ''namespace'', ''giturl'', ''pipeline_name'', ''pipeline_run_name'', ''repo_dir'',
       ''status_dict_str''],
     cs_optional = [''pr_id'', ''additional_recipients'', ''only_recipients'', ''recipients_plaintext'']\<rparr>"

definition py_getlogs_sig :: callable_sig where
  "py_getlogs_sig = \<lparr>cs_file = ''get_logs.py'', cs_name = ''getlogs'',
     cs_required = [''repo_dir'', ''namespace'', ''pipeline_run_name''],
     cs_optional = [''zip_file_path'', ''tail_lines'', ''only_failed'']\<rparr>"

definition py_pre_check_tests_sig :: callable_sig where
  "py_pre_check_tests_sig = \<lparr>cs_file = ''pre_check_tests.py'', cs_name = ''pre_check_tests'',
     cs_required = [''cicd_cfg_name'', ''modifiers'', ''committish'', ''version'', ''gardenlinux_epoch'',
       ''architecture'', ''platform'', ''build_targets''],
     cs_optional = []\<rparr>"

definition py_run_tests_sig :: callable_sig where
  "py_run_tests_sig = \<lparr>cs_file = ''run_tests.py'', cs_name = ''run_tests'',
     cs_required = [''architecture'', ''cicd_cfg_name'', ''gardenlinux_epoch'', ''modifiers'',
       ''platform'', ''build_targets'', ''repo_dir'', ''suite'', ''snapshot_timestamp'',
       ''version'', ''committish''],
     cs_optional = [''pytest_cfg'']\<rparr>"

definition py_upload_test_results_sig :: callable_sig where
  "py_upload_test_results_sig = \<lparr>cs_file = ''upload_test_results.py'', cs_name = ''upload_test_results'',
     cs_required = [''architecture'', ''cicd_cfg_name'', ''committish'', ''gardenlinux_epoch'',
       ''modifiers'', ''platform'', ''build_targets'', ''repo_dir'', ''version''],
     cs_optional = []\<rparr>"

definition py_upload_logs_sig :: callable_sig where
  "py_upload_logs_sig = \<lparr>cs_file = ''attach_logs.py'', cs_name = ''upload_logs'',
     cs_required = [''architecture'', ''build_tasks'', ''build_targets'', ''cicd_cfg_name'',
       ''committish'', ''flavour_set_name'', ''gardenlinux_epoch'', ''namespace'',
       ''pipeline_run_name'', ''platform_set'', ''repo_dir'', ''version''],
     cs_optional = []\<rparr>"

text \<open>
  The calls of the Python steps: the signature, the parameters and the results that the script
  passes, all by keyword.  A call binds when every required parameter is passed, nothing else than
  the signature's parameters is, and no keyword twice.
\<close>

definition python_calls :: "(callable_sig \<times> named_param list \<times> named_param list) list" where
  "python_calls =
    [(py_clone_and_copy_sig, clone_step_params, []),
     (py_update_status_sig, status_step_params, []),
     (py_upload_results_step_sig, upload_results_step_params, [all_results R_build_result]),
     (py_promote_single_step_sig, promote_single_step_params, []),
     (py_promote_step_sig, promote_step_params, [all_results R_manifest_set_key_result]),
     (py_pre_build_step_sig, pre_build_step_params, []),
     (py_release_step_sig, release_step_params, []),
     (py_write_key_sig, write_key_step_params, []),
     (py_upload_packages_sig, build_upload_packages_step_params, []),
     (py_build_base_image_sig, build_base_image_step_params, []),
     (py_build_component_descriptor_sig, create_component_descriptor_step_params, []),
     (py_send_notification_sig, notify_step_params, []),
     (py_getlogs_sig, get_logs_step_params, []),
     (py_pre_check_tests_sig, pre_check_tests_step_params, []),
     (py_run_tests_sig, test_step_params, []),
     (py_upload_test_results_sig, upload_test_results_step_params, []),
     (py_upload_logs_sig, attach_log_step_params, [])]"

definition kwargs_of :: "named_param list \<Rightarrow> string list" where
  "kwargs_of ps = map (\<lambda>p. py_replace (np_name p) ''-'' ''_'') ps"

definition call_binds :: "callable_sig \<Rightarrow> string list \<Rightarrow> bool" where
  "call_binds sig kws \<longleftrightarrow> distinct kws \<and> set (cs_required sig) \<subseteq> set kws \<and>
     set kws \<subseteq> set (cs_required sig @ cs_optional sig)"

subsection \<open>The references of the steps\<close>

text \<open>
  The files of \<open>ci/steps\<close>: their references are closed, and only \<open>build_image.sh\<close> has any,
  \<open>$(params.outfile)\<close> and \<open>$(params.repo_dir)\<close>.
\<close>

definition file_refs :: "string \<Rightarrow> string list" where
  "file_refs f = (if f = ''build_image.sh'' then [''outfile'', ''repo_dir''] else [])"

definition step_files :: "string list" where
  "step_files = map cs_file (map fst python_calls) @
     [''build_cert.sh'', ''build_package.sh'', ''build_kernel_package.sh'', ''build_image.sh'',
      ''publish_package_repository.py'']"

definition step_files_ok :: "(string \<Rightarrow> string res) \<Rightarrow> bool" where
  "step_files_ok read \<longleftrightarrow> (\<forall>f \<in> set step_files. \<exists>s. read (step_path f) = Inr s \<and> closed_refs s \<and>
     set (refs s) \<subseteq> set (file_refs f))"

definition step_refs :: "task_step \<Rightarrow> string set" where
  "step_refs s = set (refs (ts_script s)) \<union> set (refs (ts_image s))"

lemma images_plain: "plain default_image" "plain kaniko_image"
  by (simp_all add: plain_def default_image_def kaniko_image_def image_version_def)

lemma image_refs [simp]:
  "refs default_image = []" "refs kaniko_image = []"
  "refs ''$(params.build_image)'' = [''build_image'']"
  "refs ''$(params.gardenlinux_build_deb_image)'' = [''gardenlinux_build_deb_image'']"
  using plain_refs images_plain param_ref_refs(1) [OF param_name_ident [of P_build_image]]
    param_ref_refs(1) [OF param_name_ident [of P_gardenlinux_build_deb_image]]
  by (simp_all add: param_ref_def)

lemma result_names_ident: "list_all ident_char (np_name (all_results r))"
  by (cases r) (simp_all add: ident_char_def)

lemma b64_char_not_dollar: "n < 64 \<Longrightarrow> b64_char n \<noteq> CHR ''$''"
  using b64_val_char [of n] by (auto simp: b64_val_def)

lemma patch_plain: "plain (fst (create_patch env None b))"
proof -
  let ?e = "b64encode (utf8_encode (ce_diff env (ce_untracked env) b @ [CHR 0x0A]))"
  have "plain ?e"
    using b64encode_chars [OF utf8_bytes] unfolding plain_def by (force simp: b64_val_def)
  then have "\<forall>l \<in> set (chunks 64 ?e). plain l"
    unfolding plain_def using chunks_subset [of _ 64 ?e] by blast
  then have "plain (py_join [CHR 0x0A] (chunks 64 ?e) @ [CHR 0x0A])"
    unfolding plain_def using py_join_set [of "[CHR 0x0A]" "chunks 64 ?e"] by auto
  then show ?thesis by (simp add: create_patch_def Let_def)
qed

text \<open>The cache of the patch holds a patch of this session, or none.\<close>

definition cache_ok :: "string option \<Rightarrow> bool" where
  "cache_ok c = (case c of None \<Rightarrow> True | Some p \<Rightarrow> plain p)"

lemma patch_prefix_plain: "cache_ok c \<Longrightarrow> plain (patch_prefix c)"
  by (auto simp: patch_prefix_def cache_ok_def plain_def nl_def split: option.splits)

lemma create_patch_plain:
  assumes "cache_ok cached" "create_patch env cached b = (content, cached', cmds)"
  shows "plain content" "cache_ok cached'"
proof -
  have "plain content \<and> cache_ok cached'"
  proof (cases "cached \<noteq> None \<and> the cached \<noteq> []")
    case True
    then show ?thesis using assms by (auto simp: create_patch_def cache_ok_def)
  next
    case False
    then have "create_patch env cached b = create_patch env None b"
      by (auto simp: create_patch_def)
    then show ?thesis
      using assms(2) patch_plain [of env b] by (auto simp: create_patch_def Let_def cache_ok_def)
  qed
  then show "plain content" "cache_ok cached'" by simp_all
qed

lemma mk_step_refs:
  assumes ok: "step_files_ok (re_read re)" "f \<in> set step_files"
    and "callable \<noteq> []" "plain callable"
    and ps: "params = map all_params as" and rs: "results = map all_results bs"
    and repo: "repo = None \<or> repo = Some (all_params P_repo_dir)"
    and pfx: "pfx = None \<or> (\<exists>x. pfx = Some x \<and> plain x)"
  shows "\<exists>s. mk_step re name img st f callable params results repo pfx env mounts = Inr (s, params) \<and>
    step_refs s \<subseteq> {''repo_dir''} \<union> set (file_refs f) \<union> set (refs img) \<union> np_name ` set params"
proof -
  obtain t where t: "re_read re (step_path f) = Inr t" "closed_refs t" "set (refs t) \<subseteq> set (file_refs f)"
    using ok by (auto simp: step_files_ok_def)
  obtain x where x: "plain x" "pfx = Some x \<or> pfx = None \<and> x = []"
    using pfx by auto
  have none: "task_step_script (re_read re) st callable params results repo (Some (step_path f)) None pfx =
      task_step_script (re_read re) st callable params results repo (Some (step_path f)) None (Some x)"
    using x(2) by (auto simp: task_step_script_def)
  have ids: "list_all (\<lambda>p. list_all ident_char (np_name p)) (params @ results)"
    using param_name_ident result_names_ident by (auto simp: ps rs list_all_iff)
  have "\<And>p. repo = Some p \<Longrightarrow> list_all ident_char (np_name p)"
    using repo param_name_ident [of P_repo_dir] by (auto simp del: param_name_simps)
  from task_step_script_lemma [of "re_read re", OF t(1) _ assms(3,4) t(2) plain_closed [OF x(1)] ids this]
  obtain scr where scr: "task_step_script (re_read re) st callable params results repo
      (Some (step_path f)) None (Some x) = Inr scr"
    "refs scr = preamble_refs st repo @ refs x @ refs t @ call_refs st params results"
    by (auto simp: step_path_def)
  have "set (preamble_refs st repo) \<subseteq> {''repo_dir''}"
    using repo by (auto simp: preamble_refs_def)
  moreover have "set (call_refs st params results) \<subseteq> np_name ` set params"
    by (auto simp: call_refs_def)
  ultimately have "set (refs scr) \<subseteq> {''repo_dir''} \<union> set (file_refs f) \<union> np_name ` set params"
    using scr(2) t(3) plain_refs(2) [OF x(1)] by auto
  then show ?thesis by (auto simp: mk_step_def none scr(1) step_refs_def)
qed

lemma step_file_facts:
  "''clone_repo_step.py'' \<in> set step_files"
  "''update_status.py'' \<in> set step_files"
  "''upload_results_step.py'' \<in> set step_files"
  "''promote_step.py'' \<in> set step_files"
  "''pre_build_step.py'' \<in> set step_files"
  "''release_step.py'' \<in> set step_files"
  "''write_key.py'' \<in> set step_files"
  "''build_cert.sh'' \<in> set step_files"
  "''build_package.sh'' \<in> set step_files"
  "''build_kernel_package.sh'' \<in> set step_files"
  "''upload_packages.py'' \<in> set step_files"
  "''publish_package_repository.py'' \<in> set step_files"
  "''build_image.sh'' \<in> set step_files"
  "''build_base_image.py'' \<in> set step_files"
  "''component_descriptor.py'' \<in> set step_files"
  "''notify.py'' \<in> set step_files"
  "''get_logs.py'' \<in> set step_files"
  "''pre_check_tests.py'' \<in> set step_files"
  "''run_tests.py'' \<in> set step_files"
  "''upload_test_results.py'' \<in> set step_files"
  "''attach_logs.py'' \<in> set step_files"
  by (simp_all add: step_files_def python_calls_def py_clone_and_copy_sig_def py_update_status_sig_def py_upload_results_step_sig_def py_promote_single_step_sig_def py_promote_step_sig_def py_pre_build_step_sig_def py_release_step_sig_def py_write_key_sig_def py_upload_packages_sig_def py_build_base_image_sig_def py_build_component_descriptor_sig_def py_send_notification_sig_def py_getlogs_sig_def py_pre_check_tests_sig_def py_run_tests_sig_def py_upload_test_results_sig_def py_upload_logs_sig_def)

text \<open>Every step is built, and refers to its parameters, the working directory and its image.\<close>

lemma clone_step_ok:
  assumes "step_files_ok (re_read re)" "cache_ok cached"
  shows "\<exists>s c. clone_step re env mounts cached = Inr ((s, clone_step_params), c) \<and> cache_ok c \<and>
    step_refs s \<subseteq> param_name ` {P_repo_dir} \<union> np_name ` set clone_step_params"
proof -
  have step: "\<exists>s. mk_step re ''clone-repo-step'' default_image PYTHON3 ''clone_repo_step.py'' ''clone_and_copy''
      clone_step_params [] (Some (all_params P_repo_dir)) (Some (patch_prefix p)) env mounts =
      Inr (s, clone_step_params) \<and> step_refs s \<subseteq> param_name ` {P_repo_dir} \<union> np_name ` set clone_step_params"
    if "cache_ok p" for p
    using mk_step_refs [OF assms(1) step_file_facts(1), of "''clone_and_copy''" clone_step_params
        "[P_committish, P_giturl, P_repo_dir, P_pr_id]" "[]" "[]" "Some (all_params P_repo_dir)"
        "Some (patch_prefix p)" "''clone-repo-step''" default_image PYTHON3 env mounts]
      patch_prefix_plain [OF that]
    by (simp add: clone_step_params_def plain_def file_refs_def)
  show ?thesis
  proof (cases "\<exists>b. re_patch_branch re = Some b \<and> b \<noteq> []")
    case True
    then obtain b where b: "re_patch_branch re = Some b" "b \<noteq> []" by blast
    obtain content c cmds where p: "create_patch (re_clone re) cached b = (content, c, cmds)"
      by (metis surj_pair)
    have "cache_ok (Some content)" using create_patch_plain(1) [OF assms(2) p] by (simp add: cache_ok_def)
    then show ?thesis
      using step [of "Some content"] create_patch_plain(2) [OF assms(2) p] b p
      by (auto simp: clone_step_def)
  next
    case False
    have "cache_ok None" by (simp add: cache_ok_def)
    with False show ?thesis
      using step [of None] assms(2) by (auto simp: clone_step_def split: option.splits)
  qed
qed

lemma status_step_ok:
  assumes "step_files_ok (re_read re)"
  shows "\<exists>s. status_step re env mounts = Inr (s, status_step_params) \<and>
    step_refs s \<subseteq> param_name ` {P_repo_dir} \<union> np_name ` set status_step_params"
  using mk_step_refs [OF assms step_file_facts(2), of "''update_status''" status_step_params
      "[P_committish, P_giturl, P_pipeline_run_name, P_namespace]"
      "map all_results []" "[]" "Some (all_params P_repo_dir)" None "''update-status-step''" default_image PYTHON3 env mounts]
  by (simp add: status_step_def status_step_params_def plain_def file_refs_def)

lemma upload_results_step_ok:
  assumes "step_files_ok (re_read re)"
  shows "\<exists>s. upload_results_step re env mounts = Inr (s, upload_results_step_params) \<and>
    step_refs s \<subseteq> param_name ` {P_repo_dir} \<union> np_name ` set upload_results_step_params"
  using mk_step_refs [OF assms step_file_facts(3), of "''upload_results_step''" upload_results_step_params
      "[P_architecture, P_cicd_cfg_name, P_committish, P_gardenlinux_epoch, P_modifiers, P_outfile, P_platform, P_build_targets, P_version, P_build_image]"
      "map all_results [R_build_result]" "[R_build_result]" "Some (all_params P_repo_dir)" None "''upload-results''" default_image PYTHON3 env mounts]
  by (simp add: upload_results_step_def upload_results_step_params_def plain_def file_refs_def)

lemma promote_single_step_ok:
  assumes "step_files_ok (re_read re)"
  shows "\<exists>s. promote_single_step re env mounts = Inr (s, promote_single_step_params) \<and>
    step_refs s \<subseteq> param_name ` {P_repo_dir} \<union> np_name ` set promote_single_step_params"
  using mk_step_refs [OF assms step_file_facts(4), of "''promote_single_step''" promote_single_step_params
      "[P_architecture, P_cicd_cfg_name, P_committish, P_gardenlinux_epoch, P_modifiers, P_platform, P_build_targets, P_version]"
      "map all_results []" "[]" "Some (all_params P_repo_dir)" None "''promote-step''" default_image PYTHON3 env mounts]
  by (simp add: promote_single_step_def promote_single_step_params_def plain_def file_refs_def)

lemma promote_step_ok:
  assumes "step_files_ok (re_read re)"
  shows "\<exists>s. promote_step re env mounts = Inr (s, promote_step_params) \<and>
    step_refs s \<subseteq> param_name ` {P_repo_dir} \<union> np_name ` set promote_step_params"
  using mk_step_refs [OF assms step_file_facts(4), of "''promote_step''" promote_step_params
      "[P_cicd_cfg_name, P_committish, P_flavour_set_name, P_gardenlinux_epoch, P_promote_target, P_build_targets, P_version]"
      "map all_results [R_manifest_set_key_result]" "[R_manifest_set_key_result]" "Some (all_params P_repo_dir)" None "''finalise-promotion-step''" default_image PYTHON3 env mounts]
  by (simp add: promote_step_def promote_step_params_def plain_def file_refs_def)

lemma pre_build_step_ok:
  assumes "step_files_ok (re_read re)"
  shows "\<exists>s. pre_build_step re env mounts = Inr (s, pre_build_step_params) \<and>
    step_refs s \<subseteq> param_name ` {P_repo_dir} \<union> np_name ` set pre_build_step_params"
  using mk_step_refs [OF assms step_file_facts(5), of "''pre_build_step''" pre_build_step_params
      "[P_architecture, P_cicd_cfg_name, P_committish, P_gardenlinux_epoch, P_modifiers, P_platform, P_build_targets, P_version]"
      "map all_results []" "[]" "Some (all_params P_repo_dir)" None "''prebuild-step''" default_image PYTHON3 env mounts]
  by (simp add: pre_build_step_def pre_build_step_params_def plain_def file_refs_def)

lemma release_step_ok:
  assumes "step_files_ok (re_read re)"
  shows "\<exists>s. release_step re env mounts = Inr (s, release_step_params) \<and>
    step_refs s \<subseteq> param_name ` {P_repo_dir} \<union> np_name ` set release_step_params"
  using mk_step_refs [OF assms step_file_facts(6), of "''release_step''" release_step_params
      "[P_build_targets, P_cicd_cfg_name, P_committish, P_ctx_repository_config_name, P_flavour_set_name, P_gardenlinux_epoch, P_giturl, P_repo_dir, P_version]"
      "map all_results []" "[]" "Some (all_params P_repo_dir)" None "''release-step''" default_image PYTHON3 env mounts]
  by (simp add: release_step_def release_step_params_def plain_def file_refs_def)

lemma write_key_step_ok:
  assumes "step_files_ok (re_read re)"
  shows "\<exists>s. write_key_step re env mounts = Inr (s, write_key_step_params) \<and>
    step_refs s \<subseteq> param_name ` {P_repo_dir} \<union> np_name ` set write_key_step_params"
  using mk_step_refs [OF assms step_file_facts(7), of "''write_key''" write_key_step_params
      "[P_repo_dir, P_key_config_name]"
      "map all_results []" "[]" "Some (all_params P_repo_dir)" None "''write-key''" default_image PYTHON3 env mounts]
  by (simp add: write_key_step_def write_key_step_params_def plain_def file_refs_def)

lemma build_cert_step_ok:
  assumes "step_files_ok (re_read re)"
  shows "\<exists>s. build_cert_step re env mounts = Inr (s, build_cert_step_params) \<and>
    step_refs s \<subseteq> param_name ` {P_gardenlinux_build_deb_image, P_repo_dir} \<union> np_name ` set build_cert_step_params"
  using mk_step_refs [OF assms step_file_facts(8), of "''build_cert''" build_cert_step_params
      "[P_repo_dir]"
      "map all_results []" "[]" "Some (all_params P_repo_dir)" None "''build-cert''" "''$(params.gardenlinux_build_deb_image)''" BOURNE_SHELL env mounts]
  by (simp add: build_cert_step_def build_cert_step_params_def plain_def file_refs_def)

lemma build_package_step_ok:
  assumes "step_files_ok (re_read re)"
  shows "\<exists>s. build_package_step re env mounts = Inr (s, build_package_step_params) \<and>
    step_refs s \<subseteq> param_name ` {P_gardenlinux_build_deb_image, P_repo_dir} \<union> np_name ` set build_package_step_params"
  using mk_step_refs [OF assms step_file_facts(9), of "''build_package''" build_package_step_params
      "[P_repo_dir, P_pkg_name]"
      "map all_results []" "[]" None None "''build-package''" "''$(params.gardenlinux_build_deb_image)''" BOURNE_SHELL env mounts]
  by (simp add: build_package_step_def build_package_step_params_def plain_def file_refs_def)

lemma build_kernel_package_step_ok:
  assumes "step_files_ok (re_read re)"
  shows "\<exists>s. build_kernel_package_step re env mounts = Inr (s, build_kernel_package_step_params) \<and>
    step_refs s \<subseteq> param_name ` {P_gardenlinux_build_deb_image, P_repo_dir} \<union> np_name ` set build_kernel_package_step_params"
  using mk_step_refs [OF assms step_file_facts(10), of "''build_kernel_package''" build_kernel_package_step_params
      "[P_repo_dir, P_pkg_names]"
      "map all_results []" "[]" None None "''build-package''" "''$(params.gardenlinux_build_deb_image)''" BOURNE_SHELL env mounts]
  by (simp add: build_kernel_package_step_def build_kernel_package_step_params_def plain_def file_refs_def)

lemma build_upload_packages_step_ok:
  assumes "step_files_ok (re_read re)"
  shows "\<exists>s. build_upload_packages_step re env mounts = Inr (s, build_upload_packages_step_params) \<and>
    step_refs s \<subseteq> param_name ` {P_repo_dir} \<union> np_name ` set build_upload_packages_step_params"
  using mk_step_refs [OF assms step_file_facts(11), of "''upload_packages''" build_upload_packages_step_params
      "[P_cicd_cfg_name, P_s3_package_path]"
      "map all_results []" "[]" "Some (all_params P_repo_dir)" None "''upload-packages-s3''" default_image PYTHON3 env mounts]
  by (simp add: build_upload_packages_step_def build_upload_packages_step_params_def plain_def file_refs_def)

lemma build_publish_packages_repository_step_ok:
  assumes "step_files_ok (re_read re)"
  shows "\<exists>s. build_publish_packages_repository_step re env mounts = Inr (s, build_publish_packages_repository_step_params) \<and>
    step_refs s \<subseteq> param_name ` {P_gardenlinux_build_deb_image, P_repo_dir} \<union> np_name ` set build_publish_packages_repository_step_params"
  using mk_step_refs [OF assms step_file_facts(12), of "''main''" build_publish_packages_repository_step_params
      "[P_cicd_cfg_name, P_s3_package_path]"
      "map all_results []" "[]" "Some (all_params P_repo_dir)" None "''publish-package-repository-s3''" "''$(params.gardenlinux_build_deb_image)''" PYTHON3 env mounts]
  by (simp add: build_publish_packages_repository_step_def build_publish_packages_repository_step_params_def plain_def file_refs_def)

lemma build_image_step_ok:
  assumes "step_files_ok (re_read re)"
  shows "\<exists>s. build_image_step re env mounts = Inr (s, build_image_step_params) \<and>
    step_refs s \<subseteq> param_name ` {P_build_image, P_outfile, P_repo_dir} \<union> np_name ` set build_image_step_params"
  using mk_step_refs [OF assms step_file_facts(13), of "''build_image''" build_image_step_params
      "[P_suite, P_gardenlinux_epoch, P_snapshot_timestamp, P_platform, P_modifiers, P_architecture, P_committish, P_version]"
      "map all_results []" "[]" "Some (all_params P_repo_dir)" None "''build-image''" "''$(params.build_image)''" BOURNE_SHELL env "mounts @ [\<lparr>vm_mountPath = ''/dev'', vm_name = ''dev''\<rparr>,
        \<lparr>vm_mountPath = ''/build'', vm_name = ''build''\<rparr>]"]
  by (auto simp: build_image_step_def build_image_step_params_def plain_def file_refs_def step_refs_def)

lemma build_base_image_step_ok:
  assumes "step_files_ok (re_read re)"
  shows "\<exists>s. build_base_image_step re env mounts = Inr (s, build_base_image_step_params) \<and>
    step_refs s \<subseteq> param_name ` {P_repo_dir} \<union> np_name ` set build_base_image_step_params"
  using mk_step_refs [OF assms step_file_facts(14), of "''build_base_image''" build_base_image_step_params
      "[P_build_image, P_gardenlinux_build_deb_image, P_oci_path, P_repo_dir, P_version_label, P_build_targets]"
      "map all_results []" "[]" "Some (all_params P_repo_dir)" None "''basebuild''" kaniko_image PYTHON3 env mounts]
  by (simp add: build_base_image_step_def build_base_image_step_params_def plain_def file_refs_def)

lemma create_component_descriptor_step_ok:
  assumes "step_files_ok (re_read re)"
  shows "\<exists>s. create_component_descriptor_step re env mounts = Inr (s, create_component_descriptor_step_params) \<and>
    step_refs s \<subseteq> param_name ` {P_repo_dir} \<union> np_name ` set create_component_descriptor_step_params"
  using mk_step_refs [OF assms step_file_facts(15), of "''build_component_descriptor''" create_component_descriptor_step_params
      "[P_branch, P_build_targets, P_cicd_cfg_name, P_committish, P_ctx_repository_config_name, P_flavour_set_name, P_gardenlinux_epoch, P_snapshot_ctx_repository_config_name, P_version]"
      "map all_results []" "[]" "Some (all_params P_repo_dir)" None "''component-descriptor''" default_image PYTHON3 env mounts]
  by (simp add: create_component_descriptor_step_def create_component_descriptor_step_params_def plain_def file_refs_def)

lemma notify_step_ok:
  assumes "step_files_ok (re_read re)"
  shows "\<exists>s. notify_step re env mounts = Inr (s, notify_step_params) \<and>
    step_refs s \<subseteq> param_name ` {P_repo_dir} \<union> np_name ` set notify_step_params"
  using mk_step_refs [OF assms step_file_facts(16), of "''send_notification''" notify_step_params
      "[P_additional_recipients, P_branch, P_cicd_cfg_name, P_committish, P_disable_notifications, P_giturl, P_namespace, P_only_recipients, P_pipeline_name, P_pipeline_run_name, P_repo_dir, P_status_dict_str, P_pr_id]"
      "map all_results []" "[]" "Some (all_params P_repo_dir)" None "''notify-status''" default_image PYTHON3 env mounts]
  by (simp add: notify_step_def notify_step_params_def plain_def file_refs_def)

lemma get_logs_step_ok:
  assumes "step_files_ok (re_read re)"
  shows "\<exists>s. get_logs_step re env mounts = Inr (s, get_logs_step_params) \<and>
    step_refs s \<subseteq> param_name ` {P_repo_dir} \<union> np_name ` set get_logs_step_params"
  using mk_step_refs [OF assms step_file_facts(17), of "''getlogs''" get_logs_step_params
      "[P_repo_dir, P_pipeline_run_name, P_namespace]"
      "map all_results []" "[]" "Some (all_params P_repo_dir)" None "''get-logs''" default_image PYTHON3 env mounts]
  by (simp add: get_logs_step_def get_logs_step_params_def plain_def file_refs_def)

lemma pre_check_tests_step_ok:
  assumes "step_files_ok (re_read re)"
  shows "\<exists>s. pre_check_tests_step re env mounts = Inr (s, pre_check_tests_step_params) \<and>
    step_refs s \<subseteq> param_name ` {P_repo_dir} \<union> np_name ` set pre_check_tests_step_params"
  using mk_step_refs [OF assms step_file_facts(18), of "''pre_check_tests''" pre_check_tests_step_params
      "[P_architecture, P_cicd_cfg_name, P_committish, P_gardenlinux_epoch, P_modifiers, P_platform, P_build_targets, P_version]"
      "map all_results []" "[]" "Some (all_params P_repo_dir)" None "''pre-check-tests''" default_image PYTHON3 env mounts]
  by (simp add: pre_check_tests_step_def pre_check_tests_step_params_def plain_def file_refs_def)

lemma test_step_ok:
  assumes "step_files_ok (re_read re)"
  shows "\<exists>s. test_step re env mounts = Inr (s, test_step_params) \<and>
    step_refs s \<subseteq> param_name ` {P_repo_dir} \<union> np_name ` set test_step_params"
  using mk_step_refs [OF assms step_file_facts(19), of "''run_tests''" test_step_params
      "[P_architecture, P_cicd_cfg_name, P_committish, P_gardenlinux_epoch, P_modifiers, P_platform, P_build_targets, P_repo_dir, P_snapshot_timestamp, P_suite, P_version, P_pytest_cfg]"
      "map all_results []" "[]" "Some (all_params P_repo_dir)" None "''run-tests''" default_image PYTHON3 env mounts]
  by (simp add: test_step_def test_step_params_def plain_def file_refs_def)

lemma upload_test_results_step_ok:
  assumes "step_files_ok (re_read re)"
  shows "\<exists>s. upload_test_results_step re env mounts = Inr (s, upload_test_results_step_params) \<and>
    step_refs s \<subseteq> param_name ` {P_repo_dir} \<union> np_name ` set upload_test_results_step_params"
  using mk_step_refs [OF assms step_file_facts(20), of "''upload_test_results''" upload_test_results_step_params
      "[P_architecture, P_cicd_cfg_name, P_committish, P_gardenlinux_epoch, P_modifiers, P_platform, P_build_targets, P_repo_dir, P_version]"
      "map all_results []" "[]" "Some (all_params P_repo_dir)" None "''upload-test-results''" default_image PYTHON3 env mounts]
  by (simp add: upload_test_results_step_def upload_test_results_step_params_def plain_def file_refs_def)

lemma attach_log_step_ok:
  assumes "step_files_ok (re_read re)"
  shows "\<exists>s. attach_log_step re env mounts = Inr (s, attach_log_step_params) \<and>
    step_refs s \<subseteq> param_name ` {P_repo_dir} \<union> np_name ` set attach_log_step_params"
  using mk_step_refs [OF assms step_file_facts(21), of "''upload_logs''" attach_log_step_params
      "[P_architecture, P_build_tasks, P_build_targets, P_cicd_cfg_name, P_committish, P_flavour_set_name, P_gardenlinux_epoch, P_namespace, P_pipeline_run_name, P_platform_set, P_repo_dir, P_version]"
      "map all_results []" "[]" "Some (all_params P_repo_dir)" None "''upload-logs-step''" default_image PYTHON3 env mounts]
  by (simp add: attach_log_step_def attach_log_step_params_def plain_def file_refs_def)


end
