(* ===== verification/Tasks.thy ===== *)
theory Tasks
  imports Steps
begin

text \<open>
  The Tekton tasks of \<open>ci/tasks.py\<close> and \<open>render_task\<close> of \<open>ci/render_task.py\<close>: each task collects the
  parameters of its steps.  The property of this theory is that they are enough: whatever parameter
  a step's script or image refers to, the task declares it, so that Tekton can substitute it.
\<close>

subsection \<open>The tasks\<close>

definition unify_params :: "named_param list \<Rightarrow> named_param list" where
  "unify_params params = py_set params"

text \<open>The device and memory volumes that the build and the test task append.\<close>

definition device_volumes :: "volume list" where
  "device_volumes =
    [RawVolume (PDict [(''name'', PStr ''dev''),
       (''hostPath'', PDict [(''path'', PStr ''/dev''), (''type'', PStr ''Directory'')])]),
     RawVolume (PDict [(''name'', PStr ''build''),
       (''emptyDir'', PDict [(''medium'', PStr ''Memory'')])])]"

definition promote_task :: "render_env \<Rightarrow> (string \<times> string) list \<Rightarrow> volume list \<Rightarrow> volume_mount list \<Rightarrow>
    string option \<Rightarrow> (task \<times> string option) res" where
  "promote_task re env_vars volumes volume_mounts cached =
     bindR (clone_step re env_vars volume_mounts cached) (\<lambda>((clone_s, clone_p), cached').
     bindR (promote_step re env_vars volume_mounts) (\<lambda>(promote_s, promote_p).
     bindR (release_step re env_vars volume_mounts) (\<lambda>(release_s, release_p).
     bindR (create_component_descriptor_step re env_vars volume_mounts) (\<lambda>(create_component_descriptor_s, create_component_descriptor_p).
       Inr (mk_task ''promote-gardenlinux-task'' \<lparr>
         tsp_params = unify_params (clone_p @ promote_p @ release_p @ create_component_descriptor_p),
         tsp_steps = [clone_s, create_component_descriptor_s, promote_s, release_s],
         tsp_workspaces = [], tsp_volumes = volumes, tsp_results = Some [all_results R_manifest_set_key_result]\<rparr>, cached')))))"

definition build_task :: "render_env \<Rightarrow> (string \<times> string) list \<Rightarrow> volume list \<Rightarrow> volume_mount list \<Rightarrow>
    string option \<Rightarrow> (task \<times> string option) res" where
  "build_task re env_vars volumes volume_mounts cached =
     bindR (clone_step re env_vars volume_mounts cached) (\<lambda>((clone_s, clone_p), cached').
     bindR (pre_build_step re env_vars volume_mounts) (\<lambda>(pre_build_s, pre_build_p).
     bindR (write_key_step re env_vars volume_mounts) (\<lambda>(write_key_s, write_key_p).
     bindR (build_cert_step re env_vars volume_mounts) (\<lambda>(build_cert_s, build_cert_p).
     bindR (build_image_step re env_vars volume_mounts) (\<lambda>(build_image_s, build_image_p).
     bindR (upload_results_step re env_vars volume_mounts) (\<lambda>(upload_results_s, upload_results_p).
     bindR (promote_single_step re env_vars volume_mounts) (\<lambda>(promote_single_s, promote_single_p).
       Inr (mk_task ''build-gardenlinux-task'' \<lparr>
         tsp_params = unify_params (map all_params [P_build_image, P_gardenlinux_build_deb_image] @ clone_p @ pre_build_p @ write_key_p @ build_cert_p @ build_image_p @ upload_results_p @ promote_single_p),
         tsp_steps = [clone_s, pre_build_s, write_key_s, build_cert_s, build_image_s, upload_results_s, promote_single_s],
         tsp_workspaces = [], tsp_volumes = volumes @ device_volumes, tsp_results = Some [all_results R_build_result]\<rparr>, cached'))))))))"

definition test_task :: "render_env \<Rightarrow> (string \<times> string) list \<Rightarrow> volume list \<Rightarrow> volume_mount list \<Rightarrow>
    string option \<Rightarrow> (task \<times> string option) res" where
  "test_task re env_vars volumes volume_mounts cached =
     bindR (clone_step re env_vars volume_mounts cached) (\<lambda>((clone_s, clone_p), cached').
     bindR (pre_check_tests_step re env_vars volume_mounts) (\<lambda>(pre_check_tests_s, pre_check_tests_p).
     bindR (test_step re env_vars volume_mounts) (\<lambda>(test_s, test_p).
     bindR (upload_test_results_step re env_vars volume_mounts) (\<lambda>(upload_test_results_s, upload_test_results_p).
       Inr (mk_task ''integration-test-task'' \<lparr>
         tsp_params = unify_params (clone_p @ pre_check_tests_p @ test_p @ upload_test_results_p),
         tsp_steps = [clone_s, pre_check_tests_s, test_s, upload_test_results_s],
         tsp_workspaces = [], tsp_volumes = volumes @ device_volumes, tsp_results = None\<rparr>, cached')))))"

definition base_image_build_task :: "render_env \<Rightarrow> (string \<times> string) list \<Rightarrow> volume list \<Rightarrow> volume_mount list \<Rightarrow>
    string option \<Rightarrow> (task \<times> string option) res" where
  "base_image_build_task re env_vars volumes volume_mounts cached =
     bindR (clone_step re env_vars volume_mounts cached) (\<lambda>((clone_s, clone_p), cached').
     bindR (status_step re env_vars volume_mounts) (\<lambda>(status_s, status_p).
     bindR (build_base_image_step re env_vars volume_mounts) (\<lambda>(build_base_image_s, build_base_image_p).
       Inr (mk_task ''build-baseimage'' \<lparr>
         tsp_params = unify_params (clone_p @ status_p @ build_base_image_p),
         tsp_steps = [clone_s, status_s, build_base_image_s],
         tsp_workspaces = [], tsp_volumes = volumes, tsp_results = None\<rparr>, cached'))))"

definition notify_task :: "render_env \<Rightarrow> (string \<times> string) list \<Rightarrow> volume list \<Rightarrow> volume_mount list \<Rightarrow>
    string option \<Rightarrow> (task \<times> string option) res" where
  "notify_task re env_vars volumes volume_mounts cached =
     bindR (clone_step re env_vars volume_mounts cached) (\<lambda>((clone_s, clone_p), cached').
     bindR (get_logs_step re env_vars volume_mounts) (\<lambda>(get_logs_s, get_logs_p).
     bindR (attach_log_step re env_vars volume_mounts) (\<lambda>(attach_log_s, attach_log_p).
     bindR (notify_step re env_vars volume_mounts) (\<lambda>(notify_s, notify_p).
       Inr (mk_task ''notify-task'' \<lparr>
         tsp_params = unify_params (clone_p @ get_logs_p @ attach_log_p @ notify_p),
         tsp_steps = [clone_s, attach_log_s, get_logs_s, notify_s],
         tsp_workspaces = [], tsp_volumes = volumes, tsp_results = None\<rparr>, cached')))))"

text \<open>
  The two package tasks: the step that builds the package is made without volume mounts, and comes
  with the parameters it needs.
\<close>

definition package_task :: "string \<Rightarrow> task_step \<Rightarrow> named_param list \<Rightarrow> bool \<Rightarrow> render_env \<Rightarrow>
    (string \<times> string) list \<Rightarrow> volume list \<Rightarrow> volume_mount list \<Rightarrow> string option \<Rightarrow>
    (task \<times> string option) res" where
  "package_task name package_build_step package_build_params is_kernel_task re env_vars volumes
      volume_mounts cached =
     (let pkg_name = (if is_kernel_task then all_params P_pkg_names else all_params P_pkg_name);
          params = [pkg_name, all_params P_gardenlinux_build_deb_image] @ package_build_params in
     bindR (clone_step re env_vars volume_mounts cached) (\<lambda>((clone_s, clone_p), cached').
     bindR (write_key_step re env_vars volume_mounts) (\<lambda>(write_key_s, write_key_p).
     bindR (build_cert_step re env_vars volume_mounts) (\<lambda>(build_cert_s, build_cert_p).
     bindR (build_upload_packages_step re env_vars volume_mounts) (\<lambda>(upload_s, upload_p).
       Inr (mk_task name \<lparr>
         tsp_params = unify_params (params @ clone_p @ write_key_p @ build_cert_p @ upload_p),
         tsp_steps = [clone_s, write_key_s, build_cert_s, package_build_step, upload_s],
         tsp_workspaces = [], tsp_volumes = volumes, tsp_results = None\<rparr>, cached'))))))"

definition nokernel_package_task :: "render_env \<Rightarrow> (string \<times> string) list \<Rightarrow> volume list \<Rightarrow>
    volume_mount list \<Rightarrow> string option \<Rightarrow> (task \<times> string option) res" where
  "nokernel_package_task re env_vars volumes volume_mounts cached =
     bindR (build_package_step re env_vars []) (\<lambda>(package_build_step, step_params).
       package_task ''build-packages'' package_build_step step_params False re env_vars volumes
         volume_mounts cached)"

definition kernel_package_task :: "render_env \<Rightarrow> (string \<times> string) list \<Rightarrow> volume list \<Rightarrow>
    volume_mount list \<Rightarrow> string option \<Rightarrow> (task \<times> string option) res" where
  "kernel_package_task re env_vars volumes volume_mounts cached =
     bindR (build_kernel_package_step re env_vars []) (\<lambda>(package_build_step, step_params).
       package_task ''build-kernel-packages'' package_build_step step_params True re env_vars volumes
         volume_mounts cached)"

subsection \<open>Rendering all tasks\<close>

text \<open>
  \<open>getenv\<close> stands for \<open>os.getenv\<close>.  The tasks are built in the order of the code, the patch cache
  passed along, and returned in the order in which they are dumped.
\<close>

definition render_env_vars :: "bool \<Rightarrow> (string \<Rightarrow> string option) \<Rightarrow> (string \<times> string) list" where
  "render_env_vars use_secrets_server getenv =
     (let given = (\<lambda>k. case getenv k of Some v \<Rightarrow> if v \<noteq> [] then [(k, v)] else [] | None \<Rightarrow> []) in
      (if use_secrets_server then [] else [(''SECRETS_SERVER_CACHE'', ''/secrets/config.json'')]) @
      given ''SECRET_KEY'' @ given ''CONCOURSE_CURRENT_TEAM'' @
      given ''SECRETS_SERVER_CONCOURSE_CFG_NAME'' @ given ''SECRET_CIPHER_ALGORITHM'' @
      (if getenv ''SECRET_CIPHER_ALGORITHM'' = Some ''PLAINTEXT'' then [(''PYTHONPATH'', ''/cc/utils'')]
       else []) @
      [(''RUNNING_ON_CI'', ''true''), (''HOME'', ''/workspace/tekton_home'')])"

definition render_task :: "render_env \<Rightarrow> bool \<Rightarrow> (string \<Rightarrow> string option) \<Rightarrow> task list res" where
  "render_task re use_secrets_server getenv =
     (let volume_mounts = (if use_secrets_server then []
            else [\<lparr>vm_mountPath = ''/secrets'', vm_name = ''secrets''\<rparr>]);
          volumes = (if use_secrets_server then [] else [SecretVolume ''secrets'' ''secrets'']);
          env_vars = render_env_vars use_secrets_server getenv in
     bindR (base_image_build_task re env_vars volumes volume_mounts None) (\<lambda>(base_build, c).
     bindR (nokernel_package_task re env_vars volumes volume_mounts c) (\<lambda>(package, c).
     bindR (kernel_package_task re env_vars volumes volume_mounts c) (\<lambda>(kernel_package, c).
     bindR (build_task re env_vars volumes volume_mounts c) (\<lambda>(build, c).
     bindR (test_task re env_vars volumes volume_mounts c) (\<lambda>(test, c).
     bindR (promote_task re env_vars volumes volume_mounts c) (\<lambda>(promote, c).
     bindR (notify_task re env_vars volumes volume_mounts c) (\<lambda>(notify, c).
       Inr [base_build, build, kernel_package, package, test, promote, notify]))))))))"

subsection \<open>Every reference is declared\<close>

definition task_closed :: "task \<Rightarrow> bool" where
  "task_closed t \<longleftrightarrow> (\<forall>s \<in> set (task_steps t). step_refs s \<subseteq> np_name ` set (task_params t))"

text \<open>The parameters a task is expected to declare, up to order.\<close>

definition task_as :: "string \<Rightarrow> param_attr list \<Rightarrow> task \<Rightarrow> bool" where
  "task_as name as t \<longleftrightarrow> task_name t = name \<and> distinct (task_params t) \<and>
     set (task_params t) = all_params ` set as \<and> task_closed t"

lemma task_name_mk_task [simp]: "task_name (mk_task n sp) = n" "task_params (mk_task n sp) = tsp_params sp"
  "task_steps (mk_task n sp) = tsp_steps sp"
  by (simp_all add: mk_task_def)

lemma set_unify [simp]: "set (unify_params ps) = set ps" "distinct (unify_params ps)"
  by (simp_all add: unify_params_def)

lemma refs_in:
  assumes "step_refs s \<subseteq> param_name ` A \<union> np_name ` set ps" "all_params ` A \<subseteq> P" "set ps \<subseteq> P"
  shows "step_refs s \<subseteq> np_name ` P"
  using assms by fastforce

lemma same_attrs:
  assumes "list_all (\<lambda>x. x \<in> set ys) xs" "list_all (\<lambda>y. y \<in> set xs) ys"
  shows "set (map all_params xs) = all_params ` set ys"
proof -
  have "set xs = set ys" using assms by (auto simp: list_all_iff)
  then show ?thesis by simp
qed

definition promote_task_attrs :: "param_attr list" where
  "promote_task_attrs =
    [P_committish, P_giturl, P_repo_dir, P_pr_id, P_cicd_cfg_name, P_flavour_set_name,
     P_gardenlinux_epoch, P_promote_target, P_build_targets, P_version,
     P_ctx_repository_config_name, P_branch, P_snapshot_ctx_repository_config_name]"

lemma promote_task_ok:
  assumes ok: "step_files_ok (re_read re)" "cache_ok cached"
  shows "\<exists>t c. promote_task re env vols mounts cached = Inr (t, c) \<and> cache_ok c \<and>
    task_as ''promote-gardenlinux-task'' promote_task_attrs t"
proof -
  obtain clone_s c where clone: "clone_step re env mounts cached = Inr ((clone_s, clone_step_params), c)"
    "cache_ok c" "step_refs clone_s \<subseteq> param_name ` {P_repo_dir} \<union> np_name ` set clone_step_params"
    using clone_step_ok [OF ok] by blast
  obtain promote_s where promote: "promote_step re env mounts = Inr (promote_s, promote_step_params)"
    "step_refs promote_s \<subseteq> param_name ` {P_repo_dir} \<union> np_name ` set promote_step_params"
    using promote_step_ok [OF ok(1)] by blast
  obtain release_s where release: "release_step re env mounts = Inr (release_s, release_step_params)"
    "step_refs release_s \<subseteq> param_name ` {P_repo_dir} \<union> np_name ` set release_step_params"
    using release_step_ok [OF ok(1)] by blast
  obtain create_component_descriptor_s where create_component_descriptor: "create_component_descriptor_step re env mounts = Inr (create_component_descriptor_s, create_component_descriptor_step_params)"
    "step_refs create_component_descriptor_s \<subseteq> param_name ` {P_repo_dir} \<union> np_name ` set create_component_descriptor_step_params"
    using create_component_descriptor_step_ok [OF ok(1)] by blast
  define P where "P = clone_step_params @ promote_step_params @ release_step_params @ create_component_descriptor_step_params"
  have "P = map all_params ([P_committish, P_giturl, P_repo_dir, P_pr_id] @
      [P_cicd_cfg_name, P_committish, P_flavour_set_name, P_gardenlinux_epoch, P_promote_target,
      P_build_targets, P_version] @
      [P_build_targets, P_cicd_cfg_name, P_committish, P_ctx_repository_config_name,
      P_flavour_set_name, P_gardenlinux_epoch, P_giturl, P_repo_dir, P_version] @
      [P_branch, P_build_targets, P_cicd_cfg_name, P_committish, P_ctx_repository_config_name,
      P_flavour_set_name, P_gardenlinux_epoch, P_snapshot_ctx_repository_config_name, P_version])"
    by (simp only: P_def step_params_defs map_append list.map append_Cons append_Nil)
  then have params: "set P = all_params ` set promote_task_attrs"
    by (simp only:) (rule same_attrs; simp add: promote_task_attrs_def)
  have decl: "all_params ` {P_repo_dir} \<subseteq> set P"
    unfolding params by (rule image_mono) (simp add: promote_task_attrs_def)
  have clone_c: "step_refs clone_s \<subseteq> np_name ` set P"
    by (rule refs_in [OF clone(3)]) (use decl in blast, auto simp: P_def)
  have promote_c: "step_refs promote_s \<subseteq> np_name ` set P"
    by (rule refs_in [OF promote(2)]) (use decl in blast, auto simp: P_def)
  have release_c: "step_refs release_s \<subseteq> np_name ` set P"
    by (rule refs_in [OF release(2)]) (use decl in blast, auto simp: P_def)
  have create_component_descriptor_c: "step_refs create_component_descriptor_s \<subseteq> np_name ` set P"
    by (rule refs_in [OF create_component_descriptor(2)]) (use decl in blast, auto simp: P_def)
  note closed = clone_c promote_c release_c create_component_descriptor_c
  show ?thesis
    using promote(1) release(1) create_component_descriptor(1) clone(1,2) params
    by (simp add: promote_task_def task_as_def task_closed_def closed [unfolded params] flip: P_def)
qed

definition build_task_attrs :: "param_attr list" where
  "build_task_attrs =
    [P_build_image, P_gardenlinux_build_deb_image, P_committish, P_giturl, P_repo_dir,
     P_pr_id, P_architecture, P_cicd_cfg_name, P_gardenlinux_epoch, P_modifiers, P_platform,
     P_build_targets, P_version, P_key_config_name, P_suite, P_snapshot_timestamp, P_outfile]"

lemma build_task_ok:
  assumes ok: "step_files_ok (re_read re)" "cache_ok cached"
  shows "\<exists>t c. build_task re env vols mounts cached = Inr (t, c) \<and> cache_ok c \<and>
    task_as ''build-gardenlinux-task'' build_task_attrs t"
proof -
  obtain clone_s c where clone: "clone_step re env mounts cached = Inr ((clone_s, clone_step_params), c)"
    "cache_ok c" "step_refs clone_s \<subseteq> param_name ` {P_repo_dir} \<union> np_name ` set clone_step_params"
    using clone_step_ok [OF ok] by blast
  obtain pre_build_s where pre_build: "pre_build_step re env mounts = Inr (pre_build_s, pre_build_step_params)"
    "step_refs pre_build_s \<subseteq> param_name ` {P_repo_dir} \<union> np_name ` set pre_build_step_params"
    using pre_build_step_ok [OF ok(1)] by blast
  obtain write_key_s where write_key: "write_key_step re env mounts = Inr (write_key_s, write_key_step_params)"
    "step_refs write_key_s \<subseteq> param_name ` {P_repo_dir} \<union> np_name ` set write_key_step_params"
    using write_key_step_ok [OF ok(1)] by blast
  obtain build_cert_s where build_cert: "build_cert_step re env mounts = Inr (build_cert_s, build_cert_step_params)"
    "step_refs build_cert_s \<subseteq> param_name ` {P_gardenlinux_build_deb_image, P_repo_dir} \<union> np_name ` set build_cert_step_params"
    using build_cert_step_ok [OF ok(1)] by blast
  obtain build_image_s where build_image: "build_image_step re env mounts = Inr (build_image_s, build_image_step_params)"
    "step_refs build_image_s \<subseteq> param_name ` {P_build_image, P_outfile, P_repo_dir} \<union> np_name ` set build_image_step_params"
    using build_image_step_ok [OF ok(1)] by blast
  obtain upload_results_s where upload_results: "upload_results_step re env mounts = Inr (upload_results_s, upload_results_step_params)"
    "step_refs upload_results_s \<subseteq> param_name ` {P_repo_dir} \<union> np_name ` set upload_results_step_params"
    using upload_results_step_ok [OF ok(1)] by blast
  obtain promote_single_s where promote_single: "promote_single_step re env mounts = Inr (promote_single_s, promote_single_step_params)"
    "step_refs promote_single_s \<subseteq> param_name ` {P_repo_dir} \<union> np_name ` set promote_single_step_params"
    using promote_single_step_ok [OF ok(1)] by blast
  define P where "P = all_params P_build_image # all_params P_gardenlinux_build_deb_image # clone_step_params @ pre_build_step_params @ write_key_step_params @ build_cert_step_params @ build_image_step_params @ upload_results_step_params @ promote_single_step_params"
  have "P = map all_params ([P_build_image, P_gardenlinux_build_deb_image] @
      [P_committish, P_giturl, P_repo_dir, P_pr_id] @
      [P_architecture, P_cicd_cfg_name, P_committish, P_gardenlinux_epoch, P_modifiers,
      P_platform, P_build_targets, P_version] @
      [P_repo_dir, P_key_config_name] @
      [P_repo_dir] @
      [P_suite, P_gardenlinux_epoch, P_snapshot_timestamp, P_platform, P_modifiers,
      P_architecture, P_committish, P_version] @
      [P_architecture, P_cicd_cfg_name, P_committish, P_gardenlinux_epoch, P_modifiers,
      P_outfile, P_platform, P_build_targets, P_version, P_build_image] @
      [P_architecture, P_cicd_cfg_name, P_committish, P_gardenlinux_epoch, P_modifiers,
      P_platform, P_build_targets, P_version])"
    by (simp only: P_def step_params_defs map_append list.map append_Cons append_Nil)
  then have params: "set P = all_params ` set build_task_attrs"
    by (simp only:) (rule same_attrs; simp add: build_task_attrs_def)
  have decl: "all_params ` {P_build_image, P_gardenlinux_build_deb_image, P_outfile, P_repo_dir} \<subseteq> set P"
    unfolding params by (rule image_mono) (simp add: build_task_attrs_def)
  have clone_c: "step_refs clone_s \<subseteq> np_name ` set P"
    by (rule refs_in [OF clone(3)]) (use decl in blast, auto simp: P_def)
  have pre_build_c: "step_refs pre_build_s \<subseteq> np_name ` set P"
    by (rule refs_in [OF pre_build(2)]) (use decl in blast, auto simp: P_def)
  have write_key_c: "step_refs write_key_s \<subseteq> np_name ` set P"
    by (rule refs_in [OF write_key(2)]) (use decl in blast, auto simp: P_def)
  have build_cert_c: "step_refs build_cert_s \<subseteq> np_name ` set P"
    by (rule refs_in [OF build_cert(2)]) (use decl in blast, auto simp: P_def)
  have build_image_c: "step_refs build_image_s \<subseteq> np_name ` set P"
    by (rule refs_in [OF build_image(2)]) (use decl in blast, auto simp: P_def)
  have upload_results_c: "step_refs upload_results_s \<subseteq> np_name ` set P"
    by (rule refs_in [OF upload_results(2)]) (use decl in blast, auto simp: P_def)
  have promote_single_c: "step_refs promote_single_s \<subseteq> np_name ` set P"
    by (rule refs_in [OF promote_single(2)]) (use decl in blast, auto simp: P_def)
  note closed = clone_c pre_build_c write_key_c build_cert_c build_image_c upload_results_c promote_single_c
  show ?thesis
    using pre_build(1) write_key(1) build_cert(1) build_image(1) upload_results(1) promote_single(1) clone(1,2) params
    by (simp add: build_task_def task_as_def task_closed_def closed [unfolded params] flip: P_def)
qed

definition test_task_attrs :: "param_attr list" where
  "test_task_attrs =
    [P_committish, P_giturl, P_repo_dir, P_pr_id, P_architecture, P_cicd_cfg_name,
     P_gardenlinux_epoch, P_modifiers, P_platform, P_build_targets, P_version,
     P_snapshot_timestamp, P_suite, P_pytest_cfg]"

lemma test_task_ok:
  assumes ok: "step_files_ok (re_read re)" "cache_ok cached"
  shows "\<exists>t c. test_task re env vols mounts cached = Inr (t, c) \<and> cache_ok c \<and>
    task_as ''integration-test-task'' test_task_attrs t"
proof -
  obtain clone_s c where clone: "clone_step re env mounts cached = Inr ((clone_s, clone_step_params), c)"
    "cache_ok c" "step_refs clone_s \<subseteq> param_name ` {P_repo_dir} \<union> np_name ` set clone_step_params"
    using clone_step_ok [OF ok] by blast
  obtain pre_check_tests_s where pre_check_tests: "pre_check_tests_step re env mounts = Inr (pre_check_tests_s, pre_check_tests_step_params)"
    "step_refs pre_check_tests_s \<subseteq> param_name ` {P_repo_dir} \<union> np_name ` set pre_check_tests_step_params"
    using pre_check_tests_step_ok [OF ok(1)] by blast
  obtain test_s where test: "test_step re env mounts = Inr (test_s, test_step_params)"
    "step_refs test_s \<subseteq> param_name ` {P_repo_dir} \<union> np_name ` set test_step_params"
    using test_step_ok [OF ok(1)] by blast
  obtain upload_test_results_s where upload_test_results: "upload_test_results_step re env mounts = Inr (upload_test_results_s, upload_test_results_step_params)"
    "step_refs upload_test_results_s \<subseteq> param_name ` {P_repo_dir} \<union> np_name ` set upload_test_results_step_params"
    using upload_test_results_step_ok [OF ok(1)] by blast
  define P where "P = clone_step_params @ pre_check_tests_step_params @ test_step_params @ upload_test_results_step_params"
  have "P = map all_params ([P_committish, P_giturl, P_repo_dir, P_pr_id] @
      [P_architecture, P_cicd_cfg_name, P_committish, P_gardenlinux_epoch, P_modifiers,
      P_platform, P_build_targets, P_version] @
      [P_architecture, P_cicd_cfg_name, P_committish, P_gardenlinux_epoch, P_modifiers,
      P_platform, P_build_targets, P_repo_dir, P_snapshot_timestamp, P_suite, P_version,
      P_pytest_cfg] @
      [P_architecture, P_cicd_cfg_name, P_committish, P_gardenlinux_epoch, P_modifiers,
      P_platform, P_build_targets, P_repo_dir, P_version])"
    by (simp only: P_def step_params_defs map_append list.map append_Cons append_Nil)
  then have params: "set P = all_params ` set test_task_attrs"
    by (simp only:) (rule same_attrs; simp add: test_task_attrs_def)
  have decl: "all_params ` {P_repo_dir} \<subseteq> set P"
    unfolding params by (rule image_mono) (simp add: test_task_attrs_def)
  have clone_c: "step_refs clone_s \<subseteq> np_name ` set P"
    by (rule refs_in [OF clone(3)]) (use decl in blast, auto simp: P_def)
  have pre_check_tests_c: "step_refs pre_check_tests_s \<subseteq> np_name ` set P"
    by (rule refs_in [OF pre_check_tests(2)]) (use decl in blast, auto simp: P_def)
  have test_c: "step_refs test_s \<subseteq> np_name ` set P"
    by (rule refs_in [OF test(2)]) (use decl in blast, auto simp: P_def)
  have upload_test_results_c: "step_refs upload_test_results_s \<subseteq> np_name ` set P"
    by (rule refs_in [OF upload_test_results(2)]) (use decl in blast, auto simp: P_def)
  note closed = clone_c pre_check_tests_c test_c upload_test_results_c
  show ?thesis
    using pre_check_tests(1) test(1) upload_test_results(1) clone(1,2) params
    by (simp add: test_task_def task_as_def task_closed_def closed [unfolded params] flip: P_def)
qed

definition base_image_build_task_attrs :: "param_attr list" where
  "base_image_build_task_attrs =
    [P_committish, P_giturl, P_repo_dir, P_pr_id, P_pipeline_run_name, P_namespace,
     P_build_image, P_gardenlinux_build_deb_image, P_oci_path, P_version_label, P_build_targets]"

lemma base_image_build_task_ok:
  assumes ok: "step_files_ok (re_read re)" "cache_ok cached"
  shows "\<exists>t c. base_image_build_task re env vols mounts cached = Inr (t, c) \<and> cache_ok c \<and>
    task_as ''build-baseimage'' base_image_build_task_attrs t"
proof -
  obtain clone_s c where clone: "clone_step re env mounts cached = Inr ((clone_s, clone_step_params), c)"
    "cache_ok c" "step_refs clone_s \<subseteq> param_name ` {P_repo_dir} \<union> np_name ` set clone_step_params"
    using clone_step_ok [OF ok] by blast
  obtain status_s where status: "status_step re env mounts = Inr (status_s, status_step_params)"
    "step_refs status_s \<subseteq> param_name ` {P_repo_dir} \<union> np_name ` set status_step_params"
    using status_step_ok [OF ok(1)] by blast
  obtain build_base_image_s where build_base_image: "build_base_image_step re env mounts = Inr (build_base_image_s, build_base_image_step_params)"
    "step_refs build_base_image_s \<subseteq> param_name ` {P_repo_dir} \<union> np_name ` set build_base_image_step_params"
    using build_base_image_step_ok [OF ok(1)] by blast
  define P where "P = clone_step_params @ status_step_params @ build_base_image_step_params"
  have "P = map all_params ([P_committish, P_giturl, P_repo_dir, P_pr_id] @
      [P_committish, P_giturl, P_pipeline_run_name, P_namespace] @
      [P_build_image, P_gardenlinux_build_deb_image, P_oci_path, P_repo_dir, P_version_label,
      P_build_targets])"
    by (simp only: P_def step_params_defs map_append list.map append_Cons append_Nil)
  then have params: "set P = all_params ` set base_image_build_task_attrs"
    by (simp only:) (rule same_attrs; simp add: base_image_build_task_attrs_def)
  have decl: "all_params ` {P_repo_dir} \<subseteq> set P"
    unfolding params by (rule image_mono) (simp add: base_image_build_task_attrs_def)
  have clone_c: "step_refs clone_s \<subseteq> np_name ` set P"
    by (rule refs_in [OF clone(3)]) (use decl in blast, auto simp: P_def)
  have status_c: "step_refs status_s \<subseteq> np_name ` set P"
    by (rule refs_in [OF status(2)]) (use decl in blast, auto simp: P_def)
  have build_base_image_c: "step_refs build_base_image_s \<subseteq> np_name ` set P"
    by (rule refs_in [OF build_base_image(2)]) (use decl in blast, auto simp: P_def)
  note closed = clone_c status_c build_base_image_c
  show ?thesis
    using status(1) build_base_image(1) clone(1,2) params
    by (simp add: base_image_build_task_def task_as_def task_closed_def closed [unfolded params] flip: P_def)
qed

definition notify_task_attrs :: "param_attr list" where
  "notify_task_attrs =
    [P_committish, P_giturl, P_repo_dir, P_pr_id, P_pipeline_run_name, P_namespace,
     P_architecture, P_build_tasks, P_build_targets, P_cicd_cfg_name, P_flavour_set_name,
     P_gardenlinux_epoch, P_platform_set, P_version, P_additional_recipients, P_branch,
     P_disable_notifications, P_only_recipients, P_pipeline_name, P_status_dict_str]"

lemma notify_task_ok:
  assumes ok: "step_files_ok (re_read re)" "cache_ok cached"
  shows "\<exists>t c. notify_task re env vols mounts cached = Inr (t, c) \<and> cache_ok c \<and>
    task_as ''notify-task'' notify_task_attrs t"
proof -
  obtain clone_s c where clone: "clone_step re env mounts cached = Inr ((clone_s, clone_step_params), c)"
    "cache_ok c" "step_refs clone_s \<subseteq> param_name ` {P_repo_dir} \<union> np_name ` set clone_step_params"
    using clone_step_ok [OF ok] by blast
  obtain get_logs_s where get_logs: "get_logs_step re env mounts = Inr (get_logs_s, get_logs_step_params)"
    "step_refs get_logs_s \<subseteq> param_name ` {P_repo_dir} \<union> np_name ` set get_logs_step_params"
    using get_logs_step_ok [OF ok(1)] by blast
  obtain attach_log_s where attach_log: "attach_log_step re env mounts = Inr (attach_log_s, attach_log_step_params)"
    "step_refs attach_log_s \<subseteq> param_name ` {P_repo_dir} \<union> np_name ` set attach_log_step_params"
    using attach_log_step_ok [OF ok(1)] by blast
  obtain notify_s where notify: "notify_step re env mounts = Inr (notify_s, notify_step_params)"
    "step_refs notify_s \<subseteq> param_name ` {P_repo_dir} \<union> np_name ` set notify_step_params"
    using notify_step_ok [OF ok(1)] by blast
  define P where "P = clone_step_params @ get_logs_step_params @ attach_log_step_params @ notify_step_params"
  have "P = map all_params ([P_committish, P_giturl, P_repo_dir, P_pr_id] @
      [P_repo_dir, P_pipeline_run_name, P_namespace] @
      [P_architecture, P_build_tasks, P_build_targets, P_cicd_cfg_name, P_committish,
      P_flavour_set_name, P_gardenlinux_epoch, P_namespace, P_pipeline_run_name,
      P_platform_set, P_repo_dir, P_version] @
      [P_additional_recipients, P_branch, P_cicd_cfg_name, P_committish,
      P_disable_notifications, P_giturl, P_namespace, P_only_recipients, P_pipeline_name,
      P_pipeline_run_name, P_repo_dir, P_status_dict_str, P_pr_id])"
    by (simp only: P_def step_params_defs map_append list.map append_Cons append_Nil)
  then have params: "set P = all_params ` set notify_task_attrs"
    by (simp only:) (rule same_attrs; simp add: notify_task_attrs_def)
  have decl: "all_params ` {P_repo_dir} \<subseteq> set P"
    unfolding params by (rule image_mono) (simp add: notify_task_attrs_def)
  have clone_c: "step_refs clone_s \<subseteq> np_name ` set P"
    by (rule refs_in [OF clone(3)]) (use decl in blast, auto simp: P_def)
  have get_logs_c: "step_refs get_logs_s \<subseteq> np_name ` set P"
    by (rule refs_in [OF get_logs(2)]) (use decl in blast, auto simp: P_def)
  have attach_log_c: "step_refs attach_log_s \<subseteq> np_name ` set P"
    by (rule refs_in [OF attach_log(2)]) (use decl in blast, auto simp: P_def)
  have notify_c: "step_refs notify_s \<subseteq> np_name ` set P"
    by (rule refs_in [OF notify(2)]) (use decl in blast, auto simp: P_def)
  note closed = clone_c get_logs_c attach_log_c notify_c
  show ?thesis
    using get_logs(1) attach_log(1) notify(1) clone(1,2) params
    by (simp add: notify_task_def task_as_def task_closed_def closed [unfolded params] flip: P_def)
qed

definition nokernel_package_task_attrs :: "param_attr list" where
  "nokernel_package_task_attrs =
    [P_pkg_name, P_gardenlinux_build_deb_image, P_repo_dir, P_committish, P_giturl, P_pr_id,
     P_key_config_name, P_cicd_cfg_name, P_s3_package_path]"

lemma nokernel_package_task_ok:
  assumes ok: "step_files_ok (re_read re)" "cache_ok cached"
  shows "\<exists>t c. nokernel_package_task re env vols mounts cached = Inr (t, c) \<and> cache_ok c \<and>
    task_as ''build-packages'' nokernel_package_task_attrs t"
proof -
  obtain build_package_s where build_package: "build_package_step re env [] = Inr (build_package_s, build_package_step_params)"
    "step_refs build_package_s \<subseteq> param_name ` {P_gardenlinux_build_deb_image, P_repo_dir} \<union> np_name ` set build_package_step_params"
    using build_package_step_ok [OF ok(1)] by blast
  obtain clone_s c where clone: "clone_step re env mounts cached = Inr ((clone_s, clone_step_params), c)"
    "cache_ok c" "step_refs clone_s \<subseteq> param_name ` {P_repo_dir} \<union> np_name ` set clone_step_params"
    using clone_step_ok [OF ok] by blast
  obtain write_key_s where write_key: "write_key_step re env mounts = Inr (write_key_s, write_key_step_params)"
    "step_refs write_key_s \<subseteq> param_name ` {P_repo_dir} \<union> np_name ` set write_key_step_params"
    using write_key_step_ok [OF ok(1)] by blast
  obtain build_cert_s where build_cert: "build_cert_step re env mounts = Inr (build_cert_s, build_cert_step_params)"
    "step_refs build_cert_s \<subseteq> param_name ` {P_gardenlinux_build_deb_image, P_repo_dir} \<union> np_name ` set build_cert_step_params"
    using build_cert_step_ok [OF ok(1)] by blast
  obtain build_upload_packages_s where build_upload_packages: "build_upload_packages_step re env mounts = Inr (build_upload_packages_s, build_upload_packages_step_params)"
    "step_refs build_upload_packages_s \<subseteq> param_name ` {P_repo_dir} \<union> np_name ` set build_upload_packages_step_params"
    using build_upload_packages_step_ok [OF ok(1)] by blast
  define P where "P = all_params P_pkg_name # all_params P_gardenlinux_build_deb_image # build_package_step_params @ clone_step_params @ write_key_step_params @ build_cert_step_params @ build_upload_packages_step_params"
  have "P = map all_params ([P_pkg_name, P_gardenlinux_build_deb_image] @
      [P_repo_dir, P_pkg_name] @
      [P_committish, P_giturl, P_repo_dir, P_pr_id] @
      [P_repo_dir, P_key_config_name] @
      [P_repo_dir] @
      [P_cicd_cfg_name, P_s3_package_path])"
    by (simp only: P_def step_params_defs map_append list.map append_Cons append_Nil)
  then have params: "set P = all_params ` set nokernel_package_task_attrs"
    by (simp only:) (rule same_attrs; simp add: nokernel_package_task_attrs_def)
  have decl: "all_params ` {P_gardenlinux_build_deb_image, P_repo_dir} \<subseteq> set P"
    unfolding params by (rule image_mono) (simp add: nokernel_package_task_attrs_def)
  have build_package_c: "step_refs build_package_s \<subseteq> np_name ` set P"
    by (rule refs_in [OF build_package(2)]) (use decl in blast, auto simp: P_def)
  have clone_c: "step_refs clone_s \<subseteq> np_name ` set P"
    by (rule refs_in [OF clone(3)]) (use decl in blast, auto simp: P_def)
  have write_key_c: "step_refs write_key_s \<subseteq> np_name ` set P"
    by (rule refs_in [OF write_key(2)]) (use decl in blast, auto simp: P_def)
  have build_cert_c: "step_refs build_cert_s \<subseteq> np_name ` set P"
    by (rule refs_in [OF build_cert(2)]) (use decl in blast, auto simp: P_def)
  have build_upload_packages_c: "step_refs build_upload_packages_s \<subseteq> np_name ` set P"
    by (rule refs_in [OF build_upload_packages(2)]) (use decl in blast, auto simp: P_def)
  note closed = build_package_c clone_c write_key_c build_cert_c build_upload_packages_c
  show ?thesis
    using build_package(1) write_key(1) build_cert(1) build_upload_packages(1) clone(1,2) params
    by (simp add: nokernel_package_task_def package_task_def Let_def task_as_def task_closed_def closed [unfolded params] flip: P_def)
qed

definition kernel_package_task_attrs :: "param_attr list" where
  "kernel_package_task_attrs =
    [P_pkg_names, P_gardenlinux_build_deb_image, P_repo_dir, P_committish, P_giturl, P_pr_id,
     P_key_config_name, P_cicd_cfg_name, P_s3_package_path]"

lemma kernel_package_task_ok:
  assumes ok: "step_files_ok (re_read re)" "cache_ok cached"
  shows "\<exists>t c. kernel_package_task re env vols mounts cached = Inr (t, c) \<and> cache_ok c \<and>
    task_as ''build-kernel-packages'' kernel_package_task_attrs t"
proof -
  obtain build_kernel_package_s where build_kernel_package: "build_kernel_package_step re env [] = Inr (build_kernel_package_s, build_kernel_package_step_params)"
    "step_refs build_kernel_package_s \<subseteq> param_name ` {P_gardenlinux_build_deb_image, P_repo_dir} \<union> np_name ` set build_kernel_package_step_params"
    using build_kernel_package_step_ok [OF ok(1)] by blast
  obtain clone_s c where clone: "clone_step re env mounts cached = Inr ((clone_s, clone_step_params), c)"
    "cache_ok c" "step_refs clone_s \<subseteq> param_name ` {P_repo_dir} \<union> np_name ` set clone_step_params"
    using clone_step_ok [OF ok] by blast
  obtain write_key_s where write_key: "write_key_step re env mounts = Inr (write_key_s, write_key_step_params)"
    "step_refs write_key_s \<subseteq> param_name ` {P_repo_dir} \<union> np_name ` set write_key_step_params"
    using write_key_step_ok [OF ok(1)] by blast
  obtain build_cert_s where build_cert: "build_cert_step re env mounts = Inr (build_cert_s, build_cert_step_params)"
    "step_refs build_cert_s \<subseteq> param_name ` {P_gardenlinux_build_deb_image, P_repo_dir} \<union> np_name ` set build_cert_step_params"
    using build_cert_step_ok [OF ok(1)] by blast
  obtain build_upload_packages_s where build_upload_packages: "build_upload_packages_step re env mounts = Inr (build_upload_packages_s, build_upload_packages_step_params)"
    "step_refs build_upload_packages_s \<subseteq> param_name ` {P_repo_dir} \<union> np_name ` set build_upload_packages_step_params"
    using build_upload_packages_step_ok [OF ok(1)] by blast
  define P where "P = all_params P_pkg_names # all_params P_gardenlinux_build_deb_image # build_kernel_package_step_params @ clone_step_params @ write_key_step_params @ build_cert_step_params @ build_upload_packages_step_params"
  have "P = map all_params ([P_pkg_names, P_gardenlinux_build_deb_image] @
      [P_repo_dir, P_pkg_names] @
      [P_committish, P_giturl, P_repo_dir, P_pr_id] @
      [P_repo_dir, P_key_config_name] @
      [P_repo_dir] @
      [P_cicd_cfg_name, P_s3_package_path])"
    by (simp only: P_def step_params_defs map_append list.map append_Cons append_Nil)
  then have params: "set P = all_params ` set kernel_package_task_attrs"
    by (simp only:) (rule same_attrs; simp add: kernel_package_task_attrs_def)
  have decl: "all_params ` {P_gardenlinux_build_deb_image, P_repo_dir} \<subseteq> set P"
    unfolding params by (rule image_mono) (simp add: kernel_package_task_attrs_def)
  have build_kernel_package_c: "step_refs build_kernel_package_s \<subseteq> np_name ` set P"
    by (rule refs_in [OF build_kernel_package(2)]) (use decl in blast, auto simp: P_def)
  have clone_c: "step_refs clone_s \<subseteq> np_name ` set P"
    by (rule refs_in [OF clone(3)]) (use decl in blast, auto simp: P_def)
  have write_key_c: "step_refs write_key_s \<subseteq> np_name ` set P"
    by (rule refs_in [OF write_key(2)]) (use decl in blast, auto simp: P_def)
  have build_cert_c: "step_refs build_cert_s \<subseteq> np_name ` set P"
    by (rule refs_in [OF build_cert(2)]) (use decl in blast, auto simp: P_def)
  have build_upload_packages_c: "step_refs build_upload_packages_s \<subseteq> np_name ` set P"
    by (rule refs_in [OF build_upload_packages(2)]) (use decl in blast, auto simp: P_def)
  note closed = build_kernel_package_c clone_c write_key_c build_cert_c build_upload_packages_c
  show ?thesis
    using build_kernel_package(1) write_key(1) build_cert(1) build_upload_packages(1) clone(1,2) params
    by (simp add: kernel_package_task_def package_task_def Let_def task_as_def task_closed_def closed [unfolded params] flip: P_def)
qed

lemma cache_ok_None: "cache_ok None"
  by (simp add: cache_ok_def)

lemma render_task_as:
  assumes "step_files_ok (re_read re)"
  obtains a b k p t m n where
    "render_task re use_secrets_server getenv = Inr [a, b, k, p, t, m, n]"
    "task_as ''build-baseimage'' base_image_build_task_attrs a"
    "task_as ''build-gardenlinux-task'' build_task_attrs b"
    "task_as ''build-kernel-packages'' kernel_package_task_attrs k"
    "task_as ''build-packages'' nokernel_package_task_attrs p"
    "task_as ''integration-test-task'' test_task_attrs t"
    "task_as ''promote-gardenlinux-task'' promote_task_attrs m"
    "task_as ''notify-task'' notify_task_attrs n"
proof -
  define mounts where "mounts = (if use_secrets_server then []
            else [\<lparr>vm_mountPath = ''/secrets'', vm_name = ''secrets''\<rparr>])"
  define vols where "vols = (if use_secrets_server then [] else [SecretVolume ''secrets'' ''secrets''])"
  define env where "env = render_env_vars use_secrets_server getenv"
  obtain a c1 where a: "base_image_build_task re env vols mounts None = Inr (a, c1)" "cache_ok c1"
    "task_as ''build-baseimage'' base_image_build_task_attrs a"
    using base_image_build_task_ok [OF assms cache_ok_None] by blast
  obtain p c2 where p: "nokernel_package_task re env vols mounts c1 = Inr (p, c2)" "cache_ok c2"
    "task_as ''build-packages'' nokernel_package_task_attrs p"
    using nokernel_package_task_ok [OF assms a(2)] by blast
  obtain k c3 where k: "kernel_package_task re env vols mounts c2 = Inr (k, c3)" "cache_ok c3"
    "task_as ''build-kernel-packages'' kernel_package_task_attrs k"
    using kernel_package_task_ok [OF assms p(2)] by blast
  obtain b c4 where b: "build_task re env vols mounts c3 = Inr (b, c4)" "cache_ok c4"
    "task_as ''build-gardenlinux-task'' build_task_attrs b"
    using build_task_ok [OF assms k(2)] by blast
  obtain t c5 where t: "test_task re env vols mounts c4 = Inr (t, c5)" "cache_ok c5"
    "task_as ''integration-test-task'' test_task_attrs t"
    using test_task_ok [OF assms b(2)] by blast
  obtain m c6 where m: "promote_task re env vols mounts c5 = Inr (m, c6)" "cache_ok c6"
    "task_as ''promote-gardenlinux-task'' promote_task_attrs m"
    using promote_task_ok [OF assms t(2)] by blast
  obtain n c7 where n: "notify_task re env vols mounts c6 = Inr (n, c7)"
    "task_as ''notify-task'' notify_task_attrs n"
    using notify_task_ok [OF assms m(2)] by blast
  have "render_task re use_secrets_server getenv = Inr [a, b, k, p, t, m, n]"
    using a(1) p(1) k(1) b(1) t(1) m(1) n(1)
    by (simp add: render_task_def Let_def flip: mounts_def vols_def env_def)
  then show ?thesis by (rule that [OF _ a(3) b(3) k(3) p(3) t(3) m(3) n(2)])
qed

subsection \<open>Properties\<close>

text \<open>
  C4: rendering the tasks succeeds whenever the files of the steps can be read, and every task
  declares every parameter that the script or the image of one of its steps refers to, each
  parameter once; so Tekton can substitute all references.
\<close>

theorem rendered_tasks_closed:
  assumes "step_files_ok (re_read re)"
  shows "\<exists>ts. render_task re use_secrets_server getenv = Inr ts \<and>
    map task_name ts = [''build-baseimage'', ''build-gardenlinux-task'', ''build-kernel-packages'',
      ''build-packages'', ''integration-test-task'', ''promote-gardenlinux-task'', ''notify-task''] \<and>
    (\<forall>t \<in> set ts. distinct (map np_name (task_params t)) \<and>
      (\<forall>s \<in> set (task_steps t). set (refs (ts_script s)) \<union> set (refs (ts_image s)) \<subseteq>
         np_name ` set (task_params t)))"
proof -
  have names: "distinct (map np_name (task_params t))" if "task_as n as t" for n as t
  proof -
    have "inj_on np_name (all_params ` set as)"
      using param_name_inj by (auto intro!: inj_onI)
    then show ?thesis using that by (simp add: task_as_def distinct_map)
  qed
  have closed: "\<forall>s \<in> set (task_steps t). set (refs (ts_script s)) \<union> set (refs (ts_image s)) \<subseteq>
      np_name ` set (task_params t)" if "task_as n as t" for n as t
    using that unfolding task_as_def task_closed_def step_refs_def by blast
  have name: "task_name t = n" if "task_as n as t" for n as t
    using that by (simp add: task_as_def)
  obtain a b k p t m n where *: "render_task re use_secrets_server getenv = Inr [a, b, k, p, t, m, n]"
    and as: "task_as ''build-baseimage'' base_image_build_task_attrs a"
    "task_as ''build-gardenlinux-task'' build_task_attrs b"
    "task_as ''build-kernel-packages'' kernel_package_task_attrs k"
    "task_as ''build-packages'' nokernel_package_task_attrs p"
    "task_as ''integration-test-task'' test_task_attrs t"
    "task_as ''promote-gardenlinux-task'' promote_task_attrs m"
    "task_as ''notify-task'' notify_task_attrs n"
    by (rule render_task_as [OF assms])
  show ?thesis
    using * as [THEN name] as [THEN names] as [THEN closed]
    by (intro exI [of _ "[a, b, k, p, t, m, n]"]) simp
qed

definition sample_read :: "string \<Rightarrow> string res" where
  "sample_read p = Inr (if p = step_path ''build_image.sh'' then ''cd '' @ param_ref ''repo_dir'' @ '' && make''
     else ''set -e'')"

definition sample_render_env :: render_env where
  "sample_render_env = \<lparr>re_read = sample_read, re_patch_branch = Some ''main'',
     re_clone = \<lparr>ce_untracked = [''new.txt''], ce_diff = (\<lambda>_ _. ''diff'')\<rparr>\<rparr>"

lemma sample_files_ok: "step_files_ok (re_read sample_render_env)"
proof -
  have r: "refs (''cd '' @ param_ref ''repo_dir'' @ '' && make'') = [''repo_dir''] \<and>
      closed_refs (''cd '' @ param_ref ''repo_dir'' @ '' && make'')"
    using wrap_refs [of "''cd ''" "param_ref ''repo_dir''" "'' && make''"]
      param_ref_refs [OF param_name_ident [of P_repo_dir]]
    by (simp add: plain_def)
  have e: "refs ''set -e'' = [] \<and> closed_refs ''set -e''"
    using no_dollar [of "''set -e''"] by simp
  have "\<exists>s. sample_read (step_path f) = Inr s \<and> closed_refs s \<and> set (refs s) \<subseteq> set (file_refs f)" for f
    using r e by (cases "f = ''build_image.sh''") (simp_all add: sample_read_def step_path_def file_refs_def)
  then show ?thesis by (simp add: step_files_ok_def sample_render_env_def)
qed

theorem rendered_tasks_closed_witness:
  "\<exists>ts. render_task sample_render_env False (\<lambda>_. None) = Inr ts \<and> length ts = 7"
proof (rule exE [OF rendered_tasks_closed [OF sample_files_ok, of False "\<lambda>_. None"]], elim conjE)
  fix ts
  assume "render_task sample_render_env False (\<lambda>_. None) = Inr ts"
    and names: "map task_name ts = [''build-baseimage'', ''build-gardenlinux-task'',
      ''build-kernel-packages'', ''build-packages'', ''integration-test-task'',
      ''promote-gardenlinux-task'', ''notify-task'']"
  moreover have "length ts = 7" using arg_cong [OF names, of length] by simp
  ultimately show ?thesis by blast
qed


end
