(* ===== verification/Enums.thy ===== *)
theory Enums
  imports Py_Strings
begin

text \<open>
  The string-valued enumerations of the code, one datatype per \<open>enum.Enum\<close> class with the class's
  members in its order.  Each comes with its member list (\<open>*_members\<close>), its values (\<open>*_value\<close>, the
  \<open>.value\<close> attribute) and its constructor from a value (\<open>*_of\<close>, the call \<open>BuildTarget(s)\<close>, which
  raises \<open>ValueError\<close> for a string that is no value of the class).  What all of them share is
  proved once in the locale \<open>string_enum\<close>: constructing from a member's value gives the member
  back, and nothing else constructs it.
\<close>

subsection \<open>The contract of a string-valued enumeration\<close>

definition enum_of :: "'a list \<Rightarrow> ('a \<Rightarrow> string) \<Rightarrow> string \<Rightarrow> 'a res" where
  "enum_of members value s =
     (case find (\<lambda>m. value m = s) members of None \<Rightarrow> Inl (ValueError s) | Some m \<Rightarrow> Inr m)"

locale string_enum =
  fixes members :: "'a list" and val :: "'a \<Rightarrow> string" and of_val :: "string \<Rightarrow> 'a res"
  assumes all_members: "x \<in> set members"
    and distinct_values: "distinct (map val members)"
    and of_val_def: "of_val s = enum_of members val s"
begin

lemma val_inj: "val x = val y \<Longrightarrow> x = y"
  using all_members [of x] all_members [of y] distinct_values
  by (auto simp: distinct_map dest: inj_onD)

lemma of_val_val: "of_val (val x) = Inr x"
proof -
  have "find (\<lambda>m. val m = val x) members \<noteq> None"
    using all_members [of x] by (auto simp: find_None_iff)
  then obtain y where y: "find (\<lambda>m. val m = val x) members = Some y" by blast
  then have "val y = val x" by (auto dest: find_Some_mem)
  then have "y = x" by (rule val_inj)
  with y show ?thesis by (simp add: of_val_def enum_of_def)
qed

lemma of_val_Inr: "of_val s = Inr x \<longleftrightarrow> s = val x"
proof
  assume "of_val s = Inr x"
  then show "s = val x"
    by (auto simp: of_val_def enum_of_def dest: find_Some_mem split: option.splits)
qed (simp add: of_val_val)

lemma of_val_Inl: "of_val s = Inl e \<longleftrightarrow> e = ValueError s \<and> s \<notin> range val"
proof
  assume "of_val s = Inl e"
  then show "e = ValueError s \<and> s \<notin> range val"
    using all_members
    by (auto simp: of_val_def enum_of_def find_None_iff split: option.splits)
next
  assume *: "e = ValueError s \<and> s \<notin> range val"
  then have "find (\<lambda>m. val m = s) members = None"
    by (auto simp: find_None_iff)
  with * show "of_val s = Inl e" by (simp add: of_val_def enum_of_def)
qed

end

subsection \<open>The enumerations\<close>

text \<open>\<open>BuildTarget\<close> of \<open>ci/glci/model.py\<close>.\<close>

datatype build_target = BASE_BUILD | BUILD | MANIFEST | COMPONENT_DESCRIPTOR | TESTS | PUBLISH | FREEZE_VERSION | GITHUB_RELEASE

primrec build_target_value :: "build_target \<Rightarrow> string" where
  "build_target_value BASE_BUILD = ''build-baseimage''"
| "build_target_value BUILD = ''build''"
| "build_target_value MANIFEST = ''manifest''"
| "build_target_value COMPONENT_DESCRIPTOR = ''component-descriptor''"
| "build_target_value TESTS = ''tests''"
| "build_target_value PUBLISH = ''publish''"
| "build_target_value FREEZE_VERSION = ''freeze-version''"
| "build_target_value GITHUB_RELEASE = ''github-release''"

definition build_target_members :: "build_target list" where
  "build_target_members = [BASE_BUILD, BUILD, MANIFEST, COMPONENT_DESCRIPTOR, TESTS, PUBLISH, FREEZE_VERSION, GITHUB_RELEASE]"

definition build_target_of :: "string \<Rightarrow> build_target res" where
  "build_target_of s = enum_of build_target_members build_target_value s"

interpretation bt: string_enum build_target_members build_target_value build_target_of
proof unfold_locales
  show "x \<in> set build_target_members" for x by (cases x) (simp_all add: build_target_members_def)
qed (simp_all add: build_target_members_def build_target_of_def)

text \<open>\<open>FeatureType\<close> of \<open>ci/glci/model.py\<close>.\<close>

datatype feature_type = PLATFORM | MODIFIER

primrec feature_type_value :: "feature_type \<Rightarrow> string" where
  "feature_type_value PLATFORM = ''platform''"
| "feature_type_value MODIFIER = ''modifier''"

definition feature_type_members :: "feature_type list" where
  "feature_type_members = [PLATFORM, MODIFIER]"

definition feature_type_of :: "string \<Rightarrow> feature_type res" where
  "feature_type_of s = enum_of feature_type_members feature_type_value s"

interpretation ft: string_enum feature_type_members feature_type_value feature_type_of
proof unfold_locales
  show "x \<in> set feature_type_members" for x by (cases x) (simp_all add: feature_type_members_def)
qed (simp_all add: feature_type_members_def feature_type_of_def)

text \<open>\<open>Architecture\<close> of \<open>ci/glci/model.py\<close>.\<close>

datatype architecture = AMD64

primrec architecture_value :: "architecture \<Rightarrow> string" where
  "architecture_value AMD64 = ''amd64''"

definition architecture_members :: "architecture list" where
  "architecture_members = [AMD64]"

definition architecture_of :: "string \<Rightarrow> architecture res" where
  "architecture_of s = enum_of architecture_members architecture_value s"

interpretation arch: string_enum architecture_members architecture_value architecture_of
proof unfold_locales
  show "x \<in> set architecture_members" for x by (cases x) (simp_all add: architecture_members_def)
qed (simp_all add: architecture_members_def architecture_of_def)

text \<open>\<open>AzureTransportState\<close> of \<open>ci/glci/model.py\<close>.\<close>

datatype azure_transport_state = ATS_PROVISIONAL | ATS_PUBLISH | ATS_GO_LIVE | ATS_RELEASED | ATS_FAILED

primrec azure_transport_state_value :: "azure_transport_state \<Rightarrow> string" where
  "azure_transport_state_value ATS_PROVISIONAL = ''provisional''"
| "azure_transport_state_value ATS_PUBLISH = ''publishing''"
| "azure_transport_state_value ATS_GO_LIVE = ''going_live''"
| "azure_transport_state_value ATS_RELEASED = ''released''"
| "azure_transport_state_value ATS_FAILED = ''failed''"

definition azure_transport_state_members :: "azure_transport_state list" where
  "azure_transport_state_members = [ATS_PROVISIONAL, ATS_PUBLISH, ATS_GO_LIVE, ATS_RELEASED, ATS_FAILED]"

definition azure_transport_state_of :: "string \<Rightarrow> azure_transport_state res" where
  "azure_transport_state_of s = enum_of azure_transport_state_members azure_transport_state_value s"

interpretation ats: string_enum azure_transport_state_members azure_transport_state_value azure_transport_state_of
proof unfold_locales
  show "x \<in> set azure_transport_state_members" for x by (cases x) (simp_all add: azure_transport_state_members_def)
qed (simp_all add: azure_transport_state_members_def azure_transport_state_of_def)

text \<open>\<open>TestResultCode\<close> of \<open>ci/glci/model.py\<close>.\<close>

datatype test_result_code = TRC_OK | TRC_FAILED

primrec test_result_code_value :: "test_result_code \<Rightarrow> string" where
  "test_result_code_value TRC_OK = ''success''"
| "test_result_code_value TRC_FAILED = ''failure''"

definition test_result_code_members :: "test_result_code list" where
  "test_result_code_members = [TRC_OK, TRC_FAILED]"

definition test_result_code_of :: "string \<Rightarrow> test_result_code res" where
  "test_result_code_of s = enum_of test_result_code_members test_result_code_value s"

interpretation trc: string_enum test_result_code_members test_result_code_value test_result_code_of
proof unfold_locales
  show "x \<in> set test_result_code_members" for x by (cases x) (simp_all add: test_result_code_members_def)
qed (simp_all add: test_result_code_members_def test_result_code_of_def)

text \<open>\<open>PipelineFlavour\<close> of \<open>ci/glci/model.py\<close>.\<close>

datatype pipeline_flavour = PF_SNAPSHOT | PF_RELEASE

primrec pipeline_flavour_value :: "pipeline_flavour \<Rightarrow> string" where
  "pipeline_flavour_value PF_SNAPSHOT = ''snapshot''"
| "pipeline_flavour_value PF_RELEASE = ''release''"

definition pipeline_flavour_members :: "pipeline_flavour list" where
  "pipeline_flavour_members = [PF_SNAPSHOT, PF_RELEASE]"

definition pipeline_flavour_of :: "string \<Rightarrow> pipeline_flavour res" where
  "pipeline_flavour_of s = enum_of pipeline_flavour_members pipeline_flavour_value s"

interpretation pf: string_enum pipeline_flavour_members pipeline_flavour_value pipeline_flavour_of
proof unfold_locales
  show "x \<in> set pipeline_flavour_members" for x by (cases x) (simp_all add: pipeline_flavour_members_def)
qed (simp_all add: pipeline_flavour_members_def pipeline_flavour_of_def)

text \<open>\<open>BuildType\<close> of \<open>ci/glci/model.py\<close>.\<close>

datatype build_type = BT_SNAPSHOT | BT_DAILY | BT_RELEASE

primrec build_type_value :: "build_type \<Rightarrow> string" where
  "build_type_value BT_SNAPSHOT = ''snapshot''"
| "build_type_value BT_DAILY = ''daily''"
| "build_type_value BT_RELEASE = ''release''"

definition build_type_members :: "build_type list" where
  "build_type_members = [BT_SNAPSHOT, BT_DAILY, BT_RELEASE]"

definition build_type_of :: "string \<Rightarrow> build_type res" where
  "build_type_of s = enum_of build_type_members build_type_value s"

interpretation bty: string_enum build_type_members build_type_value build_type_of
proof unfold_locales
  show "x \<in> set build_type_members" for x by (cases x) (simp_all add: build_type_members_def)
qed (simp_all add: build_type_members_def build_type_of_def)

text \<open>\<open>StatusReason\<close> of \<open>ci/tkn/util.py\<close>.\<close>

datatype status_reason = SR_RUNNING | SR_FAILED | SR_SUCCEEDED | SR_PIPELINE_RUN_STOPPING | SR_PIPELINE_RUN_CANCELLED | SR_TASK_RUN_CANCELLED | SR_EXCEEDED_NODE_RESOURCES

primrec status_reason_value :: "status_reason \<Rightarrow> string" where
  "status_reason_value SR_RUNNING = ''Running''"
| "status_reason_value SR_FAILED = ''Failed''"
| "status_reason_value SR_SUCCEEDED = ''Succeeded''"
| "status_reason_value SR_PIPELINE_RUN_STOPPING = ''PipelineRunStopping''"
| "status_reason_value SR_PIPELINE_RUN_CANCELLED = ''PipelineRunCancelled''"
| "status_reason_value SR_TASK_RUN_CANCELLED = ''TaskRunCancelled''"
| "status_reason_value SR_EXCEEDED_NODE_RESOURCES = ''ExceededNodeResources''"

definition status_reason_members :: "status_reason list" where
  "status_reason_members = [SR_RUNNING, SR_FAILED, SR_SUCCEEDED, SR_PIPELINE_RUN_STOPPING, SR_PIPELINE_RUN_CANCELLED, SR_TASK_RUN_CANCELLED, SR_EXCEEDED_NODE_RESOURCES]"

definition status_reason_of :: "string \<Rightarrow> status_reason res" where
  "status_reason_of s = enum_of status_reason_members status_reason_value s"

interpretation sr: string_enum status_reason_members status_reason_value status_reason_of
proof unfold_locales
  show "x \<in> set status_reason_members" for x by (cases x) (simp_all add: status_reason_members_def)
qed (simp_all add: status_reason_members_def status_reason_of_def)

text \<open>\<open>TaskStatus\<close> of \<open>ci/glci/aws.py\<close>.\<close>

datatype aws_task_status = TS_ACTIVE | TS_COMPLETED | TS_DELETED

primrec aws_task_status_value :: "aws_task_status \<Rightarrow> string" where
  "aws_task_status_value TS_ACTIVE = ''active''"
| "aws_task_status_value TS_COMPLETED = ''completed''"
| "aws_task_status_value TS_DELETED = ''deleted''"

definition aws_task_status_members :: "aws_task_status list" where
  "aws_task_status_members = [TS_ACTIVE, TS_COMPLETED, TS_DELETED]"

definition aws_task_status_of :: "string \<Rightarrow> aws_task_status res" where
  "aws_task_status_of s = enum_of aws_task_status_members aws_task_status_value s"

interpretation ts: string_enum aws_task_status_members aws_task_status_value aws_task_status_of
proof unfold_locales
  show "x \<in> set aws_task_status_members" for x by (cases x) (simp_all add: aws_task_status_members_def)
qed (simp_all add: aws_task_status_members_def aws_task_status_of_def)

text \<open>\<open>ImageState\<close> of \<open>ci/glci/aws.py\<close>.\<close>

datatype image_state = IS_PENDING | IS_AVAILABLE | IS_INVALID | IS_DEREGISTERED | IS_TRANSIENT | IS_FAILED | IS_ERROR

primrec image_state_value :: "image_state \<Rightarrow> string" where
  "image_state_value IS_PENDING = ''pending''"
| "image_state_value IS_AVAILABLE = ''available''"
| "image_state_value IS_INVALID = ''invalid''"
| "image_state_value IS_DEREGISTERED = ''deregistered''"
| "image_state_value IS_TRANSIENT = ''transient''"
| "image_state_value IS_FAILED = ''failed''"
| "image_state_value IS_ERROR = ''error''"

definition image_state_members :: "image_state list" where
  "image_state_members = [IS_PENDING, IS_AVAILABLE, IS_INVALID, IS_DEREGISTERED, IS_TRANSIENT, IS_FAILED, IS_ERROR]"

definition image_state_of :: "string \<Rightarrow> image_state res" where
  "image_state_of s = enum_of image_state_members image_state_value s"

interpretation ims: string_enum image_state_members image_state_value image_state_of
proof unfold_locales
  show "x \<in> set image_state_members" for x by (cases x) (simp_all add: image_state_members_def)
qed (simp_all add: image_state_members_def image_state_of_def)

text \<open>\<open>AlicloudImageStatus\<close> of \<open>ci/glci/alicloud.py\<close>.\<close>

datatype alicloud_image_status = AIS_CREATING | AIS_WAITING | AIS_AVAILABLE | AIS_UNAVAILABLE | AIS_CREATEFAILED

primrec alicloud_image_status_value :: "alicloud_image_status \<Rightarrow> string" where
  "alicloud_image_status_value AIS_CREATING = ''Creating''"
| "alicloud_image_status_value AIS_WAITING = ''Waiting''"
| "alicloud_image_status_value AIS_AVAILABLE = ''Available''"
| "alicloud_image_status_value AIS_UNAVAILABLE = ''UnAvailable''"
| "alicloud_image_status_value AIS_CREATEFAILED = ''CreateFailed''"

definition alicloud_image_status_members :: "alicloud_image_status list" where
  "alicloud_image_status_members = [AIS_CREATING, AIS_WAITING, AIS_AVAILABLE, AIS_UNAVAILABLE, AIS_CREATEFAILED]"

definition alicloud_image_status_of :: "string \<Rightarrow> alicloud_image_status res" where
  "alicloud_image_status_of s = enum_of alicloud_image_status_members alicloud_image_status_value s"

interpretation ais: string_enum alicloud_image_status_members alicloud_image_status_value alicloud_image_status_of
proof unfold_locales
  show "x \<in> set alicloud_image_status_members" for x by (cases x) (simp_all add: alicloud_image_status_members_def)
qed (simp_all add: alicloud_image_status_members_def alicloud_image_status_of_def)

text \<open>\<open>ImageShareOption\<close> of \<open>ci/glci/alicloud.py\<close>.\<close>

datatype image_share_option = ISO_SHARE | ISO_UNSHARE

primrec image_share_option_value :: "image_share_option \<Rightarrow> string" where
  "image_share_option_value ISO_SHARE = ''HIDDEN''"
| "image_share_option_value ISO_UNSHARE = ''PRIVATE''"

definition image_share_option_members :: "image_share_option list" where
  "image_share_option_members = [ISO_SHARE, ISO_UNSHARE]"

definition image_share_option_of :: "string \<Rightarrow> image_share_option res" where
  "image_share_option_of s = enum_of image_share_option_members image_share_option_value s"

interpretation iso: string_enum image_share_option_members image_share_option_value image_share_option_of
proof unfold_locales
  show "x \<in> set image_share_option_members" for x by (cases x) (simp_all add: image_share_option_members_def)
qed (simp_all add: image_share_option_members_def image_share_option_of_def)

text \<open>\<open>AzmpOperationState\<close> of \<open>ci/glci/az.py\<close>.\<close>

datatype azmp_operation_state = AOS_NOTSTARETD | AOS_RUNNING | AOS_COMPLETED | AOS_SUCCEEDED | AOS_FAILED

primrec azmp_operation_state_value :: "azmp_operation_state \<Rightarrow> string" where
  "azmp_operation_state_value AOS_NOTSTARETD = ''notStarted''"
| "azmp_operation_state_value AOS_RUNNING = ''running''"
| "azmp_operation_state_value AOS_COMPLETED = ''completed''"
| "azmp_operation_state_value AOS_SUCCEEDED = ''succeeded''"
| "azmp_operation_state_value AOS_FAILED = ''failed''"

definition azmp_operation_state_members :: "azmp_operation_state list" where
  "azmp_operation_state_members = [AOS_NOTSTARETD, AOS_RUNNING, AOS_COMPLETED, AOS_SUCCEEDED, AOS_FAILED]"

definition azmp_operation_state_of :: "string \<Rightarrow> azmp_operation_state res" where
  "azmp_operation_state_of s = enum_of azmp_operation_state_members azmp_operation_state_value s"

interpretation aos: string_enum azmp_operation_state_members azmp_operation_state_value azmp_operation_state_of
proof unfold_locales
  show "x \<in> set azmp_operation_state_members" for x by (cases x) (simp_all add: azmp_operation_state_members_def)
qed (simp_all add: azmp_operation_state_members_def azmp_operation_state_of_def)

text \<open>\<open>AzmpTransportDest\<close> of \<open>ci/glci/az.py\<close>.\<close>

datatype azmp_transport_dest = ATD_STAGING | ATD_PROD

primrec azmp_transport_dest_value :: "azmp_transport_dest \<Rightarrow> string" where
  "azmp_transport_dest_value ATD_STAGING = ''staging''"
| "azmp_transport_dest_value ATD_PROD = ''production''"

definition azmp_transport_dest_members :: "azmp_transport_dest list" where
  "azmp_transport_dest_members = [ATD_STAGING, ATD_PROD]"

definition azmp_transport_dest_of :: "string \<Rightarrow> azmp_transport_dest res" where
  "azmp_transport_dest_of s = enum_of azmp_transport_dest_members azmp_transport_dest_value s"

interpretation atd: string_enum azmp_transport_dest_members azmp_transport_dest_value azmp_transport_dest_of
proof unfold_locales
  show "x \<in> set azmp_transport_dest_members" for x by (cases x) (simp_all add: azmp_transport_dest_members_def)
qed (simp_all add: azmp_transport_dest_members_def azmp_transport_dest_of_def)

text \<open>\<open>GitHubStatus\<close> of \<open>ci/glci/github.py\<close>.\<close>

datatype github_status = GHS_ERROR | GHS_FAILURE | GHS_PENDING | GHS_SUCCESS

primrec github_status_value :: "github_status \<Rightarrow> string" where
  "github_status_value GHS_ERROR = ''error''"
| "github_status_value GHS_FAILURE = ''failure''"
| "github_status_value GHS_PENDING = ''pending''"
| "github_status_value GHS_SUCCESS = ''success''"

definition github_status_members :: "github_status list" where
  "github_status_members = [GHS_ERROR, GHS_FAILURE, GHS_PENDING, GHS_SUCCESS]"

definition github_status_of :: "string \<Rightarrow> github_status res" where
  "github_status_of s = enum_of github_status_members github_status_value s"

interpretation ghs: string_enum github_status_members github_status_value github_status_of
proof unfold_locales
  show "x \<in> set github_status_members" for x by (cases x) (simp_all add: github_status_members_def)
qed (simp_all add: github_status_members_def github_status_of_def)

text \<open>\<open>OperatingSystem\<close> of \<open>ci/glci/oci.py\<close>.\<close>

datatype oci_operating_system = OS_LINUX

primrec oci_operating_system_value :: "oci_operating_system \<Rightarrow> string" where
  "oci_operating_system_value OS_LINUX = ''linux''"

definition oci_operating_system_members :: "oci_operating_system list" where
  "oci_operating_system_members = [OS_LINUX]"

definition oci_operating_system_of :: "string \<Rightarrow> oci_operating_system res" where
  "oci_operating_system_of s = enum_of oci_operating_system_members oci_operating_system_value s"

interpretation ocios: string_enum oci_operating_system_members oci_operating_system_value oci_operating_system_of
proof unfold_locales
  show "x \<in> set oci_operating_system_members" for x by (cases x) (simp_all add: oci_operating_system_members_def)
qed (simp_all add: oci_operating_system_members_def oci_operating_system_of_def)

text \<open>\<open>Architecture\<close> of \<open>ci/glci/oci.py\<close>.\<close>

datatype oci_architecture = OCI_AMD64 | OCI_ARM64

primrec oci_architecture_value :: "oci_architecture \<Rightarrow> string" where
  "oci_architecture_value OCI_AMD64 = ''amd64''"
| "oci_architecture_value OCI_ARM64 = ''arm64''"

definition oci_architecture_members :: "oci_architecture list" where
  "oci_architecture_members = [OCI_AMD64, OCI_ARM64]"

definition oci_architecture_of :: "string \<Rightarrow> oci_architecture res" where
  "oci_architecture_of s = enum_of oci_architecture_members oci_architecture_value s"

interpretation ociarch: string_enum oci_architecture_members oci_architecture_value oci_architecture_of
proof unfold_locales
  show "x \<in> set oci_architecture_members" for x by (cases x) (simp_all add: oci_architecture_members_def)
qed (simp_all add: oci_architecture_members_def oci_architecture_of_def)

lemmas enum_of_value [simp] =
  bt.of_val_val
  ft.of_val_val
  arch.of_val_val
  ats.of_val_val
  trc.of_val_val
  pf.of_val_val
  bty.of_val_val
  sr.of_val_val
  ts.of_val_val
  ims.of_val_val
  ais.of_val_val
  iso.of_val_val
  aos.of_val_val
  atd.of_val_val
  ghs.of_val_val
  ocios.of_val_val
  ociarch.of_val_val

subsection \<open>Members with behaviour\<close>

text \<open>\<open>ImageState.is_erroneous\<close>.\<close>

definition is_erroneous :: "image_state \<Rightarrow> bool" where
  "is_erroneous s = (if s \<in> {IS_INVALID, IS_FAILED, IS_ERROR} then True else False)"

text \<open>\<open>AlicloudImageStatus.to_availbel_str_array\<close>: the status filter of an image query.\<close>

definition to_availbel_str_array :: "string list" where
  "to_availbel_str_array = map alicloud_image_status_value alicloud_image_status_members"

end
