(* ===== verification/Features.thy ===== *)
theory Features
  imports Enums
begin

text \<open>
  The feature system of \<open>ci/glci/model.py\<close>: feature descriptors, the features a feature
  includes, directly and transitively, the normal form of a flavour's modifiers and its minimal
  form.  The set that \<open>features()\<close> returns (cached, so iterated in one order throughout a run)
  is the list \<open>fs\<close>.  Python bounds the depth of the recursive generator \<open>included_features\<close> by
  its recursion limit: that bound is the number \<open>n\<close> (\<open>fuel\<close>), and exceeding it is
  \<open>RecursionError\<close>; for an acyclic universe every bound above the number of features is enough.
\<close>

subsection \<open>Descriptors and lookup\<close>

record features_cfg =
  fc_include :: "string list"

record feature_descriptor =
  fd_type :: feature_type
  fd_name :: string
  fd_description :: string
  fd_features :: "features_cfg option"

definition included_feature_names :: "feature_descriptor \<Rightarrow> string list" where
  "included_feature_names d = (case fd_features d of None \<Rightarrow> [] | Some f \<Rightarrow> fc_include f)"

definition platforms :: "feature_descriptor list \<Rightarrow> feature_descriptor list" where
  "platforms fs = filter (\<lambda>f. fd_type f = PLATFORM) fs"

definition platform_names :: "feature_descriptor list \<Rightarrow> string list" where
  "platform_names fs = py_set (map fd_name (platforms fs))"

definition modifiers :: "feature_descriptor list \<Rightarrow> feature_descriptor list" where
  "modifiers fs = filter (\<lambda>f. fd_type f = MODIFIER) fs"

definition feature_by_name :: "feature_descriptor list \<Rightarrow> string \<Rightarrow> feature_descriptor res" where
  "feature_by_name fs n =
     (case find (\<lambda>f. fd_name f = n) fs of None \<Rightarrow> Inl (ValueError n) | Some f \<Rightarrow> Inr f)"

primrec included_features ::
  "feature_descriptor list \<Rightarrow> nat \<Rightarrow> bool \<Rightarrow> feature_descriptor \<Rightarrow> feature_descriptor list res"
where
  "included_features fs 0 transitive d = Inl RecursionError"
| "included_features fs (Suc n) transitive d =
     foldR (\<lambda>name acc.
        bindR (feature_by_name fs name) (\<lambda>f.
        bindR (if transitive then included_features fs n True f else Inr []) (\<lambda>sub.
        Inr (acc @ sub @ [f]))))
      (included_feature_names d) []"

lemma feature_by_name_Inr:
  "feature_by_name fs n = Inr f \<Longrightarrow> f \<in> set fs \<and> fd_name f = n"
  by (auto simp: feature_by_name_def dest: find_Some_mem split: option.splits)

lemma feature_by_name_self:
  "feature_by_name fs n = Inr f \<Longrightarrow> feature_by_name fs (fd_name f) = Inr f"
  using feature_by_name_Inr by blast

lemma feature_by_name_ok: "(\<exists>f. feature_by_name fs n = Inr f) \<longleftrightarrow> n \<in> fd_name ` set fs"
  by (fastforce simp: feature_by_name_def find_None_iff dest: find_Some_mem split: option.splits)

lemma feature_by_name_inj:
  "feature_by_name fs n = Inr f \<Longrightarrow> feature_by_name fs m = Inr g \<Longrightarrow> fd_name f = fd_name g \<Longrightarrow> f = g"
  using feature_by_name_Inr by (metis Inr_inject)

subsection \<open>The inclusion relation and well-formed universes\<close>

definition inclusion :: "feature_descriptor list \<Rightarrow> (feature_descriptor \<times> feature_descriptor) set" where
  "inclusion fs = {(d, e). d \<in> set fs \<and>
     (\<exists>n \<in> set (included_feature_names d). feature_by_name fs n = Inr e)}"

definition names_resolve :: "feature_descriptor list \<Rightarrow> bool" where
  "names_resolve fs \<longleftrightarrow>
     (\<forall>d \<in> set fs. \<forall>n \<in> set (included_feature_names d). n \<in> fd_name ` set fs)"

definition wf_features :: "feature_descriptor list \<Rightarrow> bool" where
  "wf_features fs \<longleftrightarrow> names_resolve fs \<and> acyclic (inclusion fs)"

definition reach :: "feature_descriptor list \<Rightarrow> feature_descriptor \<Rightarrow> feature_descriptor set" where
  "reach fs d = (inclusion fs)\<^sup>+ `` {d}"

lemma inclusion_subset: "inclusion fs \<subseteq> set fs \<times> set fs"
  using feature_by_name_Inr by (auto simp: inclusion_def)

lemma finite_inclusion: "finite (inclusion fs)"
  using inclusion_subset by (rule finite_subset) simp

lemma inclusion_self: "(d, e) \<in> inclusion fs \<Longrightarrow> feature_by_name fs (fd_name e) = Inr e"
  by (auto simp: inclusion_def intro: feature_by_name_self)

lemma reach_subset: "reach fs d \<subseteq> set fs"
  using trancl_subset_Sigma [OF inclusion_subset] by (auto simp: reach_def)

lemma finite_reach: "finite (reach fs d)"
  using reach_subset by (rule finite_subset) simp

lemma reach_self: "e \<in> reach fs d \<Longrightarrow> feature_by_name fs (fd_name e) = Inr e"
proof -
  assume "e \<in> reach fs d"
  then have "(d, e) \<in> (inclusion fs)\<^sup>+" by (simp add: reach_def)
  then show ?thesis by (cases rule: trancl.cases) (auto dest: inclusion_self)
qed

lemma reach_unfold:
  "reach fs d = {e. (d, e) \<in> inclusion fs} \<union> (\<Union>e \<in> {e. (d, e) \<in> inclusion fs}. reach fs e)"
proof (intro set_eqI iffI)
  fix x assume "x \<in> reach fs d"
  then have "(d, x) \<in> (inclusion fs)\<^sup>+" by (simp add: reach_def)
  then obtain e where "(d, e) \<in> inclusion fs" "(e, x) \<in> (inclusion fs)\<^sup>*"
    by (blast dest: tranclD)
  then show "x \<in> {e. (d, e) \<in> inclusion fs} \<union> (\<Union>e \<in> {e. (d, e) \<in> inclusion fs}. reach fs e)"
    by (auto simp: reach_def rtrancl_eq_or_trancl)
next
  fix x assume "x \<in> {e. (d, e) \<in> inclusion fs} \<union> (\<Union>e \<in> {e. (d, e) \<in> inclusion fs}. reach fs e)"
  then show "x \<in> reach fs d"
    unfolding reach_def by (auto intro: trancl_into_trancl2)
qed

lemma reach_trans: "e \<in> reach fs d \<Longrightarrow> reach fs e \<subseteq> reach fs d"
  unfolding reach_def by auto

lemma reach_strict:
  assumes "e \<notin> reach fs e" "(d, e) \<in> inclusion fs"
  shows "card (reach fs e) < card (reach fs d)"
proof (rule psubset_card_mono [OF finite_reach])
  have "e \<in> reach fs d" using assms(2) by (auto simp: reach_def)
  then show "reach fs e \<subset> reach fs d" using reach_trans assms(1) by blast
qed

subsection \<open>What \<open>included_features\<close> returns\<close>

lemma included_loop_set:
  assumes "foldR (\<lambda>name acc. bindR (feature_by_name fs name) (\<lambda>f. bindR (g f) (\<lambda>sub.
              Inr (acc @ sub @ [f])))) ns acc = Inr xs"
  shows "set xs = set acc \<union>
    {f. \<exists>n \<in> set ns. feature_by_name fs n = Inr f} \<union>
    {e. \<exists>n \<in> set ns. \<exists>f ys. feature_by_name fs n = Inr f \<and> g f = Inr ys \<and> e \<in> set ys}"
  using assms
proof (induction ns arbitrary: acc)
  case Nil
  then show ?case by simp
next
  case (Cons n ns)
  from Cons.prems obtain f sub where f: "feature_by_name fs n = Inr f" "g f = Inr sub"
    and r: "foldR (\<lambda>name acc. bindR (feature_by_name fs name) (\<lambda>f. bindR (g f) (\<lambda>sub.
              Inr (acc @ sub @ [f])))) ns (acc @ sub @ [f]) = Inr xs"
    by (auto simp: bindR_Inr_iff)
  show ?case using Cons.IH [OF r] f by auto
qed

lemma included_loop_ok:
  "(\<exists>xs. foldR (\<lambda>name acc. bindR (feature_by_name fs name) (\<lambda>f. bindR (g f) (\<lambda>sub.
       Inr (acc @ sub @ [f])))) ns acc = Inr xs) \<longleftrightarrow>
   (\<forall>n \<in> set ns. \<exists>f ys. feature_by_name fs n = Inr f \<and> g f = Inr ys)"
proof (induction ns arbitrary: acc)
  case (Cons n ns)
  then show ?case by (auto simp: bindR_Inr_iff)
qed simp

lemma included_features_step_ok:
  "d \<in> set fs \<Longrightarrow> (\<exists>xs. included_features fs (Suc n) True d = Inr xs) \<longleftrightarrow>
    (\<forall>m \<in> set (included_feature_names d). m \<in> fd_name ` set fs) \<and>
    (\<forall>e. (d, e) \<in> inclusion fs \<longrightarrow> (\<exists>ys. included_features fs n True e = Inr ys))"
proof -
  assume d: "d \<in> set fs"
  have "(\<exists>xs. included_features fs (Suc n) True d = Inr xs) \<longleftrightarrow>
      (\<forall>m \<in> set (included_feature_names d). \<exists>f ys. feature_by_name fs m = Inr f \<and>
         included_features fs n True f = Inr ys)"
    by (simp add: included_loop_ok)
  also have "\<dots> \<longleftrightarrow> (\<forall>m \<in> set (included_feature_names d). \<exists>f. feature_by_name fs m = Inr f) \<and>
      (\<forall>e. (d, e) \<in> inclusion fs \<longrightarrow> (\<exists>ys. included_features fs n True e = Inr ys))"
    using d unfolding inclusion_def by fastforce
  finally show ?thesis by (simp add: feature_by_name_ok)
qed

lemma included_features_sound:
  "d \<in> set fs \<Longrightarrow> included_features fs n True d = Inr xs \<Longrightarrow> set xs = reach fs d"
proof (induction n arbitrary: d xs)
  case (Suc n)
  have step: "{f. \<exists>m \<in> set (included_feature_names d). feature_by_name fs m = Inr f} =
      {e. (d, e) \<in> inclusion fs}"
    using Suc.prems(1) by (auto simp: inclusion_def)
  have ok: "\<exists>ys. included_features fs n True e = Inr ys" if "(d, e) \<in> inclusion fs" for e
    using included_features_step_ok [OF Suc.prems(1)] Suc.prems(2) that by blast
  have ih: "set ys = reach fs e" if "(d, e) \<in> inclusion fs" "included_features fs n True e = Inr ys" for e ys
    using Suc.IH that inclusion_subset by blast
  define sub where "sub = {x. \<exists>m \<in> set (included_feature_names d). \<exists>f ys.
    feature_by_name fs m = Inr f \<and> included_features fs n True f = Inr ys \<and> x \<in> set ys}"
  have mem: "(\<exists>m \<in> set (included_feature_names d). feature_by_name fs m = Inr e) \<longleftrightarrow>
      (d, e) \<in> inclusion fs" for e
    using step by blast
  have subI: "x \<in> sub" if "(d, e) \<in> inclusion fs" "included_features fs n True e = Inr ys"
    "x \<in> set ys" for x e ys
    unfolding sub_def using mem [of e] that by blast
  have subD: "\<exists>e ys. (d, e) \<in> inclusion fs \<and> included_features fs n True e = Inr ys \<and> x \<in> set ys"
    if "x \<in> sub" for x
    using that mem unfolding sub_def by blast
  have sub: "sub = (\<Union>e \<in> {e. (d, e) \<in> inclusion fs}. reach fs e)"
  proof (intro set_eqI iffI)
    fix x assume "x \<in> (\<Union>e \<in> {e. (d, e) \<in> inclusion fs}. reach fs e)"
    then obtain e where e: "(d, e) \<in> inclusion fs" "x \<in> reach fs e" by auto
    from ok [OF e(1)] obtain ys where "included_features fs n True e = Inr ys" ..
    with ih [OF e(1)] e show "x \<in> sub" using subI by auto
  qed (use ih subD in fastforce)
  have "set xs = {e. (d, e) \<in> inclusion fs} \<union> sub"
    using included_loop_set [OF Suc.prems(2) [unfolded included_features.simps if_True]]
    unfolding step sub_def [symmetric] by (simp only: list.set(1) Un_empty_left)
  then show ?case by (simp only: sub reach_unfold [of fs d, symmetric])
qed simp

text \<open>The recursion ends when no feature that it visits includes itself.\<close>

definition cycle_free :: "feature_descriptor list \<Rightarrow> feature_descriptor \<Rightarrow> bool" where
  "cycle_free fs d \<longleftrightarrow> d \<notin> reach fs d \<and> (\<forall>e \<in> reach fs d. e \<notin> reach fs e)"

lemma wf_cycle_free: "wf_features fs \<Longrightarrow> cycle_free fs d"
  by (auto simp: wf_features_def cycle_free_def acyclic_def reach_def)

lemma included_features_enough:
  assumes "names_resolve fs"
  shows "d \<in> set fs \<Longrightarrow> cycle_free fs d \<Longrightarrow> card (reach fs d) < n \<Longrightarrow>
    \<exists>xs. included_features fs n True d = Inr xs"
proof (induction n arbitrary: d)
  case (Suc n)
  have "\<exists>ys. included_features fs n True e = Inr ys" if de: "(d, e) \<in> inclusion fs" for e
  proof (rule Suc.IH)
    have e: "e \<in> reach fs d" using de by (auto simp: reach_def)
    show "e \<in> set fs" using de inclusion_subset by blast
    show "cycle_free fs e"
      using e Suc.prems(2) reach_trans [OF e] by (auto simp: cycle_free_def)
    have "e \<notin> reach fs e" using e Suc.prems(2) by (auto simp: cycle_free_def)
    then show "card (reach fs e) < n"
      using reach_strict [OF _ de] Suc.prems(3) by simp
  qed
  with Suc.prems(1) assms show ?case
    by (subst included_features_step_ok) (auto simp: names_resolve_def)
qed simp

lemma reach_card_le: "card (reach fs d) \<le> length fs"
  using card_mono [OF _ reach_subset [of fs d]] card_length [of fs] by simp

lemma included_features_total:
  assumes "wf_features fs" "d \<in> set fs" "length fs < n"
  shows "\<exists>xs. included_features fs n True d = Inr xs \<and> set xs = reach fs d"
proof -
  have "names_resolve fs" using assms(1) by (simp add: wf_features_def)
  moreover have "card (reach fs d) < n" using reach_card_le [of fs d] assms(3) by simp
  ultimately obtain xs where "included_features fs n True d = Inr xs"
    using included_features_enough [OF _ assms(2) wf_cycle_free [OF assms(1)]] by blast
  then show ?thesis using included_features_sound [OF assms(2)] by blast
qed

lemma included_features_cycle_step:
  "(d, e) \<in> inclusion fs \<Longrightarrow> included_features fs n True d = Inr xs \<Longrightarrow>
    \<exists>m ys. n = Suc m \<and> included_features fs m True e = Inr ys"
proof (cases n)
  case (Suc m)
  assume "(d, e) \<in> inclusion fs" "included_features fs n True d = Inr xs"
  moreover from this have "d \<in> set fs" using inclusion_subset by blast
  ultimately show ?thesis using included_features_step_ok [of d fs m] Suc by blast
qed simp

lemma included_features_path:
  "(d, e) \<in> (inclusion fs)\<^sup>+ \<Longrightarrow> included_features fs n True d = Inr xs \<Longrightarrow>
    \<exists>m ys. m < n \<and> included_features fs m True e = Inr ys"
proof (induction rule: trancl_induct)
  case (base e)
  then show ?case using included_features_cycle_step by blast
next
  case (step e e')
  then show ?case using included_features_cycle_step less_SucI by (metis Suc_lessD)
qed

lemma included_features_cycle:
  "(d, d) \<in> (inclusion fs)\<^sup>+ \<Longrightarrow> included_features fs n True d \<noteq> Inr xs"
proof (induction n arbitrary: xs rule: less_induct)
  case (less n)
  then show ?case using included_features_path by blast
qed

lemma included_features_iff:
  assumes "names_resolve fs" "d \<in> set fs" "length fs < n"
  shows "(\<exists>xs. included_features fs n True d = Inr xs) \<longleftrightarrow> cycle_free fs d"
proof
  assume "cycle_free fs d"
  moreover have "card (reach fs d) < n" using reach_card_le [of fs d] assms(3) by simp
  ultimately show "\<exists>xs. included_features fs n True d = Inr xs"
    using included_features_enough [OF assms(1,2)] by blast
next
  assume "\<exists>xs. included_features fs n True d = Inr xs"
  then obtain xs where xs: "included_features fs n True d = Inr xs" ..
  have no_cycle: "e \<notin> reach fs e" if "included_features fs m True e = Inr ys" for e m ys
    using that included_features_cycle by (auto simp: reach_def)
  have "e \<notin> reach fs e" if "e \<in> reach fs d" for e
  proof -
    have "(d, e) \<in> (inclusion fs)\<^sup>+" using that by (simp add: reach_def)
    then obtain m ys where "included_features fs m True e = Inr ys"
      using included_features_path [OF _ xs] by blast
    then show ?thesis by (rule no_cycle)
  qed
  with no_cycle [OF xs] show "cycle_free fs d" by (simp add: cycle_free_def)
qed

end
