(* ===== verification/Modifiers.thy ===== *)
theory Modifiers
  imports Features
begin

text \<open>
  \<open>normalised_modifiers\<close> and \<open>canonicalised_features\<close> of \<open>ci/glci/model.py\<close>: the transitively closed
  and the minimal list of a flavour's features.  The closed one identifies a flavour, the minimal
  one names its release manifest.
\<close>

definition normalised_modifiers ::
  "feature_descriptor list \<Rightarrow> nat \<Rightarrow> string \<Rightarrow> string list \<Rightarrow> string list res"
where
  "normalised_modifiers fs n platform mods =
     bindR (feature_by_name fs platform) (\<lambda>p.
     bindR (mapR (feature_by_name fs) mods) (\<lambda>ms0. let ms = py_set ms0 in
     bindR (mapR (included_features fs n True) ms) (\<lambda>incs.
     bindR (included_features fs n True p) (\<lambda>pincs.
       Inr (sort_key py_upper (py_set
         (map fd_name ms @ concat (map (map fd_name) incs) @ map fd_name pincs)))))))"

text \<open>
  The set the code subtracts for the platform holds a generator object and the modifier
  \<^emph>\<open>strings\<close>, \<open>set((platform.included_features(), *modifiers))\<close>; \<open>set_elem\<close> is the type of the
  things that such a Python set may hold.
\<close>

datatype set_elem = Elem_generator | Elem_str string | Elem_feature feature_descriptor

definition canonicalised_features ::
  "feature_descriptor list \<Rightarrow> nat \<Rightarrow> string \<Rightarrow> string list \<Rightarrow> feature_descriptor list res"
where
  "canonicalised_features fs n platform mods =
     bindR (feature_by_name fs platform) (\<lambda>p.
     bindR (mapR (feature_by_name fs) mods) (\<lambda>ms.
       let minimal = filter (\<lambda>f. Elem_feature f \<notin> set (Elem_generator # map Elem_str mods)) (py_set ms)
       in
     bindR (foldR (\<lambda>m minimal. bindR (included_features fs n True m)
              (\<lambda>incs. Inr (filter (\<lambda>f. f \<notin> set incs) minimal))) ms minimal) (\<lambda>minimal.
       Inr (p # sort_key (\<lambda>m. py_upper (fd_name m)) minimal))))"

subsection \<open>The normal form\<close>

lemma mapR_names_sound: "mapR (feature_by_name fs) mods = Inr ms \<Longrightarrow> map fd_name ms = mods"
  by (induction mods arbitrary: ms) (auto simp: bindR_Inr_iff dest: feature_by_name_Inr)

lemma mapR_names_mem: "mapR (feature_by_name fs) mods = Inr ms \<Longrightarrow> m \<in> set ms \<Longrightarrow>
    feature_by_name fs (fd_name m) = Inr m \<and> m \<in> set fs"
  by (auto simp: mapR_mem dest: feature_by_name_Inr intro: feature_by_name_self)

lemma mapR_names_self:
  "(\<forall>m \<in> set ms. feature_by_name fs (fd_name m) = Inr m) \<Longrightarrow>
    mapR (feature_by_name fs) (map fd_name ms) = Inr ms"
  by (induction ms) auto

text \<open>The closure of a platform and a set of features, the platform itself left out.\<close>

definition closure_of :: "feature_descriptor list \<Rightarrow> feature_descriptor \<Rightarrow>
    feature_descriptor set \<Rightarrow> feature_descriptor set" where
  "closure_of fs p M = M \<union> (\<Union>m \<in> M. reach fs m) \<union> reach fs p"

lemma closure_of_idem: "closure_of fs p (closure_of fs p M) = closure_of fs p M"
  unfolding closure_of_def using reach_trans by blast

lemma normalised_modifiers_Inr:
  assumes "normalised_modifiers fs n platform mods = Inr ns"
  obtains p ms xs where "feature_by_name fs platform = Inr p"
    "mapR (feature_by_name fs) mods = Inr ms"
    "set xs = fd_name ` closure_of fs p (set ms)" "distinct xs"
    "take (length (py_set ms)) xs = map fd_name (py_set ms)"
    "ns = sort_key py_upper xs"
proof -
  from assms obtain p ms incs pincs where *: "feature_by_name fs platform = Inr p"
    "mapR (feature_by_name fs) mods = Inr ms"
    "mapR (included_features fs n True) (py_set ms) = Inr incs"
    "included_features fs n True p = Inr pincs"
    and ns: "ns = sort_key py_upper (py_set (map fd_name (py_set ms) @
        concat (map (map fd_name) incs) @ map fd_name pincs))"
    by (auto simp: normalised_modifiers_def bindR_Inr_iff Let_def)
  have p: "set pincs = reach fs p"
    using included_features_sound [OF _ *(4)] feature_by_name_Inr [OF *(1)] by simp
  have mem: "m \<in> set fs" if "m \<in> set ms" for m
    using mapR_names_mem [OF *(2) that] by simp
  have incs: "(\<Union>ys \<in> set incs. set ys) = (\<Union>m \<in> set ms. reach fs m)"
  proof (intro set_eqI iffI)
    fix x assume "x \<in> (\<Union>ys \<in> set incs. set ys)"
    then obtain ys where ys: "ys \<in> set incs" "x \<in> set ys" by auto
    then obtain m where m: "m \<in> set ms" "included_features fs n True m = Inr ys"
      using mapR_mem [OF *(3), of ys] by auto
    then show "x \<in> (\<Union>m \<in> set ms. reach fs m)"
      using included_features_sound [OF mem [OF m(1)] m(2)] ys(2) by auto
  next
    fix x assume "x \<in> (\<Union>m \<in> set ms. reach fs m)"
    then obtain m where m: "m \<in> set ms" "x \<in> reach fs m" by auto
    have "\<exists>ys. included_features fs n True m = Inr ys"
      using *(3) m(1) mapR_ok_iff [of "included_features fs n True" "py_set ms"] by auto
    then obtain ys where ys: "included_features fs n True m = Inr ys" ..
    then show "x \<in> (\<Union>ys \<in> set incs. set ys)"
      using mapR_mem [OF *(3), of ys] m included_features_sound [OF mem [OF m(1)] ys] by auto
  qed
  have inj: "inj_on fd_name (set (py_set ms))"
    using mapR_names_mem [OF *(2)] by (metis (no_types, lifting) Inr_inject inj_onI set_py_set)
  define xs where "xs = py_set (map fd_name (py_set ms) @
        concat (map (map fd_name) incs) @ map fd_name pincs)"
  have tk: "take (length ys) (py_set (ys @ zs)) = ys" if "distinct ys" for ys zs :: "string list"
  proof -
    have "\<exists>us. remdups (us' @ rev ys) = us @ rev ys" for us'
      using that by (induction us') (auto simp: distinct_remdups_id)
    then obtain us where "remdups (rev zs @ rev ys) = us @ rev ys" by blast
    then show ?thesis by (simp add: py_set_def)
  qed
  have "take (length (py_set ms)) xs = map fd_name (py_set ms)"
    using tk [of "map fd_name (py_set ms)"] inj by (simp add: xs_def distinct_map)
  moreover have "set xs = fd_name ` (set ms \<union> (\<Union>ys \<in> set incs. set ys) \<union> set pincs)"
    by (auto simp: xs_def)
  then have "set xs = fd_name ` closure_of fs p (set ms)"
    by (simp only: p incs closure_of_def)
  ultimately show ?thesis
    using that [OF *(1,2), of xs] ns by (simp add: xs_def)
qed

lemma normalised_modifiers_total:
  assumes "wf_features fs" "length fs < n"
    and "platform \<in> fd_name ` set fs" "set mods \<subseteq> fd_name ` set fs"
  shows "\<exists>ns. normalised_modifiers fs n platform mods = Inr ns"
proof -
  obtain p where p: "feature_by_name fs platform = Inr p"
    using assms(3) feature_by_name_ok by metis
  have "\<forall>m \<in> set mods. \<exists>f. feature_by_name fs m = Inr f"
    using assms(4) feature_by_name_ok by (metis subset_iff)
  then obtain ms where ms: "mapR (feature_by_name fs) mods = Inr ms"
    using mapR_ok_iff by metis
  have tot: "\<exists>xs. included_features fs n True d = Inr xs" if "d \<in> set fs" for d
    using included_features_total [OF assms(1) that assms(2)] by blast
  have "\<forall>m \<in> set (py_set ms). \<exists>xs. included_features fs n True m = Inr xs"
    using tot mapR_names_mem [OF ms] by simp
  then obtain incs where "mapR (included_features fs n True) (py_set ms) = Inr incs"
    using mapR_ok_iff by metis
  moreover obtain pincs where "included_features fs n True p = Inr pincs"
    using tot feature_by_name_Inr [OF p] by blast
  ultimately show ?thesis
    using p ms by (simp add: normalised_modifiers_def Let_def)
qed

lemma normalised_modifiers_set:
  assumes "normalised_modifiers fs n platform mods = Inr ns"
    and "feature_by_name fs platform = Inr p" "mapR (feature_by_name fs) mods = Inr ms"
  shows "set ns = fd_name ` closure_of fs p (set ms)" "distinct ns" "sorted (map py_upper ns)"
  by (rule normalised_modifiers_Inr [OF assms(1)]; use assms(2,3) in simp)+

lemma closure_self:
  assumes "feature_by_name fs platform = Inr p" "mapR (feature_by_name fs) mods = Inr ms"
    and "e \<in> closure_of fs p (set ms)"
  shows "feature_by_name fs (fd_name e) = Inr e" "e \<in> set fs"
  using assms mapR_names_mem [OF assms(2)] reach_self reach_subset
  by (fastforce simp: closure_of_def)+

text \<open>Names of a normal form are looked up to the closure it lists.\<close>

lemma normalised_modifiers_lookup:
  assumes "normalised_modifiers fs n platform mods = Inr ns"
    and p: "feature_by_name fs platform = Inr p" and ms: "mapR (feature_by_name fs) mods = Inr ms"
  obtains cs where "mapR (feature_by_name fs) ns = Inr cs" "map fd_name cs = ns"
    "set cs = closure_of fs p (set ms)" "distinct cs"
proof -
  have set: "set ns = fd_name ` closure_of fs p (set ms)"
    using normalised_modifiers_set [OF assms] by simp
  have "\<forall>m \<in> set ns. \<exists>f. feature_by_name fs m = Inr f"
    using set closure_self [OF p ms] by auto
  then obtain cs where cs: "mapR (feature_by_name fs) ns = Inr cs"
    using mapR_ok_iff by metis
  have names: "map fd_name cs = ns" by (rule mapR_names_sound [OF cs])
  have "set cs = closure_of fs p (set ms)"
  proof (intro set_eqI iffI)
    fix e assume "e \<in> set cs"
    then have "feature_by_name fs (fd_name e) = Inr e" "fd_name e \<in> set ns"
      using mapR_names_mem [OF cs] names by auto
    then show "e \<in> closure_of fs p (set ms)"
      using set closure_self [OF p ms] by auto
  next
    fix e assume e: "e \<in> closure_of fs p (set ms)"
    then have "fd_name e \<in> set ns" using set by auto
    then show "e \<in> set cs"
      using mapR_mem [OF cs, of e] closure_self [OF p ms e] by blast
  qed
  moreover have "distinct cs"
    using names normalised_modifiers_set(2) [OF assms] by (auto simp: distinct_map)
  ultimately show ?thesis using that cs names by blast
qed

subsection \<open>Sorting a set by a key\<close>

text \<open>The result of sorting a set's elements by an injective key does not depend on their order.\<close>

lemma sort_key_unique:
  assumes "inj_on f (set xs)" "distinct xs" "distinct ys" "set xs = set ys"
  shows "sort_key f xs = sort_key f ys"
  by (rule map_sorted_distinct_set_unique [where f = f])
    (use assms in \<open>auto simp: distinct_map\<close>)

text \<open>No two features of the universe have names that agree up to case.\<close>

definition case_distinct :: "feature_descriptor list \<Rightarrow> bool" where
  "case_distinct fs \<longleftrightarrow> inj_on (\<lambda>f. py_upper (fd_name f)) (set fs)"

lemma case_distinct_names:
  assumes "case_distinct fs"
  shows "inj_on py_upper (fd_name ` set fs)"
  using assms by (auto simp: case_distinct_def inj_on_def)

lemma normalised_modifiers_unique:
  assumes "case_distinct fs"
    and "normalised_modifiers fs n platform mods = Inr ns"
    and "feature_by_name fs platform = Inr p" "mapR (feature_by_name fs) mods = Inr ms"
    and "distinct xs" "set xs = fd_name ` closure_of fs p (set ms)"
  shows "ns = sort_key py_upper xs"
proof -
  note N = normalised_modifiers_set [OF assms(2-4)]
  have "set ns \<subseteq> fd_name ` set fs"
    using N(1) closure_self(2) [OF assms(3,4)] by auto
  then have "inj_on py_upper (set ns)"
    using case_distinct_names [OF assms(1)] inj_on_subset by blast
  then have "sort_key py_upper ns = sort_key py_upper xs"
    using N assms(5,6) by (intro sort_key_unique) auto
  then show ?thesis using N(3) by (simp add: sort_key_id_if_sorted)
qed

lemma normalised_modifiers_idem:
  assumes "normalised_modifiers fs n platform mods = Inr ns"
    and "wf_features fs" "length fs < n"
  shows "normalised_modifiers fs n platform ns = Inr ns"
proof -
  obtain p ms where p: "feature_by_name fs platform = Inr p"
    and ms: "mapR (feature_by_name fs) mods = Inr ms"
    by (rule normalised_modifiers_Inr [OF assms(1)])
  obtain cs where cs: "mapR (feature_by_name fs) ns = Inr cs" "map fd_name cs = ns"
    "set cs = closure_of fs p (set ms)" "distinct cs"
    by (rule normalised_modifiers_lookup [OF assms(1) p ms])
  have "platform \<in> fd_name ` set fs" using feature_by_name_Inr [OF p] by auto
  moreover have "set ns \<subseteq> fd_name ` set fs"
    using cs closure_self(2) [OF p ms] by auto
  ultimately obtain ns' where ns': "normalised_modifiers fs n platform ns = Inr ns'"
    using normalised_modifiers_total [OF assms(2,3)] by blast
  obtain xs where xs: "set xs = fd_name ` closure_of fs p (set cs)" "distinct xs"
    "take (length (py_set cs)) xs = map fd_name (py_set cs)" "ns' = sort_key py_upper xs"
    by (rule normalised_modifiers_Inr [OF ns']) (use p cs(1) in auto)
  have "set xs = set ns"
    using xs(1) cs(2,3) closure_of_idem [of fs p "set ms"] by auto
  then have "length xs = length ns"
    using xs(2) normalised_modifiers_set(2) [OF assms(1) p ms] by (metis distinct_card)
  then have "xs = ns"
    using xs(3) cs(2,4) py_set_distinct [OF cs(4)] by (metis length_map take_all_iff le_refl)
  then show ?thesis
    using ns' xs(4) normalised_modifiers_set(3) [OF assms(1) p ms]
    by (simp add: sort_key_id_if_sorted)
qed

subsection \<open>The minimal form\<close>

lemma canon_loop:
  assumes "foldR (\<lambda>m minimal. bindR (included_features fs n True m)
      (\<lambda>incs. Inr (filter (\<lambda>f. f \<notin> set incs) minimal))) ms minimal = Inr cs"
    and "set ms \<subseteq> set fs"
  shows "cs = filter (\<lambda>f. \<forall>m \<in> set ms. f \<notin> reach fs m) minimal"
  using assms
proof (induction ms arbitrary: minimal)
  case (Cons m ms)
  from Cons.prems obtain incs where i: "included_features fs n True m = Inr incs"
    and r: "foldR (\<lambda>m minimal. bindR (included_features fs n True m)
      (\<lambda>incs. Inr (filter (\<lambda>f. f \<notin> set incs) minimal))) ms (filter (\<lambda>f. f \<notin> set incs) minimal) = Inr cs"
    by (auto simp: bindR_Inr_iff)
  have "set incs = reach fs m"
    using included_features_sound [OF _ i] Cons.prems(2) by simp
  then show ?case using Cons.IH [OF r] Cons.prems(2) by (auto intro: filter_cong)
qed simp

lemma canon_loop_total:
  assumes "wf_features fs" "length fs < n" "set ms \<subseteq> set fs"
  shows "\<exists>cs. foldR (\<lambda>m minimal. bindR (included_features fs n True m)
      (\<lambda>incs. Inr (filter (\<lambda>f. f \<notin> set incs) minimal))) ms minimal = Inr cs"
  using assms(3)
proof (induction ms arbitrary: minimal)
  case (Cons m ms)
  then show ?case
    using included_features_total [OF assms(1) _ assms(2), of m] by (auto simp: bindR_Inr_iff)
qed simp

lemma subtract_strings_noop:
  "filter (\<lambda>f. Elem_feature f \<notin> set (Elem_generator # map Elem_str mods)) ms = ms"
  by (rule filter_True) auto

definition minimal_of :: "feature_descriptor list \<Rightarrow> feature_descriptor set \<Rightarrow> feature_descriptor set"
where
  "minimal_of fs M = {f \<in> M. \<forall>m \<in> M. f \<notin> reach fs m}"

lemma canonicalised_features_Inr:
  assumes "canonicalised_features fs n platform mods = Inr cs"
  obtains p ms where "feature_by_name fs platform = Inr p"
    "mapR (feature_by_name fs) mods = Inr ms" "set ms \<subseteq> set fs"
    "cs = p # sort_key (\<lambda>m. py_upper (fd_name m))
            (filter (\<lambda>f. \<forall>m \<in> set ms. f \<notin> reach fs m) (py_set ms))"
proof -
  from assms obtain p ms xs where *: "feature_by_name fs platform = Inr p"
    "mapR (feature_by_name fs) mods = Inr ms"
    "foldR (\<lambda>m minimal. bindR (included_features fs n True m)
      (\<lambda>incs. Inr (filter (\<lambda>f. f \<notin> set incs) minimal))) ms (py_set ms) = Inr xs"
    "cs = p # sort_key (\<lambda>m. py_upper (fd_name m)) xs"
    by (auto simp: canonicalised_features_def bindR_Inr_iff subtract_strings_noop Let_def
        simp del: list.map list.set)
  have "set ms \<subseteq> set fs" using mapR_names_mem [OF *(2)] by blast
  with * canon_loop [OF *(3)] that show ?thesis by blast
qed

lemma canonicalised_features_set:
  assumes "canonicalised_features fs n platform mods = Inr cs"
    and "feature_by_name fs platform = Inr p" "mapR (feature_by_name fs) mods = Inr ms"
  shows "hd cs = p" "cs \<noteq> []" "set (tl cs) = minimal_of fs (set ms)" "distinct (tl cs)"
    "sorted (map (\<lambda>m. py_upper (fd_name m)) (tl cs))"
  by (rule canonicalised_features_Inr [OF assms(1)];
      use assms(2,3) in \<open>auto simp: minimal_of_def\<close>)+

lemma canonicalised_features_total:
  assumes "wf_features fs" "length fs < n"
    and "platform \<in> fd_name ` set fs" "set mods \<subseteq> fd_name ` set fs"
  shows "\<exists>cs. canonicalised_features fs n platform mods = Inr cs"
proof -
  obtain p where p: "feature_by_name fs platform = Inr p"
    using assms(3) feature_by_name_ok by metis
  have "\<forall>m \<in> set mods. \<exists>f. feature_by_name fs m = Inr f"
    using assms(4) feature_by_name_ok by (metis subset_iff)
  then obtain ms where ms: "mapR (feature_by_name fs) mods = Inr ms"
    using mapR_ok_iff by metis
  then have "set ms \<subseteq> set fs" using mapR_names_mem by blast
  then show ?thesis
    using canon_loop_total [OF assms(1,2), of ms "py_set ms"] p ms
    by (auto simp: canonicalised_features_def subtract_strings_noop Let_def
        simp del: list.map list.set)
qed

text \<open>Every feature of a set is kept in its minimal form or included by one that is.\<close>

lemma minimal_of_covers:
  assumes "wf_features fs" "x \<in> M"
  shows "x \<in> minimal_of fs M \<or> (\<exists>m \<in> minimal_of fs M. x \<in> reach fs m)"
proof -
  have "wf ((inclusion fs)\<^sup>+)"
    using assms(1) finite_inclusion finite_acyclic_wf wf_trancl by (metis wf_features_def)
  then show ?thesis using assms(2)
  proof (induction x rule: wf_induct_rule)
    case (less x)
    show ?case
    proof (cases "x \<in> minimal_of fs M")
      case False
      then obtain m where m: "m \<in> M" "x \<in> reach fs m"
        using less.prems by (auto simp: minimal_of_def)
      then have "(m, x) \<in> (inclusion fs)\<^sup>+" by (simp add: reach_def)
      then have "m \<in> minimal_of fs M \<or> (\<exists>m' \<in> minimal_of fs M. m \<in> reach fs m')"
        using less.IH m(1) by blast
      then show ?thesis using m(2) reach_trans by blast
    qed simp
  qed
qed

lemma closure_of_minimal:
  assumes "wf_features fs"
  shows "closure_of fs p (minimal_of fs M) = closure_of fs p M"
proof
  show "closure_of fs p (minimal_of fs M) \<subseteq> closure_of fs p M"
    by (auto simp: closure_of_def minimal_of_def)
  have "M \<subseteq> closure_of fs p (minimal_of fs M)"
    using minimal_of_covers [OF assms] by (fastforce simp: closure_of_def)
  moreover have "(\<Union>m \<in> M. reach fs m) \<subseteq> closure_of fs p (minimal_of fs M)"
    using minimal_of_covers [OF assms] reach_trans by (fastforce simp: closure_of_def)
  ultimately show "closure_of fs p M \<subseteq> closure_of fs p (minimal_of fs M)"
    by (auto simp: closure_of_def)
qed

lemma canonical_normal:
  assumes wf: "wf_features fs" "length fs < n" and cd: "case_distinct fs"
    and cs: "canonicalised_features fs n platform mods = Inr cs"
  shows "\<exists>ns. normalised_modifiers fs n platform mods = Inr ns \<and>
    normalised_modifiers fs n platform (map fd_name (tl cs)) = Inr ns"
proof -
  obtain p ms where p: "feature_by_name fs platform = Inr p"
    and ms: "mapR (feature_by_name fs) mods = Inr ms"
    by (rule canonicalised_features_Inr [OF cs])
  note C = canonicalised_features_set [OF cs p ms]
  have pl: "platform \<in> fd_name ` set fs" using feature_by_name_Inr [OF p] by auto
  have sub: "set ms \<subseteq> set fs" using mapR_names_mem [OF ms] by blast
  have "set mods \<subseteq> fd_name ` set fs"
    using mapR_names_sound [OF ms, symmetric] image_mono [OF sub] by (simp only: set_map)
  then obtain ns where ns: "normalised_modifiers fs n platform mods = Inr ns"
    using normalised_modifiers_total [OF wf pl] by blast
  have tl: "set (tl cs) \<subseteq> set ms" using C(3) by (auto simp: minimal_of_def)
  have "\<forall>m \<in> set (tl cs). feature_by_name fs (fd_name m) = Inr m"
    using tl mapR_names_mem [OF ms] by blast
  then have lk: "mapR (feature_by_name fs) (map fd_name (tl cs)) = Inr (tl cs)"
    by (rule mapR_names_self)
  have "set (map fd_name (tl cs)) \<subseteq> fd_name ` set fs" using tl sub by auto
  then obtain ns' where ns': "normalised_modifiers fs n platform (map fd_name (tl cs)) = Inr ns'"
    using normalised_modifiers_total [OF wf pl] by blast
  note N = normalised_modifiers_set [OF ns p ms] and N' = normalised_modifiers_set [OF ns' p lk]
  have "set ns' = fd_name ` closure_of fs p (set ms)"
    using N'(1) C(3) closure_of_minimal [OF wf(1)] by simp
  then have "ns = sort_key py_upper ns'"
    using normalised_modifiers_unique [OF cd ns p ms N'(2)] by simp
  with N'(3) ns ns' show ?thesis by (simp add: sort_key_id_if_sorted)
qed

subsection \<open>A sufficient check for well-formed universes\<close>

text \<open>
  A universe listed so that every feature includes only earlier ones, with distinct names, is
  well formed; the check runs on concrete universes.
\<close>

fun topo_ok :: "string list \<Rightarrow> feature_descriptor list \<Rightarrow> bool" where
  "topo_ok seen [] = True"
| "topo_ok seen (d # ds) =
     (set (included_feature_names d) \<subseteq> set seen \<and> fd_name d \<notin> set seen \<and>
      topo_ok (fd_name d # seen) ds)"

lemma topo_ok_distinct: "topo_ok seen fs \<Longrightarrow> distinct (map fd_name fs) \<and> set seen \<inter> fd_name ` set fs = {}"
  by (induction seen fs rule: topo_ok.induct) auto

lemma topo_ok_before:
  "topo_ok seen fs \<Longrightarrow> d \<in> set fs \<Longrightarrow> m \<in> set (included_feature_names d) \<Longrightarrow>
    m \<in> set seen \<union> fd_name ` set (takeWhile (\<lambda>x. x \<noteq> d) fs)"
  by (induction seen fs rule: topo_ok.induct) auto

lemma takeWhile_earlier:
  "e \<in> set (takeWhile (\<lambda>x. x \<noteq> d) xs) \<Longrightarrow>
    length (takeWhile (\<lambda>x. x \<noteq> e) xs) < length (takeWhile (\<lambda>x. x \<noteq> d) xs)"
  by (induction xs) (auto split: if_splits)

lemma topo_ok_wf:
  assumes "topo_ok [] fs"
  shows "wf_features fs"
proof -
  have before: "m \<in> fd_name ` set (takeWhile (\<lambda>x. x \<noteq> d) fs)"
    if "d \<in> set fs" "m \<in> set (included_feature_names d)" for d m
    using topo_ok_before [OF assms that] by simp
  have resolve: "names_resolve fs"
    using before set_takeWhileD by (fastforce simp: names_resolve_def)
  have inj: "inj_on fd_name (set fs)"
    using topo_ok_distinct [OF assms] by (simp add: distinct_map)
  let ?idx = "\<lambda>x. length (takeWhile (\<lambda>y. y \<noteq> x) fs)"
  have "?idx e < ?idx d" if "(d, e) \<in> inclusion fs" for d e
  proof -
    from that obtain m where m: "m \<in> set (included_feature_names d)" "feature_by_name fs m = Inr e"
      "d \<in> set fs" by (auto simp: inclusion_def)
    from before [OF m(3,1)] obtain e' where e': "e' \<in> set (takeWhile (\<lambda>x. x \<noteq> d) fs)"
      "fd_name e' = m" by auto
    then have "e' = e"
      using inj feature_by_name_Inr [OF m(2)] set_takeWhileD [OF e'(1)] by (auto dest: inj_onD)
    with e' show ?thesis by (auto intro: takeWhile_earlier)
  qed
  then have "inclusion fs \<subseteq> (measure ?idx)\<inverse>" by auto
  then show ?thesis using resolve wf_acyclic [OF wf_measure, of ?idx]
    unfolding wf_features_def by (metis acyclic_converse acyclic_subset)
qed

end
