(* ===== verification/Shipped.thy ===== *)
theory Shipped
  imports Modifiers
begin

text \<open>
  The feature universe of this repository, \<open>features/*/info.yaml\<close>, as \<open>features()\<close> loads it: the
  types \<open>element\<close> and \<open>flag\<close> read as \<open>modifier\<close>, the name taken from the directory.  It is the
  concrete universe on which the theorems about features are instantiated.  The descriptions,
  which no operation reads, are left at the default.
\<close>

definition feature :: "feature_type \<Rightarrow> string \<Rightarrow> features_cfg option \<Rightarrow> feature_descriptor" where
  "feature t n fcfg = \<lparr>fd_type = t, fd_name = n, fd_description = ''no description available'',
     fd_features = fcfg\<rparr>"

definition shipped_features :: "feature_descriptor list" where
  "shipped_features =
    [
     feature MODIFIER ''_build'' None,
     feature MODIFIER ''_dev'' None,
     feature MODIFIER ''_ignite'' None,
     feature MODIFIER ''_iso'' None,
     feature MODIFIER ''_nopkg'' None,
     feature MODIFIER ''_pxe'' (Some \<lparr>fc_include = [''_ignite'']\<rparr>),
     feature MODIFIER ''_slim'' None,
     feature MODIFIER ''base'' (Some \<lparr>fc_include = [''_slim'']\<rparr>),
     feature MODIFIER ''example'' (Some \<lparr>fc_include = [''_slim'']\<rparr>),
     feature PLATFORM ''oci'' (Some \<lparr>fc_include = [''base'']\<rparr>),
     feature MODIFIER ''server'' (Some \<lparr>fc_include = [''base'']\<rparr>),
     feature MODIFIER ''vhost'' (Some \<lparr>fc_include = [''server'']\<rparr>),
     feature MODIFIER ''_readonly'' (Some \<lparr>fc_include = [''server'']\<rparr>),
     feature MODIFIER ''chost'' (Some \<lparr>fc_include = [''server'']\<rparr>),
     feature MODIFIER ''cloud'' (Some \<lparr>fc_include = [''server'']\<rparr>),
     feature MODIFIER ''gardener'' (Some \<lparr>fc_include = [''server'']\<rparr>),
     feature PLATFORM ''gcp'' (Some \<lparr>fc_include = [''cloud'']\<rparr>),
     feature MODIFIER ''khost'' (Some \<lparr>fc_include = [''chost'']\<rparr>),
     feature PLATFORM ''kvm'' (Some \<lparr>fc_include = [''cloud'']\<rparr>),
     feature PLATFORM ''metal'' (Some \<lparr>fc_include = [''server'']\<rparr>),
     feature PLATFORM ''openstack'' (Some \<lparr>fc_include = [''cloud'']\<rparr>),
     feature PLATFORM ''vmware'' (Some \<lparr>fc_include = [''cloud'']\<rparr>),
     feature MODIFIER ''_prod'' (Some \<lparr>fc_include = [''_nopkg'', ''_readonly'']\<rparr>),
     feature PLATFORM ''ali'' (Some \<lparr>fc_include = [''cloud'']\<rparr>),
     feature PLATFORM ''aws'' (Some \<lparr>fc_include = [''cloud'']\<rparr>),
     feature PLATFORM ''azure'' (Some \<lparr>fc_include = [''cloud'']\<rparr>)]"

lemma shipped_topo: "topo_ok [] shipped_features"
  by (simp add: shipped_features_def feature_def included_feature_names_def)

lemma shipped_wf: "wf_features shipped_features"
  by (rule topo_ok_wf [OF shipped_topo])

lemma shipped_length: "length shipped_features = 26"
  by (simp add: shipped_features_def)

lemma shipped_names: "map fd_name shipped_features =
   [''_build'', ''_dev'', ''_ignite'', ''_iso'', ''_nopkg'', ''_pxe'', ''_slim'', ''base'', 
    ''example'', ''oci'', ''server'', ''vhost'', ''_readonly'', ''chost'', ''cloud'', 
    ''gardener'', ''gcp'', ''khost'', ''kvm'', ''metal'', ''openstack'', ''vmware'', ''_prod'', 
    ''ali'', ''aws'', ''azure'']"
  by (simp add: shipped_features_def feature_def)

lemma shipped_case_distinct: "case_distinct shipped_features"
proof -
  have "distinct (map py_upper (map fd_name shipped_features))"
    unfolding shipped_names by code_simp
  then show ?thesis by (simp add: case_distinct_def distinct_map comp_def)
qed

end
