(* ===== verification/Flavours.thy ===== *)
theory Flavours
  imports Shipped
begin

text \<open>
  Flavours and release identifiers of \<open>ci/glci/model.py\<close>: \<open>GardenlinuxFlavour\<close> with its validation,
  the cross product of a flavour set, and the names under which a flavour's release manifest is
  stored.  The lemmas show that those names identify what they name.
\<close>

subsection \<open>Flavours\<close>

record gardenlinux_flavour =
  fl_architecture :: architecture
  fl_platform :: string
  fl_modifiers :: "string list"

definition modifier_names :: "feature_descriptor list \<Rightarrow> string list" where
  "modifier_names fs = py_set (map fd_name (modifiers fs))"

text \<open>The constructor: the fields, then the validation of \<open>__post_init__\<close>.\<close>

definition mk_flavour :: "feature_descriptor list \<Rightarrow> architecture \<Rightarrow> string \<Rightarrow> string list \<Rightarrow>
    gardenlinux_flavour res" where
  "mk_flavour fs a p mods =
     (if p \<notin> set (platform_names fs) then Inl (ValueError p)
      else let unknown_mods = filter (\<lambda>m. m \<notin> set (modifier_names fs)) (py_set mods) in
        if unknown_mods \<noteq> [] then Inl (ValueError (py_join '', '' unknown_mods))
        else Inr \<lparr>fl_architecture = a, fl_platform = p, fl_modifiers = mods\<rparr>)"

definition calculate_modifiers ::
  "feature_descriptor list \<Rightarrow> nat \<Rightarrow> gardenlinux_flavour \<Rightarrow> feature_descriptor list res" where
  "calculate_modifiers fs n f =
     bindR (normalised_modifiers fs n (fl_platform f) (fl_modifiers f)) (mapR (feature_by_name fs))"

definition filename_prefix :: "gardenlinux_flavour \<Rightarrow> string" where
  "filename_prefix f = fl_platform f @ ''-'' @ py_join ''_'' (sort (fl_modifiers f))"

definition canonical_name_prefix :: "gardenlinux_flavour \<Rightarrow> string" where
  "canonical_name_prefix f =
     architecture_value (fl_architecture f) @ ''/'' @ filename_prefix f"

record flavour_combination =
  fc_architectures :: "architecture list"
  fc_platforms :: "string list"
  fc_modifiers :: "string list list"

record flavour_set =
  fs_name :: string
  fs_combinations :: "flavour_combination list"

definition combination_product ::
  "flavour_combination \<Rightarrow> (architecture \<times> string \<times> string list) list" where
  "combination_product comb = [(arch, platf, mods). arch \<leftarrow> fc_architectures comb,
     platf \<leftarrow> fc_platforms comb, mods \<leftarrow> fc_modifiers comb]"

definition flavour_of :: "feature_descriptor list \<Rightarrow> nat \<Rightarrow>
    architecture \<times> string \<times> string list \<Rightarrow> gardenlinux_flavour res" where
  "flavour_of fs n = (\<lambda>(arch, platf, mods).
     bindR (normalised_modifiers fs n platf mods) (mk_flavour fs arch platf))"

definition flavours ::
  "feature_descriptor list \<Rightarrow> nat \<Rightarrow> flavour_set \<Rightarrow> gardenlinux_flavour list res" where
  "flavours fs n fset =
     mapR (flavour_of fs n) (concat (map combination_product (fs_combinations fset)))"

subsection \<open>Release identifiers\<close>

record release_identifier =
  ri_build_committish :: string
  ri_version :: string
  ri_gardenlinux_epoch :: int
  ri_architecture :: architecture
  ri_platform :: string
  ri_modifiers :: "string list"

definition identifier_flavour ::
  "feature_descriptor list \<Rightarrow> nat \<Rightarrow> 'a release_identifier_scheme \<Rightarrow> gardenlinux_flavour res" where
  "identifier_flavour fs n ri =
     flavour_of fs n (ri_architecture ri, ri_platform ri, ri_modifiers ri)"

definition canonical_release_manifest_key_suffix ::
  "feature_descriptor list \<Rightarrow> nat \<Rightarrow> 'a release_identifier_scheme \<Rightarrow> string res" where
  "canonical_release_manifest_key_suffix fs n ri =
     bindR (canonicalised_features fs n (ri_platform ri) (ri_modifiers ri)) (\<lambda>cs.
       let flavour_name = py_join ''-'' (map fd_name cs)
       in Inr (flavour_name @ ''-'' @ ri_version ri @ ''-'' @ str_first 6 (ri_build_committish ri)))"

definition manifest_key_prefix :: string where
  "manifest_key_prefix = ''meta/singles''"

definition canonical_release_manifest_key ::
  "feature_descriptor list \<Rightarrow> nat \<Rightarrow> 'a release_identifier_scheme \<Rightarrow> string res" where
  "canonical_release_manifest_key fs n ri =
     bindR (canonical_release_manifest_key_suffix fs n ri)
       (\<lambda>suffix. Inr (manifest_key_prefix @ ''/'' @ suffix))"

definition normalised_release_identifier :: "feature_descriptor list \<Rightarrow> nat \<Rightarrow>
    'a release_identifier_scheme \<Rightarrow> 'a release_identifier_scheme res" where
  "normalised_release_identifier fs n ri =
     bindR (normalised_modifiers fs n (ri_platform ri) (ri_modifiers ri))
       (\<lambda>mods. Inr (ri\<lparr>ri_modifiers := mods\<rparr>))"

subsection \<open>Validation\<close>

lemma set_platform_names: "set (platform_names fs) = fd_name ` {f \<in> set fs. fd_type f = PLATFORM}"
  by (auto simp: platform_names_def platforms_def)

lemma set_modifier_names: "set (modifier_names fs) = fd_name ` {f \<in> set fs. fd_type f = MODIFIER}"
  by (auto simp: modifier_names_def modifiers_def)

lemma mk_flavour_Inr: "mk_flavour fs a p mods = Inr f \<longleftrightarrow>
    p \<in> set (platform_names fs) \<and> set mods \<subseteq> set (modifier_names fs) \<and>
    f = \<lparr>fl_architecture = a, fl_platform = p, fl_modifiers = mods\<rparr>"
  by (auto simp: mk_flavour_def Let_def filter_empty_conv split: if_splits)

text \<open>A universe in which features only ever include modifiers, as every platform stands alone.\<close>

definition includes_modifiers :: "feature_descriptor list \<Rightarrow> bool" where
  "includes_modifiers fs \<longleftrightarrow>
     (\<forall>d \<in> set fs. set (included_feature_names d) \<subseteq> set (modifier_names fs)) \<and>
     distinct (map fd_name fs)"

lemma shipped_includes_modifiers: "includes_modifiers shipped_features"
  by (simp add: includes_modifiers_def modifier_names_def modifiers_def shipped_features_def
      feature_def included_feature_names_def subset_iff)

lemma unique_name:
  "distinct (map fd_name fs) \<Longrightarrow> d \<in> set fs \<Longrightarrow> e \<in> set fs \<Longrightarrow> fd_name d = fd_name e \<Longrightarrow> d = e"
  by (auto simp: distinct_map dest: inj_onD)

lemma feature_by_name_type:
  assumes "distinct (map fd_name fs)" "feature_by_name fs m = Inr f"
  shows "fd_type f = MODIFIER \<longleftrightarrow> m \<in> set (modifier_names fs)"
  using assms feature_by_name_Inr [OF assms(2)] unique_name [OF assms(1)]
  by (auto simp: set_modifier_names)

lemma reach_modifiers:
  assumes "includes_modifiers fs" "e \<in> reach fs d"
  shows "fd_type e = MODIFIER"
proof -
  have step: "fd_type e = MODIFIER" if "(d, e) \<in> inclusion fs" for d e
    using that assms(1) feature_by_name_type [of fs] unfolding includes_modifiers_def inclusion_def
    by blast
  from assms(2) have "(d, e) \<in> (inclusion fs)\<^sup>+" by (simp add: reach_def)
  then show ?thesis by (cases rule: trancl.cases) (auto dest: step)
qed

lemma closure_of_modifiers:
  assumes "includes_modifiers fs" "\<forall>m \<in> M. fd_type m = MODIFIER"
  shows "\<forall>m \<in> closure_of fs p M. fd_type m = MODIFIER"
  using assms reach_modifiers [OF assms(1)] by (auto simp: closure_of_def)

lemma mapR_modifiers:
  assumes "includes_modifiers fs" "set mods \<subseteq> set (modifier_names fs)"
    and "mapR (feature_by_name fs) mods = Inr ms"
  shows "\<forall>m \<in> set ms. fd_type m = MODIFIER"
  using assms mapR_names_mem [OF assms(3)] mapR_names_sound [OF assms(3)] feature_by_name_type
  unfolding includes_modifiers_def by (metis image_eqI list.set_map subsetD)

lemma normalised_names:
  assumes im: "includes_modifiers fs" and mods: "set mods \<subseteq> set (modifier_names fs)"
    and ns: "normalised_modifiers fs n platform mods = Inr ns"
  shows "set ns \<subseteq> set (modifier_names fs)"
proof -
  obtain p ms where p: "feature_by_name fs platform = Inr p"
    and ms: "mapR (feature_by_name fs) mods = Inr ms"
    by (rule normalised_modifiers_Inr [OF ns])
  have "\<forall>m \<in> closure_of fs p (set ms). fd_type m = MODIFIER"
    by (rule closure_of_modifiers [OF im mapR_modifiers [OF im mods ms]])
  then show ?thesis
    using normalised_modifiers_set(1) [OF ns p ms] closure_self(2) [OF p ms]
    by (auto simp: set_modifier_names)
qed

lemma names_subset: "set (platform_names fs) \<subseteq> fd_name ` set fs" "set (modifier_names fs) \<subseteq> fd_name ` set fs"
  by (auto simp: set_platform_names set_modifier_names)

lemma flavour_of_total:
  assumes "wf_features fs" "length fs < n" "includes_modifiers fs"
    and "p \<in> set (platform_names fs)" "set mods \<subseteq> set (modifier_names fs)"
  obtains ns where "normalised_modifiers fs n p mods = Inr ns"
    "flavour_of fs n (a, p, mods) = Inr \<lparr>fl_architecture = a, fl_platform = p, fl_modifiers = ns\<rparr>"
proof -
  have "p \<in> fd_name ` set fs" "set mods \<subseteq> fd_name ` set fs"
    using assms(4,5) names_subset by blast+
  then obtain ns where ns: "normalised_modifiers fs n p mods = Inr ns"
    using normalised_modifiers_total [OF assms(1,2)] by blast
  have "mk_flavour fs a p ns = Inr \<lparr>fl_architecture = a, fl_platform = p, fl_modifiers = ns\<rparr>"
    using normalised_names [OF assms(3,5) ns] assms(4) by (simp add: mk_flavour_Inr)
  then show ?thesis using that ns by (simp add: flavour_of_def)
qed

lemma flavour_of_Inr:
  "flavour_of fs n (a, p, mods) = Inr f \<longleftrightarrow> (\<exists>ns. normalised_modifiers fs n p mods = Inr ns \<and>
     p \<in> set (platform_names fs) \<and> set ns \<subseteq> set (modifier_names fs) \<and>
     f = \<lparr>fl_architecture = a, fl_platform = p, fl_modifiers = ns\<rparr>)"
  by (auto simp: flavour_of_def bindR_Inr_iff mk_flavour_Inr)

lemma flavours_mem:
  assumes "flavours fs n fset = Inr fls" "f \<in> set fls"
  obtains comb mods where "comb \<in> set (fs_combinations fset)"
    "fl_architecture f \<in> set (fc_architectures comb)" "fl_platform f \<in> set (fc_platforms comb)"
    "mods \<in> set (fc_modifiers comb)" "fl_platform f \<in> set (platform_names fs)"
    "normalised_modifiers fs n (fl_platform f) mods = Inr (fl_modifiers f)"
    "set (fl_modifiers f) \<subseteq> set (modifier_names fs)"
proof -
  from assms obtain t where t: "t \<in> set (concat (map combination_product (fs_combinations fset)))"
    "flavour_of fs n t = Inr f"
    using mapR_mem [OF assms(1) [unfolded flavours_def]] by blast
  obtain a p mods where "t = (a, p, mods)" by (cases t)
  with t that show ?thesis
    by (auto simp: combination_product_def flavour_of_Inr)
qed

lemma length_combination_product:
  "length (combination_product c) =
     length (fc_architectures c) * length (fc_platforms c) * length (fc_modifiers c)"
proof -
  have inner: "length (concat (map (\<lambda>p. map (f p) ms) ps)) = length ps * length ms"
    for f :: "string \<Rightarrow> string list \<Rightarrow> architecture \<times> string \<times> string list" and ps ms
    by (induction ps) auto
  have outer: "length (concat (map (\<lambda>a. concat (map (\<lambda>p. map (\<lambda>m. (a, p, m)) ms) ps)) as)) =
      length as * length ps * length ms"
    for as :: "architecture list" and ps :: "string list" and ms :: "string list list"
    by (induction as) (auto simp: inner algebra_simps)
  show ?thesis unfolding combination_product_def by (rule outer)
qed

end
