(* ===== verification/Naming.thy ===== *)
theory Naming
  imports Flavours
begin

text \<open>
  What the names of flavours and releases identify, and the properties of the feature system that
  the build relies on: the closure a flavour stands for, its minimal form, and the storage key of
  its release manifest.
\<close>

subsection \<open>Joined names are decodable\<close>

text \<open>
  Feature names are non-empty, contain no hyphen, and an underscore at most in front: the
  conventions that make the joined names unambiguous.
\<close>

definition clean_name :: "string \<Rightarrow> bool" where
  "clean_name s \<longleftrightarrow> s \<noteq> [] \<and> CHR ''-'' \<notin> set s \<and> CHR ''_'' \<notin> set (tl s)"

definition clean_names :: "feature_descriptor list \<Rightarrow> bool" where
  "clean_names fs \<longleftrightarrow> (\<forall>f \<in> set fs. clean_name (fd_name f))"

lemma shipped_clean_names: "clean_names shipped_features"
proof -
  have "\<forall>s \<in> set (map fd_name shipped_features). clean_name s"
    unfolding shipped_names by (simp add: clean_name_def)
  then show ?thesis by (simp add: clean_names_def)
qed

lemma append_sep_inj:
  "c \<notin> set xs \<Longrightarrow> c \<notin> set ys \<Longrightarrow> xs @ c # us = ys @ c # vs \<longleftrightarrow> xs = ys \<and> us = vs"
proof (induction xs arbitrary: ys)
  case Nil
  then show ?case by (cases ys) auto
next
  case (Cons x xs)
  then show ?case by (cases ys) auto
qed

lemma join_underscore_inj:
  assumes "\<forall>x \<in> set xs. clean_name x" "\<forall>y \<in> set ys. clean_name y"
    and "py_join ''_'' xs = py_join ''_'' ys"
  shows "xs = ys"
  using assms
proof (induction xs arbitrary: ys)
  case Nil
  then show ?case by (cases ys rule: remdups_adj.cases) (auto simp: clean_name_def)
next
  case (Cons x xs)
  obtain a s where x: "x = a # s" "CHR ''_'' \<notin> set s"
    using Cons.prems(1) by (cases x) (auto simp: clean_name_def)
  from Cons.prems(3) x obtain y ys' where ys: "ys = y # ys'"
    by (cases ys; cases xs) auto
  obtain b t where y: "y = b # t" "CHR ''_'' \<notin> set t"
    using Cons.prems(2) ys by (cases y) (auto simp: clean_name_def)
  show ?case
  proof (cases "xs = [] \<or> ys' = []")
    case True
    then show ?thesis using Cons.prems(3) x y ys
      by (cases xs; cases ys') (auto simp: py_join_Cons)
  next
    case False
    then have "s @ CHR ''_'' # py_join ''_'' xs = t @ CHR ''_'' # py_join ''_'' ys'" "a = b"
      using Cons.prems(3) x y ys by (auto simp: py_join_Cons)
    then have "x = y" "py_join ''_'' xs = py_join ''_'' ys'"
      using append_sep_inj [OF x(2) y(2)] x(1) y(1) by auto
    then show ?thesis using Cons.IH [of ys'] Cons.prems(1,2) ys by simp
  qed
qed

lemma filename_prefix_inj:
  assumes clean: "\<forall>m \<in> set (fl_modifiers f). clean_name m" "\<forall>m \<in> set (fl_modifiers g). clean_name m"
    and hyph: "CHR ''-'' \<notin> set (fl_platform f)" "CHR ''-'' \<notin> set (fl_platform g)"
    and eq: "filename_prefix f = filename_prefix g"
  shows "fl_platform f = fl_platform g" "sort (fl_modifiers f) = sort (fl_modifiers g)"
proof -
  from eq have pm: "fl_platform f = fl_platform g"
    "py_join ''_'' (sort (fl_modifiers f)) = py_join ''_'' (sort (fl_modifiers g))"
    using append_sep_inj [OF hyph] by (auto simp: filename_prefix_def)
  show "fl_platform f = fl_platform g" by (rule pm(1))
  show "sort (fl_modifiers f) = sort (fl_modifiers g)"
    by (rule join_underscore_inj) (use clean pm(2) in auto)
qed

lemma py_split_append_sep: "py_split c (x @ c # s) = py_split c x @ py_split c s"
proof (induction x)
  case (Cons a x)
  then show ?case by (cases "py_split c x") auto
qed simp

lemma key_parts:
  assumes "names \<noteq> []" "\<forall>x \<in> set names. CHR ''-'' \<notin> set x" "CHR ''-'' \<notin> set c"
  shows "py_split CHR ''-'' (py_join ''-'' names @ ''-'' @ v @ ''-'' @ c) =
    names @ py_split CHR ''-'' v @ [c]"
  using assms by (simp add: py_split_append_sep py_split_join py_split_id)

lemma split_inj: "py_split c s = py_split c t \<Longrightarrow> s = t"
  by (metis py_join_split)

lemma key_parts_inj:
  assumes "set ns \<subseteq> N" "set ms \<subseteq> N" "hd (py_split CHR ''-'' v) \<notin> N" "hd (py_split CHR ''-'' w) \<notin> N"
    and "ns @ py_split CHR ''-'' v @ [c] = ms @ py_split CHR ''-'' w @ [d]"
  shows "ns = ms" "v = w" "c = d"
proof -
  have tw: "takeWhile (\<lambda>x. x \<in> N) (xs @ py_split CHR ''-'' u @ [e]) = xs"
    if "set xs \<subseteq> N" "hd (py_split CHR ''-'' u) \<notin> N" for xs u e
  proof -
    have "takeWhile (\<lambda>x. x \<in> N) (py_split CHR ''-'' u @ [e]) = []"
      using that(2) by (cases "py_split CHR ''-'' u") auto
    then show ?thesis using that(1) by (subst takeWhile_append2) auto
  qed
  show "ns = ms" using tw [OF assms(1,3)] tw [OF assms(2,4)] assms(5) by metis
  then have "py_split CHR ''-'' v = py_split CHR ''-'' w" "c = d" using assms(5) by auto
  then show "v = w" "c = d" by (auto dest: split_inj)
qed

lemma canonical_key_parts:
  assumes clean: "clean_names fs"
    and key: "canonical_release_manifest_key fs n ri = Inr k"
    and hyph: "CHR ''-'' \<notin> set (ri_build_committish ri)"
  obtains cs where "canonicalised_features fs n (ri_platform ri) (ri_modifiers ri) = Inr cs"
    "set (map fd_name cs) \<subseteq> fd_name ` set fs"
    "k = manifest_key_prefix @ ''/'' @ py_join ''-'' (map fd_name cs) @ ''-'' @ ri_version ri @
       ''-'' @ str_first 6 (ri_build_committish ri)"
    "py_split CHR ''-'' (py_join ''-'' (map fd_name cs) @ ''-'' @ ri_version ri @
       ''-'' @ str_first 6 (ri_build_committish ri)) =
       map fd_name cs @ py_split CHR ''-'' (ri_version ri) @ [str_first 6 (ri_build_committish ri)]"
proof -
  from key obtain cs where cs: "canonicalised_features fs n (ri_platform ri) (ri_modifiers ri) = Inr cs"
    and k: "k = manifest_key_prefix @ ''/'' @ py_join ''-'' (map fd_name cs) @ ''-'' @
       ri_version ri @ ''-'' @ str_first 6 (ri_build_committish ri)"
    by (auto simp: canonical_release_manifest_key_def canonical_release_manifest_key_suffix_def
        bindR_Inr_iff Let_def)
  obtain p ms where p: "feature_by_name fs (ri_platform ri) = Inr p"
    and ms: "mapR (feature_by_name fs) (ri_modifiers ri) = Inr ms"
    by (rule canonicalised_features_Inr [OF cs])
  note C = canonicalised_features_set [OF cs p ms]
  have sub: "set cs \<subseteq> set fs"
  proof -
    have "set cs = insert p (set (tl cs))" using C(1,2) by (cases cs) auto
    then show ?thesis
      using C(3) feature_by_name_Inr [OF p] mapR_names_mem [OF ms] by (auto simp: minimal_of_def)
  qed
  have h: "CHR ''-'' \<notin> set (str_first 6 (ri_build_committish ri))"
    using hyph by (auto simp: str_first_def dest: in_set_takeD)
  have nm: "\<forall>x \<in> set (map fd_name cs). CHR ''-'' \<notin> set x"
    using sub clean by (auto simp: clean_names_def clean_name_def)
  have ne: "map fd_name cs \<noteq> []" using C(2) by simp
  from sub have sub': "set (map fd_name cs) \<subseteq> fd_name ` set fs" by auto
  show ?thesis
    by (rule that [OF cs sub' k key_parts [OF ne nm h]])
qed

lemma canonical_names_normal:
  assumes wf: "wf_features fs" "length fs < n" "case_distinct fs"
    and cs: "canonicalised_features fs n p mods = Inr cs"
    and ds: "canonicalised_features fs n q mods' = Inr ds"
    and eq: "map fd_name cs = map fd_name ds"
  shows "p = q \<and> (\<exists>ns. normalised_modifiers fs n p mods = Inr ns \<and>
                        normalised_modifiers fs n q mods' = Inr ns)"
proof -
  have hd: "fd_name (hd es) = r \<and> es \<noteq> []" if "canonicalised_features fs n r ms = Inr es" for r ms es
  proof (rule canonicalised_features_Inr [OF that])
    fix p' ms' assume "feature_by_name fs r = Inr p'"
      and es: "es = p' # sort_key (\<lambda>m. py_upper (fd_name m))
        (filter (\<lambda>f. \<forall>m \<in> set ms'. f \<notin> reach fs m) (py_set ms'))"
    then show ?thesis using feature_by_name_Inr [of fs r p'] by simp
  qed
  have pq: "p = q" using hd [OF cs] hd [OF ds] eq by (metis hd_map)
  have tl: "map fd_name (tl cs) = map fd_name (tl ds)" using eq by (metis map_tl)
  from canonical_normal [OF wf cs] obtain ns where
    ns: "normalised_modifiers fs n p mods = Inr ns"
      "normalised_modifiers fs n p (map fd_name (tl cs)) = Inr ns" by blast
  from canonical_normal [OF wf ds] obtain ns' where
    ns': "normalised_modifiers fs n q mods' = Inr ns'"
      "normalised_modifiers fs n q (map fd_name (tl ds)) = Inr ns'" by blast
  show ?thesis using pq ns ns' tl by auto
qed

subsection \<open>Properties\<close>

text \<open>
  C5: \<open>included_features\<close> terminates exactly on the features from which no include cycle can be
  reached (with a recursion bound above the number of features); on a cycle no bound is enough.
  What it returns is the set of the features that the feature includes directly or transitively.
\<close>

theorem included_features_correct:
  assumes "names_resolve fs" and "d \<in> set fs" and "length fs < n"
  shows "(\<exists>xs. included_features fs n True d = Inr xs \<and> set xs = reach fs d) \<longleftrightarrow>
    (\<forall>e \<in> insert d (reach fs d). (e, e) \<notin> (inclusion fs)\<^sup>+)"
  using included_features_iff [OF assms] included_features_sound [OF assms(2)]
  by (auto simp: cycle_free_def reach_def)

theorem included_features_correct_witness:
  "\<exists>xs. included_features shipped_features 27 True
       (feature MODIFIER ''_pxe'' (Some \<lparr>fc_include = [''_ignite'']\<rparr>)) = Inr xs \<and>
     set xs = reach shipped_features (feature MODIFIER ''_pxe'' (Some \<lparr>fc_include = [''_ignite'']\<rparr>))"
proof -
  let ?d = "feature MODIFIER ''_pxe'' (Some \<lparr>fc_include = [''_ignite'']\<rparr>)"
  have "names_resolve shipped_features" using shipped_wf by (simp add: wf_features_def)
  moreover have "?d \<in> set shipped_features" by (simp add: shipped_features_def)
  moreover have "length shipped_features < 27" by (simp add: shipped_length)
  ultimately have "(\<exists>xs. included_features shipped_features 27 True ?d = Inr xs \<and>
      set xs = reach shipped_features ?d) \<longleftrightarrow>
    (\<forall>e \<in> insert ?d (reach shipped_features ?d). (e, e) \<notin> (inclusion shipped_features)\<^sup>+)"
    by (rule included_features_correct)
  moreover have "acyclic (inclusion shipped_features)" using shipped_wf by (simp add: wf_features_def)
  ultimately show ?thesis by (simp add: acyclic_def)
qed

text \<open>
  C6: the normal form of a flavour. For every platform and modifiers of a well-formed universe
  \<open>normalised_modifiers\<close> returns; the result is duplicate-free, sorted by its upper-case names, and
  lists exactly the modifiers, what they include and what the platform includes, transitively;
  and normalising it again gives it back.
\<close>

theorem normalised_modifiers_correct:
  assumes "wf_features fs" and "length fs < n" and "case_distinct fs"
    and "feature_by_name fs platform = Inr p" and "mapR (feature_by_name fs) mods = Inr ms"
  shows "\<exists>ns. normalised_modifiers fs n platform mods = Inr ns \<and>
    set ns = fd_name ` (set ms \<union> (\<Union>m \<in> set ms. reach fs m) \<union> reach fs p) \<and>
    distinct ns \<and> sorted (map py_upper ns) \<and>
    normalised_modifiers fs n platform ns = Inr ns"
proof -
  have "platform \<in> fd_name ` set fs" using feature_by_name_Inr [OF assms(4)] by auto
  moreover have "set mods \<subseteq> fd_name ` set fs"
    using mapR_names_sound [OF assms(5)] mapR_names_mem [OF assms(5)] by auto
  ultimately obtain ns where ns: "normalised_modifiers fs n platform mods = Inr ns"
    using normalised_modifiers_total [OF assms(1,2)] by blast
  show ?thesis
    using ns normalised_modifiers_set [OF ns assms(4,5)]
      normalised_modifiers_idem [OF ns assms(1,2)]
    by (simp add: closure_of_def)
qed

lemma shipped_aws:
  "feature_by_name shipped_features ''aws'' =
     Inr (feature PLATFORM ''aws'' (Some \<lparr>fc_include = [''cloud'']\<rparr>))"
  "mapR (feature_by_name shipped_features) [''gardener'', ''cloud''] =
     Inr [feature MODIFIER ''gardener'' (Some \<lparr>fc_include = [''server'']\<rparr>),
          feature MODIFIER ''cloud'' (Some \<lparr>fc_include = [''server'']\<rparr>)]"
  by (simp_all add: feature_by_name_def shipped_features_def feature_def)

lemma shipped_fuel: "length shipped_features < 27"
  by (simp add: shipped_length)

theorem normalised_modifiers_correct_witness:
  "\<exists>ns. normalised_modifiers shipped_features 27 ''aws'' [''gardener'', ''cloud''] = Inr ns \<and>
     distinct ns \<and> normalised_modifiers shipped_features 27 ''aws'' ns = Inr ns"
  using normalised_modifiers_correct [OF shipped_wf shipped_fuel shipped_case_distinct
      shipped_aws(1,2)] by blast

lemma shipped_canonical:
  "\<exists>cs. canonicalised_features shipped_features 27 ''aws'' [''gardener'', ''cloud''] = Inr cs"
  by (rule canonicalised_features_total [OF shipped_wf shipped_fuel])
    (simp_all only: list.set_map [symmetric] shipped_names, simp_all)



text \<open>
  C8: every flavour of a flavour set. When the combinations name known platforms and modifiers,
  \<open>flavours\<close> returns one flavour per architecture, platform and modifier list, in that order of
  nesting, and each has passed the validation of its constructor: a known platform and the closed,
  sorted list of modifiers.
\<close>

theorem flavours_correct:
  assumes "wf_features fs" and "length fs < n" and "includes_modifiers fs"
    and "\<forall>c \<in> set (fs_combinations fset). set (fc_platforms c) \<subseteq> set (platform_names fs) \<and>
           (\<forall>mods \<in> set (fc_modifiers c). set mods \<subseteq> set (modifier_names fs))"
  shows "\<exists>fls. flavours fs n fset = Inr fls \<and>
    length fls = (\<Sum>c \<leftarrow> fs_combinations fset.
      length (fc_architectures c) * length (fc_platforms c) * length (fc_modifiers c)) \<and>
    list_all2 (\<lambda>(a, p, mods) f. fl_architecture f = a \<and> fl_platform f = p \<and>
        normalised_modifiers fs n p mods = Inr (fl_modifiers f) \<and>
        mk_flavour fs a p (fl_modifiers f) = Inr f)
      (concat (map combination_product (fs_combinations fset))) fls"
proof -
  let ?ts = "concat (map combination_product (fs_combinations fset))"
  have "\<exists>f. flavour_of fs n t = Inr f" if "t \<in> set ?ts" for t
  proof -
    obtain a p mods where t: "t = (a, p, mods)" by (cases t)
    with that obtain c where c: "c \<in> set (fs_combinations fset)" "p \<in> set (fc_platforms c)"
      "mods \<in> set (fc_modifiers c)"
      by (auto simp: combination_product_def)
    then have "p \<in> set (platform_names fs)" "set mods \<subseteq> set (modifier_names fs)"
      using assms(4) by blast+
    then show ?thesis using flavour_of_total [OF assms(1-3)] t by metis
  qed
  then obtain fls where fls: "flavours fs n fset = Inr fls"
    unfolding flavours_def by (metis mapR_total)
  have step: "case t of (a, p, mods) \<Rightarrow> fl_architecture f = a \<and> fl_platform f = p \<and>
      normalised_modifiers fs n p mods = Inr (fl_modifiers f) \<and>
      mk_flavour fs a p (fl_modifiers f) = Inr f" if "flavour_of fs n t = Inr f" for t f
    using that by (cases t) (auto simp: flavour_of_Inr mk_flavour_Inr)
  have "list_all2 (\<lambda>t f. flavour_of fs n t = Inr f) ?ts fls"
    using fls by (simp add: flavours_def mapR_Inr_iff)
  then have rel: "list_all2 (\<lambda>(a, p, mods) f. fl_architecture f = a \<and> fl_platform f = p \<and>
        normalised_modifiers fs n p mods = Inr (fl_modifiers f) \<and>
        mk_flavour fs a p (fl_modifiers f) = Inr f) ?ts fls"
    by (rule list_all2_mono) (auto dest: step)
  have "length fls = length ?ts" using list_all2_lengthD [OF rel] by simp
  also have "\<dots> = (\<Sum>c \<leftarrow> fs_combinations fset.
      length (fc_architectures c) * length (fc_platforms c) * length (fc_modifiers c))"
    by (simp add: length_concat comp_def length_combination_product)
  finally show ?thesis using fls rel by blast
qed

definition sample_flavour_set :: flavour_set where
  "sample_flavour_set = \<lparr>fs_name = ''all'', fs_combinations =
     [\<lparr>fc_architectures = [AMD64], fc_platforms = [''aws'', ''gcp''],
       fc_modifiers = [[''gardener''], [''chost'', ''_prod'']]\<rparr>]\<rparr>"

theorem flavours_correct_witness:
  "\<exists>fls. flavours shipped_features 27 sample_flavour_set = Inr fls \<and> length fls = 4"
proof -
  have names: "set [''aws'', ''gcp''] \<subseteq> set (platform_names shipped_features)"
    "set [''gardener''] \<subseteq> set (modifier_names shipped_features)"
    "set [''chost'', ''_prod''] \<subseteq> set (modifier_names shipped_features)"
    by (simp_all add: platform_names_def platforms_def modifier_names_def modifiers_def
        shipped_features_def feature_def)
  have "\<forall>c \<in> set (fs_combinations sample_flavour_set).
      set (fc_platforms c) \<subseteq> set (platform_names shipped_features) \<and>
      (\<forall>mods \<in> set (fc_modifiers c). set mods \<subseteq> set (modifier_names shipped_features))"
    unfolding sample_flavour_set_def
    by (simp only: flavour_set.simps flavour_combination.simps list.set ball_simps)
      (use names in \<open>simp only: list.set simp_thms\<close>)
  from flavours_correct [OF shipped_wf shipped_fuel shipped_includes_modifiers this]
  obtain fls where fls: "flavours shipped_features 27 sample_flavour_set = Inr fls"
    "length fls = (\<Sum>c \<leftarrow> fs_combinations sample_flavour_set.
      length (fc_architectures c) * length (fc_platforms c) * length (fc_modifiers c))" by blast
  have "length fls = 4" using fls(2) by (simp add: sample_flavour_set_def)
  with fls(1) show ?thesis by blast
qed

text \<open>
  C1: the storage key identifies the release. Two release identifiers with the same key have the
  same platform, version, commit prefix and the same normal form, so they name the same flavour
  (the key has no architecture: there is only one), provided commits carry no hyphen and the part
  of a version before its first hyphen is no feature's name.
\<close>

theorem release_key_identifies:
  assumes "wf_features fs" and "length fs < n" and "case_distinct fs" and "clean_names fs"
    and "canonical_release_manifest_key fs n ri = Inr k"
    and "canonical_release_manifest_key fs n rj = Inr k"
    and "CHR ''-'' \<notin> set (ri_build_committish ri)" and "CHR ''-'' \<notin> set (ri_build_committish rj)"
    and "hd (py_split CHR ''-'' (ri_version ri)) \<notin> fd_name ` set fs"
    and "hd (py_split CHR ''-'' (ri_version rj)) \<notin> fd_name ` set fs"
  shows "ri_version ri = ri_version rj \<and>
    str_first 6 (ri_build_committish ri) = str_first 6 (ri_build_committish rj) \<and>
    ri_architecture ri = ri_architecture rj \<and> ri_platform ri = ri_platform rj \<and>
    (\<exists>ns. normalised_modifiers fs n (ri_platform ri) (ri_modifiers ri) = Inr ns \<and>
          normalised_modifiers fs n (ri_platform rj) (ri_modifiers rj) = Inr ns)"
proof -
  obtain cs where cs: "canonicalised_features fs n (ri_platform ri) (ri_modifiers ri) = Inr cs"
    "set (map fd_name cs) \<subseteq> fd_name ` set fs"
    and kc: "k = manifest_key_prefix @ ''/'' @ py_join ''-'' (map fd_name cs) @ ''-'' @
       ri_version ri @ ''-'' @ str_first 6 (ri_build_committish ri)"
    and sc: "py_split CHR ''-'' (py_join ''-'' (map fd_name cs) @ ''-'' @ ri_version ri @
       ''-'' @ str_first 6 (ri_build_committish ri)) =
       map fd_name cs @ py_split CHR ''-'' (ri_version ri) @ [str_first 6 (ri_build_committish ri)]"
    by (rule canonical_key_parts [OF assms(4,5,7)])
  obtain ds where ds: "canonicalised_features fs n (ri_platform rj) (ri_modifiers rj) = Inr ds"
    "set (map fd_name ds) \<subseteq> fd_name ` set fs"
    and kd: "k = manifest_key_prefix @ ''/'' @ py_join ''-'' (map fd_name ds) @ ''-'' @
       ri_version rj @ ''-'' @ str_first 6 (ri_build_committish rj)"
    and sd: "py_split CHR ''-'' (py_join ''-'' (map fd_name ds) @ ''-'' @ ri_version rj @
       ''-'' @ str_first 6 (ri_build_committish rj)) =
       map fd_name ds @ py_split CHR ''-'' (ri_version rj) @ [str_first 6 (ri_build_committish rj)]"
    by (rule canonical_key_parts [OF assms(4,6,8)])
  have "py_join ''-'' (map fd_name cs) @ ''-'' @ ri_version ri @ ''-'' @ str_first 6 (ri_build_committish ri)
      = py_join ''-'' (map fd_name ds) @ ''-'' @ ri_version rj @ ''-'' @ str_first 6 (ri_build_committish rj)"
    using kc kd by (simp only: same_append_eq)
  then have "map fd_name cs @ py_split CHR ''-'' (ri_version ri) @ [str_first 6 (ri_build_committish ri)] =
      map fd_name ds @ py_split CHR ''-'' (ri_version rj) @ [str_first 6 (ri_build_committish rj)]"
    using sc sd by (simp only:)
  note parts = key_parts_inj [OF cs(2) ds(2) assms(9,10) this]
  have "ri_architecture ri = ri_architecture rj"
    by (cases "ri_architecture ri"; cases "ri_architecture rj") simp
  with parts(2,3) canonical_names_normal [OF assms(1-3) cs(1) ds(1) parts(1)] show ?thesis by blast
qed

definition sample_identifier :: release_identifier where
  "sample_identifier = \<lparr>ri_build_committish = ''0123456789abcdef'', ri_version = ''560.0'',
     ri_gardenlinux_epoch = 560, ri_architecture = AMD64, ri_platform = ''aws'',
     ri_modifiers = [''gardener'', ''cloud'']\<rparr>"

theorem release_key_identifies_witness:
  "\<exists>k ns. canonical_release_manifest_key shipped_features 27 sample_identifier = Inr k \<and>
     normalised_modifiers shipped_features 27 ''aws'' [''gardener'', ''cloud''] = Inr ns"
proof -
  from shipped_canonical obtain k where
    k: "canonical_release_manifest_key shipped_features 27 sample_identifier = Inr k"
    by (auto simp: canonical_release_manifest_key_def canonical_release_manifest_key_suffix_def
        sample_identifier_def Let_def)
  have hyph: "CHR ''-'' \<notin> set (ri_build_committish sample_identifier)"
    by (simp add: sample_identifier_def)
  have "hd (py_split CHR ''-'' (ri_version sample_identifier)) \<notin> set (map fd_name shipped_features)"
    unfolding shipped_names by (simp add: sample_identifier_def)
  then have version: "hd (py_split CHR ''-'' (ri_version sample_identifier)) \<notin>
      fd_name ` set shipped_features" by simp
  from release_key_identifies [OF shipped_wf shipped_fuel shipped_case_distinct
      shipped_clean_names k k hyph hyph version version] k
  show ?thesis by (auto simp: sample_identifier_def)
qed

end
