(* ===== verification/Pipelines.thy ===== *)
theory Pipelines
  imports Tasks Naming
begin

text \<open>
  \<open>ci/render_pipelines.py\<close>: the pipelines that run the tasks, one build and one test task for each
  flavour.  The properties relate the pipelines to the tasks they refer to: every task of a pipeline
  passes exactly the parameters that its Tekton task declares, all references are to parameters of
  the pipeline, and the order that \<open>runAfter\<close> asks for exists.
\<close>

subsection \<open>Passing parameters on\<close>

definition pass_param :: "string \<Rightarrow> named_param" where
  "pass_param name = NamedParam name (Some (param_ref name)) None None"

definition value_param :: "string \<Rightarrow> string \<Rightarrow> named_param" where
  "value_param name v = NamedParam name (Some v) None None"

definition get_modifier_names ::
  "feature_descriptor list \<Rightarrow> nat \<Rightarrow> gardenlinux_flavour \<Rightarrow> string res" where
  "get_modifier_names fs n fl =
     bindR (calculate_modifiers fs n fl) (\<lambda>ms. Inr (py_join '','' (sort (map fd_name ms))))"

definition generate_task_name :: "string \<Rightarrow> gardenlinux_flavour \<Rightarrow> string" where
  "generate_task_name prefx fl =
     (let s = py_replace (canonical_name_prefix fl) ''/'' ''-'';
          s = strip_char CHR ''-'' (py_replace s ''_'' '''');
          name = prefx @ py_replace s ''readonly'' ''ro''
      in if 64 < length name then take 64 name else name)"

definition find_task :: "string \<Rightarrow> task list \<Rightarrow> task res" where
  "find_task name tasks = nextR (\<lambda>t. name = task_name t) tasks"

definition get_passed_parameters :: "string \<Rightarrow> task list \<Rightarrow> named_param list \<Rightarrow> named_param list res" where
  "get_passed_parameters name all_tasks overrides =
     bindR (find_task name all_tasks) (\<lambda>task_ref.
       let params = dict_of (map (\<lambda>p. (np_name p, pass_param (np_name p))) (task_params task_ref));
           params = (if overrides \<noteq> []
             then dict_merge params (dict_of (map (\<lambda>p. (np_name p, p)) overrides)) else params)
       in Inr (map snd params))"

subsection \<open>The tasks of a pipeline\<close>

definition mk_pipeline_task :: "string \<Rightarrow> string \<Rightarrow> named_param list \<Rightarrow> string list option \<Rightarrow> string \<Rightarrow> pipeline_task" where
  "mk_pipeline_task name ref_name params run_after timeout =
     \<lparr>pt_name = name, pt_taskRef = \<lparr>tr_name = ref_name\<rparr>, pt_params = params, pt_workspaces = [],
      pt_runAfter = run_after, pt_timeout = timeout\<rparr>"

definition mk_pipeline_base_build_task :: "task list \<Rightarrow> pipeline_task res" where
  "mk_pipeline_base_build_task all_tasks =
     bindR (get_passed_parameters ''build-baseimage'' all_tasks
        [value_param ''pipeline_run_name'' ''$(context.pipelineRun.name)'',
         value_param ''namespace'' ''$(context.pipelineRun.namespace)''])
       (\<lambda>params. Inr (mk_pipeline_task ''build-baseimage'' ''build-baseimage'' params None ''1h''))"

definition mk_pipeline_package_build_task :: "string \<Rightarrow> string list \<Rightarrow> task list \<Rightarrow> pipeline_task res" where
  "mk_pipeline_package_build_task package_name run_after all_tasks =
     bindR (get_passed_parameters ''build-packages'' all_tasks [value_param ''pkg_name'' package_name])
       (\<lambda>params. Inr (mk_pipeline_task
          (''build-package-'' @ py_replace (py_replace package_name ''_'' ''-'') ''.'' ''-'')
          ''build-packages'' params (Some run_after) ''6h''))"

definition mk_pipeline_kernel_package_build_task ::
  "string \<Rightarrow> string list \<Rightarrow> task list \<Rightarrow> pipeline_task res" where
  "mk_pipeline_kernel_package_build_task package_names run_after all_tasks =
     bindR (get_passed_parameters ''build-kernel-packages'' all_tasks
        [value_param ''pkg_names'' package_names])
       (\<lambda>params. Inr (mk_pipeline_task ''build-kernel-packages'' ''build-kernel-packages'' params
          (Some run_after) ''6h''))"

definition mk_pipeline_build_task :: "feature_descriptor list \<Rightarrow> nat \<Rightarrow> gardenlinux_flavour \<Rightarrow>
    pipeline_flavour \<Rightarrow> string list \<Rightarrow> task list \<Rightarrow> pipeline_task res" where
  "mk_pipeline_build_task fs n fl pf run_after all_tasks =
     (if pf \<noteq> PF_SNAPSHOT then Inl (NotImplementedError (pipeline_flavour_value pf))
      else bindR (get_modifier_names fs n fl) (\<lambda>modifier_names.
        bindR (get_passed_parameters ''build-gardenlinux-task'' all_tasks
           [value_param ''modifiers'' modifier_names, value_param ''platform'' (fl_platform fl)])
          (\<lambda>params. Inr (mk_pipeline_task (generate_task_name '''' fl) ''build-gardenlinux-task'' params
             (Some run_after) ''2h''))))"

definition mk_pipeline_test_task :: "feature_descriptor list \<Rightarrow> nat \<Rightarrow> gardenlinux_flavour \<Rightarrow>
    pipeline_flavour \<Rightarrow> string list \<Rightarrow> task list \<Rightarrow> pipeline_task res" where
  "mk_pipeline_test_task fs n fl pf run_after all_tasks =
     bindR (get_modifier_names fs n fl) (\<lambda>modifier_names.
     bindR (get_passed_parameters ''integration-test-task'' all_tasks
        [value_param ''modifiers'' modifier_names, value_param ''platform'' (fl_platform fl)])
       (\<lambda>params. Inr (mk_pipeline_task (generate_task_name ''tst'' fl) ''integration-test-task'' params
          (Some run_after) ''1h'')))"

definition mk_pipeline_promote_task :: "string list \<Rightarrow> task list \<Rightarrow> pipeline_task res" where
  "mk_pipeline_promote_task run_after all_tasks =
     bindR (get_passed_parameters ''promote-gardenlinux-task'' all_tasks [])
       (\<lambda>params. Inr (mk_pipeline_task ''promote-gardenlinux-task'' ''promote-gardenlinux-task'' params
          (Some run_after) ''1h''))"

text \<open>\<open>json.dumps\<close> of a dictionary of strings.\<close>

definition json_hex :: "nat \<Rightarrow> char" where
  "json_hex d = (if d < 10 then char_of (48 + d) else char_of (87 + d))"

definition json_char :: "char \<Rightarrow> string" where
  "json_char c = (let n = of_char c :: nat in
     if c = CHR 0x22 \<or> c = CHR 0x5C then [CHR 0x5C, c]
     else if n = 10 then [CHR 0x5C] @ ''n'' else if n = 13 then [CHR 0x5C] @ ''r''
     else if n = 9 then [CHR 0x5C] @ ''t'' else if n = 8 then [CHR 0x5C] @ ''b''
     else if n = 12 then [CHR 0x5C] @ ''f''
     else if n < 32 \<or> 126 < n then [CHR 0x5C] @ ''u00'' @ [json_hex (n div 16), json_hex (n mod 16)]
     else [c])"

definition json_str :: "string \<Rightarrow> string" where
  "json_str s = [CHR 0x22] @ concat (map json_char s) @ [CHR 0x22]"

definition json_dumps :: "(string \<times> string) list \<Rightarrow> string" where
  "json_dumps d = ''{'' @ py_join '', '' (map (\<lambda>(k, v). json_str k @ '': '' @ json_str v) d) @ ''}''"

definition task_status_ref :: "string \<Rightarrow> string" where
  "task_status_ref name = ''$(tasks.'' @ name @ ''.status)''"

definition mk_pipeline_notify_task ::
  "pipeline_task list \<Rightarrow> task list \<Rightarrow> pipeline_task list \<Rightarrow> string list \<Rightarrow> pipeline_task res" where
  "mk_pipeline_notify_task previous_tasks all_tasks build_tasks platform_set =
     (let status_dict = dict_of (map (\<lambda>t. (''status_'' @ pt_name t, task_status_ref (pt_name t))) previous_tasks);
          status_str = json_dumps status_dict;
          build_task_names = py_join '','' (map pt_name build_tasks);
          platform_set_str = py_join '','' platform_set in
     bindR (get_passed_parameters ''notify-task'' all_tasks
        [value_param ''platform_set'' platform_set_str,
         value_param ''pipeline_run_name'' ''$(context.pipelineRun.name)'',
         value_param ''pipeline_name'' ''$(context.pipeline.name)'',
         value_param ''namespace'' ''$(context.pipelineRun.namespace)'',
         value_param ''status_dict_str'' status_str,
         value_param ''build_tasks'' build_task_names])
       (\<lambda>params. Inr (mk_pipeline_task ''notify-task'' ''notify-task'' params (Some []) ''1h'')))"

subsection \<open>The pipelines\<close>

text \<open>\<open>set.remove\<close>: \<open>KeyError\<close> for an element that is not in the set.\<close>

definition remove_param :: "param_attr \<Rightarrow> named_param list \<Rightarrow> named_param list res" where
  "remove_param a ps = (if all_params a \<in> set ps then Inr (filter (\<lambda>p. p \<noteq> all_params a) ps)
     else Inl (KeyError (param_name a)))"

definition task_ref_params :: "task list \<Rightarrow> pipeline_task list \<Rightarrow> named_param list res" where
  "task_ref_params all_tasks tasks =
     bindR (mapR (\<lambda>t. find_task (tr_name (pt_taskRef t)) all_tasks) tasks)
       (\<lambda>ms. Inr (concat (map task_params ms)))"

definition package_names :: "string list" where
  "package_names = [''apt'', ''cyrus-sasl2'', ''dracut'', ''google-compute-engine'',
     ''google-compute-engine-oslogin'', ''google-guest-agent'', ''ignition'', ''iproute2'', ''pam'',
     ''python3.9'', ''selinux-basics'', ''waagent'']"

definition mk_pipeline_packages :: "task list \<Rightarrow> pipeline res" where
  "mk_pipeline_packages all_tasks =
     bindR (mk_pipeline_base_build_task all_tasks) (\<lambda>base_build_task.
     bindR (mapR (\<lambda>package. mk_pipeline_package_build_task package [pt_name base_build_task] all_tasks)
              package_names) (\<lambda>package_tasks.
     bindR (mk_pipeline_kernel_package_build_task ''linux-5.10 linux-5.10-signed''
              [pt_name base_build_task] all_tasks) (\<lambda>package_kernel_task.
       let tasks = [base_build_task] @ package_tasks @ [package_kernel_task] in
     bindR (find_task ''notify-task'' all_tasks) (\<lambda>task_ref.
     bindR (mk_pipeline_notify_task tasks all_tasks [] []) (\<lambda>notify_task.
     bindR (task_ref_params all_tasks tasks) (\<lambda>task_parameters.
     bindR (foldR remove_param [P_namespace, P_pipeline_name, P_pipeline_run_name, P_pkg_names,
              P_pkg_name, P_platform_set] (py_set (task_params task_ref @ task_parameters))) (\<lambda>params.
       Inr (mk_pipeline_resource ''gl-packages-build''
         \<lparr>ps_finally = [notify_task], ps_tasks = tasks, ps_params = params, ps_results = None,
          ps_workspaces = []\<rparr>))))))))"

definition flavour_tasks :: "feature_descriptor list \<Rightarrow> nat \<Rightarrow> task list \<Rightarrow> pipeline_flavour \<Rightarrow> string \<Rightarrow>
    gardenlinux_flavour \<Rightarrow> (pipeline_task \<times> pipeline_task) res" where
  "flavour_tasks fs n all_tasks pf base_name glf =
     bindR (mk_pipeline_build_task fs n glf pf [base_name] all_tasks) (\<lambda>build_task.
     bindR (mk_pipeline_test_task fs n glf pf [pt_name build_task] all_tasks) (\<lambda>test_task.
       Inr (build_task, test_task)))"

definition mk_pipeline :: "feature_descriptor list \<Rightarrow> nat \<Rightarrow> gardenlinux_flavour list \<Rightarrow> task list \<Rightarrow>
    pipeline_flavour \<Rightarrow> pipeline res" where
  "mk_pipeline fs n gardenlinux_flavours all_tasks pf =
     (let glfs = py_set gardenlinux_flavours in
     bindR (mk_pipeline_base_build_task all_tasks) (\<lambda>base_build_task.
     bindR (mapR (flavour_tasks fs n all_tasks pf (pt_name base_build_task)) glfs) (\<lambda>pairs.
       let build_tasks = map fst pairs; test_tasks = map snd pairs;
           platform_set = py_set (map fl_platform glfs) in
     bindR (mk_pipeline_promote_task (map pt_name build_tasks) all_tasks) (\<lambda>promote_task.
       let tasks = [base_build_task] @ build_tasks @ test_tasks @ [promote_task] in
     bindR (find_task ''notify-task'' all_tasks) (\<lambda>task_ref.
     bindR (mk_pipeline_notify_task tasks all_tasks build_tasks platform_set) (\<lambda>notify_task.
     bindR (task_ref_params all_tasks tasks) (\<lambda>task_parameters.
     bindR (foldR remove_param [P_modifiers, P_namespace, P_platform, P_pipeline_run_name,
              P_pipeline_name, P_platform_set] (py_set (task_params task_ref @ task_parameters))) (\<lambda>params.
       Inr (mk_pipeline_resource ''gardenlinux-build''
         \<lparr>ps_finally = [notify_task], ps_tasks = tasks, ps_params = params, ps_results = None,
          ps_workspaces = []\<rparr>)))))))))"

definition render_pipeline_dict ::
  "feature_descriptor list \<Rightarrow> nat \<Rightarrow> gardenlinux_flavour list \<Rightarrow> task list \<Rightarrow> pipeline res" where
  "render_pipeline_dict fs n gardenlinux_flavours tasks =
     mk_pipeline fs n (py_set gardenlinux_flavours) tasks PF_SNAPSHOT"

text \<open>
  \<open>render_pipelines\<close> with the flavour set it looked up: the two pipelines in the order in which they
  are written.
\<close>

definition render_pipelines ::
  "feature_descriptor list \<Rightarrow> nat \<Rightarrow> flavour_set \<Rightarrow> task list \<Rightarrow> (pipeline \<times> pipeline) res" where
  "render_pipelines fs n fset tasks =
     bindR (mk_pipeline_packages tasks) (\<lambda>packages.
     bindR (flavours fs n fset) (\<lambda>fls.
     bindR (render_pipeline_dict fs n (py_set fls) tasks) (\<lambda>main.
       Inr (packages, main))))"

subsection \<open>Passed parameters\<close>

lemma find_task_name: "find_task n ts = Inr t \<Longrightarrow> t \<in> set ts \<and> task_name t = n"
  by (auto simp: find_task_def dest: nextR_Inr)

lemma dict_of_distinct_keys: "distinct (map fst kvs) \<Longrightarrow> dict_of kvs = kvs"
proof -
  have app: "dict_set k v d = d @ [(k, v)]" if "k \<notin> fst ` set d" for k and v :: 'b and d
    using that by (induction k v d rule: dict_set.induct) auto
  have "fold (\<lambda>(k, v). dict_set k v) kvs d = d @ kvs"
    if "distinct (map fst d @ map fst kvs)" for kvs and d :: "('a \<times> 'b) list"
    using that
  proof (induction kvs arbitrary: d)
    case (Cons kv kvs)
    then show ?case by (cases kv) (auto simp: app)
  qed simp
  then show "distinct (map fst kvs) \<Longrightarrow> dict_of kvs = kvs" by (simp add: dict_of_def)
qed

lemma dict_merge_same_keys:
  "fst ` set e \<subseteq> fst ` set d \<Longrightarrow> map fst (dict_merge d e) = map fst d"
proof (induction e arbitrary: d)
  case (Cons kv e)
  obtain k v where kv: "kv = (k, v)" by (cases kv)
  have "k \<in> fst ` set d" using Cons.prems kv by simp
  moreover have "fst ` set e \<subseteq> fst ` set (dict_set k v d)"
    using Cons.prems by (auto simp: dict_set_keys)
  ultimately show ?case
    using Cons.IH [of "dict_set k v d"] by (simp add: dict_merge_def kv dict_set_keeps_order)
qed (simp add: dict_merge_def)

lemma dict_merge_entries: "(k, v) \<in> set (dict_merge d e) \<Longrightarrow> distinct (map fst d) \<Longrightarrow> distinct (map fst e) \<Longrightarrow>
    (k, v) \<in> set e \<or> (k \<notin> fst ` set e \<and> (k, v) \<in> set d)"
proof -
  assume m: "(k, v) \<in> set (dict_merge d e)" and d: "distinct (map fst d)" and e: "distinct (map fst e)"
  have rv: "map_of (rev e) = map_of e"
    using e by (subst map_of_inject_set) (simp_all flip: rev_map)
  have "map_of (dict_merge d e) k = Some v"
    using m dict_merge_distinct [OF d] by (simp add: map_of_is_SomeI)
  then have "(map_of d ++ map_of e) k = Some v"
    by (simp add: map_of_dict_merge rv)
  then show ?thesis
    by (auto simp: map_add_Some_iff map_of_eq_None_iff dest: map_of_SomeD)
qed

text \<open>
  What a pipeline task passes: one parameter for each that the Tekton task declares, in its order,
  the overridden ones with their values and the others by reference.
\<close>

lemma passed_parameters:
  assumes "find_task name all_tasks = Inr t" and dt: "distinct (map np_name (task_params t))"
    and d: "distinct (map np_name os)" and sub: "np_name ` set os \<subseteq> np_name ` set (task_params t)"
  shows "\<exists>ps. get_passed_parameters name all_tasks os = Inr ps \<and>
    map np_name ps = map np_name (task_params t) \<and>
    (\<forall>p \<in> set ps. p \<in> set os \<or> (np_name p \<notin> np_name ` set os \<and> p = pass_param (np_name p)))"
proof -
  define D where "D = map (\<lambda>p. (np_name p, pass_param (np_name p))) (task_params t)"
  define Ov where "Ov = map (\<lambda>p. (np_name p, p)) os"
  have Dk: "map fst D = map np_name (task_params t)" and Ovk: "map fst Ov = map np_name os"
    by (simp_all add: D_def Ov_def)
  have D: "dict_of D = D" and Ov: "dict_of Ov = Ov"
    using dt d Dk Ovk by (auto intro: dict_of_distinct_keys)
  define M where "M = (if os \<noteq> [] then dict_merge D Ov else D)"
  have g: "get_passed_parameters name all_tasks os = Inr (map snd M)"
    using assms(1) D Ov by (simp add: get_passed_parameters_def M_def Let_def flip: D_def Ov_def)
  have "fst ` set Ov \<subseteq> fst ` set D"
    using sub by (auto simp: D_def Ov_def image_image)
  then have keys: "map fst M = map np_name (task_params t)"
    using dict_merge_same_keys [of Ov D] Dk by (simp add: M_def)
  have entry: "np_name v = k \<and> (v \<in> set os \<or> (k \<notin> np_name ` set os \<and> v = pass_param k))"
    if "(k, v) \<in> set M" for k v
  proof (cases "os = []")
    case True
    then show ?thesis using that by (auto simp: M_def D_def pass_param_def)
  next
    case False
    then have "(k, v) \<in> set Ov \<or> (k \<notin> fst ` set Ov \<and> (k, v) \<in> set D)"
      using that dict_merge_entries [of k v D Ov] Dk Ovk dt d by (simp add: M_def)
    then show ?thesis by (auto simp: Ov_def D_def pass_param_def image_image)
  qed
  have "map np_name (map snd M) = map fst M"
    using entry by (auto simp: list_eq_iff_nth_eq)
  then show ?thesis
    using g keys entry by (intro exI [of _ "map snd M"]) fastforce
qed

subsection \<open>References in values\<close>

fun param_refs :: "named_param \<Rightarrow> string list" where
  "param_refs (NamedParamWithValue n (Some v)) = refs v"
| "param_refs p = []"

lemma param_refs_value [simp]: "param_refs (value_param n v) = refs v" "np_name (value_param n v) = n"
  by (simp_all add: value_param_def NamedParam_def)

lemma param_refs_pass: "list_all ident_char n \<Longrightarrow> param_refs (pass_param n) = [n]"
  by (simp add: pass_param_def NamedParam_def param_ref_refs)

lemma context_refs [simp]:
  "refs ''$(context.pipelineRun.name)'' = []" "refs ''$(context.pipelineRun.namespace)'' = []"
  "refs ''$(context.pipeline.name)'' = []"
  by (simp_all add: refs.simps(2) ref_at_def startswith_def ref_open_def)

lemma replace_from_set: "set (replace_from pat rep k s) \<subseteq> set s \<union> set rep"
  by (induction pat rep k s rule: replace_from.induct) (auto split: if_splits)

lemma plain_mono: "set x \<subseteq> set y \<Longrightarrow> plain y \<Longrightarrow> plain x"
  by (auto simp: plain_def)

lemma plain_replace: "plain s \<Longrightarrow> plain rep \<Longrightarrow> plain (py_replace s pat rep)"
  using replace_from_set [of pat rep 0 s] by (auto simp: plain_def py_replace_def)

lemma plain_join: "plain sep \<Longrightarrow> \<forall>x \<in> set xs. plain x \<Longrightarrow> plain (py_join sep xs)"
  using py_join_set [of sep xs] by (auto simp: plain_def)

text \<open>Feature names carry no dollar sign, and a flavour names a platform and modifiers.\<close>

definition plain_universe :: "feature_descriptor list \<Rightarrow> bool" where
  "plain_universe fs \<longleftrightarrow> (\<forall>f \<in> set fs. plain (fd_name f))"

definition valid_flavour :: "feature_descriptor list \<Rightarrow> gardenlinux_flavour \<Rightarrow> bool" where
  "valid_flavour fs fl \<longleftrightarrow> fl_platform fl \<in> set (platform_names fs) \<and>
     set (fl_modifiers fl) \<subseteq> set (modifier_names fs)"

lemma mk_flavour_valid: "mk_flavour fs a p ms = Inr fl \<Longrightarrow> valid_flavour fs fl"
  by (auto simp: mk_flavour_Inr valid_flavour_def)

lemma flavours_valid: "flavours fs n fset = Inr fls \<Longrightarrow> fl \<in> set fls \<Longrightarrow> valid_flavour fs fl"
  by (auto simp: valid_flavour_def elim: flavours_mem)

lemma valid_flavour_plain:
  assumes "plain_universe fs" "valid_flavour fs fl"
  shows "plain (fl_platform fl)" "plain pfx \<Longrightarrow> plain (generate_task_name pfx fl)"
proof -
  have names: "plain m" if "m \<in> fd_name ` set fs" for m
    using assms(1) that by (auto simp: plain_universe_def)
  show p: "plain (fl_platform fl)"
    using assms(2) names_subset(1) by (intro names) (auto simp: valid_flavour_def)
  have "set (fl_modifiers fl) \<subseteq> fd_name ` set fs"
    using assms(2) names_subset(2) [of fs] unfolding valid_flavour_def by (blast intro: order_trans)
  then have "\<forall>m \<in> set (sort (fl_modifiers fl)). plain m"
    by (auto intro!: names)
  then have "plain (py_join ''_'' (sort (fl_modifiers fl)))"
    by (intro plain_join) (simp_all add: plain_def)
  moreover have "plain (architecture_value a)" for a by (cases a) (simp add: plain_def)
  ultimately have c: "plain (canonical_name_prefix fl)"
    using p by (simp add: canonical_name_prefix_def filename_prefix_def plain_Cons)
  define s where "s = py_replace (py_replace (canonical_name_prefix fl) ''/'' ''-'') ''_'' ''''"
  have "plain s" unfolding s_def using c by (intro plain_replace) (simp_all add: plain_def)
  then have "plain (strip_char CHR ''-'' s)"
    by (rule plain_mono [rotated]) (simp add: strip_char_def strip_by_set)
  then have r: "plain (py_replace (strip_char CHR ''-'' s) ''readonly'' ''ro'')"
    by (intro plain_replace) (simp_all add: plain_def)
  show "plain pfx \<Longrightarrow> plain (generate_task_name pfx fl)"
    unfolding generate_task_name_def Let_def s_def [symmetric]
    using r by (auto simp: plain_def dest: in_set_takeD)
qed

lemma json_plain: "plain s \<Longrightarrow> plain (concat (map json_char s))"
proof -
  have hex: "plain [json_hex d]" if "d < 16" for d
    using that by (auto simp: plain_def json_hex_def dest: arg_cong [where f = "of_char :: char \<Rightarrow> nat"])
  have pc: "plain (json_char c)" if "c \<noteq> CHR ''$''" for c
  proof -
    have "(of_char c :: nat) div 16 < 16" using nat_of_char_less_256 [of c] by linarith
    then have "json_hex (of_char c div 16) \<noteq> CHR ''$''" "json_hex (of_char c mod 16) \<noteq> CHR ''$''"
      using hex by (simp_all add: plain_Cons)
    then show ?thesis using that by (simp add: json_char_def Let_def plain_Cons)
  qed
  show "plain s \<Longrightarrow> plain (concat (map json_char s))"
    by (induction s) (simp_all add: plain_Cons pc)
qed

lemma task_ref_status_refs:
  assumes "plain n"
  shows "refs (json_str (task_status_ref n)) = [] \<and> closed_refs (json_str (task_status_ref n))"
proof -
  have j: "concat (map json_char (task_status_ref n)) =
      CHR ''$'' # ''(tasks.'' @ concat (map json_char n) @ ''.status)''"
    by (simp add: task_status_ref_def json_char_def Let_def)
  define t where "t = ''(tasks.'' @ concat (map json_char n) @ ''.status)''"
  have t: "closed_refs t" "refs t = []"
    using json_plain [OF assms] unfolding t_def by (simp_all add: ref_simps plain_Cons)
  have "\<not> startswith (CHR ''$'' # t) ref_open" by (simp add: t_def startswith_def ref_open_def)
  moreover have "9 \<le> length (CHR ''$'' # t)" by (simp add: t_def)
  ultimately have "refs (CHR ''$'' # t) = [] \<and> closed_refs (CHR ''$'' # t)"
    using t by (simp only: refs.simps(2) closed_refs.simps(2) ref_at_def closed_at_def) simp
  then show ?thesis
    unfolding json_str_def j t_def [symmetric]
    using wrap_refs [of "[CHR 0x22]" "CHR ''$'' # t" "[CHR 0x22]"] by (simp add: plain_Cons)
qed

lemma status_dict_refs:
  assumes "\<forall>n \<in> set ns. plain n"
  shows "refs (json_dumps (dict_of (map (\<lambda>n. (''status_'' @ n, task_status_ref n)) ns))) = []"
proof -
  define d where "d = dict_of (map (\<lambda>n. (''status_'' @ n, task_status_ref n)) ns)"
  have mem: "\<exists>n \<in> set ns. k = ''status_'' @ n \<and> v = task_status_ref n" if "(k, v) \<in> set d" for k v
  proof -
    have "map_of d k = Some v"
      using that unfolding d_def by (intro map_of_is_SomeI dict_of_distinct)
    then have "map_of (rev (map (\<lambda>n. (''status_'' @ n, task_status_ref n)) ns)) k = Some v"
      by (simp add: d_def dict_of_map_of)
    then show ?thesis by (auto dest!: map_of_SomeD)
  qed
  have item: "refs (json_str k @ '': '' @ json_str v) = [] \<and> closed_refs (json_str k @ '': '' @ json_str v)"
    if "(k, v) \<in> set d" for k v
  proof -
    obtain n where n: "n \<in> set ns" "k = ''status_'' @ n" "v = task_status_ref n" using mem [OF \<open>(k, v) \<in> set d\<close>] by blast
    have "plain k" using n assms by (auto simp: plain_def)
    then have "plain (json_str k @ '': '')"
      using json_plain by (simp add: json_str_def plain_Cons)
    then show ?thesis
      using task_ref_status_refs [of n] assms n wrap_refs [of "json_str k @ '': ''" "json_str v" "[]"] by simp
  qed
  have "\<forall>x \<in> set (map (\<lambda>(k, v). json_str k @ '': '' @ json_str v) d). refs x = [] \<and> closed_refs x"
    using item by auto
  then have "refs (py_join '', '' (map (\<lambda>(k, v). json_str k @ '': '' @ json_str v) d)) = [] \<and>
      closed_refs (py_join '', '' (map (\<lambda>(k, v). json_str k @ '': '' @ json_str v) d))"
    using args_refs [of d "\<lambda>(k, v). json_str k @ '': '' @ json_str v" "\<lambda>_. []" "'', ''"] by (auto simp: plain_def)
  then show ?thesis
    unfolding d_def [symmetric] json_dumps_def
    using wrap_refs [of "''{''" _ "''}''"] by (simp add: plain_def)
qed

text \<open>The passed parameters refer to the task's other parameters only.\<close>

lemma passed_refs:
  assumes "find_task name all_tasks = Inr t" "task_as tn as t" "distinct (map np_name os)"
    and "np_name ` set os \<subseteq> param_name ` set as" "\<forall>q \<in> set os. param_refs q = []"
  shows "\<exists>ps. get_passed_parameters name all_tasks os = Inr ps \<and>
    map np_name ps = map np_name (task_params t) \<and>
    (\<forall>p \<in> set ps. set (param_refs p) \<subseteq> param_name ` set as - np_name ` set os)"
proof -
  have tp: "set (task_params t) = all_params ` set as" "distinct (task_params t)"
    using assms(2) by (simp_all add: task_as_def)
  have dn: "distinct (map np_name (task_params t))"
    using tp param_name_inj by (auto simp: distinct_map intro!: inj_onI)
  have sub: "np_name ` set os \<subseteq> np_name ` set (task_params t)"
    using assms(4) tp by (simp add: image_image)
  obtain ps where ps: "get_passed_parameters name all_tasks os = Inr ps"
    "map np_name ps = map np_name (task_params t)"
    "\<forall>p \<in> set ps. p \<in> set os \<or> (np_name p \<notin> np_name ` set os \<and> p = pass_param (np_name p))"
    using passed_parameters [OF assms(1) dn assms(3) sub] by blast
  have "set (param_refs p) \<subseteq> param_name ` set as - np_name ` set os" if p: "p \<in> set ps" for p
  proof (cases "p \<in> set os")
    case True
    then show ?thesis using assms(5) by simp
  next
    case False
    then have q: "np_name p \<notin> np_name ` set os" "p = pass_param (np_name p)" using ps(3) p by blast+
    have "np_name p \<in> set (map np_name ps)" using p by simp
    then obtain a where a: "a \<in> set as" "np_name p = param_name a"
      using ps(2) tp by auto
    then have "param_refs p = [np_name p]"
      using param_refs_pass [of "np_name p"] param_name_ident [of a] q(2) by simp
    then show ?thesis using q(1) a by auto
  qed
  with ps show ?thesis by blast
qed

subsection \<open>Pipelines over the rendered tasks\<close>

definition rendered_tasks :: "task list \<Rightarrow> bool" where
  "rendered_tasks ts \<longleftrightarrow> (\<exists>a b k p t m n. ts = [a, b, k, p, t, m, n] \<and>
     task_as ''build-baseimage'' base_image_build_task_attrs a \<and>
     task_as ''build-gardenlinux-task'' build_task_attrs b \<and>
     task_as ''build-kernel-packages'' kernel_package_task_attrs k \<and>
     task_as ''build-packages'' nokernel_package_task_attrs p \<and>
     task_as ''integration-test-task'' test_task_attrs t \<and>
     task_as ''promote-gardenlinux-task'' promote_task_attrs m \<and>
     task_as ''notify-task'' notify_task_attrs n)"

lemma render_task_rendered:
  assumes "step_files_ok (re_read re)" "render_task re u g = Inr ts"
  shows "rendered_tasks ts"
proof -
  obtain a b k p t m n where *: "render_task re u g = Inr [a, b, k, p, t, m, n]"
    and as: "task_as ''build-baseimage'' base_image_build_task_attrs a"
    "task_as ''build-gardenlinux-task'' build_task_attrs b"
    "task_as ''build-kernel-packages'' kernel_package_task_attrs k"
    "task_as ''build-packages'' nokernel_package_task_attrs p"
    "task_as ''integration-test-task'' test_task_attrs t"
    "task_as ''promote-gardenlinux-task'' promote_task_attrs m"
    "task_as ''notify-task'' notify_task_attrs n"
    by (rule render_task_as [OF assms(1)])
  have "ts = [a, b, k, p, t, m, n]" using * assms(2) by simp
  then show ?thesis unfolding rendered_tasks_def using as by blast
qed

definition known_task :: "string \<Rightarrow> param_attr list \<Rightarrow> task list \<Rightarrow> bool" where
  "known_task n as ts \<longleftrightarrow> (\<exists>t. find_task n ts = Inr t \<and> task_as n as t)"

lemma rendered_known:
  assumes "rendered_tasks ts"
  shows "known_task ''build-baseimage'' base_image_build_task_attrs ts"
    "known_task ''build-gardenlinux-task'' build_task_attrs ts"
    "known_task ''build-kernel-packages'' kernel_package_task_attrs ts"
    "known_task ''build-packages'' nokernel_package_task_attrs ts"
    "known_task ''integration-test-task'' test_task_attrs ts"
    "known_task ''promote-gardenlinux-task'' promote_task_attrs ts"
    "known_task ''notify-task'' notify_task_attrs ts"
proof -
  obtain a b k p t m n where ts: "ts = [a, b, k, p, t, m, n]"
    and as: "task_as ''build-baseimage'' base_image_build_task_attrs a"
    "task_as ''build-gardenlinux-task'' build_task_attrs b"
    "task_as ''build-kernel-packages'' kernel_package_task_attrs k"
    "task_as ''build-packages'' nokernel_package_task_attrs p"
    "task_as ''integration-test-task'' test_task_attrs t"
    "task_as ''promote-gardenlinux-task'' promote_task_attrs m"
    "task_as ''notify-task'' notify_task_attrs n"
    using assms unfolding rendered_tasks_def by blast
  have names: "task_name a = ''build-baseimage''" "task_name b = ''build-gardenlinux-task''"
    "task_name k = ''build-kernel-packages''" "task_name p = ''build-packages''"
    "task_name t = ''integration-test-task''" "task_name m = ''promote-gardenlinux-task''"
    "task_name n = ''notify-task''"
    using as by (simp_all add: task_as_def)
  show "known_task ''build-baseimage'' base_image_build_task_attrs ts"
    "known_task ''build-gardenlinux-task'' build_task_attrs ts"
    "known_task ''build-kernel-packages'' kernel_package_task_attrs ts"
    "known_task ''build-packages'' nokernel_package_task_attrs ts"
    "known_task ''integration-test-task'' test_task_attrs ts"
    "known_task ''promote-gardenlinux-task'' promote_task_attrs ts"
    "known_task ''notify-task'' notify_task_attrs ts"
    by (simp_all add: known_task_def find_task_def nextR_def ts names as)
qed

text \<open>
  A pipeline task that fits: its Tekton task exists, it passes that task's parameters, in their
  order, and refers to parameters in \<open>D\<close> only.
\<close>

definition fits :: "param_attr set \<Rightarrow> task list \<Rightarrow> pipeline_task \<Rightarrow> bool" where
  "fits D ts x \<longleftrightarrow> (\<exists>t. find_task (tr_name (pt_taskRef x)) ts = Inr t \<and>
       map np_name (pt_params x) = map np_name (task_params t)) \<and>
     (\<forall>q \<in> set (pt_params x). set (param_refs q) \<subseteq> param_name ` D)"

lemma passed_fits:
  assumes "known_task n as ts" "distinct (map np_name os)" "np_name ` set os = param_name ` set A"
    and "set A \<subseteq> set as" "\<forall>q \<in> set os. param_refs q = []" "set as - set A \<subseteq> D"
  shows "\<exists>ps. get_passed_parameters n ts os = Inr ps \<and> fits D ts (mk_pipeline_task nm n ps ra to)"
proof -
  obtain t where t: "find_task n ts = Inr t" "task_as n as t"
    using assms(1) by (auto simp: known_task_def)
  have sub: "np_name ` set os \<subseteq> param_name ` set as" using assms(3,4) by auto
  obtain ps where ps: "get_passed_parameters n ts os = Inr ps"
    "map np_name ps = map np_name (task_params t)"
    "\<forall>p \<in> set ps. set (param_refs p) \<subseteq> param_name ` set as - np_name ` set os"
    using passed_refs [OF t assms(2) sub assms(5)] by blast
  have "param_name ` set as - np_name ` set os \<subseteq> param_name ` D"
    unfolding assms(3) by (rule order_trans [OF image_diff_subset image_mono [OF assms(6)]])
  then have "set (param_refs q) \<subseteq> param_name ` D" if "q \<in> set ps" for q
    using bspec [OF ps(3) that] by (rule order_trans [rotated])
  then show ?thesis
    using ps(1,2) t(1) by (auto simp: fits_def mk_pipeline_task_def)
qed

definition main_attrs :: "param_attr set" where
  "main_attrs = (set base_image_build_task_attrs \<union> set build_task_attrs \<union> set test_task_attrs \<union>
     set promote_task_attrs \<union> set notify_task_attrs) -
     {P_modifiers, P_namespace, P_platform, P_pipeline_run_name, P_pipeline_name, P_platform_set}"

definition package_attrs :: "param_attr set" where
  "package_attrs = (set base_image_build_task_attrs \<union> set nokernel_package_task_attrs \<union>
     set kernel_package_task_attrs \<union> set notify_task_attrs) -
     {P_namespace, P_pipeline_name, P_pipeline_run_name, P_pkg_names, P_pkg_name, P_platform_set}"

lemma base_task_fits:
  assumes "rendered_tasks ts" "set base_image_build_task_attrs - {P_pipeline_run_name, P_namespace} \<subseteq> D"
  shows "\<exists>x. mk_pipeline_base_build_task ts = Inr x \<and> fits D ts x \<and> pt_name x = ''build-baseimage'' \<and>
    tr_name (pt_taskRef x) = ''build-baseimage'' \<and> pt_runAfter x = None"
  using passed_fits [OF rendered_known(1) [OF assms(1)], of
      "[value_param ''pipeline_run_name'' ''$(context.pipelineRun.name)'',
        value_param ''namespace'' ''$(context.pipelineRun.namespace)'']"
      "[P_pipeline_run_name, P_namespace]" D "''build-baseimage''" None "''1h''"] assms(2)
  by (auto simp: mk_pipeline_base_build_task_def mk_pipeline_task_def base_image_build_task_attrs_def)

lemma promote_task_fits:
  assumes "rendered_tasks ts" "set promote_task_attrs \<subseteq> D"
  shows "\<exists>x. mk_pipeline_promote_task ra ts = Inr x \<and> fits D ts x \<and>
    pt_name x = ''promote-gardenlinux-task'' \<and> tr_name (pt_taskRef x) = ''promote-gardenlinux-task'' \<and>
    pt_runAfter x = Some ra"
  using passed_fits [OF rendered_known(6) [OF assms(1)], of "[]" "[]" D
      "''promote-gardenlinux-task''" "Some ra" "''1h''"] assms(2)
  by (auto simp: mk_pipeline_promote_task_def mk_pipeline_task_def)

lemma package_task_fits:
  assumes "rendered_tasks ts" "set nokernel_package_task_attrs - {P_pkg_name} \<subseteq> D" "plain nm"
  shows "\<exists>x. mk_pipeline_package_build_task nm ra ts = Inr x \<and> fits D ts x \<and>
    pt_name x = ''build-package-'' @ py_replace (py_replace nm ''_'' ''-'') ''.'' ''-'' \<and>
    tr_name (pt_taskRef x) = ''build-packages'' \<and> pt_runAfter x = Some ra"
  using passed_fits [OF rendered_known(4) [OF assms(1)], of "[value_param ''pkg_name'' nm]"
      "[P_pkg_name]" D "''build-package-'' @ py_replace (py_replace nm ''_'' ''-'') ''.'' ''-''"
      "Some ra" "''6h''"] assms(2) plain_refs(2) [OF assms(3)]
  by (auto simp: mk_pipeline_package_build_task_def mk_pipeline_task_def nokernel_package_task_attrs_def)

lemma kernel_task_fits:
  assumes "rendered_tasks ts" "set kernel_package_task_attrs - {P_pkg_names} \<subseteq> D" "plain nm"
  shows "\<exists>x. mk_pipeline_kernel_package_build_task nm ra ts = Inr x \<and> fits D ts x \<and>
    pt_name x = ''build-kernel-packages'' \<and>
    tr_name (pt_taskRef x) = ''build-kernel-packages'' \<and> pt_runAfter x = Some ra"
  using passed_fits [OF rendered_known(3) [OF assms(1)], of "[value_param ''pkg_names'' nm]"
      "[P_pkg_names]" D "''build-kernel-packages''" "Some ra" "''6h''"] assms(2) plain_refs(2) [OF assms(3)]
  by (auto simp: mk_pipeline_kernel_package_build_task_def mk_pipeline_task_def kernel_package_task_attrs_def)

lemma notify_task_fits:
  assumes "rendered_tasks ts"
    and "set notify_task_attrs - {P_platform_set, P_pipeline_run_name, P_pipeline_name, P_namespace,
      P_status_dict_str, P_build_tasks} \<subseteq> D"
    and "\<forall>x \<in> set prev. plain (pt_name x)" "\<forall>x \<in> set bts. plain (pt_name x)" "\<forall>p \<in> set plats. plain p"
  shows "\<exists>x. mk_pipeline_notify_task prev ts bts plats = Inr x \<and> fits D ts x \<and>
    pt_name x = ''notify-task'' \<and> tr_name (pt_taskRef x) = ''notify-task'' \<and> pt_runAfter x = Some []"
proof -
  let ?status = "json_dumps (dict_of (map (\<lambda>t. (''status_'' @ pt_name t, task_status_ref (pt_name t))) prev))"
  have "refs ?status = []"
    using status_dict_refs [of "map pt_name prev"] assms(3) by (simp add: comp_def)
  moreover have "refs (py_join '','' (map pt_name bts)) = []" "refs (py_join '','' plats) = []"
    using assms(4,5) by (auto intro!: plain_refs plain_join simp: plain_def)
  ultimately show ?thesis
    using passed_fits [OF rendered_known(7) [OF assms(1)], of
      "[value_param ''platform_set'' (py_join '','' plats),
        value_param ''pipeline_run_name'' ''$(context.pipelineRun.name)'',
        value_param ''pipeline_name'' ''$(context.pipeline.name)'',
        value_param ''namespace'' ''$(context.pipelineRun.namespace)'',
        value_param ''status_dict_str'' ?status,
        value_param ''build_tasks'' (py_join '','' (map pt_name bts))]"
      "[P_platform_set, P_pipeline_run_name, P_pipeline_name, P_namespace, P_status_dict_str, P_build_tasks]"
      D "''notify-task''" "Some []" "''1h''"] assms(2)
    by (auto simp: mk_pipeline_notify_task_def mk_pipeline_task_def notify_task_attrs_def Let_def)
qed

subsection \<open>One flavour's tasks\<close>

lemma calculate_modifiers_total:
  assumes "wf_features fs" "length fs < n" "valid_flavour fs fl"
  shows "\<exists>ms. calculate_modifiers fs n fl = Inr ms \<and> set ms \<subseteq> set fs"
proof -
  have "fl_platform fl \<in> fd_name ` set fs" "set (fl_modifiers fl) \<subseteq> fd_name ` set fs"
    using assms(3) names_subset [of fs] unfolding valid_flavour_def by blast+
  then obtain ns where ns: "normalised_modifiers fs n (fl_platform fl) (fl_modifiers fl) = Inr ns"
    using normalised_modifiers_total [OF assms(1,2)] by blast
  obtain p ms where p: "feature_by_name fs (fl_platform fl) = Inr p"
    and ms: "mapR (feature_by_name fs) (fl_modifiers fl) = Inr ms"
    by (rule normalised_modifiers_Inr [OF ns])
  obtain cs where cs: "mapR (feature_by_name fs) ns = Inr cs"
    by (rule normalised_modifiers_lookup [OF ns p ms])
  then show ?thesis using ns mapR_names_mem [OF cs] by (auto simp: calculate_modifiers_def)
qed

lemma modifier_names_plain:
  assumes "wf_features fs" "length fs < n" "plain_universe fs" "valid_flavour fs fl"
  shows "\<exists>s. get_modifier_names fs n fl = Inr s \<and> plain s"
proof -
  obtain ms where ms: "calculate_modifiers fs n fl = Inr ms" "set ms \<subseteq> set fs"
    using calculate_modifiers_total [OF assms(1,2,4)] by blast
  then have "\<forall>x \<in> set (sort (map fd_name ms)). plain x"
    using assms(3) by (auto simp: plain_universe_def)
  then have "plain (py_join '','' (sort (map fd_name ms)))"
    by (intro plain_join) (simp_all add: plain_def)
  then show ?thesis using ms(1) by (simp add: get_modifier_names_def)
qed

lemma flavour_tasks_fit:
  assumes ts: "rendered_tasks ts" and u: "wf_features fs" "length fs < n" "plain_universe fs"
    and v: "valid_flavour fs fl"
    and D: "set build_task_attrs - {P_modifiers, P_platform} \<subseteq> D" "set test_task_attrs - {P_modifiers, P_platform} \<subseteq> D"
  shows "\<exists>x y. flavour_tasks fs n ts PF_SNAPSHOT base fl = Inr (x, y) \<and> fits D ts x \<and> fits D ts y \<and>
    pt_name x = generate_task_name '''' fl \<and> pt_name y = generate_task_name ''tst'' fl \<and>
    tr_name (pt_taskRef x) = ''build-gardenlinux-task'' \<and>
    tr_name (pt_taskRef y) = ''integration-test-task'' \<and>
    pt_runAfter x = Some [base] \<and> pt_runAfter y = Some [pt_name x]"
proof -
  obtain s where s: "get_modifier_names fs n fl = Inr s" "plain s"
    using modifier_names_plain [OF u v] by blast
  let ?os = "[value_param ''modifiers'' s, value_param ''platform'' (fl_platform fl)]"
  let ?bn = "generate_task_name '''' fl" and ?tn = "generate_task_name ''tst'' fl"
  have os: "\<forall>q \<in> set ?os. param_refs q = []" "distinct (map np_name ?os)"
    "np_name ` set ?os = param_name ` set [P_modifiers, P_platform]"
    using plain_refs(2) [OF s(2)] plain_refs(2) [OF valid_flavour_plain(1) [OF u(3) v]] by simp_all
  have sub: "set [P_modifiers, P_platform] \<subseteq> set build_task_attrs"
    "set [P_modifiers, P_platform] \<subseteq> set test_task_attrs"
    by (simp_all add: build_task_attrs_def test_task_attrs_def)
  have D': "set build_task_attrs - set [P_modifiers, P_platform] \<subseteq> D"
    "set test_task_attrs - set [P_modifiers, P_platform] \<subseteq> D"
    using D by simp_all
  obtain ps where ps: "get_passed_parameters ''build-gardenlinux-task'' ts ?os = Inr ps"
    "fits D ts (mk_pipeline_task ?bn ''build-gardenlinux-task'' ps (Some [base]) ''2h'')"
    using passed_fits [OF rendered_known(2) [OF ts] os(2,3) sub(1) os(1) D'(1)] by blast
  obtain qs where qs: "get_passed_parameters ''integration-test-task'' ts ?os = Inr qs"
    "fits D ts (mk_pipeline_task ?tn ''integration-test-task'' qs (Some [?bn]) ''1h'')"
    using passed_fits [OF rendered_known(5) [OF ts] os(2,3) sub(2) os(1) D'(2)] by blast
  show ?thesis
    using ps qs s(1)
    by (simp add: flavour_tasks_def mk_pipeline_build_task_def mk_pipeline_test_task_def)
      (simp add: mk_pipeline_task_def)
qed

lemma flavours_tasks_fit:
  assumes ts: "rendered_tasks ts" and u: "wf_features fs" "length fs < n" "plain_universe fs"
    and D: "set build_task_attrs - {P_modifiers, P_platform} \<subseteq> D" "set test_task_attrs - {P_modifiers, P_platform} \<subseteq> D"
    and v: "\<forall>fl \<in> set fls. valid_flavour fs fl"
  shows "\<exists>pairs. mapR (flavour_tasks fs n ts PF_SNAPSHOT base) fls = Inr pairs \<and>
    map (pt_name \<circ> fst) pairs = map (generate_task_name '''') fls \<and>
    map (pt_name \<circ> snd) pairs = map (generate_task_name ''tst'') fls \<and>
    (\<forall>(x, y) \<in> set pairs. fits D ts x \<and> fits D ts y \<and>
      tr_name (pt_taskRef x) = ''build-gardenlinux-task'' \<and>
      tr_name (pt_taskRef y) = ''integration-test-task'' \<and>
      pt_runAfter x = Some [base] \<and> pt_runAfter y = Some [pt_name x])"
  using v
proof (induction fls)
  case (Cons fl fls)
  have v: "valid_flavour fs fl" "\<forall>fl \<in> set fls. valid_flavour fs fl" using Cons.prems by simp_all
  obtain x y where xy: "flavour_tasks fs n ts PF_SNAPSHOT base fl = Inr (x, y)"
    "pt_name x = generate_task_name '''' fl" "pt_name y = generate_task_name ''tst'' fl"
    and fit: "fits D ts x \<and> fits D ts y \<and>
      tr_name (pt_taskRef x) = ''build-gardenlinux-task'' \<and>
      tr_name (pt_taskRef y) = ''integration-test-task'' \<and>
      pt_runAfter x = Some [base] \<and> pt_runAfter y = Some [pt_name x]"
    using flavour_tasks_fit [OF ts u v(1) D, of base] by blast
  obtain pairs where p: "mapR (flavour_tasks fs n ts PF_SNAPSHOT base) fls = Inr pairs"
    "map (pt_name \<circ> fst) pairs = map (generate_task_name '''') fls"
    "map (pt_name \<circ> snd) pairs = map (generate_task_name ''tst'') fls"
    and fits: "\<forall>(x, y) \<in> set pairs. fits D ts x \<and> fits D ts y \<and>
      tr_name (pt_taskRef x) = ''build-gardenlinux-task'' \<and>
      tr_name (pt_taskRef y) = ''integration-test-task'' \<and>
      pt_runAfter x = Some [base] \<and> pt_runAfter y = Some [pt_name x]"
    using Cons.IH [OF v(2)] by blast
  show ?case
  proof (rule exI [of _ "(x, y) # pairs"], intro conjI)
    show "mapR (flavour_tasks fs n ts PF_SNAPSHOT base) (fl # fls) = Inr ((x, y) # pairs)"
      using xy(1) p(1) by simp
    show "map (pt_name \<circ> fst) ((x, y) # pairs) = map (generate_task_name '''') (fl # fls)"
      "map (pt_name \<circ> snd) ((x, y) # pairs) = map (generate_task_name ''tst'') (fl # fls)"
      using xy(2,3) p(2,3) by simp_all
    show "\<forall>(x, y) \<in> set ((x, y) # pairs). fits D ts x \<and> fits D ts y \<and>
      tr_name (pt_taskRef x) = ''build-gardenlinux-task'' \<and>
      tr_name (pt_taskRef y) = ''integration-test-task'' \<and>
      pt_runAfter x = Some [base] \<and> pt_runAfter y = Some [pt_name x]"
      using fit fits by (simp only: list.set ball_simps prod.case simp_thms)
  qed
qed simp

subsection \<open>The parameters of a pipeline\<close>

lemma remove_params:
  assumes "distinct as" "\<forall>a \<in> set as. all_params a \<in> set ps"
  shows "foldR remove_param as ps = Inr (filter (\<lambda>p. p \<notin> all_params ` set as) ps)"
  using assms
proof (induction as arbitrary: ps)
  case (Cons a as)
  have "\<forall>b \<in> set as. all_params b \<in> set (filter (\<lambda>p. p \<noteq> all_params a) ps)"
    using Cons.prems by (auto simp: all_params_inj)
  then have "foldR remove_param as (filter (\<lambda>p. p \<noteq> all_params a) ps) =
      Inr (filter (\<lambda>p. p \<notin> all_params ` set as) (filter (\<lambda>p. p \<noteq> all_params a) ps))"
    using Cons.IH Cons.prems by simp
  moreover have "remove_param a ps = Inr (filter (\<lambda>p. p \<noteq> all_params a) ps)"
    using Cons.prems by (simp add: remove_param_def)
  ultimately show ?case by (simp add: conj_commute)
qed simp

lemma remove_params_missing:
  "a \<in> set as \<Longrightarrow> all_params a \<notin> set ps \<Longrightarrow> foldR remove_param as ps \<noteq> Inr qs"
  by (induction as arbitrary: ps) (auto simp: bindR_Inr_iff remove_param_def)

lemma task_ref_params_attrs:
  assumes "\<forall>x \<in> set xs. \<exists>as. known_task (tr_name (pt_taskRef x)) as ts"
  shows "\<exists>ps. task_ref_params ts xs = Inr ps \<and>
    set ps = (\<Union>x \<in> set xs. {q. \<exists>as. known_task (tr_name (pt_taskRef x)) as ts \<and> q \<in> all_params ` set as})"
proof -
  have "\<exists>ms. mapR (\<lambda>t. find_task (tr_name (pt_taskRef t)) ts) xs = Inr ms"
    by (rule mapR_total) (use assms in \<open>auto simp: known_task_def\<close>)
  then obtain ms where ms: "mapR (\<lambda>t. find_task (tr_name (pt_taskRef t)) ts) xs = Inr ms" ..
  have mem: "q \<in> set (concat (map task_params ms)) \<longleftrightarrow>
      (\<exists>x \<in> set xs. \<exists>as. known_task (tr_name (pt_taskRef x)) as ts \<and> q \<in> all_params ` set as)" for q
  proof
    assume "q \<in> set (concat (map task_params ms))"
    then obtain m where m: "m \<in> set ms" "q \<in> set (task_params m)" by auto
    then obtain x where x: "x \<in> set xs" "find_task (tr_name (pt_taskRef x)) ts = Inr m"
      using mapR_mem [OF ms, of m] by blast
    obtain as where as: "known_task (tr_name (pt_taskRef x)) as ts" using assms x(1) by blast
    then have "set (task_params m) = all_params ` set as"
      using x(2) by (auto simp: known_task_def task_as_def)
    then show "\<exists>x \<in> set xs. \<exists>as. known_task (tr_name (pt_taskRef x)) as ts \<and> q \<in> all_params ` set as"
      using x(1) as m(2) by blast
  next
    assume "\<exists>x \<in> set xs. \<exists>as. known_task (tr_name (pt_taskRef x)) as ts \<and> q \<in> all_params ` set as"
    then obtain x as t where x: "x \<in> set xs" "find_task (tr_name (pt_taskRef x)) ts = Inr t"
      "task_as (tr_name (pt_taskRef x)) as t" "q \<in> all_params ` set as"
      unfolding known_task_def by blast
    then have "t \<in> set ms" using mapR_mem [OF ms, of t] by blast
    moreover have "q \<in> set (task_params t)" using x(3,4) by (simp add: task_as_def)
    ultimately show "q \<in> set (concat (map task_params ms))" by auto
  qed
  have "set (concat (map task_params ms)) =
      (\<Union>x \<in> set xs. {q. \<exists>as. known_task (tr_name (pt_taskRef x)) as ts \<and> q \<in> all_params ` set as})"
    by (rule set_eqI) (simp only: mem UN_iff mem_Collect_eq)
  moreover have "task_ref_params ts xs = Inr (concat (map task_params ms))"
    by (simp add: task_ref_params_def ms)
  ultimately show ?thesis by blast
qed

lemma known_task_unique:
  "known_task n as ts \<Longrightarrow> known_task n bs ts \<Longrightarrow> all_params ` set as = all_params ` set bs"
  by (auto simp: known_task_def task_as_def)

lemma task_ref_params_groups:
  assumes "set (map (tr_name \<circ> pt_taskRef) xs) = fst ` set G" "\<forall>(n, as) \<in> set G. known_task n as ts"
  shows "\<exists>ps. task_ref_params ts xs = Inr ps \<and> set ps = all_params ` (\<Union>(n, as) \<in> set G. set as)"
proof -
  have ref: "\<exists>as. (tr_name (pt_taskRef x), as) \<in> set G" if "x \<in> set xs" for x
  proof -
    have "tr_name (pt_taskRef x) \<in> fst ` set G" using assms(1) that by auto
    then show ?thesis by force
  qed
  have known: "known_task n as ts" if "(n, as) \<in> set G" for n as using assms(2) that by auto
  obtain ps where ps: "task_ref_params ts xs = Inr ps"
    "set ps = (\<Union>x \<in> set xs. {q. \<exists>as. known_task (tr_name (pt_taskRef x)) as ts \<and> q \<in> all_params ` set as})"
    using task_ref_params_attrs [of xs ts] ref known by blast
  have "set ps = all_params ` (\<Union>(n, as) \<in> set G. set as)"
  proof (intro set_eqI iffI)
    fix q assume "q \<in> set ps"
    then obtain x as where x: "x \<in> set xs" "known_task (tr_name (pt_taskRef x)) as ts" "q \<in> all_params ` set as"
      using ps(2) by blast
    obtain bs where bs: "(tr_name (pt_taskRef x), bs) \<in> set G" using ref [OF x(1)] by blast
    then have "q \<in> all_params ` set bs" using known_task_unique [OF x(2) known [OF bs]] x(3) by simp
    then show "q \<in> all_params ` (\<Union>(n, as) \<in> set G. set as)" using bs by blast
  next
    fix q assume "q \<in> all_params ` (\<Union>(n, as) \<in> set G. set as)"
    then obtain n as where g: "(n, as) \<in> set G" "q \<in> all_params ` set as" by auto
    then have "n \<in> set (map (tr_name \<circ> pt_taskRef) xs)" using assms(1) by force
    then obtain x where "x \<in> set xs" "tr_name (pt_taskRef x) = n" by auto
    then show "q \<in> set ps" using ps(2) known [OF g(1)] g(2) by blast
  qed
  with ps(1) show ?thesis by blast
qed

subsection \<open>Whole pipelines\<close>

definition run_after :: "pipeline_task \<Rightarrow> string set" where
  "run_after x = set (case pt_runAfter x of None \<Rightarrow> [] | Some ns \<Rightarrow> ns)"

text \<open>Every task waits only for tasks that come before it: an order in which Tekton can run them.\<close>

fun in_order :: "string set \<Rightarrow> pipeline_task list \<Rightarrow> bool" where
  "in_order seen [] = True"
| "in_order seen (x # xs) = (run_after x \<subseteq> seen \<and> in_order (insert (pt_name x) seen) xs)"

lemma in_order_append:
  "in_order seen (xs @ ys) \<longleftrightarrow> in_order seen xs \<and> in_order (seen \<union> pt_name ` set xs) ys"
  by (induction xs arbitrary: seen) auto

lemma in_order_after: "\<forall>x \<in> set xs. run_after x \<subseteq> seen \<Longrightarrow> in_order seen xs"
proof (induction xs arbitrary: seen)
  case (Cons x xs)
  then have "\<forall>y \<in> set xs. run_after y \<subseteq> insert (pt_name x) seen" by auto
  then show ?case using Cons by simp
qed simp

definition pipeline_tasks :: "pipeline \<Rightarrow> pipeline_task list" where
  "pipeline_tasks pl = ps_tasks (pl_spec pl) @ ps_finally (pl_spec pl)"

lemma generate_task_name_length: "length (generate_task_name pfx fl) \<le> 64"
  unfolding generate_task_name_def Let_def by (auto simp del: length_append take_append)

lemma image_single: "xs \<noteq> [] \<Longrightarrow> \<forall>x \<in> set xs. f x = c \<Longrightarrow> f ` set xs = {c}"
  by (cases xs) auto

lemma mk_pipeline_lemma:
  assumes ts: "rendered_tasks ts" and u: "wf_features fs" "length fs < n" "plain_universe fs"
    and fls: "fls \<noteq> []" "\<forall>fl \<in> set fls. valid_flavour fs fl"
  shows "\<exists>pl. mk_pipeline fs n fls ts PF_SNAPSHOT = Inr pl \<and>
    set (ps_params (pl_spec pl)) = all_params ` main_attrs \<and> distinct (ps_params (pl_spec pl)) \<and>
    (\<forall>x \<in> set (pipeline_tasks pl). fits main_attrs ts x) \<and> in_order {} (pipeline_tasks pl) \<and>
    map pt_name (ps_tasks (pl_spec pl)) = [''build-baseimage''] @
      map (generate_task_name '''') (py_set fls) @ map (generate_task_name ''tst'') (py_set fls) @
      [''promote-gardenlinux-task'']"
proof -
  let ?D = main_attrs
  have D: "set base_image_build_task_attrs - {P_pipeline_run_name, P_namespace} \<subseteq> ?D"
    "set build_task_attrs - {P_modifiers, P_platform} \<subseteq> ?D"
    "set test_task_attrs - {P_modifiers, P_platform} \<subseteq> ?D" "set promote_task_attrs \<subseteq> ?D"
    "set notify_task_attrs - {P_platform_set, P_pipeline_run_name, P_pipeline_name, P_namespace,
      P_status_dict_str, P_build_tasks} \<subseteq> ?D"
    unfolding main_attrs_def
    by (auto simp: base_image_build_task_attrs_def build_task_attrs_def test_task_attrs_def
        promote_task_attrs_def notify_task_attrs_def)
  obtain base where base: "mk_pipeline_base_build_task ts = Inr base" "fits ?D ts base"
    "pt_name base = ''build-baseimage''" "tr_name (pt_taskRef base) = ''build-baseimage''"
    "pt_runAfter base = None"
    using base_task_fits [OF ts D(1)] by blast
  obtain pairs where pairs: "mapR (flavour_tasks fs n ts PF_SNAPSHOT (pt_name base)) (py_set fls) = Inr pairs"
    "map (pt_name \<circ> fst) pairs = map (generate_task_name '''') (py_set fls)"
    "map (pt_name \<circ> snd) pairs = map (generate_task_name ''tst'') (py_set fls)"
    "\<forall>(x, y) \<in> set pairs. fits ?D ts x \<and> fits ?D ts y \<and>
      tr_name (pt_taskRef x) = ''build-gardenlinux-task'' \<and>
      tr_name (pt_taskRef y) = ''integration-test-task'' \<and>
      pt_runAfter x = Some [pt_name base] \<and> pt_runAfter y = Some [pt_name x]"
    using flavours_tasks_fit [OF ts u D(2,3), of "py_set fls" "pt_name base"] fls(2) by auto
  have pair: "fits ?D ts x" "fits ?D ts y" "tr_name (pt_taskRef x) = ''build-gardenlinux-task''"
    "tr_name (pt_taskRef y) = ''integration-test-task''" "pt_runAfter x = Some [pt_name base]"
    "pt_runAfter y = Some [pt_name x]" if "(x, y) \<in> set pairs" for x y
    using pairs(4) that by blast+
  define bts tts where "bts = map fst pairs" and "tts = map snd pairs"
  have ne: "pairs \<noteq> []" using pairs(2) fls(1) by auto
  obtain promote where promote: "mk_pipeline_promote_task (map pt_name bts) ts = Inr promote"
    "fits ?D ts promote" "pt_name promote = ''promote-gardenlinux-task''"
    "tr_name (pt_taskRef promote) = ''promote-gardenlinux-task''"
    "pt_runAfter promote = Some (map pt_name bts)"
    using promote_task_fits [OF ts D(4)] by blast
  define tasks where "tasks = [base] @ bts @ tts @ [promote]"
  have names: "map pt_name bts = map (generate_task_name '''') (py_set fls)"
    "map pt_name tts = map (generate_task_name ''tst'') (py_set fls)"
    using pairs(2,3) by (simp_all add: bts_def tts_def comp_def)
  have gen: "plain (generate_task_name '''' fl) \<and> plain (generate_task_name ''tst'' fl)" if "fl \<in> set fls" for fl
    using valid_flavour_plain(2) [OF u(3)] fls(2) that by (simp add: plain_def)
  have "\<forall>s \<in> set (map pt_name bts). plain s" "\<forall>s \<in> set (map pt_name tts). plain s"
    unfolding names using gen by auto
  moreover have "plain (pt_name base)" "plain (pt_name promote)"
    using base(3) promote(3) by (simp_all add: plain_def)
  ultimately have plain: "\<forall>x \<in> set tasks. plain (pt_name x)" "\<forall>x \<in> set bts. plain (pt_name x)"
    by (auto simp: tasks_def)
  have plats: "\<forall>p \<in> set (py_set (map fl_platform (py_set fls))). plain p"
    using valid_flavour_plain(1) [OF u(3)] fls(2) by auto
  obtain notify where notify: "mk_pipeline_notify_task tasks ts bts (py_set (map fl_platform (py_set fls))) = Inr notify"
    "fits ?D ts notify" "pt_runAfter notify = Some []"
    using notify_task_fits [OF ts D(5) plain plats] by blast
  obtain nt where nt: "find_task ''notify-task'' ts = Inr nt" "task_as ''notify-task'' notify_task_attrs nt"
    using rendered_known(7) [OF ts] by (auto simp: known_task_def)
  define G where "G = [(''build-baseimage'', base_image_build_task_attrs), (''build-gardenlinux-task'', build_task_attrs),
    (''integration-test-task'', test_task_attrs), (''promote-gardenlinux-task'', promote_task_attrs)]"
  have "\<forall>x \<in> set bts. (tr_name \<circ> pt_taskRef) x = ''build-gardenlinux-task''"
    "\<forall>x \<in> set tts. (tr_name \<circ> pt_taskRef) x = ''integration-test-task''"
    using pair(3,4) by (auto simp: bts_def tts_def)
  then have "(tr_name \<circ> pt_taskRef) ` set bts = {''build-gardenlinux-task''}"
    "(tr_name \<circ> pt_taskRef) ` set tts = {''integration-test-task''}"
    using ne image_single [of bts] image_single [of tts] by (simp_all add: bts_def tts_def)
  then have refs: "set (map (tr_name \<circ> pt_taskRef) tasks) = fst ` set G"
    using base(4) promote(4) by (simp add: tasks_def G_def image_Un insert_commute)
  have known: "\<forall>(n, as) \<in> set G. known_task n as ts"
    using rendered_known [OF ts] by (simp add: G_def)
  obtain ps where ps: "task_ref_params ts tasks = Inr ps"
    "set ps = all_params ` (\<Union>(n, as) \<in> set G. set as)"
    using task_ref_params_groups [OF refs known] by blast
  let ?R = "[P_modifiers, P_namespace, P_platform, P_pipeline_run_name, P_pipeline_name, P_platform_set]"
  let ?all = "py_set (task_params nt @ ps)"
  have all: "set ?all = all_params ` (set base_image_build_task_attrs \<union> set build_task_attrs \<union>
      set test_task_attrs \<union> set promote_task_attrs \<union> set notify_task_attrs)"
    using nt(2) ps(2) by (auto simp: task_as_def G_def)
  have "set ?R \<subseteq> set build_task_attrs \<union> set notify_task_attrs"
    by (simp add: build_task_attrs_def notify_task_attrs_def)
  then have "\<forall>a \<in> set ?R. all_params a \<in> set ?all" unfolding all by blast
  then have rem: "foldR remove_param ?R ?all = Inr (filter (\<lambda>p. p \<notin> all_params ` set ?R) ?all)"
    by (rule remove_params [rotated]) simp
  define P where "P = filter (\<lambda>p. p \<notin> all_params ` set ?R) ?all"
  have setP: "set P = all_params ` main_attrs"
    unfolding P_def set_filter all main_attrs_def by (auto simp: all_params_inj)
  define pl where "pl = mk_pipeline_resource ''gardenlinux-build''
         \<lparr>ps_finally = [notify], ps_tasks = tasks, ps_params = P, ps_results = None,
          ps_workspaces = []\<rparr>"
  have "mk_pipeline fs n fls ts PF_SNAPSHOT = Inr pl"
    using base(1) pairs(1) promote(1) nt(1) notify(1) ps(1) rem
    by (simp add: mk_pipeline_def Let_def pl_def P_def tasks_def bts_def tts_def del: foldR.simps)
  moreover have "in_order {} (pipeline_tasks pl)"
  proof -
    have "run_after y \<subseteq> insert (pt_name base) (pt_name ` set bts)" if y: "y \<in> set tts" for y
    proof -
      obtain x where "(x, y) \<in> set pairs" using y by (auto simp: tts_def)
      then show ?thesis using pair(6) by (force simp: run_after_def bts_def)
    qed
    moreover have "run_after x \<subseteq> {pt_name base}" if "x \<in> set bts" for x
      using that pair(5) by (auto simp: bts_def run_after_def)
    ultimately show ?thesis
      using base(5) promote(5) notify(3)
      by (auto simp: pipeline_tasks_def pl_def mk_pipeline_resource_def tasks_def in_order_append
          run_after_def [of base] run_after_def [of promote] run_after_def [of notify]
          intro!: in_order_after)
  qed
  moreover have "\<forall>x \<in> set (pipeline_tasks pl). fits main_attrs ts x"
    using base(2) promote(2) notify(2) pair(1,2)
    by (auto simp: pipeline_tasks_def pl_def mk_pipeline_resource_def tasks_def bts_def tts_def)
  moreover have "distinct P" by (simp add: P_def)
  ultimately show ?thesis
    using setP names base(3) promote(3)
    by (intro exI [of _ pl]) (simp add: pl_def mk_pipeline_resource_def tasks_def)
qed

lemma package_tasks_fit:
  assumes "rendered_tasks ts" "set nokernel_package_task_attrs - {P_pkg_name} \<subseteq> D" "\<forall>nm \<in> set nms. plain nm"
  shows "\<exists>xs. mapR (\<lambda>nm. mk_pipeline_package_build_task nm ra ts) nms = Inr xs \<and>
    map pt_name xs = map (\<lambda>nm. ''build-package-'' @ py_replace (py_replace nm ''_'' ''-'') ''.'' ''-'') nms \<and>
    (\<forall>x \<in> set xs. fits D ts x \<and> tr_name (pt_taskRef x) = ''build-packages'' \<and> pt_runAfter x = Some ra)"
  using assms(3)
proof (induction nms)
  case (Cons nm nms)
  obtain x where x: "mk_pipeline_package_build_task nm ra ts = Inr x" "fits D ts x"
    "pt_name x = ''build-package-'' @ py_replace (py_replace nm ''_'' ''-'') ''.'' ''-''"
    "tr_name (pt_taskRef x) = ''build-packages''" "pt_runAfter x = Some ra"
    using package_task_fits [OF assms(1,2), of nm ra] Cons.prems by auto
  obtain xs where xs: "mapR (\<lambda>nm. mk_pipeline_package_build_task nm ra ts) nms = Inr xs"
    "map pt_name xs = map (\<lambda>nm. ''build-package-'' @ py_replace (py_replace nm ''_'' ''-'') ''.'' ''-'') nms"
    "\<forall>x \<in> set xs. fits D ts x \<and> tr_name (pt_taskRef x) = ''build-packages'' \<and> pt_runAfter x = Some ra"
    using Cons.IH Cons.prems by auto
  show ?case using x xs by (intro exI [of _ "x # xs"]) simp
qed simp

lemma package_names_plain: "\<forall>nm \<in> set package_names. plain nm"
  "\<forall>nm \<in> set package_names. plain (''build-package-'' @ py_replace (py_replace nm ''_'' ''-'') ''.'' ''-'')"
proof -
  show p: "\<forall>nm \<in> set package_names. plain nm" by (simp add: package_names_def plain_def)
  show "\<forall>nm \<in> set package_names. plain (''build-package-'' @ py_replace (py_replace nm ''_'' ''-'') ''.'' ''-'')"
    using p by (auto intro!: plain_replace simp: plain_Cons)
qed

lemma mk_pipeline_packages_lemma:
  assumes ts: "rendered_tasks ts"
  shows "\<exists>pl. mk_pipeline_packages ts = Inr pl \<and>
    set (ps_params (pl_spec pl)) = all_params ` package_attrs \<and> distinct (ps_params (pl_spec pl)) \<and>
    (\<forall>x \<in> set (pipeline_tasks pl). fits package_attrs ts x) \<and> in_order {} (pipeline_tasks pl)"
proof -
  let ?D = package_attrs
  have D: "set base_image_build_task_attrs - {P_pipeline_run_name, P_namespace} \<subseteq> ?D"
    "set nokernel_package_task_attrs - {P_pkg_name} \<subseteq> ?D"
    "set kernel_package_task_attrs - {P_pkg_names} \<subseteq> ?D"
    "set notify_task_attrs - {P_platform_set, P_pipeline_run_name, P_pipeline_name, P_namespace,
      P_status_dict_str, P_build_tasks} \<subseteq> ?D"
    unfolding package_attrs_def
    by (auto simp: base_image_build_task_attrs_def nokernel_package_task_attrs_def
        kernel_package_task_attrs_def notify_task_attrs_def)
  obtain base where base: "mk_pipeline_base_build_task ts = Inr base" "fits ?D ts base"
    "pt_name base = ''build-baseimage''" "tr_name (pt_taskRef base) = ''build-baseimage''"
    "pt_runAfter base = None"
    using base_task_fits [OF ts D(1)] by blast
  obtain xs where xs: "mapR (\<lambda>nm. mk_pipeline_package_build_task nm [pt_name base] ts) package_names = Inr xs"
    "map pt_name xs = map (\<lambda>nm. ''build-package-'' @ py_replace (py_replace nm ''_'' ''-'') ''.'' ''-'') package_names"
    "\<forall>x \<in> set xs. fits ?D ts x \<and> tr_name (pt_taskRef x) = ''build-packages'' \<and> pt_runAfter x = Some [pt_name base]"
    using package_tasks_fit [OF ts D(2) package_names_plain(1)] by blast
  have "plain ''linux-5.10 linux-5.10-signed''" by (simp add: plain_def)
  then obtain kernel where kernel: "mk_pipeline_kernel_package_build_task ''linux-5.10 linux-5.10-signed''
      [pt_name base] ts = Inr kernel" "fits ?D ts kernel" "pt_name kernel = ''build-kernel-packages''"
    "tr_name (pt_taskRef kernel) = ''build-kernel-packages''" "pt_runAfter kernel = Some [pt_name base]"
    using kernel_task_fits [OF ts D(3)] by blast
  define tasks where "tasks = [base] @ xs @ [kernel]"
  have "\<forall>s \<in> set (map pt_name xs). plain s" unfolding xs(2) using package_names_plain(2) by auto
  moreover have "plain (pt_name base)" "plain (pt_name kernel)"
    using base(3) kernel(3) by (simp_all add: plain_def)
  ultimately have plain: "\<forall>x \<in> set tasks. plain (pt_name x)" by (auto simp: tasks_def)
  obtain notify where notify: "mk_pipeline_notify_task tasks ts [] [] = Inr notify"
    "fits ?D ts notify" "pt_runAfter notify = Some []"
    using notify_task_fits [OF ts D(4) plain, of "[]" "[]"] by auto
  obtain nt where nt: "find_task ''notify-task'' ts = Inr nt" "task_as ''notify-task'' notify_task_attrs nt"
    using rendered_known(7) [OF ts] by (auto simp: known_task_def)
  define G where "G = [(''build-baseimage'', base_image_build_task_attrs),
    (''build-packages'', nokernel_package_task_attrs), (''build-kernel-packages'', kernel_package_task_attrs)]"
  have "map pt_name xs \<noteq> []" unfolding xs(2) by (simp add: package_names_def)
  then have "xs \<noteq> []" by auto
  then have "(tr_name \<circ> pt_taskRef) ` set xs = {''build-packages''}"
    by (rule image_single) (use xs(3) in auto)
  then have refs: "set (map (tr_name \<circ> pt_taskRef) tasks) = fst ` set G"
    using base(4) kernel(4) by (simp add: tasks_def G_def image_Un insert_commute)
  have known: "\<forall>(n, as) \<in> set G. known_task n as ts"
    using rendered_known [OF ts] by (simp add: G_def)
  obtain ps where ps: "task_ref_params ts tasks = Inr ps"
    "set ps = all_params ` (\<Union>(n, as) \<in> set G. set as)"
    using task_ref_params_groups [OF refs known] by blast
  let ?R = "[P_namespace, P_pipeline_name, P_pipeline_run_name, P_pkg_names, P_pkg_name, P_platform_set]"
  let ?all = "py_set (task_params nt @ ps)"
  have all: "set ?all = all_params ` (set base_image_build_task_attrs \<union> set nokernel_package_task_attrs \<union>
      set kernel_package_task_attrs \<union> set notify_task_attrs)"
    using nt(2) ps(2) by (auto simp: task_as_def G_def)
  have "set ?R \<subseteq> set notify_task_attrs \<union> set nokernel_package_task_attrs \<union> set kernel_package_task_attrs"
    by (simp add: nokernel_package_task_attrs_def kernel_package_task_attrs_def notify_task_attrs_def)
  then have "\<forall>a \<in> set ?R. all_params a \<in> set ?all" unfolding all by blast
  then have rem: "foldR remove_param ?R ?all = Inr (filter (\<lambda>p. p \<notin> all_params ` set ?R) ?all)"
    by (rule remove_params [rotated]) simp
  define P where "P = filter (\<lambda>p. p \<notin> all_params ` set ?R) ?all"
  have setP: "set P = all_params ` package_attrs"
    unfolding P_def set_filter all package_attrs_def by (auto simp: all_params_inj)
  define pl where "pl = mk_pipeline_resource ''gl-packages-build''
         \<lparr>ps_finally = [notify], ps_tasks = tasks, ps_params = P, ps_results = None,
          ps_workspaces = []\<rparr>"
  have "mk_pipeline_packages ts = Inr pl"
    using base(1) xs(1) kernel(1) nt(1) notify(1) ps(1) rem
    by (simp add: mk_pipeline_packages_def Let_def pl_def P_def tasks_def del: foldR.simps)
  moreover have "in_order {} (pipeline_tasks pl)"
    using base(5) xs(3) kernel(5) notify(3)
    by (auto simp: pipeline_tasks_def pl_def mk_pipeline_resource_def tasks_def in_order_append
        run_after_def intro!: in_order_after)
  moreover have "\<forall>x \<in> set (pipeline_tasks pl). fits package_attrs ts x"
    using base(2) xs(3) kernel(2) notify(2)
    by (auto simp: pipeline_tasks_def pl_def mk_pipeline_resource_def tasks_def)
  moreover have "distinct P" by (simp add: P_def)
  ultimately show ?thesis
    using setP by (intro exI [of _ pl]) (simp add: pl_def mk_pipeline_resource_def)
qed

subsection \<open>Properties\<close>

text \<open>A pipeline is closed over the Tekton tasks: what \<open>fits\<close> says, over its own parameters.\<close>

definition closed_pipeline :: "task list \<Rightarrow> pipeline \<Rightarrow> bool" where
  "closed_pipeline ts pl \<longleftrightarrow> distinct (map np_name (ps_params (pl_spec pl))) \<and>
     (\<forall>x \<in> set (pipeline_tasks pl).
        (\<exists>t. find_task (tr_name (pt_taskRef x)) ts = Inr t \<and>
             map np_name (pt_params x) = map np_name (task_params t)) \<and>
        (\<forall>q \<in> set (pt_params x). set (param_refs q) \<subseteq> np_name ` set (ps_params (pl_spec pl))))"

lemma fits_closed:
  assumes "set (ps_params (pl_spec pl)) = all_params ` D" "distinct (ps_params (pl_spec pl))"
    and "\<forall>x \<in> set (pipeline_tasks pl). fits D ts x"
  shows "closed_pipeline ts pl"
proof -
  have "inj_on np_name (all_params ` D)" using param_name_inj by (auto intro!: inj_onI)
  then have "distinct (map np_name (ps_params (pl_spec pl)))" using assms(1,2) by (simp add: distinct_map)
  moreover have "np_name ` set (ps_params (pl_spec pl)) = param_name ` D"
    by (simp add: assms(1) image_image)
  ultimately show ?thesis using assms(3) by (simp add: closed_pipeline_def fits_def)
qed

text \<open>
  C2: the main pipeline. For every non-empty collection of valid flavours the pipeline is built over
  the rendered tasks, with a build and a test task for each distinct flavour between the base image
  build and the promotion; each of its tasks passes exactly the parameters that its Tekton task
  declares, every reference in a passed value is to a parameter that the pipeline declares, the
  tasks can be run in the order in which they are listed, and no generated name is longer than 64.
\<close>

theorem main_pipeline_correct:
  assumes "step_files_ok (re_read re)" and "render_task re use_secrets_server getenv = Inr ts"
    and "wf_features fs" and "length fs < n" and "plain_universe fs"
    and "fls \<noteq> []" and "\<forall>fl \<in> set fls. valid_flavour fs fl"
  shows "\<exists>pl. render_pipeline_dict fs n fls ts = Inr pl \<and> closed_pipeline ts pl \<and>
    in_order {} (pipeline_tasks pl) \<and>
    map pt_name (ps_tasks (pl_spec pl)) = [''build-baseimage''] @
      map (generate_task_name '''') (py_set fls) @ map (generate_task_name ''tst'') (py_set fls) @
      [''promote-gardenlinux-task''] \<and>
    (\<forall>fl pfx. length (generate_task_name pfx fl) \<le> 64)"
proof -
  have ts: "rendered_tasks ts" by (rule render_task_rendered [OF assms(1,2)])
  have fls: "py_set fls \<noteq> []" "\<forall>fl \<in> set (py_set fls). valid_flavour fs fl"
    using assms(6,7) by simp_all
  have "py_set (py_set fls) = py_set fls" by (rule py_set_distinct) simp
  with mk_pipeline_lemma [OF ts assms(3-5) fls] show ?thesis
    using fits_closed generate_task_name_length unfolding render_pipeline_dict_def by metis
qed

text \<open>
  C11: the package pipeline is closed and runnable in the same sense, whatever tasks were rendered,
  and without flavours there is no main pipeline: removing the parameter \<open>modifiers\<close>, which no task
  then declares, raises \<open>KeyError\<close>.
\<close>

theorem package_pipeline_correct:
  assumes "step_files_ok (re_read re)" and "render_task re use_secrets_server getenv = Inr ts"
  shows "(\<exists>pl. mk_pipeline_packages ts = Inr pl \<and> closed_pipeline ts pl \<and>
      in_order {} (pipeline_tasks pl)) \<and>
    (\<forall>pl. render_pipeline_dict fs n [] ts \<noteq> Inr pl)"
proof
  have ts: "rendered_tasks ts" by (rule render_task_rendered [OF assms])
  from mk_pipeline_packages_lemma [OF ts] show "\<exists>pl. mk_pipeline_packages ts = Inr pl \<and>
      closed_pipeline ts pl \<and> in_order {} (pipeline_tasks pl)"
    using fits_closed by metis
  show "\<forall>pl. render_pipeline_dict fs n [] ts \<noteq> Inr pl"
  proof (intro allI notI)
    fix pl assume "render_pipeline_dict fs n [] ts = Inr pl"
    then obtain base promote nt ps qs where
      base: "mk_pipeline_base_build_task ts = Inr base" and
      promote: "mk_pipeline_promote_task [] ts = Inr promote" and
      nt: "find_task ''notify-task'' ts = Inr nt" and
      ps: "task_ref_params ts [base, promote] = Inr ps" and
      qs: "foldR remove_param [P_modifiers, P_namespace, P_platform, P_pipeline_run_name,
              P_pipeline_name, P_platform_set] (py_set (task_params nt @ ps)) = Inr qs"
      by (auto simp: render_pipeline_dict_def mk_pipeline_def Let_def bindR_Inr_iff simp del: foldR.simps)
    have refs: "tr_name (pt_taskRef base) = ''build-baseimage''"
      "tr_name (pt_taskRef promote) = ''promote-gardenlinux-task''"
      using base promote by (auto simp: mk_pipeline_base_build_task_def mk_pipeline_promote_task_def
          mk_pipeline_task_def bindR_Inr_iff)
    define G where "G = [(''build-baseimage'', base_image_build_task_attrs),
      (''promote-gardenlinux-task'', promote_task_attrs)]"
    have "set (map (tr_name \<circ> pt_taskRef) [base, promote]) = fst ` set G"
      using refs by (simp add: G_def)
    moreover have "\<forall>(n, as) \<in> set G. known_task n as ts"
      using rendered_known [OF ts] by (simp add: G_def)
    ultimately have "set ps = all_params ` (set base_image_build_task_attrs \<union> set promote_task_attrs)"
      using task_ref_params_groups [of "[base, promote]" G ts] ps by (auto simp: G_def)
    moreover have "set (task_params nt) = all_params ` set notify_task_attrs"
      using rendered_known(7) [OF ts] nt by (auto simp: known_task_def task_as_def)
    moreover have "P_modifiers \<notin> set base_image_build_task_attrs \<union> set promote_task_attrs \<union> set notify_task_attrs"
      by (simp add: base_image_build_task_attrs_def promote_task_attrs_def notify_task_attrs_def)
    ultimately have "all_params P_modifiers \<notin> set (py_set (task_params nt @ ps))"
      by (auto simp: all_params_inj)
    then show False using remove_params_missing [of P_modifiers] qs by (simp del: foldR.simps)
  qed
qed

lemma sample_rendered:
  "\<exists>ts. render_task sample_render_env False (\<lambda>_. None) = Inr ts"
  by (rule render_task_as [OF sample_files_ok, of False "\<lambda>_. None"]) blast

lemma shipped_plain: "plain_universe shipped_features"
proof -
  have "\<forall>s \<in> set (map fd_name shipped_features). plain s"
    unfolding shipped_names by (simp add: plain_def)
  then show ?thesis by (simp add: plain_universe_def)
qed

definition sample_flavour :: gardenlinux_flavour where
  "sample_flavour = \<lparr>fl_architecture = AMD64, fl_platform = ''aws'', fl_modifiers = [''cloud'', ''gardener'']\<rparr>"

lemma sample_flavour_valid: "valid_flavour shipped_features sample_flavour"
  by (simp add: valid_flavour_def sample_flavour_def platform_names_def platforms_def modifier_names_def
      modifiers_def shipped_features_def feature_def)

theorem main_pipeline_correct_witness:
  "\<exists>ts pl. render_task sample_render_env False (\<lambda>_. None) = Inr ts \<and>
     render_pipeline_dict shipped_features 27 [sample_flavour] ts = Inr pl \<and> closed_pipeline ts pl"
proof -
  from sample_rendered obtain ts where ts: "render_task sample_render_env False (\<lambda>_. None) = Inr ts" ..
  from main_pipeline_correct [OF sample_files_ok ts shipped_wf shipped_fuel shipped_plain, of "[sample_flavour]"]
    sample_flavour_valid ts
  show ?thesis by auto
qed

theorem package_pipeline_correct_witness:
  "\<exists>ts pl. render_task sample_render_env False (\<lambda>_. None) = Inr ts \<and>
     mk_pipeline_packages ts = Inr pl \<and> closed_pipeline ts pl"
proof -
  from sample_rendered obtain ts where ts: "render_task sample_render_env False (\<lambda>_. None) = Inr ts" ..
  from package_pipeline_correct [OF sample_files_ok ts] ts show ?thesis by blast
qed

end
