(* ===== verification/Build_Targets.thy ===== *)
theory Build_Targets
  imports Enums
begin

text \<open>
  \<open>BuildTarget\<close> of \<open>ci/glci/model.py\<close> beyond its values: the prerequisites of each target, the
  check that a set of targets is closed under them, and the parser of the comma-separated list
  that the pipeline hands to every step.
\<close>

primrec bt_requires :: "build_target \<Rightarrow> string list" where
  "bt_requires BASE_BUILD = []"
| "bt_requires BUILD = []"
| "bt_requires MANIFEST = [''build'']"
| "bt_requires COMPONENT_DESCRIPTOR = [''build'']"
| "bt_requires TESTS = [''build'']"
| "bt_requires PUBLISH = [''build'', ''manifest'', ''component-descriptor'']"
| "bt_requires FREEZE_VERSION =
     [''build-baseimage'', ''build'', ''manifest'', ''component-descriptor'']"
| "bt_requires GITHUB_RELEASE =
     [''build-baseimage'', ''build'', ''manifest'', ''component-descriptor'', ''freeze-version'']"

text \<open>The inner loop: the required values that are missing from the set.\<close>

definition missing_requirements :: "build_target set \<Rightarrow> build_target \<Rightarrow> string list res" where
  "missing_requirements bt_set e =
     foldR (\<lambda>r missing. bindR (build_target_of r)
              (\<lambda>target. Inr (if target \<notin> bt_set then missing @ [r] else missing)))
           (bt_requires e) []"

definition check_requirements :: "build_target list \<Rightarrow> unit res" where
  "check_requirements bts =
     foldR (\<lambda>e _. bindR (missing_requirements (set bts) e)
              (\<lambda>missing. if missing \<noteq> [] then Inl (ValueError (build_target_value e)) else Inr ()))
           bts ()"

definition set_from_str :: "string \<Rightarrow> build_target list res" where
  "set_from_str comma_separated =
     bindR (mapR (\<lambda>action. build_target_of (py_strip action)) (py_split CHR '','' comma_separated))
       (\<lambda>targets. let targets = py_set targets in
          bindR (check_requirements targets) (\<lambda>_. Inr targets))"

text \<open>The abstract contract: the prerequisites as targets, and sets closed under them.\<close>

definition required :: "build_target \<Rightarrow> build_target set" where
  "required e = {t. build_target_value t \<in> set (bt_requires e)}"

definition closed_targets :: "build_target set \<Rightarrow> bool" where
  "closed_targets S \<longleftrightarrow> (\<forall>e \<in> S. required e \<subseteq> S)"

lemma required_simps [simp]:
  "required BASE_BUILD = {}"
  "required BUILD = {}"
  "required MANIFEST = {BUILD}"
  "required COMPONENT_DESCRIPTOR = {BUILD}"
  "required TESTS = {BUILD}"
  "required PUBLISH = {BUILD, MANIFEST, COMPONENT_DESCRIPTOR}"
  "required FREEZE_VERSION = {BASE_BUILD, BUILD, MANIFEST, COMPONENT_DESCRIPTOR}"
  "required GITHUB_RELEASE = {BASE_BUILD, BUILD, MANIFEST, COMPONENT_DESCRIPTOR, FREEZE_VERSION}"
  unfolding required_def by (auto, (case_tac x; simp)+)

lemma required_trans: "t \<in> required e \<Longrightarrow> required t \<subseteq> required e"
  by (cases e) auto

lemma build_target_of_literals [simp]:
  "build_target_of ''build-baseimage'' = Inr BASE_BUILD"
  "build_target_of ''build'' = Inr BUILD"
  "build_target_of ''manifest'' = Inr MANIFEST"
  "build_target_of ''component-descriptor'' = Inr COMPONENT_DESCRIPTOR"
  "build_target_of ''tests'' = Inr TESTS"
  "build_target_of ''publish'' = Inr PUBLISH"
  "build_target_of ''freeze-version'' = Inr FREEZE_VERSION"
  "build_target_of ''github-release'' = Inr GITHUB_RELEASE"
  by (simp_all add: bt.of_val_Inr)

lemma missing_requirements_ok:
  "\<exists>m. missing_requirements S e = Inr m \<and> (m = [] \<longleftrightarrow> required e \<subseteq> S)"
  by (cases e) (auto simp: missing_requirements_def)

lemma missing_requirements_Inl: "missing_requirements S e \<noteq> Inl err"
  using missing_requirements_ok [of S e] by auto

lemma missing_requirements_Nil: "missing_requirements S e = Inr [] \<longleftrightarrow> required e \<subseteq> S"
  using missing_requirements_ok [of S e] by auto

lemma check_loop:
  "foldR (\<lambda>e _. bindR (missing_requirements S e)
      (\<lambda>missing. if missing \<noteq> [] then Inl (ValueError (build_target_value e)) else Inr ())) es () =
    Inr () \<longleftrightarrow> (\<forall>e \<in> set es. required e \<subseteq> S)"
proof (induction es)
  case (Cons e es)
  then show ?case
    using missing_requirements_ok [of S e] by (auto simp: bindR_Inr_iff)
qed simp

lemma check_requirements_closed: "check_requirements bts = Inr () \<longleftrightarrow> closed_targets (set bts)"
  by (simp only: check_requirements_def check_loop closed_targets_def)

lemma check_loop_err:
  "foldR (\<lambda>e _. bindR (missing_requirements S e)
      (\<lambda>missing. if missing \<noteq> [] then Inl (ValueError (build_target_value e)) else Inr ())) es () =
    Inl err \<Longrightarrow> \<exists>e \<in> set es. err = ValueError (build_target_value e) \<and> \<not> required e \<subseteq> S"
proof (induction es)
  case (Cons e es)
  then show ?case
    using missing_requirements_ok [of S e]
    by (auto simp: bindR_Inl_iff split: if_splits)
qed simp

lemma check_requirements_err:
  "check_requirements bts = Inl err \<Longrightarrow>
    \<exists>e \<in> set bts. err = ValueError (build_target_value e) \<and> \<not> required e \<subseteq> set bts"
  unfolding check_requirements_def by (rule check_loop_err)

text \<open>The values of the class carry neither commas nor surrounding whitespace.\<close>

lemma build_target_value_clean:
  "CHR '','' \<notin> set (build_target_value t)" "py_strip (build_target_value t) = build_target_value t"
proof -
  show "CHR '','' \<notin> set (build_target_value t)" by (cases t) simp_all
  have "\<forall>c \<in> set (build_target_value t). \<not> py_isspace c"
    by (cases t) (simp_all add: py_isspace_def)
  then show "py_strip (build_target_value t) = build_target_value t"
    by (simp add: py_strip_def strip_by_none)
qed

lemma set_from_str_Inr:
  "set_from_str s = Inr T \<longleftrightarrow>
    (\<exists>ts. map py_strip (py_split CHR '','' s) = map build_target_value ts \<and>
          T = py_set ts \<and> closed_targets (set ts))"
proof -
  have parts: "mapR (\<lambda>a. build_target_of (py_strip a)) xs = Inr ts \<longleftrightarrow>
      map py_strip xs = map build_target_value ts" for xs ts
  proof -
    have "mapR (\<lambda>a. build_target_of (py_strip a)) xs = Inr ts \<longleftrightarrow>
        list_all2 (\<lambda>a t. py_strip a = build_target_value t) xs ts"
      by (simp add: mapR_Inr_iff bt.of_val_Inr)
    also have "\<dots> \<longleftrightarrow> map py_strip xs = map build_target_value ts"
      by (auto simp: list_all2_conv_all_nth list_eq_iff_nth_eq)
    finally show ?thesis .
  qed
  show ?thesis
    by (auto simp: set_from_str_def bindR_Inr_iff parts Let_def check_requirements_closed)
qed

text \<open>
  The pipeline run prints a set of targets with \<open>','.join(a.value for a in targets)\<close>; this is the
  printer whose text the steps parse.
\<close>

definition targets_str :: "build_target list \<Rightarrow> string" where
  "targets_str bts = py_join '','' (map build_target_value bts)"

lemma set_from_str_targets_str:
  assumes "ts \<noteq> []" "closed_targets (set ts)"
  shows "set_from_str (targets_str ts) = Inr (py_set ts)"
proof -
  have "py_split CHR '','' (targets_str ts) = map build_target_value ts"
    unfolding targets_str_def
    by (rule py_split_join) (use assms build_target_value_clean in auto)
  then have "map py_strip (py_split CHR '','' (targets_str ts)) = map build_target_value ts"
    by (simp add: build_target_value_clean(2) comp_def)
  with assms show ?thesis by (auto simp: set_from_str_Inr)
qed

text \<open>
  The check accepts exactly the sets that contain every prerequisite of their members; a
  refused set is refused with \<open>ValueError\<close> naming a member that lacks one.
\<close>

theorem check_requirements_correct:
  "(check_requirements bts = Inr () \<and> closed_targets (set bts)) \<or>
   (\<exists>e \<in> set bts. check_requirements bts = Inl (ValueError (build_target_value e)) \<and>
      (\<exists>t \<in> required e. t \<notin> set bts))"
proof (cases "check_requirements bts")
  case (Inl err)
  then show ?thesis using check_requirements_err [OF Inl] by blast
next
  case (Inr u)
  then show ?thesis using check_requirements_closed [of bts] by simp
qed

text \<open>
  Round trip. The text that the pipeline run writes for a non-empty closed list of targets is
  parsed by \<open>set_from_str\<close>, in every step, to the same set of targets.
\<close>

theorem set_from_str_roundtrip:
  assumes "ts \<noteq> []" and "closed_targets (set ts)"
  shows "\<exists>T. set_from_str (targets_str ts) = Inr T \<and> set T = set ts \<and> distinct T"
  using set_from_str_targets_str [OF assms] by simp

theorem set_from_str_roundtrip_witness:
  "\<exists>T. set_from_str (targets_str [BUILD, MANIFEST, BUILD]) = Inr T \<and>
     set T = {BUILD, MANIFEST} \<and> distinct T"
  using set_from_str_roundtrip [of "[BUILD, MANIFEST, BUILD]"]
  by (simp add: closed_targets_def insert_commute)

text \<open>
  Whatever text a step is given, an accepted set of targets is closed: a step that sees
  \<open>github-release\<close> also sees \<open>freeze-version\<close>, \<open>manifest\<close>, \<open>component-descriptor\<close>, \<open>build\<close> and
  \<open>build-baseimage\<close>, and a step that sees any of \<open>manifest\<close>, \<open>tests\<close>, \<open>publish\<close> sees \<open>build\<close>.
\<close>

theorem set_from_str_closed:
  assumes "set_from_str s = Inr T"
  shows "distinct T \<and> T \<noteq> [] \<and> (\<forall>e \<in> set T. required e \<subseteq> set T)"
proof -
  from assms obtain ts where ts: "map py_strip (py_split CHR '','' s) = map build_target_value ts"
      "T = py_set ts" "closed_targets (set ts)"
    by (auto simp: set_from_str_Inr)
  from ts(1) have "length ts = length (py_split CHR '','' s)"
    by (metis length_map)
  then have "ts \<noteq> []" by auto
  with ts(2,3) show ?thesis by (auto simp: closed_targets_def)
qed

theorem set_from_str_closed_witness:
  "distinct [BUILD, MANIFEST] \<and> required MANIFEST \<subseteq> set [BUILD, MANIFEST]"
proof -
  have "set_from_str (targets_str [BUILD, MANIFEST]) = Inr (py_set [BUILD, MANIFEST])"
    by (rule set_from_str_targets_str) (simp_all add: closed_targets_def)
  then have "set_from_str (targets_str [BUILD, MANIFEST]) = Inr [BUILD, MANIFEST]"
    by (simp add: py_set_distinct)
  from set_from_str_closed [OF this] show ?thesis by simp
qed

end
