(* ===== verification/Epoch.thy ===== *)
theory Epoch
  imports Py_Strings
begin

text \<open>
  The Garden Linux epoch of \<open>ci/glci/model.py\<close>: the number of days since 2020-04-01, counted from
  one, and the name of the Debian snapshot that belongs to it.  The part of Python's \<open>datetime\<close>
  that the two functions use is modelled with them: the proleptic Gregorian calendar, ordinals,
  the addition of days (up to the year 9999) and the format \<open>%Y%m%d\<close>.
\<close>

subsection \<open>The calendar\<close>

datatype date = Date (dy: nat) (dm: nat) (dd: nat)

definition leap :: "nat \<Rightarrow> bool" where
  "leap y \<longleftrightarrow> y mod 4 = 0 \<and> (y mod 100 \<noteq> 0 \<or> y mod 400 = 0)"

definition days_in_month :: "nat \<Rightarrow> nat \<Rightarrow> nat" where
  "days_in_month y m =
     (if m = 2 then (if leap y then 29 else 28) else if m \<in> {4, 6, 9, 11} then 30 else 31)"

fun valid_date :: "date \<Rightarrow> bool" where
  "valid_date (Date y m d) \<longleftrightarrow> 1 \<le> y \<and> 1 \<le> m \<and> m \<le> 12 \<and> 1 \<le> d \<and> d \<le> days_in_month y m"

fun next_day :: "date \<Rightarrow> date" where
  "next_day (Date y m d) =
     (if d < days_in_month y m then Date y m (d + 1)
      else if m < 12 then Date y (m + 1) 1 else Date (y + 1) 1 1)"

definition days_before_year :: "nat \<Rightarrow> nat" where
  "days_before_year y = (let k = y - 1 in k * 365 + k div 4 - k div 100 + k div 400)"

definition days_before_month :: "nat \<Rightarrow> nat \<Rightarrow> nat" where
  "days_before_month y m = (\<Sum>i \<leftarrow> [1..<m]. days_in_month y i)"

fun toordinal :: "date \<Rightarrow> nat" where
  "toordinal (Date y m d) = days_before_year y + days_before_month y m + d"

text \<open>Dates are ordered by year, month, day.\<close>

instantiation date :: linorder
begin

definition less_date :: "date \<Rightarrow> date \<Rightarrow> bool" where
  "less_date a b \<longleftrightarrow> dy a < dy b \<or> (dy a = dy b \<and> (dm a < dm b \<or> (dm a = dm b \<and> dd a < dd b)))"

definition less_eq_date :: "date \<Rightarrow> date \<Rightarrow> bool" where
  "less_eq_date a b \<longleftrightarrow> a = b \<or> a < b"

instance
  by standard (auto simp: less_date_def less_eq_date_def intro: date.expand)

end

lemma days_in_month_bounds: "28 \<le> days_in_month y m" "days_in_month y m \<le> 31"
  by (auto simp: days_in_month_def)

lemma days_in_month_pos [simp]: "0 < days_in_month y m"
  by (simp add: days_in_month_def)

lemma next_day_valid: "valid_date d \<Longrightarrow> valid_date (next_day d)"
  by (cases d) (auto simp: Suc_le_eq)

lemma next_day_greater: "d < next_day d"
  by (cases d) (auto simp: less_date_def)

lemma days_before_month_Suc: "1 \<le> m \<Longrightarrow> days_before_month y (Suc m) = days_before_month y m + days_in_month y m"
  by (simp add: days_before_month_def)

lemma days_before_month_13: "days_before_month y 13 = 365 + (if leap y then 1 else 0)"
  by (simp add: days_before_month_def days_in_month_def upt_rec)

lemma mult_div_le: "k div 100 \<le> (k :: nat) div 4"
  by (intro div_le_mono2) auto

lemma leap_count:
  assumes "b \<le> (a :: nat)" "B \<Longrightarrow> A" "C \<Longrightarrow> B"
  shows "x + 365 + (a + (if A then 1 else 0)) - (b + (if B then 1 else 0)) + (c + (if C then 1 else 0)) =
    x + a - b + c + 365 + (if A \<and> (\<not> B \<or> C) then 1 else 0)"
  using assms by (cases A; cases B; cases C) simp_all

lemma days_before_year_Suc:
  assumes "1 \<le> y"
  shows "days_before_year (Suc y) = days_before_year y + 365 + (if leap y then 1 else 0)"
proof -
  obtain k where y: "y = Suc k" using assms by (cases y) auto
  have d: "Suc k div m = k div m + (if Suc k mod m = 0 then 1 else 0)" for m
    by (simp add: div_Suc)
  have m: "Suc k mod 100 = 0 \<Longrightarrow> Suc k mod 4 = 0" "Suc k mod 400 = 0 \<Longrightarrow> Suc k mod 100 = 0"
    by presburger+
  have t: "Suc k * 365 = k * 365 + 365" by simp
  have "Suc k * 365 + Suc k div 4 - Suc k div 100 + Suc k div 400 =
      k * 365 + k div 4 - k div 100 + k div 400 + 365 +
      (if Suc k mod 4 = 0 \<and> (\<not> Suc k mod 100 = 0 \<or> Suc k mod 400 = 0) then 1 else 0)"
    unfolding t d by (rule leap_count) (use mult_div_le m in auto)
  then show ?thesis
    by (simp only: y days_before_year_def Let_def diff_Suc_1 leap_def)
qed

lemma toordinal_next_day:
  assumes "valid_date d"
  shows "toordinal (next_day d) = Suc (toordinal d)"
proof (cases d)
  case (Date y m k)
  with assms have v: "1 \<le> y" "1 \<le> m" "m \<le> 12" "k \<le> days_in_month y m" by auto
  show ?thesis
  proof (cases "k < days_in_month y m \<or> m < 12")
    case True
    then show ?thesis using Date v days_before_month_Suc [OF v(2), of y] by auto
  next
    case False
    then have "m = 12" "k = days_in_month y 12" using v by auto
    then show ?thesis
      using Date v days_before_month_Suc [of 12 y] days_before_month_13 [of y]
        days_before_year_Suc [OF v(1)]
      by (simp add: days_before_month_def)
  qed
qed

text \<open>\<open>date + timedelta(days=n)\<close>, the year unbounded; the bound is applied where it is used.\<close>

definition date_plus :: "date \<Rightarrow> nat \<Rightarrow> date" where
  "date_plus d n = (next_day ^^ n) d"

lemma date_plus_simps [simp]: "date_plus d 0 = d" "date_plus d (Suc n) = next_day (date_plus d n)"
  by (simp_all add: date_plus_def)

lemma date_plus_valid: "valid_date d \<Longrightarrow> valid_date (date_plus d n)"
  by (induction n) (auto simp: next_day_valid)

lemma date_plus_ordinal: "valid_date d \<Longrightarrow> toordinal (date_plus d n) = toordinal d + n"
  by (induction n) (auto simp: toordinal_next_day date_plus_valid)

lemma date_plus_mono: "m < n \<Longrightarrow> date_plus d m < date_plus d n"
proof (induction n)
  case (Suc n)
  then have "m = n \<or> m < n" by auto
  then show ?case using Suc.IH next_day_greater [of "date_plus d n"] by fastforce
qed simp

lemma days_before_year_mono:
  assumes "y \<le> z" "1 \<le> y"
  shows "days_before_year y \<le> days_before_year z"
  using assms(1)
proof (induction z rule: dec_induct)
  case (step n)
  then show ?case using days_before_year_Suc [of n] assms(2) by simp
qed simp

lemma days_before_month_mono: "m \<le> n \<Longrightarrow> days_before_month y m \<le> days_before_month y n"
proof -
  assume "m \<le> n"
  then show ?thesis
    by (induction n rule: dec_induct) (auto simp: days_before_month_def)
qed

lemma toordinal_year:
  assumes "valid_date d"
  shows "days_before_year (dy d) < toordinal d" "toordinal d \<le> days_before_year (Suc (dy d))"
proof -
  obtain y m k where d: "d = Date y m k" by (cases d)
  with assms have v: "1 \<le> y" "1 \<le> m" "m \<le> 12" "1 \<le> k" "k \<le> days_in_month y m" by auto
  show "days_before_year (dy d) < toordinal d" using d v by simp
  have "days_before_month y m + k \<le> days_before_month y (Suc m)"
    using v days_before_month_Suc by simp
  also have "\<dots> \<le> days_before_month y 13" using v by (intro days_before_month_mono) simp
  finally show "toordinal d \<le> days_before_year (Suc (dy d))"
    using d days_before_year_Suc [OF v(1)] days_before_month_13 [of y] by simp
qed

lemma year_9999: "valid_date d \<Longrightarrow> dy d \<le> 9999 \<longleftrightarrow> toordinal d \<le> 3652059"
proof -
  assume v: "valid_date d"
  have e: "days_before_year 10000 = 3652059" by (simp add: days_before_year_def)
  show ?thesis
  proof (cases "dy d \<le> 9999")
    case True
    have "days_before_year (Suc (dy d)) \<le> days_before_year 10000"
      by (rule days_before_year_mono) (use True in auto)
    then show ?thesis using toordinal_year(2) [OF v] e True by simp
  next
    case False
    have "days_before_year 10000 \<le> days_before_year (dy d)"
      by (rule days_before_year_mono) (use False in auto)
    then show ?thesis using toordinal_year(1) [OF v] e False by simp
  qed
qed

subsection \<open>Fixed-width numbers\<close>

fun pad_num :: "nat \<Rightarrow> nat \<Rightarrow> string" where
  "pad_num 0 n = []"
| "pad_num (Suc w) n = pad_num w (n div 10) @ [digit_char (n mod 10)]"

lemma length_pad_num [simp]: "length (pad_num w n) = w"
  by (induction w arbitrary: n) auto

lemma append_less:
  fixes xs ys us vs :: "'a :: order list"
  assumes "length xs = length ys"
  shows "xs @ us < ys @ vs \<longleftrightarrow> xs < ys \<or> (xs = ys \<and> us < vs)"
  using assms
proof (induction xs ys rule: list_induct2)
  case (Cons x xs y ys)
  then show ?case by auto
qed simp

lemma digit_char_less: "m < 10 \<Longrightarrow> n < 10 \<Longrightarrow> digit_char m < digit_char n \<longleftrightarrow> m < n"
  by (simp add: less_char_def digit_char_def of_char_of)

lemma digit_char_eq: "m < 10 \<Longrightarrow> n < 10 \<Longrightarrow> digit_char m = digit_char n \<longleftrightarrow> m = n"
  using digit_char_less [of m n] digit_char_less [of n m] by (metis nat_neq_iff order_less_irrefl)

lemma pad_num_eq: "m < 10 ^ w \<Longrightarrow> n < 10 ^ w \<Longrightarrow> pad_num w m = pad_num w n \<longleftrightarrow> m = n"
proof (induction w arbitrary: m n)
  case (Suc w)
  have "m div 10 < 10 ^ w" "n div 10 < 10 ^ w" using Suc.prems by auto
  then have "pad_num (Suc w) m = pad_num (Suc w) n \<longleftrightarrow> m div 10 = n div 10 \<and> m mod 10 = n mod 10"
    using Suc.IH by (simp add: digit_char_eq)
  then show ?case by (metis mult_div_mod_eq)
qed simp

lemma tens_less: "r < 10 \<Longrightarrow> s < 10 \<Longrightarrow> 10 * q + r < 10 * p + (s :: nat) \<longleftrightarrow> q < p \<or> (q = p \<and> r < s)"
  by arith

lemma div_mod_less:
  "(m :: nat) < n \<longleftrightarrow> m div 10 < n div 10 \<or> (m div 10 = n div 10 \<and> m mod 10 < n mod 10)"
  using tens_less [of "m mod 10" "n mod 10" "m div 10" "n div 10"] by simp

lemma pad_num_less: "m < 10 ^ w \<Longrightarrow> n < 10 ^ w \<Longrightarrow> pad_num w m < pad_num w n \<longleftrightarrow> m < n"
proof (induction w arbitrary: m n)
  case (Suc w)
  have b: "m div 10 < 10 ^ w" "n div 10 < 10 ^ w" using Suc.prems by auto
  have "pad_num (Suc w) m < pad_num (Suc w) n \<longleftrightarrow>
      m div 10 < n div 10 \<or> (m div 10 = n div 10 \<and> m mod 10 < n mod 10)"
    using Suc.IH [OF b] pad_num_eq [OF b] by (simp add: append_less digit_char_less)
  then show ?case by (simp only: div_mod_less [symmetric])
qed simp

text \<open>\<open>strftime('%Y%m%d')\<close> for years of four digits.\<close>

fun strftime_Ymd :: "date \<Rightarrow> string" where
  "strftime_Ymd (Date y m d) = pad_num 4 y @ pad_num 2 m @ pad_num 2 d"

lemma strftime_less:
  assumes "valid_date a" "valid_date b" "dy a \<le> 9999" "dy b \<le> 9999"
  shows "strftime_Ymd a < strftime_Ymd b \<longleftrightarrow> a < b"
proof -
  obtain y m d y' m' d' where ab: "a = Date y m d" "b = Date y' m' d'" by (cases a; cases b)
  have bound: "y < 10 ^ 4" "y' < 10 ^ 4" "m < 10 ^ 2" "m' < 10 ^ 2" "d < 10 ^ 2" "d' < 10 ^ 2"
    using assms ab days_in_month_bounds(2) [of y m] days_in_month_bounds(2) [of y' m'] by auto
  show ?thesis
    using bound by (simp add: ab append_less pad_num_less pad_num_eq less_date_def)
qed

lemma strftime_inj:
  "valid_date a \<Longrightarrow> valid_date b \<Longrightarrow> dy a \<le> 9999 \<Longrightarrow> dy b \<le> 9999 \<Longrightarrow>
    strftime_Ymd a = strftime_Ymd b \<Longrightarrow> a = b"
  using strftime_less [of a b] strftime_less [of b a] by (metis linorder_neqE order_less_irrefl)

subsection \<open>Epochs and snapshots\<close>

text \<open>
  A \<open>datetime\<close>: its date, the microseconds since midnight, and whether it carries a time zone
  (subtracting such a value from the naive \<open>epoch_date\<close> raises \<open>TypeError\<close>).
\<close>

record datetime =
  dt_date :: date
  dt_micros :: nat
  dt_aware :: bool

definition midnight :: "date \<Rightarrow> datetime" where
  "midnight d = \<lparr>dt_date = d, dt_micros = 0, dt_aware = False\<rparr>"

definition epoch_date :: datetime where
  "epoch_date = midnight (Date 2020 4 1)"

text \<open>\<open>(a - b).days\<close>: the whole days of the difference, rounded down.\<close>

definition minus_days :: "datetime \<Rightarrow> datetime \<Rightarrow> int res" where
  "minus_days a b =
     (if dt_aware a \<noteq> dt_aware b then Inl (TypeError ''offset-naive and offset-aware datetimes'')
      else Inr (((int (toordinal (dt_date a)) - int (toordinal (dt_date b))) * 86400000000 +
                 (int (dt_micros a) - int (dt_micros b))) div 86400000000))"

datatype date_arg = Arg_none | Arg_str string | Arg_datetime datetime | Arg_other string

text \<open>\<open>today\<close> stands for \<open>datetime.datetime.today()\<close>, \<open>isoparse\<close> for \<open>dateutil.parser.isoparse\<close>.\<close>

definition gardenlinux_epoch ::
  "datetime \<Rightarrow> (string \<Rightarrow> datetime res) \<Rightarrow> date_arg \<Rightarrow> int res" where
  "gardenlinux_epoch today isoparse arg =
     bindR (case arg of
         Arg_none \<Rightarrow> Inr today
       | Arg_str s \<Rightarrow> isoparse s
       | Arg_datetime d \<Rightarrow> Inr d
       | Arg_other v \<Rightarrow> Inl (ValueError v)) (\<lambda>date.
     bindR (minus_days date epoch_date) (\<lambda>days.
       let epoch = days + 1 in
       if epoch < 1 then Inl (ValueError '''') else Inr epoch))"

datatype epoch_arg = Epoch_none | Epoch_int int | Epoch_str string

definition snapshot_date ::
  "datetime \<Rightarrow> (string \<Rightarrow> datetime res) \<Rightarrow> epoch_arg \<Rightarrow> string res" where
  "snapshot_date today isoparse arg =
     bindR (case arg of
         Epoch_none \<Rightarrow> gardenlinux_epoch today isoparse Arg_none
       | Epoch_int i \<Rightarrow> Inr i
       | Epoch_str s \<Rightarrow> py_int s) (\<lambda>epoch.
     if epoch < 1 then Inl (ValueError (str_int epoch))
     else let date = date_plus (dt_date epoch_date) (nat (epoch - 1)) in
       if 9999 < dy date then Inl (OtherException ''OverflowError'')
       else Inr (strftime_Ymd date))"

definition max_epoch :: int where
  "max_epoch = 2914544"

definition epoch_day :: "int \<Rightarrow> date" where
  "epoch_day e = date_plus (Date 2020 4 1) (nat (e - 1))"

lemma valid_inception: "valid_date (Date 2020 4 1)"
  by (simp add: days_in_month_def)

lemma inception_ordinal: "toordinal (Date 2020 4 1) = 737516"
  by (simp add: days_before_year_def days_before_month_def days_in_month_def leap_def upt_rec)

lemma epoch_day_valid: "valid_date (epoch_day e)"
  unfolding epoch_day_def by (rule date_plus_valid [OF valid_inception])

lemma epoch_day_ordinal: "1 \<le> e \<Longrightarrow> int (toordinal (epoch_day e)) = 737515 + e"
  unfolding epoch_day_def
  by (simp add: date_plus_ordinal [OF valid_inception] inception_ordinal
      del: toordinal.simps One_nat_def)

lemma epoch_day_year: "1 \<le> e \<Longrightarrow> dy (epoch_day e) \<le> 9999 \<longleftrightarrow> e \<le> max_epoch"
  using epoch_day_ordinal [of e] year_9999 [OF epoch_day_valid, of e] by (auto simp: max_epoch_def)

lemma snapshot_date_int:
  "snapshot_date today isoparse (Epoch_int e) =
     (if e < 1 then Inl (ValueError (str_int e))
      else if max_epoch < e then Inl (OtherException ''OverflowError'')
      else Inr (strftime_Ymd (epoch_day e)))"
proof (cases "e < 1")
  case False
  then have "9999 < dy (epoch_day e) \<longleftrightarrow> max_epoch < e"
    using epoch_day_year [of e] by auto
  then show ?thesis
    using False
    by (simp add: snapshot_date_def epoch_date_def midnight_def Let_def epoch_day_def del: One_nat_def)
qed (simp add: snapshot_date_def)

lemma gardenlinux_epoch_datetime:
  assumes "dt_micros t < 86400000000" "\<not> dt_aware t"
  shows "gardenlinux_epoch today isoparse (Arg_datetime t) =
    (let e = int (toordinal (dt_date t)) - 737515 in if e < 1 then Inl (ValueError '''') else Inr e)"
proof -
  have "((a - b) * 86400000000 + (int (dt_micros t) - int 0)) div 86400000000 = a - b" for a b
    using assms(1) by simp
  then have "minus_days t epoch_date = Inr (int (toordinal (dt_date t)) - 737516)"
    using assms(2) unfolding minus_days_def epoch_date_def midnight_def
    by (simp only: datetime.simps inception_ordinal) simp
  then show ?thesis
    by (simp add: gardenlinux_epoch_def Let_def)
qed

subsection \<open>Properties\<close>

text \<open>
  C19: epochs and snapshot dates are inverse. The snapshot date of every epoch up to the year 9999 is
  the \<open>%Y%m%d\<close> text of a valid day, and every moment of that day has this epoch again; with a parser
  that reads that text as the day's midnight, so does the text itself.
\<close>

theorem snapshot_epoch_roundtrip:
  assumes "1 \<le> e" and "e \<le> max_epoch" and "micros < 86400000000"
    and "\<And>d. valid_date d \<Longrightarrow> dy d \<le> 9999 \<Longrightarrow> isoparse (strftime_Ymd d) = Inr (midnight d)"
  shows "\<exists>d. valid_date d \<and> snapshot_date today isoparse (Epoch_int e) = Inr (strftime_Ymd d) \<and>
    gardenlinux_epoch today isoparse
      (Arg_datetime \<lparr>dt_date = d, dt_micros = micros, dt_aware = False\<rparr>) = Inr e \<and>
    gardenlinux_epoch today isoparse (Arg_str (strftime_Ymd d)) = Inr e"
proof -
  have "dy (epoch_day e) \<le> 9999" using epoch_day_year assms(1,2) by simp
  then have iso: "isoparse (strftime_Ymd (epoch_day e)) = Inr (midnight (epoch_day e))"
    by (rule assms(4) [OF epoch_day_valid])
  have "gardenlinux_epoch today isoparse (Arg_str (strftime_Ymd (epoch_day e))) =
      gardenlinux_epoch today isoparse (Arg_datetime (midnight (epoch_day e)))"
    by (simp add: gardenlinux_epoch_def iso)
  then show ?thesis
    using epoch_day_valid [of e] epoch_day_ordinal [OF assms(1)] assms(1-3)
    by (auto simp: gardenlinux_epoch_datetime snapshot_date_int midnight_def Let_def intro!: exI [of _ "epoch_day e"])
qed

lemma digits_val_pad_num: "n < 10 ^ w \<Longrightarrow> digits_val 0 (pad_num w n) = n"
proof (induction w arbitrary: n)
  case (Suc w)
  then have "digits_val 0 (pad_num w (n div 10)) = n div 10" by auto
  then show ?case by (simp add: digits_val_append digit_char_props)
qed simp

definition sample_isoparse :: "string \<Rightarrow> datetime res" where
  "sample_isoparse s = Inr (midnight (Date (digits_val 0 (take 4 s))
     (digits_val 0 (take 2 (drop 4 s))) (digits_val 0 (drop 6 s))))"

lemma sample_isoparse_ok:
  assumes "valid_date d" "dy d \<le> 9999"
  shows "sample_isoparse (strftime_Ymd d) = Inr (midnight d)"
proof -
  obtain y m k where d: "d = Date y m k" by (cases d)
  have "y < 10 ^ 4" "m < 10 ^ 2" "k < 10 ^ 2"
    using assms d days_in_month_bounds(2) [of y m] by auto
  then have "digits_val 0 (pad_num 4 y) = y" "digits_val 0 (pad_num 2 m) = m"
    "digits_val 0 (pad_num 2 k) = k"
    by (simp_all only: digits_val_pad_num)
  then show ?thesis by (simp add: sample_isoparse_def d)
qed

theorem snapshot_epoch_roundtrip_witness:
  "\<exists>d. valid_date d \<and>
     snapshot_date (midnight (Date 2021 11 1)) sample_isoparse (Epoch_int 576) = Inr (strftime_Ymd d) \<and>
     gardenlinux_epoch (midnight (Date 2021 11 1)) sample_isoparse (Arg_str (strftime_Ymd d)) = Inr 576"
  using snapshot_epoch_roundtrip [of 576 0 sample_isoparse "midnight (Date 2021 11 1)"]
    sample_isoparse_ok
  by (auto simp: max_epoch_def)


end
