(* ===== verification/Version_File.thy ===== *)
theory Version_File
  imports Epoch
begin

text \<open>
  The VERSION file: \<open>_parse_version_from_workingtree\<close>, \<open>next_release_version_from_workingtree\<close> and
  \<open>gardenlinux_epoch_from_workingtree\<close> of \<open>ci/glci/model.py\<close>, \<open>_fix_version\<close> of \<open>bin/.cicd-cli.py\<close>, and
  the version numbers of \<open>ci/release.py\<close>.  A file is the list of lines that \<open>readlines\<close> returns;
  \<open>read\<close> stands for the files of the working tree, a missing one raising \<open>FileNotFoundError\<close>.
\<close>

type_synonym file_reader = "string \<Rightarrow> string list res"

definition version_path :: string where
  "version_path = ''VERSION''"

definition version_today :: string where
  "version_today = ''today''"

fun first_version_line :: "string \<Rightarrow> string list \<Rightarrow> string res" where
  "first_version_line path [] = Inl (ValueError path)"
| "first_version_line path (l # ls) =
     (let line = py_strip l in
      if line = [] \<or> startswith line ''#'' then first_version_line path ls
      else if CHR ''#'' \<in> set line then Inr (py_strip (before_first CHR ''#'' line))
      else Inr line)"

definition parse_version_from_workingtree :: "file_reader \<Rightarrow> string \<Rightarrow> string res" where
  "parse_version_from_workingtree read path = bindR (read path) (first_version_line path)"

text \<open>
  \<open>epoch\<close> is the value of the parameter, whose default is the epoch of the day of the import.  The
  call in the first branch does not pass \<open>path\<close> on: it reads the default VERSION file.
\<close>

definition gardenlinux_epoch_from_workingtree :: "file_reader \<Rightarrow> string \<Rightarrow> int \<Rightarrow> int res" where
  "gardenlinux_epoch_from_workingtree read path epoch =
     bindR (parse_version_from_workingtree read path) (\<lambda>version_str.
       case py_int (hd (py_split CHR ''.'' version_str)) of
         Inr e \<Rightarrow> Inr e
       | Inl (ValueError _) \<Rightarrow>
           (if version_str = version_today then Inr epoch else Inl (ValueError version_str))
       | Inl err \<Rightarrow> Inl err)"

definition next_release_version_from_workingtree :: "file_reader \<Rightarrow> string \<Rightarrow> int \<Rightarrow> string res" where
  "next_release_version_from_workingtree read path epoch =
     bindR (parse_version_from_workingtree read path) (\<lambda>version_str.
       if version_str = version_today then
         bindR (gardenlinux_epoch_from_workingtree read version_path epoch)
           (\<lambda>e. Inr (str_int e @ ''.0''))
       else (case py_split CHR ''.'' version_str of
           [e, patchlevel] \<Rightarrow>
             bindR (py_int e) (\<lambda>_. bindR (py_int patchlevel) (\<lambda>_. Inr version_str))
         | _ \<Rightarrow> Inl (ValueError version_str)))"

text \<open>
  \<open>_fix_version\<close>; \<open>\<backslash>d\<close> of a \<open>str\<close> pattern matches every decimal digit, which below code point 256
  are the ASCII digits, and \<open>$\<close> also matches before a final newline.  The warnings are not modelled.
\<close>

definition is_proper_version :: "string \<Rightarrow> bool" where
  "is_proper_version s =
     (let body = (if endswith s [char_of (10 :: nat)] then butlast s else s)
      in body \<noteq> [] \<and> list_all (\<lambda>c. is_digit c \<or> c = CHR ''.'') body)"

definition fix_version :: "file_reader \<Rightarrow> string \<Rightarrow> int \<Rightarrow> string res" where
  "fix_version read parsed_version parsed_epoch =
     bindR (parse_version_from_workingtree read version_path) (\<lambda>default.
       let result =
         (if parsed_version \<noteq> default then parsed_version
          else if is_proper_version parsed_version then parsed_version
          else str_int parsed_epoch @ ''.0'')
       in bindR (py_int (hd (py_split CHR ''.'' result))) (\<lambda>_. Inr result))"

subsection \<open>Reading the file\<close>

lemma before_first_notin: "c \<notin> set (before_first c s)"
  by (auto simp: before_first_def dest: set_takeWhileD)

lemma first_version_line_clean:
  "first_version_line path ls = Inr v \<Longrightarrow> CHR ''#'' \<notin> set v \<and> py_strip v = v"
proof (induction path ls rule: first_version_line.induct)
  case (2 path l ls)
  have sub: "CHR ''#'' \<notin> set (py_strip (before_first CHR ''#'' s))" for s
    using strip_by_set before_first_notin unfolding py_strip_def by fastforce
  from 2 show ?case
    using sub by (auto simp: Let_def py_strip_def strip_by_idem split: if_splits)
qed simp

lemma first_version_line_skip:
  "\<forall>l \<in> set cs. py_strip l = [] \<or> startswith (py_strip l) ''#'' \<Longrightarrow>
    first_version_line path (cs @ ls) = first_version_line path ls"
  by (induction cs) auto

text \<open>A release version as the release step writes it: two numbers separated by a period.\<close>

definition release_version :: "int \<Rightarrow> int \<Rightarrow> string" where
  "release_version major minor = str_int major @ ''.'' @ str_int minor"

lemma release_version_split: "py_split CHR ''.'' (release_version x y) = [str_int x, str_int y]"
  by (simp add: release_version_def py_split_append str_int_no_dot py_split_id)

lemma release_version_inj: "release_version x y = release_version u v \<Longrightarrow> x = u \<and> y = v"
proof -
  assume "release_version x y = release_version u v"
  then have "[str_int x, str_int y] = [str_int u, str_int v]"
    by (metis release_version_split)
  then show ?thesis by (auto dest: str_int_inj)
qed

lemma version_today_parts: "py_split CHR ''.'' version_today = [''today'']"
  by (simp add: version_today_def)

lemma py_int_today: "py_int ''today'' = Inl (ValueError ''today'')"
  by (simp add: py_int_def py_strip_def strip_by_def py_isspace_def parse_nat_def is_digit_def)

lemma py_int_err: "py_int s = Inl e \<Longrightarrow> \<exists>v. e = ValueError v"
  by (auto simp: py_int_def parse_nat_def bindR_Inl_iff split: list.splits if_splits)

lemma str_int_chars: "c \<in> set (str_int i) \<Longrightarrow> c = CHR ''-'' \<or> (\<exists>d < 10. c = digit_char d)"
  using str_nat_chars by (auto simp: str_int_def split: if_splits)

lemma str_int_digits: "0 \<le> i \<Longrightarrow> c \<in> set (str_int i) \<Longrightarrow> \<exists>d < 10. c = digit_char d"
  using str_nat_chars by (auto simp: str_int_def)

lemma release_version_chars:
  assumes "c \<in> set (release_version x y)"
  shows "\<not> py_isspace c" "c \<noteq> CHR ''#''"
proof -
  have "c \<in> {CHR ''-'', CHR ''.''} \<or> (\<exists>d < 10. c = digit_char d)"
    using assms str_int_chars by (auto simp: release_version_def)
  then show "\<not> py_isspace c" "c \<noteq> CHR ''#''"
    using digit_char_props(3,7) by (auto simp: py_isspace_def) (metis digit_char_props(7))
qed

lemma release_version_not_Nil [simp]: "release_version x y \<noteq> []"
  by (simp add: release_version_def)

lemma is_proper_release_version:
  assumes "0 \<le> x" "0 \<le> y"
  shows "is_proper_version (release_version x y)"
proof -
  have "c \<noteq> char_of (10 :: nat)" if "c \<in> set (release_version x y)" for c
    using release_version_chars(1) [OF that] by (auto simp: py_isspace_def)
  then have "last (release_version x y) \<noteq> char_of (10 :: nat)" by simp
  then have nl: "\<not> endswith (release_version x y) [char_of (10 :: nat)]"
    by (cases "release_version x y" rule: rev_cases) (auto simp: endswith_def startswith_def)
  have "list_all (\<lambda>c. is_digit c \<or> c = CHR ''.'') (release_version x y)"
    using str_int_digits assms digit_char_props(1) by (auto simp: release_version_def list_all_iff)
  then show ?thesis using nl by (simp add: is_proper_version_def)
qed

subsection \<open>Padding and comments\<close>

lemma rev_dropWhile_rev_append:
  "\<not> p c \<Longrightarrow> rev (dropWhile p (rev (xs @ c # ys))) = xs @ c # rev (dropWhile p (rev ys))"
  by (simp add: dropWhile_append)

lemma strip_padded:
  assumes "\<forall>c \<in> set pre. py_isspace c" "\<forall>c \<in> set post. py_isspace c"
    and "v \<noteq> []" "\<not> py_isspace (hd v)" "\<not> py_isspace (last v)"
  shows "py_strip (pre @ v @ post) = v"
proof -
  have "dropWhile py_isspace (pre @ v @ post) = v @ post"
    using assms(1,3,4) by (cases v) (auto simp: dropWhile_append)
  moreover have "dropWhile py_isspace (rev post @ rev v) = rev v"
    using assms(2,3,5) by (cases v rule: rev_cases) (auto simp: dropWhile_append)
  ultimately show ?thesis by (simp add: py_strip_def strip_by_def)
qed

lemma strip_comment:
  assumes "\<forall>c \<in> set pre. py_isspace c" "v \<noteq> []" "\<not> py_isspace (hd v)"
  shows "py_strip (pre @ v @ post @ CHR ''#'' # cmt) = v @ post @ CHR ''#'' # py_rstrip cmt"
proof -
  have "dropWhile py_isspace (pre @ v @ post @ CHR ''#'' # cmt) = (v @ post) @ CHR ''#'' # cmt"
    using assms by (cases v) (auto simp: dropWhile_append)
  moreover have ns: "\<not> py_isspace CHR ''#''" by (simp add: py_isspace_def)
  ultimately show ?thesis
    using rev_dropWhile_rev_append [of py_isspace "CHR ''#''" "v @ post" cmt, OF ns]
    by (simp only: py_strip_def strip_by_def py_rstrip_def append_assoc)
qed

lemma before_first_append: "c \<notin> set s \<Longrightarrow> before_first c (s @ c # t) = s"
  by (induction s) (auto simp: before_first_def)

text \<open>A line that holds a version, in white space and perhaps followed by a comment.\<close>

definition version_line :: "string \<Rightarrow> string \<Rightarrow> bool" where
  "version_line v l \<longleftrightarrow> (\<exists>pre post cmt. l = pre @ v @ post @ cmt \<and>
     list_all py_isspace pre \<and> list_all py_isspace post \<and> (cmt = [] \<or> hd cmt = CHR ''#''))"

lemma first_version_line_stamped:
  assumes "version_line (release_version x y) l"
  shows "first_version_line path (l # ls) = Inr (release_version x y)"
proof -
  let ?v = "release_version x y"
  obtain pre post cmt where l: "l = pre @ ?v @ post @ cmt" and c: "cmt = [] \<or> hd cmt = CHR ''#''"
    and ws: "\<forall>c \<in> set pre. py_isspace c" "\<forall>c \<in> set post. py_isspace c"
    using assms by (auto simp: version_line_def list_all_iff)
  have ends: "\<not> py_isspace (hd ?v)" "\<not> py_isspace (last ?v)" "hd ?v \<noteq> CHR ''#''"
    using release_version_chars [of "hd ?v" x y] release_version_chars [of "last ?v" x y] by simp_all
  have hash: "CHR ''#'' \<notin> set ?v" using release_version_chars(2) by blast
  have hash': "CHR ''#'' \<notin> set post" using ws(2) by (auto simp: py_isspace_def)
  have start: "\<not> startswith (?v @ t) ''#''" for t
    using ends(3) by (cases ?v) (auto simp: startswith_def)
  show ?thesis
  proof (cases cmt)
    case Nil
    then have "py_strip l = ?v" using strip_padded [OF ws _ ends(1,2)] l by simp
    then show ?thesis using hash start [of "[]"] by simp
  next
    case (Cons h t)
    then have "py_strip l = ?v @ post @ CHR ''#'' # py_rstrip t"
      using strip_comment [OF ws(1) _ ends(1), of post t] l c by simp
    moreover have "before_first CHR ''#'' (?v @ post @ CHR ''#'' # py_rstrip t) = ?v @ post"
      using before_first_append [of "CHR ''#''" "?v @ post"] hash hash' by simp
    moreover have "py_strip (?v @ post) = ?v"
      using strip_padded [of "[]" post ?v] ws(2) ends(1,2) by simp
    ultimately show ?thesis using start by (simp add: Let_def)
  qed
qed

subsection \<open>Properties\<close>

text \<open>
  C21: reading VERSION. Blank lines and comment lines are skipped; when the first other line holds a
  version \<open>major.minor\<close>, padded with white space and perhaps followed by a comment, the next release
  version is that version, the epoch is \<open>major\<close> whatever today's epoch is, and the command line's
  \<open>_fix_version\<close> keeps its default.
\<close>

theorem version_file_correct:
  assumes "read version_path = Inr (cs @ l # ls)"
    and "\<forall>c \<in> set cs. py_strip c = [] \<or> startswith (py_strip c) ''#''"
    and "version_line (release_version major minor) l" and "0 \<le> major" and "0 \<le> minor"
  shows "parse_version_from_workingtree read version_path = Inr (release_version major minor) \<and>
    next_release_version_from_workingtree read version_path epoch = Inr (release_version major minor) \<and>
    gardenlinux_epoch_from_workingtree read version_path epoch = Inr major \<and>
    fix_version read (release_version major minor) major = Inr (release_version major minor)"
proof -
  have p: "parse_version_from_workingtree read version_path = Inr (release_version major minor)"
    using assms(1) first_version_line_skip [OF assms(2)] first_version_line_stamped [OF assms(3)]
    by (simp add: parse_version_from_workingtree_def)
  have "release_version major minor \<noteq> version_today"
    using release_version_split [of major minor] version_today_parts by auto
  then show ?thesis
    using p is_proper_release_version [OF assms(4,5)]
    by (simp add: next_release_version_from_workingtree_def gardenlinux_epoch_from_workingtree_def
        fix_version_def release_version_split py_int_str_int)
qed

theorem version_file_correct_witness:
  "next_release_version_from_workingtree
     (\<lambda>_. Inr [''# next release'', '' 576.3   # stamped'', ''577.0'']) version_path 1 =
   Inr (release_version 576 3)"
proof -
  have v: "release_version 576 3 = ''576.3''"
    by code_simp
  have "version_line (release_version 576 3) '' 576.3   # stamped''"
    unfolding v version_line_def
    by (rule exI [of _ "'' ''"], rule exI [of _ "''   ''"], rule exI [of _ "''# stamped''"])
      (simp add: py_isspace_def)
  then show ?thesis
    using version_file_correct [of "\<lambda>_. Inr [''# next release'', '' 576.3   # stamped'', ''577.0'']"
        "[''# next release'']" "'' 576.3   # stamped''" "[''577.0'']" 576 3 1]
    by (simp add: py_strip_def strip_by_def py_isspace_def startswith_def)
qed

text \<open>The lines of the VERSION file of the repository.\<close>

definition shipped_version_lines :: "string list" where
  "shipped_version_lines =
    [''# the version defined in this file specifies the _next_ release version of gardenlinux, as well as'',
     ''# (implicitly) the gardenlinux epoch (days since 2020-04-01) to use as dependency timestamp.'',
     ''# use `dev` to build against latest'',
     ''dev'']"

lemma shipped_version_parse: "first_version_line p shipped_version_lines = Inr ''dev''"
  by (simp add: shipped_version_lines_def py_strip_def strip_by_def py_isspace_def startswith_def)

lemma py_int_dev: "py_int ''dev'' = Inl (ValueError ''dev'')"
  by (simp add: py_int_def py_strip_def strip_by_def py_isspace_def parse_nat_def is_digit_def)

text \<open>
  The documented special values. With \<open>today\<close> in VERSION the epoch is the one given (the day's)
  and the next release is its \<open>.0\<close>; the value \<open>dev\<close>, which the comment of the shipped VERSION file
  tells to use and which the file contains, is refused by both functions.
\<close>

theorem version_file_special_values:
  "next_release_version_from_workingtree (\<lambda>_. Inr [version_today]) version_path epoch =
     Inr (release_version epoch 0) \<and>
   gardenlinux_epoch_from_workingtree (\<lambda>_. Inr [version_today]) version_path epoch = Inr epoch \<and>
   gardenlinux_epoch_from_workingtree (\<lambda>_. Inr shipped_version_lines) version_path epoch =
     Inl (ValueError ''dev'') \<and>
   next_release_version_from_workingtree (\<lambda>_. Inr shipped_version_lines) version_path epoch =
     Inl (ValueError ''dev'')"
proof -
  have t: "first_version_line p [version_today] = Inr version_today" for p
    by (simp add: version_today_def py_strip_def strip_by_def py_isspace_def startswith_def)
  have "str_int 0 = ''0''" by code_simp
  then show ?thesis
    by (simp add: next_release_version_from_workingtree_def gardenlinux_epoch_from_workingtree_def
        parse_version_from_workingtree_def t shipped_version_parse version_today_parts
        py_int_today py_int_dev release_version_def del: first_version_line.simps)
      (simp add: version_today_def)
qed


end
