(* ===== verification/Pipeline_Run.thy ===== *)
theory Pipeline_Run
  imports Pipelines Build_Targets Version_File
begin

text \<open>
  \<open>ci/render_pipeline_run.py\<close>: the run that starts a pipeline, with its name, its parameters and the
  limits of its namespace.  The properties relate a run to the pipeline it refers to: every
  parameter that the pipeline declares without a default gets a value.
\<close>

subsection \<open>Names and images\<close>

definition build_targets_shorthand :: "build_target set \<Rightarrow> string" where
  "build_targets_shorthand bts =
     (if BUILD \<in> bts then ''b'' else []) @ (if MANIFEST \<in> bts then ''m'' else []) @
     (if COMPONENT_DESCRIPTOR \<in> bts then ''c'' else []) @ (if TESTS \<in> bts then ''t'' else []) @
     (if PUBLISH \<in> bts then ''p'' else []) @ (if FREEZE_VERSION \<in> bts then ''v'' else []) @
     (if GITHUB_RELEASE \<in> bts then ''g'' else [])"

text \<open>\<open>now\<close> is \<open>int(time.time())\<close>, of which the last four digits are used.\<close>

definition mk_pipeline_name :: "nat \<Rightarrow> string \<Rightarrow> build_target list \<Rightarrow> string \<Rightarrow> string \<Rightarrow> string" where
  "mk_pipeline_name now pipeline_name build_targets version committish =
     (let build_ts = str_last 4 (str_nat now);
          name_parts =
            (if build_targets \<noteq> []
             then [str_first 11 pipeline_name, build_targets_shorthand (set build_targets),
                   py_replace version ''.'' ''-'', str_first 6 committish, build_ts]
             else [str_first 11 pipeline_name, py_replace version ''.'' ''-'', str_first 6 committish,
                   build_ts])
      in str_first 60 (py_join ''-'' name_parts))"

definition get_version_label :: "string \<Rightarrow> string \<Rightarrow> string" where
  "get_version_label version committish = version @ ''-'' @ committish"

definition get_build_image :: "string \<Rightarrow> string \<Rightarrow> string" where
  "get_build_image oci_path version_label = oci_path @ ''/gardenlinux-build-image:'' @ version_label"

definition get_deb_build_image :: "string \<Rightarrow> string \<Rightarrow> string" where
  "get_deb_build_image oci_path version_label = oci_path @ ''/gardenlinux-build-deb:'' @ version_label"

subsection \<open>Arguments\<close>

text \<open>The parsed command line; the numbers that are only printed are kept as their text.\<close>

record run_args =
  ra_additional_recipients :: string
  ra_branch :: string
  ra_build_targets :: "build_target list"
  ra_cicd_cfg :: string
  ra_committish :: string
  ra_disable_notifications :: bool
  ra_flavour_set :: string
  ra_gardenlinux_base_image :: "string option"
  ra_gardenlinux_epoch :: epoch_arg
  ra_git_url :: string
  ra_oci_path :: string
  ra_only_recipients :: string
  ra_pr_id :: string
  ra_promote_target :: build_type
  ra_pytest_cfg :: string
  ra_version :: "string option"

definition epoch_str :: "epoch_arg \<Rightarrow> string" where
  "epoch_str e = (case e of Epoch_none \<Rightarrow> ''None'' | Epoch_int i \<Rightarrow> str_int i | Epoch_str s \<Rightarrow> s)"

text \<open>\<open>vars(args)\<close> with \<open>str\<close> applied to the values, for the keys that are looked up by name.\<close>

definition args_dict :: "run_args \<Rightarrow> (string \<times> string) list" where
  "args_dict a =
    [(''additional_recipients'', ra_additional_recipients a), (''branch'', ra_branch a),
     (''committish'', ra_committish a),
     (''disable_notifications'', if ra_disable_notifications a then ''True'' else ''False''),
     (''gardenlinux_epoch'', epoch_str (ra_gardenlinux_epoch a)), (''oci_path'', ra_oci_path a),
     (''only_recipients'', ra_only_recipients a), (''pr_id'', ra_pr_id a)]"

definition get_param_from_arg :: "(string \<times> string) list \<Rightarrow> string \<Rightarrow> named_param res" where
  "get_param_from_arg args key =
     (case map_of args key of Some v \<Rightarrow> Inr (value_param key v) | None \<Rightarrow> Inl (ValueError key))"

definition find_param :: "string \<Rightarrow> named_param list \<Rightarrow> named_param res" where
  "find_param key params =
     (case filter (\<lambda>p. np_name p = key) params of [] \<Rightarrow> Inl IndexError | p # ps \<Rightarrow> Inr p)"

text \<open>
  What the rendering reads from outside: the files of the working tree, the current day's epoch, the
  clock, \<open>datetime\<close>'s and \<open>dateutil\<close>'s functions, and \<open>version.parse_to_semver\<close> (major and minor).
\<close>

record run_env =
  rn_read :: file_reader
  rn_epoch :: int
  rn_now :: nat
  rn_today :: datetime
  rn_isoparse :: "string \<Rightarrow> datetime res"
  rn_semver :: "string \<Rightarrow> (int \<times> int) res"

definition get_version :: "run_env \<Rightarrow> run_args \<Rightarrow> string res" where
  "get_version env a =
     (case ra_version a of
        Some v \<Rightarrow> if v \<noteq> [] then Inr v
                  else next_release_version_from_workingtree (rn_read env) version_path (rn_epoch env)
      | None \<Rightarrow> next_release_version_from_workingtree (rn_read env) version_path (rn_epoch env))"

definition get_base_images :: "run_args \<Rightarrow> string \<Rightarrow> (string \<times> string) res" where
  "get_base_images a base_version_label =
     (case ra_gardenlinux_base_image a of
        Some i \<Rightarrow>
          if i \<noteq> [] then
            (case py_split CHR '':'' i of
               [path, label] \<Rightarrow> Inr (path @ ''/gardenlinux-build-deb:'' @ label,
                                    path @ ''/gardenlinux-build-image:'' @ label)
             | _ \<Rightarrow> Inl (ValueError i))
          else Inr (get_deb_build_image (ra_oci_path a) base_version_label,
                    get_build_image (ra_oci_path a) base_version_label)
      | None \<Rightarrow> Inr (get_deb_build_image (ra_oci_path a) base_version_label,
                    get_build_image (ra_oci_path a) base_version_label))"

definition get_common_parameters :: "run_env \<Rightarrow> run_args \<Rightarrow> named_param list res" where
  "get_common_parameters env a =
     bindR (get_version env a) (\<lambda>version.
       let version_label = get_version_label version (ra_committish a); args = args_dict a in
     bindR (rn_semver env version_label) (\<lambda>(major, minor).
       let base_version_label = (if 0 < minor then ''rel-'' @ str_int major else ''latest'') in
     bindR (get_base_images a base_version_label) (\<lambda>(build_deb_image, build_image).
     bindR (mapR (get_param_from_arg args) [''additional_recipients'', ''branch'']) (\<lambda>ps1.
     bindR (get_param_from_arg args ''committish'') (\<lambda>committish.
     bindR (get_param_from_arg args ''disable_notifications'') (\<lambda>disable_notifications.
     bindR (get_param_from_arg args ''gardenlinux_epoch'') (\<lambda>epoch.
     bindR (mapR (get_param_from_arg args) [''oci_path'', ''only_recipients'', ''pr_id'']) (\<lambda>ps2.
     bindR (snapshot_date (rn_today env) (rn_isoparse env) (ra_gardenlinux_epoch a)) (\<lambda>timestamp.
       Inr (ps1 @
         [value_param ''build_image'' build_image, value_param ''cicd_cfg_name'' (ra_cicd_cfg a),
          committish, disable_notifications,
          value_param ''gardenlinux_build_deb_image'' build_deb_image, epoch,
          value_param ''giturl'' (ra_git_url a)] @ ps2 @
         [value_param ''build_targets'' (targets_str (ra_build_targets a)),
          value_param ''snapshot_timestamp'' timestamp, value_param ''version'' version,
          value_param ''version_label'' version_label]))))))))))"

subsection \<open>Runs\<close>

definition mk_pipeline_run :: "run_env \<Rightarrow> string \<Rightarrow> run_args \<Rightarrow> named_param list \<Rightarrow> pobj \<Rightarrow> pobj \<Rightarrow>
    string \<Rightarrow> pipeline_run res" where
  "mk_pipeline_run env pipeline_name a params node_selector security_context timeout =
     bindR (get_version env a) (\<lambda>version.
       let run_name = mk_pipeline_name (rn_now env) pipeline_name (ra_build_targets a) version
             (ra_committish a) in
     bindR (check_requirements (ra_build_targets a)) (\<lambda>_.
       Inr (mk_pipeline_run_resource run_name
         \<lparr>prs_params = params, prs_pipelineRef = \<lparr>pr_name = pipeline_name\<rparr>,
          prs_podTemplate = \<lparr>pod_nodeSelector = node_selector, pod_securityContext = security_context\<rparr>,
          prs_workspaces = [], prs_timeout = timeout\<rparr>)))"

definition mk_pipeline_packages_run :: "run_env \<Rightarrow> run_args \<Rightarrow> pobj \<Rightarrow> pobj \<Rightarrow> pipeline_run res" where
  "mk_pipeline_packages_run env a node_selector security_context =
     bindR (get_common_parameters env a) (\<lambda>params.
       mk_pipeline_run env ''gl-packages-build'' a
         (params @ [value_param ''key_config_name'' ''gardenlinux'']) node_selector security_context ''12h'')"

text \<open>\<open>fsets\<close> is the parsed \<open>flavours.yaml\<close>.\<close>

definition find_flavour_set :: "flavour_set list \<Rightarrow> string \<Rightarrow> flavour_set res" where
  "find_flavour_set fsets name =
     (case find (\<lambda>f. fs_name f = name) fsets of None \<Rightarrow> Inl (RuntimeError name) | Some f \<Rightarrow> Inr f)"

definition mk_pipeline_main_run ::
  "run_env \<Rightarrow> flavour_set list \<Rightarrow> run_args \<Rightarrow> pobj \<Rightarrow> pobj \<Rightarrow> pipeline_run res" where
  "mk_pipeline_main_run env fsets a node_selector security_context =
     bindR (find_flavour_set fsets (ra_flavour_set a)) (\<lambda>fset.
     bindR (get_common_parameters env a) (\<lambda>params.
       mk_pipeline_run env ''gardenlinux-build'' a
         (params @ [value_param ''flavour_set_name'' (fs_name fset),
                    value_param ''promote_target'' (build_type_value (ra_promote_target a)),
                    value_param ''pytest_cfg'' (ra_pytest_cfg a)])
         node_selector security_context ''2h''))"

definition storage_limit :: "string \<Rightarrow> limit_object" where
  "storage_limit s = \<lparr>lo_ephemeral_storage = Some s, lo_memory = None, lo_cpu = None\<rparr>"

definition mk_limits :: "string \<Rightarrow> limit_range" where
  "mk_limits name =
     \<lparr>lr_metadata = \<lparr>md_name = name\<rparr>,
      lr_spec = \<lparr>ls_limits =
        [\<lparr>li_type = ''Container'', li_max = storage_limit ''128Gi'', li_min = storage_limit ''16Gi'',
          li_default = \<lparr>lo_ephemeral_storage = Some ''128Gi'', lo_memory = Some ''24G'', lo_cpu = Some ''16.0''\<rparr>,
          li_defaultRequest = \<lparr>lo_ephemeral_storage = Some ''20Gi'', lo_memory = Some ''4G'', lo_cpu = Some ''1.0''\<rparr>\<rparr>]\<rparr>,
      lr_apiVersion = ''v1'', lr_kind = ''LimitRange''\<rparr>"

text \<open>
  \<open>main\<close>: the argument \<open>--build-targets\<close>, given any number of times, and what is written, the run of
  the package pipeline with the limits and then the run of the main pipeline.  Without the
  argument the attribute is \<open>None\<close>, and \<open>set(None)\<close> raises \<open>TypeError\<close>.
\<close>

definition parse_build_targets :: "string list option \<Rightarrow> build_target list res" where
  "parse_build_targets occurrences =
     (case occurrences of
        None \<Rightarrow> Inl (TypeError ''set(None)'')
      | Some xs \<Rightarrow> bindR (mapR (\<lambda>x. mapR build_target_of (py_split CHR '','' x)) xs)
          (\<lambda>ts. Inr (py_set (concat ts))))"

definition render_runs :: "run_env \<Rightarrow> flavour_set list \<Rightarrow> run_args \<Rightarrow> string list option \<Rightarrow>
    (pipeline_run \<times> limit_range \<times> pipeline_run) res" where
  "render_runs env fsets a occurrences =
     bindR (parse_build_targets occurrences) (\<lambda>bts.
       let a' = a\<lparr>ra_build_targets := bts\<rparr>; sec = PDict [(''runAsUser'', PInt 0)] in
     bindR (mk_pipeline_packages_run env a' (PDict []) sec) (\<lambda>packages.
     bindR (mk_pipeline_main_run env fsets a' (PDict []) sec) (\<lambda>main.
       Inr (packages, mk_limits ''gardenlinux'', main))))"

subsection \<open>Supplied parameters\<close>

definition supplies :: "named_param list \<Rightarrow> string \<Rightarrow> bool" where
  "supplies ps n \<longleftrightarrow> (\<exists>v. NamedParamWithValue n (Some v) \<in> set ps)"

definition common_names :: "string list" where
  "common_names = [''additional_recipients'', ''branch'', ''build_image'', ''cicd_cfg_name'', ''committish'',
     ''disable_notifications'', ''gardenlinux_build_deb_image'', ''gardenlinux_epoch'', ''giturl'',
     ''oci_path'', ''only_recipients'', ''pr_id'', ''build_targets'', ''snapshot_timestamp'', ''version'',
     ''version_label'']"

lemma value_param_alt: "value_param n v = NamedParamWithValue n (Some v)"
  by (simp add: value_param_def NamedParam_def)

lemma arg_lookup [simp]:
  "get_param_from_arg (args_dict a) ''additional_recipients'' = Inr (value_param ''additional_recipients'' (ra_additional_recipients a))"
  "get_param_from_arg (args_dict a) ''branch'' = Inr (value_param ''branch'' (ra_branch a))"
  "get_param_from_arg (args_dict a) ''committish'' = Inr (value_param ''committish'' (ra_committish a))"
  "get_param_from_arg (args_dict a) ''disable_notifications'' =
     Inr (value_param ''disable_notifications'' (if ra_disable_notifications a then ''True'' else ''False''))"
  "get_param_from_arg (args_dict a) ''gardenlinux_epoch'' =
     Inr (value_param ''gardenlinux_epoch'' (epoch_str (ra_gardenlinux_epoch a)))"
  "get_param_from_arg (args_dict a) ''oci_path'' = Inr (value_param ''oci_path'' (ra_oci_path a))"
  "get_param_from_arg (args_dict a) ''only_recipients'' = Inr (value_param ''only_recipients'' (ra_only_recipients a))"
  "get_param_from_arg (args_dict a) ''pr_id'' = Inr (value_param ''pr_id'' (ra_pr_id a))"
  by (simp_all add: get_param_from_arg_def args_dict_def)

lemma common_parameters:
  assumes "get_common_parameters env a = Inr ps"
  shows "map np_name ps = common_names" "\<forall>n \<in> set common_names. supplies ps n"
    "NamedParamWithValue ''build_targets'' (Some (targets_str (ra_build_targets a))) \<in> set ps"
proof -
  from assms obtain version major minor deb img ts where
    ps: "ps = [value_param ''additional_recipients'' (ra_additional_recipients a),
      value_param ''branch'' (ra_branch a), value_param ''build_image'' img,
      value_param ''cicd_cfg_name'' (ra_cicd_cfg a), value_param ''committish'' (ra_committish a),
      value_param ''disable_notifications'' (if ra_disable_notifications a then ''True'' else ''False''),
      value_param ''gardenlinux_build_deb_image'' deb,
      value_param ''gardenlinux_epoch'' (epoch_str (ra_gardenlinux_epoch a)),
      value_param ''giturl'' (ra_git_url a), value_param ''oci_path'' (ra_oci_path a),
      value_param ''only_recipients'' (ra_only_recipients a), value_param ''pr_id'' (ra_pr_id a),
      value_param ''build_targets'' (targets_str (ra_build_targets a)),
      value_param ''snapshot_timestamp'' ts, value_param ''version'' version,
      value_param ''version_label'' (get_version_label version (ra_committish a))]"
    by (auto simp: get_common_parameters_def bindR_Inr_iff Let_def)
  show "map np_name ps = common_names" by (simp add: ps common_names_def)
  show "\<forall>n \<in> set common_names. supplies ps n"
    by (simp add: ps common_names_def supplies_def value_param_alt)
  show "NamedParamWithValue ''build_targets'' (Some (targets_str (ra_build_targets a))) \<in> set ps"
    by (simp add: ps value_param_alt)
qed

lemma main_attrs_needed: "a \<in> main_attrs \<Longrightarrow> needs_value a \<Longrightarrow> param_name a \<in> set common_names"
  by (cases a) (simp_all add: needs_value_iff common_names_def main_attrs_def base_image_build_task_attrs_def
      build_task_attrs_def test_task_attrs_def promote_task_attrs_def notify_task_attrs_def)

lemma package_attrs_needed: "a \<in> package_attrs \<Longrightarrow> needs_value a \<Longrightarrow> param_name a \<in> set common_names"
  by (cases a) (simp_all add: needs_value_iff common_names_def package_attrs_def base_image_build_task_attrs_def
      nokernel_package_task_attrs_def kernel_package_task_attrs_def notify_task_attrs_def)

lemma supplies_append: "supplies ps n \<Longrightarrow> supplies (ps @ qs) n"
  by (auto simp: supplies_def)

lemma mk_pipeline_run_Inr:
  assumes "mk_pipeline_run env name a params ns sc to = Inr r"
  shows "prs_params (plr_spec r) = params" "pr_name (prs_pipelineRef (plr_spec r)) = name"
    "closed_targets (set (ra_build_targets a))" "length (md_name (plr_metadata r)) \<le> 60"
  using assms check_requirements_closed [of "ra_build_targets a"]
  by (auto simp: mk_pipeline_run_def bindR_Inr_iff Let_def mk_pipeline_run_resource_def
      mk_pipeline_name_def str_first_def)

subsection \<open>Properties\<close>

text \<open>A run supplies a pipeline: every parameter that the pipeline declares has a default or a value.\<close>

definition run_supplies :: "pipeline_run \<Rightarrow> pipeline \<Rightarrow> bool" where
  "run_supplies r pl \<longleftrightarrow> pr_name (prs_pipelineRef (plr_spec r)) = md_name (pl_metadata pl) \<and>
     list_all (\<lambda>p. (case p of NamedParamWithDefault _ _ _ \<Rightarrow> True | _ \<Rightarrow> False) \<or>
       supplies (prs_params (plr_spec r)) (np_name p)) (ps_params (pl_spec pl))"

lemma attrs_supplied:
  assumes "pr_name (prs_pipelineRef (plr_spec r)) = md_name (pl_metadata pl)"
    and "set (ps_params (pl_spec pl)) = all_params ` D"
    and "\<And>a. a \<in> D \<Longrightarrow> needs_value a \<Longrightarrow> supplies (prs_params (plr_spec r)) (param_name a)"
  shows "run_supplies r pl"
proof -
  have "(case all_params a of NamedParamWithDefault _ _ _ \<Rightarrow> True | _ \<Rightarrow> False) \<or>
      supplies (prs_params (plr_spec r)) (np_name (all_params a))" if "a \<in> D" for a
    using assms(3) [OF that] by (cases "needs_value a") (auto simp: needs_value_def split: named_param.splits)
  then show ?thesis using assms(1) by (auto simp: run_supplies_def list_all_iff assms(2))
qed

lemma pipeline_names:
  "mk_pipeline_packages ts = Inr pl \<Longrightarrow> md_name (pl_metadata pl) = ''gl-packages-build''"
  "mk_pipeline fs n fls ts pf = Inr pm \<Longrightarrow> md_name (pl_metadata pm) = ''gardenlinux-build''"
  by (auto simp: mk_pipeline_packages_def mk_pipeline_def Let_def bindR_Inr_iff mk_pipeline_resource_def
      simp del: foldR.simps)

lemma packages_run_Inr:
  assumes "mk_pipeline_packages_run env a ns sc = Inr r"
  shows "\<forall>n \<in> set common_names. supplies (prs_params (plr_spec r)) n"
    "pr_name (prs_pipelineRef (plr_spec r)) = ''gl-packages-build''"
    "closed_targets (set (ra_build_targets a))" "length (md_name (plr_metadata r)) \<le> 60"
    "NamedParamWithValue ''build_targets'' (Some (targets_str (ra_build_targets a))) \<in> set (prs_params (plr_spec r))"
proof -
  from assms obtain ps where ps: "get_common_parameters env a = Inr ps" and
    r: "mk_pipeline_run env ''gl-packages-build'' a (ps @ [value_param ''key_config_name'' ''gardenlinux''])
      ns sc ''12h'' = Inr r"
    by (auto simp: mk_pipeline_packages_run_def bindR_Inr_iff)
  note run = mk_pipeline_run_Inr [OF r]
  show "\<forall>n \<in> set common_names. supplies (prs_params (plr_spec r)) n"
    using common_parameters(2) [OF ps] unfolding run(1) by (blast intro: supplies_append)
  show "NamedParamWithValue ''build_targets'' (Some (targets_str (ra_build_targets a))) \<in> set (prs_params (plr_spec r))"
    using common_parameters(3) [OF ps] unfolding run(1) by simp
qed (use mk_pipeline_run_Inr assms in \<open>auto simp: mk_pipeline_packages_run_def bindR_Inr_iff\<close>)

lemma main_run_Inr:
  assumes "mk_pipeline_main_run env fsets a ns sc = Inr r"
  shows "\<forall>n \<in> set common_names. supplies (prs_params (plr_spec r)) n"
    "pr_name (prs_pipelineRef (plr_spec r)) = ''gardenlinux-build''"
    "closed_targets (set (ra_build_targets a))" "length (md_name (plr_metadata r)) \<le> 60"
    "NamedParamWithValue ''build_targets'' (Some (targets_str (ra_build_targets a))) \<in> set (prs_params (plr_spec r))"
proof -
  from assms obtain ps and fset :: flavour_set where ps: "get_common_parameters env a = Inr ps" and
    r: "mk_pipeline_run env ''gardenlinux-build'' a (ps @ [value_param ''flavour_set_name'' (fs_name fset),
      value_param ''promote_target'' (build_type_value (ra_promote_target a)),
      value_param ''pytest_cfg'' (ra_pytest_cfg a)]) ns sc ''2h'' = Inr r"
    by (auto simp: mk_pipeline_main_run_def bindR_Inr_iff)
  note run = mk_pipeline_run_Inr [OF r]
  show "\<forall>n \<in> set common_names. supplies (prs_params (plr_spec r)) n"
    using common_parameters(2) [OF ps] unfolding run(1) by (blast intro: supplies_append)
  show "NamedParamWithValue ''build_targets'' (Some (targets_str (ra_build_targets a))) \<in> set (prs_params (plr_spec r))"
    using common_parameters(3) [OF ps] unfolding run(1) by simp
qed (use mk_pipeline_run_Inr assms in \<open>auto simp: mk_pipeline_main_run_def bindR_Inr_iff\<close>)

lemma render_runs_Inr:
  assumes "render_runs env fsets a occ = Inr (packages, lims, main)"
  obtains bts where "parse_build_targets occ = Inr bts"
    "mk_pipeline_packages_run env (a\<lparr>ra_build_targets := bts\<rparr>) (PDict []) (PDict [(''runAsUser'', PInt 0)]) = Inr packages"
    "mk_pipeline_main_run env fsets (a\<lparr>ra_build_targets := bts\<rparr>) (PDict []) (PDict [(''runAsUser'', PInt 0)]) = Inr main"
  using assms by (auto simp: render_runs_def Let_def bindR_Inr_iff)

text \<open>
  C3: runs fit the pipelines. Whatever the arguments, the two runs that are written refer to the two
  rendered pipelines by name and give a value to every parameter that these declare without a
  default, so Tekton does not reject them for a missing parameter.
\<close>

theorem runs_supply_pipelines:
  assumes "step_files_ok (re_read re)" and "render_task re use_secrets_server getenv = Inr ts"
    and "wf_features fs" and "length fs < n" and "plain_universe fs"
    and "fls \<noteq> []" and "\<forall>fl \<in> set fls. valid_flavour fs fl"
    and "render_runs env fsets a occ = Inr (packages, lims, main)"
  shows "\<exists>ppl mpl. mk_pipeline_packages ts = Inr ppl \<and> render_pipeline_dict fs n fls ts = Inr mpl \<and>
    run_supplies packages ppl \<and> run_supplies main mpl"
proof -
  have ts: "rendered_tasks ts" by (rule render_task_rendered [OF assms(1,2)])
  have fls: "py_set fls \<noteq> []" "\<forall>fl \<in> set (py_set fls). valid_flavour fs fl"
    using assms(6,7) by simp_all
  obtain bts where runs:
    "mk_pipeline_packages_run env (a\<lparr>ra_build_targets := bts\<rparr>) (PDict []) (PDict [(''runAsUser'', PInt 0)]) = Inr packages"
    "mk_pipeline_main_run env fsets (a\<lparr>ra_build_targets := bts\<rparr>) (PDict []) (PDict [(''runAsUser'', PInt 0)]) = Inr main"
    using assms(8) by (rule render_runs_Inr)
  obtain ppl where ppl: "mk_pipeline_packages ts = Inr ppl"
    "set (ps_params (pl_spec ppl)) = all_params ` package_attrs"
    using mk_pipeline_packages_lemma [OF ts] by blast
  obtain mpl where mpl: "mk_pipeline fs n (py_set fls) ts PF_SNAPSHOT = Inr mpl"
    "set (ps_params (pl_spec mpl)) = all_params ` main_attrs"
    using mk_pipeline_lemma [OF ts assms(3-5) fls] by blast
  have "run_supplies packages ppl"
    using pipeline_names(1) [OF ppl(1)] packages_run_Inr(1,2) [OF runs(1)] ppl(2) package_attrs_needed
    by (intro attrs_supplied) auto
  moreover have "run_supplies main mpl"
    using pipeline_names(2) [OF mpl(1)] main_run_Inr(1,2) [OF runs(2)] mpl(2) main_attrs_needed
    by (intro attrs_supplied) auto
  ultimately show ?thesis using ppl(1) mpl(1) by (auto simp: render_pipeline_dict_def)
qed

text \<open>
  C12: the build targets of a run. A run is written only for a closed set of targets, its name is
  within 60 characters, and the text of its parameter \<open>build_targets\<close> is parsed by every step to the
  targets of the command line, provided there is one.
\<close>

theorem run_build_targets:
  assumes "render_runs env fsets a occ = Inr (packages, lims, main)"
  shows "\<exists>bts. parse_build_targets occ = Inr bts \<and> distinct bts \<and> closed_targets (set bts) \<and>
    (\<forall>r \<in> {packages, main}. length (md_name (plr_metadata r)) \<le> 60 \<and>
      (\<exists>v. NamedParamWithValue ''build_targets'' (Some v) \<in> set (prs_params (plr_spec r)) \<and>
        (bts \<noteq> [] \<longrightarrow> set_from_str v = Inr bts)))"
proof -
  from assms obtain bts where bts: "parse_build_targets occ = Inr bts" and runs:
    "mk_pipeline_packages_run env (a\<lparr>ra_build_targets := bts\<rparr>) (PDict []) (PDict [(''runAsUser'', PInt 0)]) = Inr packages"
    "mk_pipeline_main_run env fsets (a\<lparr>ra_build_targets := bts\<rparr>) (PDict []) (PDict [(''runAsUser'', PInt 0)]) = Inr main"
    by (rule render_runs_Inr)
  have d: "distinct bts" using bts by (auto simp: parse_build_targets_def bindR_Inr_iff split: option.splits)
  have closed: "closed_targets (set bts)" using packages_run_Inr(3) [OF runs(1)] by simp
  have "set_from_str (targets_str bts) = Inr bts" if "bts \<noteq> []"
    using set_from_str_targets_str [OF that closed] d by (simp add: py_set_distinct)
  then show ?thesis
    using bts d closed packages_run_Inr(4,5) [OF runs(1)] main_run_Inr(4,5) [OF runs(2)] by auto
qed

definition sample_run_env :: run_env where
  "sample_run_env = \<lparr>rn_read = (\<lambda>_. Inl (FileNotFoundError ''VERSION'')), rn_epoch = 1, rn_now = 1650000000,
     rn_today = epoch_date, rn_isoparse = (\<lambda>s. Inl (ValueError s)), rn_semver = (\<lambda>_. Inr (27, 1))\<rparr>"

definition sample_run_args :: run_args where
  "sample_run_args = \<lparr>ra_additional_recipients = '' '', ra_branch = ''main'', ra_build_targets = [],
     ra_cicd_cfg = ''default'', ra_committish = ''main'', ra_disable_notifications = True,
     ra_flavour_set = ''all'', ra_gardenlinux_base_image = None, ra_gardenlinux_epoch = Epoch_int 1,
     ra_git_url = ''https://github.com/gardenlinux/gardenlinux.git'', ra_oci_path = ''registry/gardenlinux'',
     ra_only_recipients = '' '', ra_pr_id = ''0'', ra_promote_target = BT_SNAPSHOT, ra_pytest_cfg = ''default'',
     ra_version = Some ''27.1''\<rparr>"

definition sample_flavour_sets :: "flavour_set list" where
  "sample_flavour_sets = [\<lparr>fs_name = ''all'', fs_combinations = []\<rparr>]"

lemma sample_parse: "parse_build_targets (Some [''build,manifest'']) = Inr [BUILD, MANIFEST]"
  by (simp add: parse_build_targets_def py_set_distinct)

lemma sample_runs:
  "\<exists>packages lims main. render_runs sample_run_env sample_flavour_sets sample_run_args
     (Some [''build,manifest'']) = Inr (packages, lims, main)"
proof -
  have "check_requirements [BUILD, MANIFEST] = Inr ()"
    by (simp add: check_requirements_closed closed_targets_def)
  moreover have "snapshot_date epoch_date (\<lambda>s. Inl (ValueError s)) (Epoch_int 1) = Inr (strftime_Ymd (Date 2020 4 1))"
    by (simp add: snapshot_date_def epoch_date_def midnight_def)
  ultimately show ?thesis
    by (simp add: render_runs_def sample_parse Let_def mk_pipeline_packages_run_def mk_pipeline_main_run_def
        get_common_parameters_def get_version_def sample_run_args_def sample_run_env_def get_base_images_def
        mk_pipeline_run_def find_flavour_set_def sample_flavour_sets_def get_param_from_arg_def args_dict_def)
qed

theorem runs_supply_pipelines_witness:
  "\<exists>ts packages main ppl mpl. render_task sample_render_env False (\<lambda>_. None) = Inr ts \<and>
     mk_pipeline_packages ts = Inr ppl \<and>
     render_pipeline_dict shipped_features 27 [sample_flavour] ts = Inr mpl \<and>
     run_supplies packages ppl \<and> run_supplies main mpl"
proof -
  from sample_rendered obtain ts where ts: "render_task sample_render_env False (\<lambda>_. None) = Inr ts" ..
  from sample_runs obtain packages lims main where
    runs: "render_runs sample_run_env sample_flavour_sets sample_run_args (Some [''build,manifest'']) =
      Inr (packages, lims, main)" by blast
  have "[sample_flavour] \<noteq> []" "\<forall>fl \<in> set [sample_flavour]. valid_flavour shipped_features fl"
    using sample_flavour_valid by simp_all
  from runs_supply_pipelines [OF sample_files_ok ts shipped_wf shipped_fuel shipped_plain this runs] ts
  show ?thesis by blast
qed

theorem run_build_targets_witness:
  "\<exists>packages lims main v. render_runs sample_run_env sample_flavour_sets sample_run_args
       (Some [''build,manifest'']) = Inr (packages, lims, main) \<and>
     length (md_name (plr_metadata main)) \<le> 60 \<and>
     NamedParamWithValue ''build_targets'' (Some v) \<in> set (prs_params (plr_spec main)) \<and>
     set_from_str v = Inr [BUILD, MANIFEST]"
proof -
  from sample_runs obtain packages lims main where
    runs: "render_runs sample_run_env sample_flavour_sets sample_run_args (Some [''build,manifest'']) =
      Inr (packages, lims, main)" by blast
  from run_build_targets [OF runs] runs show ?thesis by (auto simp: sample_parse)
qed

end
