(* ===== verification/Manifest.thy ===== *)
theory Manifest
  imports Flavours Tekton_Model
begin

text \<open>
  Release manifests: the data classes of \<open>ci/glci/model.py\<close> from \<open>ReleaseFile\<close> to
  \<open>OnlineReleaseManifestSet\<close>, and \<open>_json_serialisable_manifest\<close> of \<open>ci/glci/util.py\<close>, which turns
  them into values that the YAML dumper accepts.  Inheritance of data classes is record extension.
\<close>

subsection \<open>Release files and published images\<close>

record s3_release_file =
  rf_name :: string
  rf_suffix :: string
  rf_s3_key :: string
  rf_s3_bucket_name :: string

record aws_published_image =
  awi_ami_id :: string
  awi_aws_region_id :: string
  awi_image_name :: string

record alicloud_published_image =
  ali_image_id :: string
  ali_region_id :: string
  ali_image_name :: string

record gcp_published_image =
  gci_gcp_image_name :: string
  gci_gcp_project_name :: string

record azure_published_image =
  azi_transport_state :: azure_transport_state
  azi_urn :: string
  azi_publish_operation_id :: string
  azi_golive_operation_id :: string

record openstack_published_image =
  osi_region_name :: string
  osi_image_id :: string
  osi_image_name :: string

datatype published_images =
    AlicloudPublishedImageSet "alicloud_published_image list"
  | AwsPublishedImageSet "aws_published_image list"
  | AzurePublishedImage azure_published_image
  | GcpPublishedImage gcp_published_image
  | OciPublishedImage string
  | OpenstackPublishedImageSet "openstack_published_image list"

record release_test_result =
  rtr_test_suite_cfg_name :: string
  rtr_test_result :: test_result_code
  rtr_test_timestamp :: string

subsection \<open>Manifests\<close>

record release_manifest = release_identifier +
  rm_build_timestamp :: string
  rm_paths :: "s3_release_file list"
  rm_base_image :: "string option"
  rm_published_image_metadata :: "published_images option"

text \<open>\<open>logs\<close> of a manifest is a file or, in old manifests, a string.\<close>

datatype manifest_log = Log_file s3_release_file | Log_str string

record online_release_manifest = release_manifest +
  orm_s3_key :: string
  orm_s3_bucket :: string
  orm_test_result :: "release_test_result option"
  orm_logs :: "manifest_log option"

record release_manifest_set =
  rms_manifests :: "online_release_manifest list"
  rms_flavour_set_name :: string

record online_release_manifest_set = release_manifest_set +
  oms_s3_key :: string
  oms_s3_bucket :: string
  oms_logs :: "s3_release_file list option"

definition release_manifest_set_prefix :: string where
  "release_manifest_set_prefix = ''meta/sets''"

definition path_by_suffix :: "string \<Rightarrow> 'a release_manifest_scheme \<Rightarrow> s3_release_file res" where
  "path_by_suffix sfx m =
     (case find (\<lambda>p. rf_suffix p = sfx) (rm_paths m) of
        None \<Rightarrow> Inl (ValueError sfx) | Some p \<Rightarrow> Inr p)"

definition manifest_identifier :: "'a release_manifest_scheme \<Rightarrow> release_identifier" where
  "manifest_identifier m =
     \<lparr>ri_build_committish = ri_build_committish m, ri_version = ri_version m,
      ri_gardenlinux_epoch = ri_gardenlinux_epoch m, ri_architecture = ri_architecture m,
      ri_platform = ri_platform m, ri_modifiers = ri_modifiers m\<rparr>"

definition with_test_result ::
  "release_test_result \<Rightarrow> online_release_manifest \<Rightarrow> online_release_manifest" where
  "with_test_result t m = m\<lparr>orm_test_result := Some t\<rparr>"

definition with_logfile :: "s3_release_file \<Rightarrow> online_release_manifest \<Rightarrow> online_release_manifest" where
  "with_logfile l m = m\<lparr>orm_logs := Some (Log_file l)\<rparr>"

text \<open>\<open>if log_files\<close> holds for a non-empty tuple only.\<close>

definition with_logfiles ::
  "s3_release_file list \<Rightarrow> online_release_manifest_set \<Rightarrow> online_release_manifest_set" where
  "with_logfiles files m =
     m\<lparr>oms_logs := Some (case oms_logs m of
         Some ls \<Rightarrow> if ls \<noteq> [] then ls @ files else files
       | None \<Rightarrow> files)\<rparr>"

subsection \<open>Constructing a data class from keyword arguments\<close>

text \<open>
  Calling a data class with \<open>**d\<close>: an argument that is no field, a field without default that is not
  given, and a keyword given twice raise \<open>TypeError\<close>.
\<close>

definition dataclass_init :: "string list \<Rightarrow> string list \<Rightarrow> string list \<Rightarrow> unit res" where
  "dataclass_init required optional kwargs =
     (if \<not> distinct kwargs then Inl (TypeError ''multiple values for keyword argument'')
      else if \<not> set kwargs \<subseteq> set required \<union> set optional then Inl (TypeError ''unexpected keyword argument'')
      else if \<not> set required \<subseteq> set kwargs then Inl (TypeError ''missing positional arguments'')
      else Inr ())"

definition release_manifest_fields :: "string list" where
  "release_manifest_fields = [''build_committish'', ''version'', ''gardenlinux_epoch'', ''architecture'',
     ''platform'', ''modifiers'', ''build_timestamp'', ''paths'', ''base_image'', ''published_image_metadata'']"

definition online_fields :: "string list" where
  "online_fields = [''s3_key'', ''s3_bucket'', ''test_result'']"

definition online_optional_fields :: "string list" where
  "online_optional_fields = [''logs'']"

text \<open>The fields of the manifest given to \<open>from_release_manifest\<close>: it may be online or not.\<close>

definition from_release_manifest :: "string list \<Rightarrow> unit res" where
  "from_release_manifest given =
     dataclass_init (release_manifest_fields @ online_fields) online_optional_fields
       (given @ [''test_result''])"

definition stripped_manifest :: "string list \<Rightarrow> unit res" where
  "stripped_manifest given =
     dataclass_init release_manifest_fields [] (filter (\<lambda>f. f \<notin> {''s3_key'', ''s3_bucket''}) given)"

lemma conversions_raise:
  "\<exists>e. from_release_manifest release_manifest_fields = Inl (TypeError e)"
  "\<exists>e. from_release_manifest (release_manifest_fields @ online_fields @ online_optional_fields) = Inl (TypeError e)"
  "\<exists>e. stripped_manifest (release_manifest_fields @ online_fields @ online_optional_fields) = Inl (TypeError e)"
  by (simp_all add: from_release_manifest_def stripped_manifest_def dataclass_init_def
      release_manifest_fields_def online_fields_def online_optional_fields_def)

subsection \<open>Serialisation\<close>

text \<open>
  What \<open>_json_serialisable_manifest\<close> looks at: enumeration members (with their value), data class
  instances (their attributes in order) and everything else.  Sequences are left as they are.
\<close>

datatype pyval =
    Py_none
  | Py_str string
  | Py_int int
  | Py_enum string
  | Py_data "(string \<times> pyval) list"
  | Py_seq "pyval list"

fun json_serialisable :: "pyval \<Rightarrow> pyval res" where
  "json_serialisable (Py_data attrs) =
     bindR (mapR (\<lambda>(k, v). case v of
          Py_enum s \<Rightarrow> Inr (k, Py_str s)
        | Py_data a \<Rightarrow> bindR (json_serialisable v) (\<lambda>v'. Inr (k, v'))
        | _ \<Rightarrow> Inr (k, v)) attrs) (\<lambda>attrs'. Inr (Py_data attrs'))"
| "json_serialisable (Py_enum s) = Inl (TypeError s)"
| "json_serialisable v = Inr v"

text \<open>
  \<open>dataclasses.asdict\<close> and the check of the safe dumper, which has no representation for
  enumeration members.
\<close>

fun yaml_value :: "pyval \<Rightarrow> pobj res" where
  "yaml_value Py_none = Inr PNone"
| "yaml_value (Py_str s) = Inr (PStr s)"
| "yaml_value (Py_int i) = Inr (PInt i)"
| "yaml_value (Py_enum s) = Inl (OtherException ''RepresenterError'')"
| "yaml_value (Py_seq vs) = bindR (mapR yaml_value vs) (\<lambda>ys. Inr (PList ys))"
| "yaml_value (Py_data attrs) =
     bindR (mapR (\<lambda>(k, v). bindR (yaml_value v) (\<lambda>y. Inr (k, y))) attrs) (\<lambda>d. Inr (PDict d))"

definition py_opt :: "('a \<Rightarrow> pyval) \<Rightarrow> 'a option \<Rightarrow> pyval" where
  "py_opt f x = (case x of None \<Rightarrow> Py_none | Some v \<Rightarrow> f v)"

definition py_file :: "s3_release_file \<Rightarrow> pyval" where
  "py_file f = Py_data [(''name'', Py_str (rf_name f)), (''suffix'', Py_str (rf_suffix f)),
     (''s3_key'', Py_str (rf_s3_key f)), (''s3_bucket_name'', Py_str (rf_s3_bucket_name f))]"

definition py_images :: "published_images \<Rightarrow> pyval" where
  "py_images p = (case p of
     AlicloudPublishedImageSet is \<Rightarrow> Py_data [(''published_alicloud_images'', Py_seq (map (\<lambda>i. Py_data
       [(''image_id'', Py_str (ali_image_id i)), (''region_id'', Py_str (ali_region_id i)),
        (''image_name'', Py_str (ali_image_name i))]) is))]
   | AwsPublishedImageSet is \<Rightarrow> Py_data [(''published_aws_images'', Py_seq (map (\<lambda>i. Py_data
       [(''ami_id'', Py_str (awi_ami_id i)), (''aws_region_id'', Py_str (awi_aws_region_id i)),
        (''image_name'', Py_str (awi_image_name i))]) is))]
   | AzurePublishedImage i \<Rightarrow> Py_data
       [(''transport_state'', Py_enum (azure_transport_state_value (azi_transport_state i))),
        (''urn'', Py_str (azi_urn i)), (''publish_operation_id'', Py_str (azi_publish_operation_id i)),
        (''golive_operation_id'', Py_str (azi_golive_operation_id i))]
   | GcpPublishedImage i \<Rightarrow> Py_data [(''gcp_image_name'', Py_str (gci_gcp_image_name i)),
        (''gcp_project_name'', Py_str (gci_gcp_project_name i))]
   | OciPublishedImage r \<Rightarrow> Py_data [(''image_reference'', Py_str r)]
   | OpenstackPublishedImageSet is \<Rightarrow> Py_data [(''published_openstack_images'', Py_seq (map (\<lambda>i. Py_data
       [(''region_name'', Py_str (osi_region_name i)), (''image_id'', Py_str (osi_image_id i)),
        (''image_name'', Py_str (osi_image_name i))]) is))])"

definition py_test_result :: "release_test_result \<Rightarrow> pyval" where
  "py_test_result t = Py_data [(''test_suite_cfg_name'', Py_str (rtr_test_suite_cfg_name t)),
     (''test_result'', Py_enum (test_result_code_value (rtr_test_result t))),
     (''test_timestamp'', Py_str (rtr_test_timestamp t))]"

definition py_log :: "manifest_log \<Rightarrow> pyval" where
  "py_log l = (case l of Log_file f \<Rightarrow> py_file f | Log_str s \<Rightarrow> Py_str s)"

definition manifest_attrs :: "'a release_manifest_scheme \<Rightarrow> (string \<times> pyval) list" where
  "manifest_attrs m =
     [(''build_committish'', Py_str (ri_build_committish m)), (''version'', Py_str (ri_version m)),
      (''gardenlinux_epoch'', Py_int (ri_gardenlinux_epoch m)),
      (''architecture'', Py_enum (architecture_value (ri_architecture m))),
      (''platform'', Py_str (ri_platform m)), (''modifiers'', Py_seq (map Py_str (ri_modifiers m))),
      (''build_timestamp'', Py_str (rm_build_timestamp m)), (''paths'', Py_seq (map py_file (rm_paths m))),
      (''base_image'', py_opt Py_str (rm_base_image m)),
      (''published_image_metadata'', py_opt py_images (rm_published_image_metadata m))]"

definition online_attrs :: "online_release_manifest \<Rightarrow> (string \<times> pyval) list" where
  "online_attrs m = manifest_attrs m @
     [(''s3_key'', Py_str (orm_s3_key m)), (''s3_bucket'', Py_str (orm_s3_bucket m)),
      (''test_result'', py_opt py_test_result (orm_test_result m)), (''logs'', py_opt py_log (orm_logs m))]"

text \<open>What is written for a manifest, online or not, and for a manifest set.\<close>

definition serialised :: "(string \<times> pyval) list \<Rightarrow> pobj res" where
  "serialised attrs = bindR (json_serialisable (Py_data attrs)) yaml_value"

definition set_attrs :: "'a release_manifest_set_scheme \<Rightarrow> pyval list \<Rightarrow> (string \<times> pyval) list" where
  "set_attrs ms manifests = [(''manifests'', Py_seq manifests),
     (''flavour_set_name'', Py_str (rms_flavour_set_name ms))]"

definition online_set_attrs :: "online_release_manifest_set \<Rightarrow> (string \<times> pyval) list" where
  "online_set_attrs ms = [(''s3_key'', Py_str (oms_s3_key ms)), (''s3_bucket'', Py_str (oms_s3_bucket ms)),
     (''logs'', py_opt (\<lambda>fs. Py_seq (map py_file fs)) (oms_logs ms))]"

definition serialised_set :: "'a release_manifest_set_scheme \<Rightarrow> (string \<times> pyval) list \<Rightarrow> pobj res" where
  "serialised_set ms extra =
     bindR (mapR (\<lambda>m. json_serialisable (Py_data (online_attrs m))) (rms_manifests ms)) (\<lambda>manifests.
       yaml_value (Py_data (set_attrs ms manifests @ extra)))"

subsection \<open>Serialised manifests hold plain values only\<close>

fun enum_free :: "pyval \<Rightarrow> bool" where
  "enum_free (Py_enum s) = False"
| "enum_free (Py_seq vs) = list_all enum_free vs"
| "enum_free (Py_data attrs) = list_all (\<lambda>(k, v). enum_free v) attrs"
| "enum_free _ = True"

text \<open>Values whose enumeration members are reached through attributes of data classes only.\<close>

fun convertible :: "pyval \<Rightarrow> bool" where
  "convertible (Py_data attrs) = list_all (\<lambda>(k, v). convertible v) attrs"
| "convertible (Py_seq vs) = list_all enum_free vs"
| "convertible _ = True"

lemma yaml_value_total: "enum_free v \<Longrightarrow> \<exists>y. yaml_value v = Inr y"
proof (induction v rule: yaml_value.induct)
  case (5 vs)
  then have "\<exists>ys. mapR yaml_value vs = Inr ys" by (intro mapR_total) (auto simp: list_all_iff)
  then show ?case by auto
next
  case (6 attrs)
  have "\<exists>d. mapR (\<lambda>(k, v). bindR (yaml_value v) (\<lambda>y. Inr (k, y))) attrs = Inr d"
  proof (rule mapR_total)
    fix kv assume kv: "kv \<in> set attrs"
    obtain k v where [simp]: "kv = (k, v)" by (cases kv)
    have "enum_free v" using "6.prems" kv by (auto simp: list_all_iff)
    with "6.IH" [OF kv] have "\<exists>y. yaml_value v = Inr y" by auto
    then show "\<exists>y. (case kv of (k, v) \<Rightarrow> bindR (yaml_value v) (\<lambda>y. Inr (k, y))) = Inr y" by auto
  qed
  then show ?case by auto
qed auto

lemma json_serialisable_enum_free:
  "convertible (Py_data attrs) \<Longrightarrow> \<exists>attrs'. json_serialisable (Py_data attrs) = Inr (Py_data attrs') \<and>
     enum_free (Py_data attrs')"
proof (induction "Py_data attrs" arbitrary: attrs rule: json_serialisable.induct)
  case (1 attrs)
  let ?f = "\<lambda>(k :: string, v). case v of Py_enum s \<Rightarrow> Inr (k, Py_str s)
        | Py_data a \<Rightarrow> bindR (json_serialisable v) (\<lambda>v'. Inr (k, v')) | _ \<Rightarrow> Inr (k, v)"
  define F where "F = ?f"
  have each: "\<exists>y. F kv = Inr y \<and> enum_free (snd y)" if kv: "kv \<in> set attrs" for kv
  proof -
    obtain k v where [simp]: "kv = (k, v)" by (cases kv)
    have "convertible v" using "1.prems" kv by (auto simp: list_all_iff)
    show ?thesis
    proof (cases v)
      case (Py_data a)
      with "1.hyps" [OF kv, of k a a] \<open>convertible v\<close> obtain a' where
        "json_serialisable v = Inr (Py_data a')" "enum_free (Py_data a')" by auto
      with Py_data show ?thesis by (simp add: F_def del: json_serialisable.simps)
    qed (use \<open>convertible v\<close> in \<open>auto simp: F_def\<close>)
  qed
  obtain ys where ys: "mapR F attrs = Inr ys"
    using mapR_total [of attrs F] each by (metis (no_types))
  have "enum_free (snd y)" if y: "y \<in> set ys" for y
  proof -
    obtain kv where "kv \<in> set attrs" "F kv = Inr y"
      using mapR_mem [OF ys, THEN iffD1, OF y] by (rule bexE)
    then show ?thesis using each [of kv] by (metis sum.inject(2))
  qed
  then have "enum_free (Py_data ys)" by (auto simp: list_all_iff)
  then show ?case using ys by (simp add: F_def)
qed

lemma convertible_attrs:
  "convertible (Py_data (manifest_attrs m))" "convertible (Py_data (online_attrs om))"
proof -
  have f: "enum_free (py_file f) \<and> convertible (py_file f)" for f by (simp add: py_file_def)
  have "convertible (py_opt py_images p)" for p
    by (auto simp: py_opt_def py_images_def list_all_iff split: option.splits published_images.splits)
  then show m: "convertible (Py_data (manifest_attrs m))" for m :: "'x release_manifest_scheme"
    using f by (auto simp: manifest_attrs_def list_all_iff py_opt_def split: option.splits)
  show "convertible (Py_data (online_attrs om))"
    using m [of om] f by (auto simp: online_attrs_def py_opt_def py_test_result_def py_log_def
        split: option.splits manifest_log.splits)
qed

lemma serialised_total:
  assumes "convertible (Py_data attrs)"
  shows "\<exists>y. serialised attrs = Inr y"
proof -
  obtain attrs' where "json_serialisable (Py_data attrs) = Inr (Py_data attrs')" "enum_free (Py_data attrs')"
    using json_serialisable_enum_free [OF assms] by blast
  then show ?thesis using yaml_value_total [of "Py_data attrs'"] by (auto simp: serialised_def)
qed

lemma serialised_set_total:
  assumes "list_all (\<lambda>(k, v). enum_free v) extra"
  shows "\<exists>y. serialised_set ms extra = Inr y"
proof -
  let ?f = "\<lambda>m. json_serialisable (Py_data (online_attrs m))"
  obtain ys where ys: "mapR ?f (rms_manifests ms) = Inr ys"
    using mapR_total [of "rms_manifests ms" ?f] json_serialisable_enum_free [OF convertible_attrs(2)] by blast
  have "enum_free y" if y: "y \<in> set ys" for y
  proof -
    obtain m where "?f m = Inr y" using mapR_mem [OF ys] y by blast
    then show ?thesis using json_serialisable_enum_free [OF convertible_attrs(2) [of m]] by auto
  qed
  then have "enum_free (Py_data (set_attrs ms ys @ extra))"
    using assms by (auto simp: set_attrs_def list_all_iff)
  from yaml_value_total [OF this] show ?thesis
    using ys by (auto simp: serialised_set_def simp del: yaml_value.simps json_serialisable.simps)
qed

text \<open>
  Every manifest, before and after its upload, and every manifest set can be written: the
  conversion replaces all enumeration members, also those of nested data classes, by their values,
  and the dumper, which would refuse the unconverted manifest, accepts the result.
\<close>

theorem manifests_serialisable:
  "(\<exists>y. serialised (manifest_attrs m) = Inr y) \<and> (\<exists>y. serialised (online_attrs om) = Inr y) \<and>
   (\<exists>y. serialised_set ms [] = Inr y) \<and> (\<exists>y. serialised_set oms (online_set_attrs oms) = Inr y) \<and>
   yaml_value (Py_data (manifest_attrs m)) = Inl (OtherException ''RepresenterError'')"
proof (intro conjI)
  have "list_all (\<lambda>(k, v). enum_free v) (online_set_attrs oms)"
    by (auto simp: online_set_attrs_def py_opt_def py_file_def list_all_iff split: option.splits)
  then show "\<exists>y. serialised_set oms (online_set_attrs oms) = Inr y" by (rule serialised_set_total)
  have "mapR yaml_value (map Py_str xs) = Inr (map PStr xs)" for xs by (induction xs) auto
  then show "yaml_value (Py_data (manifest_attrs m)) = Inl (OtherException ''RepresenterError'')"
    by (simp add: manifest_attrs_def)
qed (auto intro!: serialised_total convertible_attrs serialised_set_total simp del: convertible.simps)

end
