(* ===== verification/Object_Store.thy ===== *)
theory Object_Store
  imports Manifest Naming "HOL-Library.List_Lexorder" "HOL-Library.Char_ord"
begin

text \<open>
  The release store: the functions of \<open>ci/glci/util.py\<close> that read and write release manifests and
  manifest sets in an S3 bucket.  The service and the two libraries between the objects' bytes and
  the manifests are parameters: the calls of the S3 client, over a state of the service that only
  the client's own calls change (\<open>s3_client\<close>), and \<open>yaml\<close> and \<open>dacite\<close> (\<open>codec\<close>).  What the code
  relies on of them are the laws of the last sections, which theorems name as hypotheses.
\<close>

subsection \<open>The service and the libraries\<close>

record list_page =
  lp_key_count :: nat
  lp_is_truncated :: bool
  lp_next_token :: "string option"
  lp_keys :: "string list"

text \<open>An error of the service is \<open>ClientError\<close> with its code; objects are their text.\<close>

record 's s3_client =
  s3_download_fileobj :: "string \<Rightarrow> string \<Rightarrow> 's \<Rightarrow> string res"
  s3_upload_fileobj :: "string \<Rightarrow> string \<Rightarrow> string \<Rightarrow> 's \<Rightarrow> 's res"
  s3_delete_object :: "string \<Rightarrow> string \<Rightarrow> 's \<Rightarrow> 's res"
  s3_delete_objects :: "string \<Rightarrow> string list \<Rightarrow> 's \<Rightarrow> 's res"
  s3_list_objects_v2 :: "string \<Rightarrow> string \<Rightarrow> string option \<Rightarrow> 's \<Rightarrow> list_page res"
  s3_head_object_content_type :: "string \<Rightarrow> string \<Rightarrow> 's \<Rightarrow> string res"

record codec =
  cd_safe_load :: "string \<Rightarrow> (string \<times> pobj) list res"
  cd_safe_dump :: "pobj \<Rightarrow> string"
  cd_manifest_from_dict :: "(string \<times> pobj) list \<Rightarrow> online_release_manifest res"
  cd_set_from_dict :: "(string \<times> pobj) list \<Rightarrow> online_release_manifest_set res"

subsection \<open>Retrieval and upload\<close>

definition load_object :: "codec \<Rightarrow> ((string \<times> pobj) list \<Rightarrow> 'a res) \<Rightarrow> bool \<Rightarrow> string res \<Rightarrow> 'a option res" where
  "load_object cd decode absent_ok download =
     (case download of
        Inl (ClientError code) \<Rightarrow> if absent_ok \<and> code = ''404'' then Inr None else Inl (ClientError code)
      | Inl e \<Rightarrow> Inl e
      | Inr content \<Rightarrow> bindR (cd_safe_load cd content) (\<lambda>parsed.
          bindR (decode parsed) (\<lambda>m. Inr (Some m))))"

definition patch_transient :: "string \<Rightarrow> string \<Rightarrow> (string \<times> pobj) list \<Rightarrow> (string \<times> pobj) list" where
  "patch_transient key bucket_name parsed =
     (let parsed = dict_set ''s3_bucket'' (PStr bucket_name) (dict_set ''s3_key'' (PStr key) parsed)
      in if ''base_image'' \<in> fst ` set parsed then parsed else dict_set ''base_image'' PNone parsed)"

definition fetch_release_manifest :: "'s s3_client \<Rightarrow> codec \<Rightarrow> string \<Rightarrow> string \<Rightarrow> bool \<Rightarrow> 's \<Rightarrow>
    online_release_manifest option res" where
  "fetch_release_manifest s3 cd bucket_name key absent_ok s =
     load_object cd (\<lambda>parsed. cd_manifest_from_dict cd (patch_transient key bucket_name parsed))
       absent_ok (s3_download_fileobj s3 bucket_name key s)"

definition fetch_release_manifest_set :: "'s s3_client \<Rightarrow> codec \<Rightarrow> string \<Rightarrow> string \<Rightarrow> bool \<Rightarrow> 's \<Rightarrow>
    online_release_manifest_set option res" where
  "fetch_release_manifest_set s3 cd bucket_name manifest_key absent_ok s =
     load_object cd (\<lambda>parsed. cd_set_from_dict cd
         (dict_set ''s3_key'' (PStr manifest_key) (dict_set ''s3_bucket'' (PStr bucket_name) parsed)))
       absent_ok (s3_download_fileobj s3 bucket_name manifest_key s)"

text \<open>\<open>attrs\<close> are the attributes of the manifest: those of a release or of an online manifest.\<close>

definition upload_release_manifest :: "'s s3_client \<Rightarrow> codec \<Rightarrow> string \<Rightarrow> string \<Rightarrow> (string \<times> pyval) list \<Rightarrow>
    's \<Rightarrow> 's res" where
  "upload_release_manifest s3 cd bucket_name key attrs s =
     bindR (serialised attrs) (\<lambda>y. s3_upload_fileobj s3 bucket_name key (cd_safe_dump cd y) s)"

definition upload_release_manifest_set :: "'s s3_client \<Rightarrow> codec \<Rightarrow> string \<Rightarrow> string \<Rightarrow>
    'a release_manifest_set_scheme \<Rightarrow> (string \<times> pyval) list \<Rightarrow> 's \<Rightarrow> 's res" where
  "upload_release_manifest_set s3 cd bucket_name key ms extra s =
     bindR (serialised_set ms extra) (\<lambda>y. s3_upload_fileobj s3 bucket_name key (cd_safe_dump cd y) s)"

subsection \<open>Enumeration\<close>

text \<open>
  The loop that both enumerations share: pages are requested with the token of the page before, the
  items of a page are fetched in order.  It need not end, so its value is optional.
\<close>

partial_function (option) enumerate_pages ::
  "(string option \<Rightarrow> list_page res) \<Rightarrow> (string list \<Rightarrow> 'a list res) \<Rightarrow> string option \<Rightarrow> 'a list res option" where
  "enumerate_pages list_objects fetch token =
     (case list_objects token of
        Inl e \<Rightarrow> Some (Inl e)
      | Inr page \<Rightarrow>
          if lp_key_count page = 0 then Some (Inr [])
          else (case fetch (lp_keys page) of
              Inl e \<Rightarrow> Some (Inl e)
            | Inr xs \<Rightarrow>
                if \<not> lp_is_truncated page then Some (Inr xs)
                else Option.bind (enumerate_pages list_objects fetch
                    (if lp_next_token page = Some [] then None else lp_next_token page))
                  (\<lambda>r. Some (bindR r (\<lambda>ys. Inr (xs @ ys))))))"

text \<open>\<open>absent_ok\<close> is false here: a manifest is returned or an exception raised.\<close>

definition present :: "'a option res \<Rightarrow> 'a res" where
  "present r = bindR r (\<lambda>m. case m of Some x \<Rightarrow> Inr x | None \<Rightarrow> Inl (TypeError ''None''))"

definition enumerate_releases ::
  "'s s3_client \<Rightarrow> codec \<Rightarrow> string \<Rightarrow> string \<Rightarrow> 's \<Rightarrow> online_release_manifest list res option" where
  "enumerate_releases s3 cd bucket_name prefx s =
     enumerate_pages (\<lambda>token. s3_list_objects_v2 s3 bucket_name prefx token s)
       (mapR (\<lambda>key. present (fetch_release_manifest s3 cd bucket_name key False s))) None"

definition not_directory :: "'s s3_client \<Rightarrow> string \<Rightarrow> 's \<Rightarrow> string \<Rightarrow> string list res" where
  "not_directory s3 bucket_name s key =
     bindR (s3_head_object_content_type s3 bucket_name key s) (\<lambda>ct.
       Inr (if ct \<noteq> ''application/x-directory'' then [key] else []))"

definition enumerate_release_sets ::
  "'s s3_client \<Rightarrow> codec \<Rightarrow> string \<Rightarrow> string \<Rightarrow> 's \<Rightarrow> online_release_manifest_set list res option" where
  "enumerate_release_sets s3 cd bucket_name prefx s =
     enumerate_pages (\<lambda>token. s3_list_objects_v2 s3 bucket_name prefx token s)
       (\<lambda>ks. bindR (mapR (not_directory s3 bucket_name s) ks) (\<lambda>kss.
          mapR (\<lambda>key. present (fetch_release_manifest_set s3 cd bucket_name key False s)) (concat kss))) None"

subsection \<open>Looking up releases\<close>

definition find_release :: "feature_descriptor list \<Rightarrow> nat \<Rightarrow> 's s3_client \<Rightarrow> codec \<Rightarrow> string \<Rightarrow>
    release_identifier \<Rightarrow> 's \<Rightarrow> online_release_manifest option res" where
  "find_release fs n s3 cd bucket_name ri s =
     bindR (canonical_release_manifest_key fs n ri) (\<lambda>key.
     bindR (fetch_release_manifest s3 cd bucket_name key True s) (\<lambda>manifest.
       case manifest of
         None \<Rightarrow> Inr None
       | Some m \<Rightarrow>
           bindR (normalised_release_identifier fs n (manifest_identifier m)) (\<lambda>found_ri.
           bindR (normalised_release_identifier fs n ri) (\<lambda>searched_ri.
             Inr (if found_ri = searched_ri then Some m else None)))))"

definition flavour_identifier :: "string \<Rightarrow> string \<Rightarrow> int \<Rightarrow> gardenlinux_flavour \<Rightarrow> release_identifier" where
  "flavour_identifier build_committish version gardenlinux_epoch fl =
     \<lparr>ri_build_committish = build_committish, ri_version = version,
      ri_gardenlinux_epoch = gardenlinux_epoch, ri_architecture = fl_architecture fl,
      ri_platform = fl_platform fl, ri_modifiers = fl_modifiers fl\<rparr>"

definition find_releases :: "feature_descriptor list \<Rightarrow> nat \<Rightarrow> 's s3_client \<Rightarrow> codec \<Rightarrow> string \<Rightarrow>
    flavour_set \<Rightarrow> string \<Rightarrow> string \<Rightarrow> int \<Rightarrow> 's \<Rightarrow> online_release_manifest list res" where
  "find_releases fs n s3 cd bucket_name fset build_committish version gardenlinux_epoch s =
     bindR (flavours fs n fset) (\<lambda>fls.
     bindR (mapR (\<lambda>fl. find_release fs n s3 cd bucket_name
              (flavour_identifier build_committish version gardenlinux_epoch fl) s) (py_set fls)) (\<lambda>found.
       Inr (List.map_filter id found)))"

subsection \<open>Release sets\<close>

text \<open>\<open>timestamp\<close> is the formatted current time where \<open>with_timestamp\<close> is given, and \<open>None\<close> otherwise.\<close>

definition release_set_manifest_name :: "string \<Rightarrow> string \<Rightarrow> string \<Rightarrow> string \<Rightarrow> build_type \<Rightarrow> string option \<Rightarrow> string" where
  "release_set_manifest_name build_committish gardenlinux_epoch version flavour_set_name bt timestamp =
     (if bt \<in> {BT_SNAPSHOT, BT_DAILY}
      then gardenlinux_epoch @ ''-'' @ str_first 6 build_committish @ ''-'' @ flavour_set_name @
        (case timestamp of Some t \<Rightarrow> ''-'' @ t | None \<Rightarrow> '''')
      else version @ ''-'' @ flavour_set_name)"

text \<open>\<open>os.path.join\<close>: a component with a leading slash discards what is before it.\<close>

fun path_join :: "string \<Rightarrow> string list \<Rightarrow> string" where
  "path_join p [] = p"
| "path_join p (q # qs) =
     (if startswith q ''/'' then path_join q qs
      else if p = [] \<or> last p = CHR ''/'' then path_join (p @ q) qs
      else path_join (p @ ''/'' @ q) qs)"

definition release_set_key :: "string \<Rightarrow> build_type \<Rightarrow> string \<Rightarrow> string" where
  "release_set_key prefx bt name = path_join prefx [build_type_value bt, name]"

definition find_release_set :: "'s s3_client \<Rightarrow> codec \<Rightarrow> string \<Rightarrow> string \<Rightarrow> string \<Rightarrow> string \<Rightarrow> string \<Rightarrow>
    build_type \<Rightarrow> string \<Rightarrow> bool \<Rightarrow> 's \<Rightarrow> online_release_manifest_set option res" where
  "find_release_set s3 cd bucket_name flavour_set_name build_committish gardenlinux_epoch version bt
     prefx absent_ok s =
     fetch_release_manifest_set s3 cd bucket_name
       (release_set_key prefx bt (release_set_manifest_name build_committish gardenlinux_epoch version
          flavour_set_name bt None)) absent_ok s"

definition platform_to_artifact_mapping :: "(string \<times> string) list" where
  "platform_to_artifact_mapping =
     [(''ali'', ''rootfs.qcow2''), (''aws'', ''rootfs.raw''), (''azure'', ''rootfs.vhd''),
      (''gcp'', ''rootfs-gcpimage.tar.gz''), (''kvm'', ''rootfs.raw''), (''metal'', ''rootfs.tar.xz''),
      (''oci'', ''rootfs.tar.xz''), (''openstack'', ''rootfs.vmdk''), (''vmware'', ''rootfs.ova'')]"

definition virtual_image_artifact_for_platform :: "string \<Rightarrow> string res" where
  "virtual_image_artifact_for_platform platform =
     (case map_of platform_to_artifact_mapping platform of
        None \<Rightarrow> Inl (NotImplementedError platform) | Some a \<Rightarrow> Inr a)"

subsection \<open>Laws of the service and the libraries\<close>

text \<open>
  Listing. \<open>keys s b\<close> are the keys of a bucket in the order of S3, \<open>pos t\<close> the key a continuation
  token stands for.  A request is answered with a non-empty part, from the first one on, of the keys
  with the prefix that come after the token, and with the token of the last key iff there are more.
\<close>

definition after :: "(string \<Rightarrow> string) \<Rightarrow> string option \<Rightarrow> string \<Rightarrow> bool" where
  "after pos token k = (case token of None \<Rightarrow> True | Some t \<Rightarrow> pos t < k)"

definition listed :: "(string \<Rightarrow> string) \<Rightarrow> string \<Rightarrow> string option \<Rightarrow> string list \<Rightarrow> string list" where
  "listed pos prefx token ks = filter (\<lambda>k. startswith k prefx \<and> after pos token k) ks"

definition page_of :: "(string \<Rightarrow> string) \<Rightarrow> string list \<Rightarrow> list_page \<Rightarrow> bool" where
  "page_of pos ks page \<longleftrightarrow> lp_key_count page = length (lp_keys page) \<and>
     (\<exists>more. ks = lp_keys page @ more \<and> (ks \<noteq> [] \<longrightarrow> lp_keys page \<noteq> []) \<and>
        (if more = [] then \<not> lp_is_truncated page \<and> lp_next_token page = None
         else lp_is_truncated page \<and>
           (\<exists>t. lp_next_token page = Some t \<and> t \<noteq> [] \<and> pos t = last (lp_keys page))))"

definition s3_listing :: "'s s3_client \<Rightarrow> ('s \<Rightarrow> string \<Rightarrow> string list) \<Rightarrow> (string \<Rightarrow> string) \<Rightarrow> bool" where
  "s3_listing s3 keys pos \<longleftrightarrow>
     (\<forall>s b. sorted (keys s b) \<and> distinct (keys s b)) \<and>
     (\<forall>s b prefx token. \<exists>page. s3_list_objects_v2 s3 b prefx token s = Inr page \<and>
        page_of pos (listed pos prefx token (keys s b)) page)"

text \<open>An uploaded object is what is downloaded afterwards, and no other object changes.\<close>

definition s3_read_your_writes :: "'s s3_client \<Rightarrow> bool" where
  "s3_read_your_writes s3 \<longleftrightarrow>
     (\<forall>b k c s s'. s3_upload_fileobj s3 b k c s = Inr s' \<longrightarrow>
        s3_download_fileobj s3 b k s' = Inr c \<and>
        (\<forall>b' k'. (b', k') \<noteq> (b, k) \<longrightarrow> s3_download_fileobj s3 b' k' s' = s3_download_fileobj s3 b' k' s))"

text \<open>Deletion succeeds, absent keys included, and removes just the keys it is given.\<close>

definition s3_deletion :: "'s s3_client \<Rightarrow> ('s \<Rightarrow> string \<Rightarrow> string list) \<Rightarrow> bool" where
  "s3_deletion s3 keys \<longleftrightarrow>
     (\<forall>b k s. \<exists>s'. s3_delete_object s3 b k s = Inr s' \<and>
        (\<forall>b'. keys s' b' = (if b' = b then filter (\<lambda>x. x \<noteq> k) (keys s b) else keys s b'))) \<and>
     (\<forall>b ks s. \<exists>s'. s3_delete_objects s3 b ks s = Inr s' \<and>
        (\<forall>b'. keys s' b' = (if b' = b then filter (\<lambda>x. x \<notin> set ks) (keys s b) else keys s b')))"

text \<open>
  The dumper and the loader are inverse on the dictionary of a manifest, and \<open>dacite\<close> builds the
  manifest from the plain values of its fields, those replaced that are injected after loading.
\<close>

definition as_online :: "string \<Rightarrow> string \<Rightarrow> release_manifest \<Rightarrow> online_release_manifest" where
  "as_online key bucket_name m =
     \<lparr>ri_build_committish = ri_build_committish m, ri_version = ri_version m,
      ri_gardenlinux_epoch = ri_gardenlinux_epoch m, ri_architecture = ri_architecture m,
      ri_platform = ri_platform m, ri_modifiers = ri_modifiers m,
      rm_build_timestamp = rm_build_timestamp m, rm_paths = rm_paths m, rm_base_image = rm_base_image m,
      rm_published_image_metadata = rm_published_image_metadata m,
      orm_s3_key = key, orm_s3_bucket = bucket_name, orm_test_result = None, orm_logs = None\<rparr>"

definition codec_reads :: "codec \<Rightarrow> release_manifest \<Rightarrow> bool" where
  "codec_reads cd m \<longleftrightarrow> (\<forall>d. serialised (manifest_attrs m) = Inr (PDict d) \<longrightarrow>
     cd_safe_load cd (cd_safe_dump cd (PDict d)) = Inr d \<and>
     (\<forall>k b. cd_manifest_from_dict cd (patch_transient k b d) = Inr (as_online k b m)))"

definition codec_reads_online :: "codec \<Rightarrow> online_release_manifest \<Rightarrow> bool" where
  "codec_reads_online cd m \<longleftrightarrow> (\<forall>d. serialised (online_attrs m) = Inr (PDict d) \<longrightarrow>
     cd_safe_load cd (cd_safe_dump cd (PDict d)) = Inr d \<and>
     (\<forall>k b. cd_manifest_from_dict cd (patch_transient k b d) =
       Inr (m\<lparr>orm_s3_key := k, orm_s3_bucket := b\<rparr>)))"

definition as_online_set :: "string \<Rightarrow> string \<Rightarrow> release_manifest_set \<Rightarrow> online_release_manifest_set" where
  "as_online_set key bucket_name ms =
     \<lparr>rms_manifests = rms_manifests ms, rms_flavour_set_name = rms_flavour_set_name ms,
      oms_s3_key = key, oms_s3_bucket = bucket_name, oms_logs = None\<rparr>"

definition codec_reads_set :: "codec \<Rightarrow> release_manifest_set \<Rightarrow> bool" where
  "codec_reads_set cd ms \<longleftrightarrow> (\<forall>d. serialised_set ms [] = Inr (PDict d) \<longrightarrow>
     cd_safe_load cd (cd_safe_dump cd (PDict d)) = Inr d \<and>
     (\<forall>k b. cd_set_from_dict cd (dict_set ''s3_key'' (PStr k) (dict_set ''s3_bucket'' (PStr b) d)) =
       Inr (as_online_set k b ms)))"

end
