(* ===== verification/Store_Properties.thy ===== *)
theory Store_Properties
  imports Object_Store
begin

text \<open>
  What the release store guarantees: uploaded releases are found again, lookups never return the
  release of another flavour, commit or version, enumeration is complete and ends, and in which case a
  stored release is missed.  A small concrete service and codec instantiate the laws.
\<close>

subsection \<open>Keys and normal forms depend on the set of modifiers\<close>

lemma same_features:
  assumes "mapR (feature_by_name fs) xs = Inr ms" "set xs = set ys"
  obtains ns where "mapR (feature_by_name fs) ys = Inr ns" "set ns = set ms"
proof -
  have "\<forall>y \<in> set ys. \<exists>f. feature_by_name fs y = Inr f"
    using assms by (metis mapR_ok_iff)
  then obtain ns where ns: "mapR (feature_by_name fs) ys = Inr ns" by (metis mapR_ok_iff)
  have "m \<in> set ns \<longleftrightarrow> m \<in> set ms" for m
    using mapR_mem [OF ns, of m] mapR_mem [OF assms(1), of m] assms(2) by simp
  then show thesis using that [OF ns] by blast
qed

lemma canonicalised_same_set:
  assumes wf: "wf_features fs" "length fs < n" "case_distinct fs"
    and cs: "canonicalised_features fs n p xs = Inr cs" and eq: "set xs = set ys"
  shows "canonicalised_features fs n p ys = Inr cs"
proof -
  obtain q ms where q: "feature_by_name fs p = Inr q" and ms: "mapR (feature_by_name fs) xs = Inr ms"
    and sub: "set ms \<subseteq> set fs" and c: "cs = q # sort_key (\<lambda>m. py_upper (fd_name m))
            (filter (\<lambda>f. \<forall>m \<in> set ms. f \<notin> reach fs m) (py_set ms))"
    by (rule canonicalised_features_Inr [OF cs])
  obtain ns where ns: "mapR (feature_by_name fs) ys = Inr ns" "set ns = set ms"
    by (rule same_features [OF ms eq])
  have "p \<in> fd_name ` set fs" using feature_by_name_Inr [OF q] by auto
  moreover have "set ys \<subseteq> fd_name ` set fs"
    using mapR_names_sound [OF ns(1)] mapR_names_mem [OF ns(1)] by auto
  ultimately obtain ds where ds: "canonicalised_features fs n p ys = Inr ds"
    using canonicalised_features_total [OF wf(1,2)] by blast
  obtain q' ns' where "feature_by_name fs p = Inr q'" "mapR (feature_by_name fs) ys = Inr ns'"
    and d: "ds = q' # sort_key (\<lambda>m. py_upper (fd_name m))
            (filter (\<lambda>f. \<forall>m \<in> set ns'. f \<notin> reach fs m) (py_set ns'))"
    by (rule canonicalised_features_Inr [OF ds])
  then have [simp]: "q' = q" "ns' = ns" using q ns(1) by simp_all
  have "inj_on (\<lambda>m. py_upper (fd_name m)) (set fs)"
    using wf(3) by (auto simp: case_distinct_def inj_on_def)
  then have "inj_on (\<lambda>m. py_upper (fd_name m)) (set (filter (\<lambda>f. \<forall>m \<in> set ms. f \<notin> reach fs m) (py_set ms)))"
    by (rule inj_on_subset) (use sub in auto)
  then have "sort_key (\<lambda>m. py_upper (fd_name m)) (filter (\<lambda>f. \<forall>m \<in> set ms. f \<notin> reach fs m) (py_set ms)) =
      sort_key (\<lambda>m. py_upper (fd_name m)) (filter (\<lambda>f. \<forall>m \<in> set ns. f \<notin> reach fs m) (py_set ns))"
    by (rule sort_key_unique) (use ns(2) in auto)
  then show ?thesis using ds d c by simp
qed

lemma normalised_same_set:
  assumes wf: "wf_features fs" "length fs < n" "case_distinct fs"
    and ns: "normalised_modifiers fs n p xs = Inr ns" and eq: "set xs = set ys"
  shows "normalised_modifiers fs n p ys = Inr ns"
proof -
  obtain q ms where q: "feature_by_name fs p = Inr q" and ms: "mapR (feature_by_name fs) xs = Inr ms"
    by (rule normalised_modifiers_Inr [OF ns])
  obtain ms' where ms': "mapR (feature_by_name fs) ys = Inr ms'" "set ms' = set ms"
    by (rule same_features [OF ms eq])
  have "p \<in> fd_name ` set fs" using feature_by_name_Inr [OF q] by auto
  moreover have "set ys \<subseteq> fd_name ` set fs"
    using mapR_names_sound [OF ms'(1)] mapR_names_mem [OF ms'(1)] by auto
  ultimately obtain ns' where ns': "normalised_modifiers fs n p ys = Inr ns'"
    using normalised_modifiers_total [OF wf(1,2)] by blast
  note N = normalised_modifiers_set [OF ns q ms]
  have "ns = sort_key py_upper ns" "ns' = sort_key py_upper ns"
    using normalised_modifiers_unique [OF wf(3) ns q ms, of ns] 
      normalised_modifiers_unique [OF wf(3) ns' q ms'(1), of ns] N ms'(2) by auto
  then show ?thesis using ns' by simp
qed

lemma key_same_set:
  assumes "wf_features fs" "length fs < n" "case_distinct fs"
    and "canonical_release_manifest_key fs n ri = Inr k"
    and "set (ri_modifiers ri) = set (ri_modifiers rj)" "ri_platform ri = ri_platform rj"
    and "ri_version ri = ri_version rj"
    and "str_first 6 (ri_build_committish ri) = str_first 6 (ri_build_committish rj)"
  shows "canonical_release_manifest_key fs n rj = Inr k"
proof -
  from assms(4) obtain cs where
    cs: "canonicalised_features fs n (ri_platform ri) (ri_modifiers ri) = Inr cs" and
    k: "k = manifest_key_prefix @ ''/'' @ py_join ''-'' (map fd_name cs) @ ''-'' @ ri_version ri @
       ''-'' @ str_first 6 (ri_build_committish ri)"
    by (auto simp: canonical_release_manifest_key_def canonical_release_manifest_key_suffix_def
        bindR_Inr_iff Let_def)
  from canonicalised_same_set [OF assms(1-3) cs assms(5)] k assms(6-8) show ?thesis
    by (simp add: canonical_release_manifest_key_def canonical_release_manifest_key_suffix_def)
qed

subsection \<open>Enumeration\<close>

lemma sorted_split_filter:
  fixes as zs :: "string list"
  assumes "sorted (as @ zs)" "distinct (as @ zs)" "as \<noteq> []"
  shows "filter (\<lambda>k. last as < k) (as @ zs) = zs"
proof -
  have "sorted (butlast as @ [last as])" using assms(1,3) by (simp add: sorted_append)
  then have "\<forall>k \<in> set (butlast as @ [last as]). k \<le> last as" by (simp only: sorted_append) simp
  then have "\<forall>k \<in> set as. k \<le> last as" using assms(3) by (metis append_butlast_last_id)
  moreover have "\<forall>k \<in> set zs. last as < k"
  proof
    fix k assume k: "k \<in> set zs"
    have "last as \<in> set as" using assms(3) by simp
    then have "last as \<le> k" "last as \<noteq> k" using assms(1,2) k by (auto simp: sorted_append)
    then show "last as < k" by simp
  qed
  ultimately have "filter (\<lambda>k. last as < k) as = []" "filter (\<lambda>k. last as < k) zs = zs"
    by (auto simp: filter_empty_conv)
  then show ?thesis by simp
qed

lemma sorted_listed: "sorted ks \<Longrightarrow> sorted (listed pos prefx token ks)"
  by (simp add: listed_def sorted_wrt_filter)

lemma listed_next:
  assumes ks: "sorted ks" "distinct ks"
    and split: "listed pos prefx token ks = as @ zs" "as \<noteq> []" and t: "pos t = last as"
  shows "listed pos prefx (Some t) ks = zs"
proof -
  have l: "last as \<in> set (listed pos prefx token ks)" using split by simp
  have "listed pos prefx (Some t) ks = filter (\<lambda>k. last as < k) (listed pos prefx token ks)"
    using l unfolding listed_def filter_filter
    by (intro filter_cong) (auto simp: after_def t split: option.splits)
  moreover have "sorted (as @ zs)" "distinct (as @ zs)"
    using sorted_listed [OF ks(1)] ks(2) split(1) by (simp_all flip: split(1) add: listed_def)
  ultimately show ?thesis using sorted_split_filter split by simp
qed

lemma enumerate_pages_listed:
  assumes lst: "\<And>token. \<exists>page. list_objects token = Inr page \<and>
      page_of pos (listed pos prefx token ks) page"
    and ks: "sorted ks" "distinct ks"
    and fetch: "fetch [] = Inr []"
      "\<And>xs ys. set (xs @ ys) \<subseteq> set ks \<Longrightarrow>
        fetch (xs @ ys) = bindR (fetch xs) (\<lambda>us. bindR (fetch ys) (\<lambda>vs. Inr (us @ vs)))"
  shows "enumerate_pages list_objects fetch token = Some (fetch (listed pos prefx token ks))"
proof (induction "length (listed pos prefx token ks)" arbitrary: token rule: less_induct)
  case less
  obtain page where page: "list_objects token = Inr page"
    "page_of pos (listed pos prefx token ks) page" using lst by blast
  then obtain zs where parts: "listed pos prefx token ks = lp_keys page @ zs"
    "listed pos prefx token ks \<noteq> [] \<longrightarrow> lp_keys page \<noteq> []"
    "lp_key_count page = length (lp_keys page)"
    and rest: "if zs = [] then \<not> lp_is_truncated page \<and> lp_next_token page = None
         else lp_is_truncated page \<and>
           (\<exists>t. lp_next_token page = Some t \<and> t \<noteq> [] \<and> pos t = last (lp_keys page))"
    unfolding page_of_def by blast
  have "set (listed pos prefx token ks) \<subseteq> set ks" by (auto simp: listed_def)
  then have fetch2: "fetch (lp_keys page @ zs) =
      bindR (fetch (lp_keys page)) (\<lambda>us. bindR (fetch zs) (\<lambda>vs. Inr (us @ vs)))"
    unfolding parts(1) by (rule fetch(2))
  show ?case
  proof (cases "lp_keys page = []")
    case True
    then have "listed pos prefx token ks = []" "lp_key_count page = 0" using parts(2,3) by auto
    then show ?thesis using page(1) fetch(1) by (subst enumerate_pages.simps) simp
  next
    case ne: False
    show ?thesis
    proof (cases "fetch (lp_keys page)")
      case (Inl e)
      then show ?thesis using page(1) parts(1,3) ne fetch2
        by (subst enumerate_pages.simps) simp
    next
      case (Inr xs)
      show ?thesis
      proof (cases "zs = []")
        case True
        then show ?thesis using page(1) parts(1,3) ne rest Inr by (subst enumerate_pages.simps) simp
      next
        case False
        then obtain t where t: "lp_is_truncated page" "lp_next_token page = Some t" "t \<noteq> []"
          "pos t = last (lp_keys page)" using rest by auto
        have nx: "listed pos prefx (Some t) ks = zs"
          using listed_next [OF ks parts(1) ne t(4)] .
        then have "enumerate_pages list_objects fetch (Some t) = Some (fetch zs)"
          using nx less [of "Some t"] parts(1) ne by simp
        then show ?thesis
          using page(1) parts(1,3) ne t(1-3) Inr fetch2
          by (subst enumerate_pages.simps) simp
      qed
    qed
  qed
qed

lemma enumerate_releases_listed:
  assumes "s3_listing s3 keys pos"
  shows "enumerate_releases s3 cd b prefx s =
    Some (mapR (\<lambda>k. present (fetch_release_manifest s3 cd b k False s))
      (filter (\<lambda>k. startswith k prefx) (keys s b)))"
proof -
  have "enumerate_releases s3 cd b prefx s =
    Some (mapR (\<lambda>k. present (fetch_release_manifest s3 cd b k False s)) (listed pos prefx None (keys s b)))"
    unfolding enumerate_releases_def
    by (rule enumerate_pages_listed) (use assms mapR_append in \<open>auto simp: s3_listing_def\<close>)
  then show ?thesis by (simp add: listed_def after_def)
qed

definition is_directory :: "'s s3_client \<Rightarrow> string \<Rightarrow> 's \<Rightarrow> string \<Rightarrow> bool" where
  "is_directory s3 b s k \<longleftrightarrow> s3_head_object_content_type s3 b k s = Inr ''application/x-directory''"

lemma not_directory_filter:
  assumes "\<forall>k \<in> set ks. \<exists>ct. s3_head_object_content_type s3 b k s = Inr ct"
  shows "\<exists>kss. mapR (not_directory s3 b s) ks = Inr kss \<and>
    concat kss = filter (\<lambda>k. \<not> is_directory s3 b s k) ks"
  using assms by (induction ks) (auto simp: not_directory_def is_directory_def)

lemma enumerate_release_sets_listed:
  assumes "s3_listing s3 keys pos"
    and "\<forall>k \<in> set (keys s b). \<exists>ct. s3_head_object_content_type s3 b k s = Inr ct"
  shows "enumerate_release_sets s3 cd b prefx s =
    Some (mapR (\<lambda>k. present (fetch_release_manifest_set s3 cd b k False s))
      (filter (\<lambda>k. startswith k prefx \<and> \<not> is_directory s3 b s k) (keys s b)))"
proof -
  let ?get = "\<lambda>k. present (fetch_release_manifest_set s3 cd b k False s)"
  let ?fetch = "\<lambda>ks. bindR (mapR (not_directory s3 b s) ks) (\<lambda>kss. mapR ?get (concat kss))"
  have fetch: "?fetch ks = mapR ?get (filter (\<lambda>k. \<not> is_directory s3 b s k) ks)"
    if "set ks \<subseteq> set (keys s b)" for ks
    using not_directory_filter [of ks s3 b s] assms(2) that by (auto simp: subset_iff)
  have "enumerate_release_sets s3 cd b prefx s = Some (?fetch (listed pos prefx None (keys s b)))"
    unfolding enumerate_release_sets_def
  proof (rule enumerate_pages_listed)
    fix xs ys assume "set (xs @ ys) \<subseteq> set (keys s b)"
    then show "?fetch (xs @ ys) = bindR (?fetch xs) (\<lambda>us. bindR (?fetch ys) (\<lambda>vs. Inr (us @ vs)))"
      using fetch [of "xs @ ys"] fetch [of xs] fetch [of ys] by (simp add: mapR_append)
  qed (use assms(1) in \<open>auto simp: s3_listing_def\<close>)
  also have "?fetch (listed pos prefx None (keys s b)) =
      mapR ?get (filter (\<lambda>k. \<not> is_directory s3 b s k) (listed pos prefx None (keys s b)))"
    by (rule fetch) (auto simp: listed_def)
  also have "filter (\<lambda>k. \<not> is_directory s3 b s k) (listed pos prefx None (keys s b)) =
      filter (\<lambda>k. startswith k prefx \<and> \<not> is_directory s3 b s k) (keys s b)"
    by (simp add: listed_def after_def conj_commute)
  finally show ?thesis .
qed

subsection \<open>Lookups\<close>

lemma serialised_dict: "serialised attrs = Inr y \<Longrightarrow> \<exists>d. y = PDict d"
  by (auto simp: serialised_def bindR_Inr_iff)

lemma upload_then_fetch:
  assumes "s3_read_your_writes s3" "codec_reads cd m"
    and "upload_release_manifest s3 cd b key (manifest_attrs m) s = Inr s'"
  shows "fetch_release_manifest s3 cd b key absent_ok s' = Inr (Some (as_online key b m))"
proof -
  from assms(3) obtain y where y: "serialised (manifest_attrs m) = Inr y"
    "s3_upload_fileobj s3 b key (cd_safe_dump cd y) s = Inr s'"
    by (auto simp: upload_release_manifest_def bindR_Inr_iff)
  then obtain d where d: "y = PDict d" using serialised_dict by blast
  have "s3_download_fileobj s3 b key s' = Inr (cd_safe_dump cd (PDict d))"
    using assms(1) y(2) d unfolding s3_read_your_writes_def by blast
  then show ?thesis
    using assms(2) y(1) d by (simp add: fetch_release_manifest_def load_object_def codec_reads_def)
qed

lemma normalised_identifier_same:
  assumes "wf_features fs" "length fs < n" "case_distinct fs"
    and "normalised_modifiers fs n (ri_platform ri) (ri_modifiers ri) = Inr ns"
    and "set (ri_modifiers ri) = set mods"
  shows "normalised_release_identifier fs n (ri\<lparr>ri_modifiers := mods\<rparr>) = normalised_release_identifier fs n ri"
  using assms(4) normalised_same_set [OF assms] by (simp add: normalised_release_identifier_def)

lemma key_Inr_normalised:
  assumes "wf_features fs" "length fs < n" "case_distinct fs"
    and "canonical_release_manifest_key fs n ri = Inr k"
  shows "\<exists>ns. normalised_modifiers fs n (ri_platform ri) (ri_modifiers ri) = Inr ns"
proof -
  from assms(4) obtain cs where "canonicalised_features fs n (ri_platform ri) (ri_modifiers ri) = Inr cs"
    by (auto simp: canonical_release_manifest_key_def canonical_release_manifest_key_suffix_def bindR_Inr_iff)
  from canonical_normal [OF assms(1-3) this] show ?thesis by blast
qed

text \<open>What is stored under the key of a release is found, if it is that release.\<close>

lemma find_release_stored:
  assumes wf: "wf_features fs" "length fs < n" "case_distinct fs"
    and key: "canonical_release_manifest_key fs n m = Inr key"
    and fetch: "fetch_release_manifest s3 cd b key True s = Inr (Some found)"
    and same: "manifest_identifier found = manifest_identifier m"
    and mods: "set mods = set (ri_modifiers m)"
  shows "find_release fs n s3 cd b ((manifest_identifier m)\<lparr>ri_modifiers := mods\<rparr>) s = Inr (Some found)"
proof -
  let ?ri = "(manifest_identifier m)\<lparr>ri_modifiers := mods\<rparr>"
  have k: "canonical_release_manifest_key fs n ?ri = Inr key"
    by (rule key_same_set [OF wf key]) (use mods in \<open>simp_all add: manifest_identifier_def\<close>)
  have "canonical_release_manifest_key fs n (manifest_identifier m) = Inr key"
    by (rule key_same_set [OF wf key]) (simp_all add: manifest_identifier_def)
  then obtain ns where ns: "normalised_modifiers fs n (ri_platform (manifest_identifier m))
      (ri_modifiers (manifest_identifier m)) = Inr ns"
    using key_Inr_normalised [OF wf] by blast
  have "normalised_release_identifier fs n ?ri = normalised_release_identifier fs n (manifest_identifier m)"
    by (rule normalised_identifier_same [OF wf ns]) (simp add: mods manifest_identifier_def)
  moreover have "normalised_release_identifier fs n (manifest_identifier m) =
      Inr ((manifest_identifier m)\<lparr>ri_modifiers := ns\<rparr>)"
    using ns by (simp add: normalised_release_identifier_def)
  ultimately show ?thesis
    using k fetch same by (simp add: find_release_def)
qed

lemma find_release_after_upload:
  assumes wf: "wf_features fs" "length fs < n" "case_distinct fs"
    and s3: "s3_read_your_writes s3" and cd: "codec_reads cd m"
    and key: "canonical_release_manifest_key fs n m = Inr key"
    and up: "upload_release_manifest s3 cd b key (manifest_attrs m) s = Inr s'"
    and mods: "set mods = set (ri_modifiers m)"
  shows "find_release fs n s3 cd b ((manifest_identifier m)\<lparr>ri_modifiers := mods\<rparr>) s' =
    Inr (Some (as_online key b m))"
  by (rule find_release_stored [OF wf key upload_then_fetch [OF s3 cd up] _ mods])
    (simp add: manifest_identifier_def as_online_def)

subsection \<open>A concrete service\<close>

text \<open>
  A bucket store as an association list, listed two keys at a time with the last key as the token,
  and a codec that knows one manifest: they satisfy the laws.
\<close>

type_synonym sample_store = "((string \<times> string) \<times> string) list"

definition sample_keys :: "sample_store \<Rightarrow> string \<Rightarrow> string list" where
  "sample_keys s b = sort (remdups (map (snd \<circ> fst) (filter (\<lambda>e. fst (fst e) = b) s)))"

definition sample_page :: "string list \<Rightarrow> list_page" where
  "sample_page ks =
     (if length ks \<le> 2
      then \<lparr>lp_key_count = length ks, lp_is_truncated = False, lp_next_token = None, lp_keys = ks\<rparr>
      else \<lparr>lp_key_count = 2, lp_is_truncated = True, lp_next_token = Some (ks ! 1), lp_keys = take 2 ks\<rparr>)"

definition sample_s3 :: "sample_store s3_client" where
  "sample_s3 =
     \<lparr>s3_download_fileobj = (\<lambda>b k s. case map_of s (b, k) of None \<Rightarrow> Inl (ClientError ''404'') | Some c \<Rightarrow> Inr c),
      s3_upload_fileobj = (\<lambda>b k c s. Inr (dict_set (b, k) c s)),
      s3_delete_object = (\<lambda>b k s. Inr (filter (\<lambda>e. fst e \<noteq> (b, k)) s)),
      s3_delete_objects = (\<lambda>b ks s. Inr (filter (\<lambda>e. fst (fst e) \<noteq> b \<or> snd (fst e) \<notin> set ks) s)),
      s3_list_objects_v2 = (\<lambda>b p token s. Inr (sample_page (listed id p token (sample_keys s b)))),
      s3_head_object_content_type = (\<lambda>b k s. Inr ''text/yaml'')\<rparr>"

lemma set_sample_keys: "set (sample_keys s b) = {k. (b, k) \<in> fst ` set s}"
  by (force simp: sample_keys_def)

lemma sample_page_of: "sorted ks \<Longrightarrow> distinct ks \<Longrightarrow> page_of id ks (sample_page ks)"
proof (cases "length ks \<le> 2")
  case False
  assume "sorted ks" "distinct ks"
  have "Suc (Suc (Suc 0)) \<le> length ks" using False by simp
  then obtain x y z zs where ks: "ks = x # y # z # zs" by (auto simp: Suc_le_length_iff)
  have "y \<noteq> []" using \<open>sorted ks\<close> \<open>distinct ks\<close> ks by (cases x) auto
  then show ?thesis using ks by (auto simp: page_of_def sample_page_def)
qed (simp add: page_of_def sample_page_def)

lemma sample_listing: "s3_listing sample_s3 sample_keys id"
proof -
  have s: "sorted (sample_keys s b)" "distinct (sample_keys s b)" for s b
    by (simp_all add: sample_keys_def)
  moreover have "sorted (listed id p t (sample_keys s b))" "distinct (listed id p t (sample_keys s b))" for s b p t
    using s by (simp_all add: sorted_listed) (simp add: listed_def)
  ultimately show ?thesis
    unfolding s3_listing_def by (simp add: sample_s3_def sample_page_of)
qed

lemma sample_read_your_writes: "s3_read_your_writes sample_s3"
  by (simp add: s3_read_your_writes_def sample_s3_def map_of_dict_set)

lemma sample_deletion: "s3_deletion sample_s3 sample_keys"
proof -
  have eq: "sample_keys s' b' = filter P (sample_keys s b')"
    if "{k. (b', k) \<in> fst ` set s'} = {k. (b', k) \<in> fst ` set s \<and> P k}" for s s' b' P
  proof (rule sorted_distinct_set_unique)
    show "set (sample_keys s' b') = set (filter P (sample_keys s b'))"
      using that by (auto simp: set_sample_keys)
  qed (simp_all add: sample_keys_def sorted_wrt_filter)
  have "sample_keys (filter (\<lambda>e. fst e \<noteq> (b, k)) s) b' =
      (if b' = b then filter (\<lambda>x. x \<noteq> k) (sample_keys s b) else sample_keys s b')" for b k s b'
    using eq [of b' "filter (\<lambda>e. fst e \<noteq> (b, k)) s" s "\<lambda>x. b' = b \<longrightarrow> x \<noteq> k"]
    by (force cong: filter_cong)
  moreover have "sample_keys (filter (\<lambda>e. fst (fst e) \<noteq> b \<or> snd (fst e) \<notin> set ks) s) b' =
      (if b' = b then filter (\<lambda>x. x \<notin> set ks) (sample_keys s b) else sample_keys s b')" for b ks s b'
    using eq [of b' "filter (\<lambda>e. fst (fst e) \<noteq> b \<or> snd (fst e) \<notin> set ks) s" s "\<lambda>x. b' = b \<longrightarrow> x \<notin> set ks"]
    by (force cong: filter_cong)
  ultimately show ?thesis by (simp add: s3_deletion_def sample_s3_def)
qed

definition sample_codec :: "release_manifest \<Rightarrow> codec" where
  "sample_codec m =
     \<lparr>cd_safe_load = (\<lambda>_. case serialised (manifest_attrs m) of Inr (PDict d) \<Rightarrow> Inr d
         | _ \<Rightarrow> Inl (OtherException ''YAMLError'')),
      cd_safe_dump = (\<lambda>_. ''manifest''),
      cd_manifest_from_dict = (\<lambda>d. case (map_of d ''s3_key'', map_of d ''s3_bucket'') of
           (Some (PStr k), Some (PStr b)) \<Rightarrow> Inr (as_online k b m)
         | _ \<Rightarrow> Inl (OtherException ''MissingValueError'')),
      cd_set_from_dict = (\<lambda>_. Inl (OtherException ''MissingValueError''))\<rparr>"

lemma sample_codec_reads: "codec_reads (sample_codec m) m"
proof -
  have "map_of (patch_transient k b d) ''s3_key'' = Some (PStr k) \<and>
      map_of (patch_transient k b d) ''s3_bucket'' = Some (PStr b)" for k b d
    by (simp add: patch_transient_def Let_def map_of_dict_set)
  then show ?thesis by (simp add: codec_reads_def sample_codec_def)
qed

definition sample_manifest :: release_manifest where
  "sample_manifest =
     \<lparr>ri_build_committish = ''0123456789abcdef'', ri_version = ''560.0'', ri_gardenlinux_epoch = 560,
      ri_architecture = AMD64, ri_platform = ''aws'',
      ri_modifiers = [''base'', ''cloud'', ''gardener'', ''server'', ''_slim''],
      rm_build_timestamp = ''2021-10-12T06:00:00'', rm_paths = [], rm_base_image = None,
      rm_published_image_metadata = None\<rparr>"

lemma sample_key:
  "canonical_release_manifest_key shipped_features 27 sample_manifest =
     Inr ''meta/singles/aws-cloud-gardener-560.0-012345''"
  "canonical_release_manifest_key shipped_features 27 ((manifest_identifier sample_manifest)\<lparr>ri_modifiers := [''gardener'']\<rparr>) =
     Inr ''meta/singles/aws-gardener-560.0-012345''"
  by code_simp+

lemma sample_normal:
  "normalised_modifiers shipped_features 27 ''aws'' [''base'', ''cloud'', ''gardener'', ''server'', ''_slim''] =
     Inr [''base'', ''cloud'', ''gardener'', ''server'', ''_slim'']"
  "normalised_modifiers shipped_features 27 ''aws'' [''gardener''] =
     Inr [''base'', ''cloud'', ''gardener'', ''server'', ''_slim'']"
  by code_simp+

lemma sample_upload:
  "\<exists>s'. upload_release_manifest sample_s3 (sample_codec sample_manifest) b k (manifest_attrs sample_manifest) s = Inr s'"
  using serialised_total [OF convertible_attrs(1) [of sample_manifest]]
  by (auto simp: upload_release_manifest_def sample_s3_def)

subsection \<open>Properties\<close>

text \<open>
  C13: a release is found again. After a release manifest was uploaded under its canonical key, a
  lookup for the same commit, version, epoch and platform with the same set of modifiers, in any
  order and with any repetitions, returns the manifest with its key and bucket.
\<close>

theorem find_release_roundtrip:
  assumes "wf_features fs" and "length fs < n" and "case_distinct fs"
    and "s3_read_your_writes s3" and "codec_reads cd m"
    and "canonical_release_manifest_key fs n m = Inr key"
    and "upload_release_manifest s3 cd b key (manifest_attrs m) s = Inr s'"
    and "set mods = set (ri_modifiers m)"
  shows "find_release fs n s3 cd b ((manifest_identifier m)\<lparr>ri_modifiers := mods\<rparr>) s' =
    Inr (Some (as_online key b m))"
  by (rule find_release_after_upload [OF assms])

theorem find_release_roundtrip_witness:
  "\<exists>s'. upload_release_manifest sample_s3 (sample_codec sample_manifest) ''bucket''
       ''meta/singles/aws-cloud-gardener-560.0-012345'' (manifest_attrs sample_manifest) [] = Inr s' \<and>
     find_release shipped_features 27 sample_s3 (sample_codec sample_manifest) ''bucket''
       ((manifest_identifier sample_manifest)
          \<lparr>ri_modifiers := [''_slim'', ''server'', ''gardener'', ''cloud'', ''base'', ''server'']\<rparr>) s' =
     Inr (Some (as_online ''meta/singles/aws-cloud-gardener-560.0-012345'' ''bucket'' sample_manifest))"
proof -
  obtain s' where up: "upload_release_manifest sample_s3 (sample_codec sample_manifest) ''bucket''
       ''meta/singles/aws-cloud-gardener-560.0-012345'' (manifest_attrs sample_manifest) [] = Inr s'"
    using sample_upload by blast
  have "set [''_slim'', ''server'', ''gardener'', ''cloud'', ''base'', ''server''] = set (ri_modifiers sample_manifest)"
    by (auto simp: sample_manifest_def)
  from find_release_roundtrip [OF shipped_wf shipped_fuel shipped_case_distinct sample_read_your_writes
      sample_codec_reads sample_key(1) up this] up
  show ?thesis by blast
qed

text \<open>
  C14: a lookup never returns another release. What is returned has the commit, version, epoch,
  architecture and platform that were asked for and the same normal form of its modifiers, although
  the key holds only six characters of the commit; whatever the store holds.
\<close>

theorem find_release_sound:
  assumes "find_release fs n s3 cd b ri s = Inr (Some m)"
  shows "ri_build_committish m = ri_build_committish ri \<and> ri_version m = ri_version ri \<and>
    ri_gardenlinux_epoch m = ri_gardenlinux_epoch ri \<and> ri_architecture m = ri_architecture ri \<and>
    ri_platform m = ri_platform ri \<and>
    (\<exists>ns. normalised_modifiers fs n (ri_platform ri) (ri_modifiers ri) = Inr ns \<and>
          normalised_modifiers fs n (ri_platform m) (ri_modifiers m) = Inr ns)"
proof -
  from assms obtain found searched where
    "normalised_release_identifier fs n (manifest_identifier m) = Inr found"
    "normalised_release_identifier fs n ri = Inr searched" "found = searched"
    by (auto simp: find_release_def bindR_Inr_iff split: option.splits if_splits)
  then show ?thesis
    by (cases ri) (auto simp: normalised_release_identifier_def manifest_identifier_def bindR_Inr_iff)
qed

theorem find_release_sound_witness:
  "ri_build_committish (as_online ''meta/singles/aws-cloud-gardener-560.0-012345'' ''bucket'' sample_manifest) =
     ''0123456789abcdef''"
proof -
  obtain s' where up: "upload_release_manifest sample_s3 (sample_codec sample_manifest) ''bucket''
       ''meta/singles/aws-cloud-gardener-560.0-012345'' (manifest_attrs sample_manifest) [] = Inr s'"
    using sample_upload by blast
  from find_release_after_upload [OF shipped_wf shipped_fuel shipped_case_distinct sample_read_your_writes
      sample_codec_reads sample_key(1) up refl]
  show ?thesis using find_release_sound by (fastforce simp: manifest_identifier_def sample_manifest_def)
qed

text \<open>
  A stored release is missed. For the flavour \<open>aws\<close> with the modifier \<open>gardener\<close> and its normal
  form, which identify the same release, the keys differ, since the features that the platform
  includes stay in the key: a release that was uploaded under the key of the normal form is not found
  with the modifier \<open>gardener\<close>, unless there is another object under that key.
\<close>

theorem find_release_misses:
  assumes "s3_read_your_writes s3"
    and "upload_release_manifest s3 cd b ''meta/singles/aws-cloud-gardener-560.0-012345''
           (manifest_attrs sample_manifest) s = Inr s'"
    and "s3_download_fileobj s3 b ''meta/singles/aws-gardener-560.0-012345'' s = Inl (ClientError ''404'')"
  shows "canonical_release_manifest_key shipped_features 27 sample_manifest =
      Inr ''meta/singles/aws-cloud-gardener-560.0-012345'' \<and>
    normalised_release_identifier shipped_features 27
       ((manifest_identifier sample_manifest)\<lparr>ri_modifiers := [''gardener'']\<rparr>) =
      Inr (manifest_identifier sample_manifest) \<and>
    find_release shipped_features 27 s3 cd b
       ((manifest_identifier sample_manifest)\<lparr>ri_modifiers := [''gardener'']\<rparr>) s' = Inr None"
proof -
  let ?ri = "(manifest_identifier sample_manifest)\<lparr>ri_modifiers := [''gardener'']\<rparr>"
  from assms(2) obtain y where
    "s3_upload_fileobj s3 b ''meta/singles/aws-cloud-gardener-560.0-012345'' (cd_safe_dump cd y) s = Inr s'"
    by (auto simp: upload_release_manifest_def bindR_Inr_iff)
  then have "\<And>b' k'. (b', k') \<noteq> (b, ''meta/singles/aws-cloud-gardener-560.0-012345'') \<Longrightarrow>
      s3_download_fileobj s3 b' k' s' = s3_download_fileobj s3 b' k' s"
    using assms(1) unfolding s3_read_your_writes_def by blast
  then have "s3_download_fileobj s3 b ''meta/singles/aws-gardener-560.0-012345'' s' = Inl (ClientError ''404'')"
    using assms(3) by simp
  then have "find_release shipped_features 27 s3 cd b ?ri s' = Inr None"
    using sample_key(2) by (simp add: find_release_def fetch_release_manifest_def load_object_def)
  moreover have "normalised_release_identifier shipped_features 27 ?ri = Inr (manifest_identifier sample_manifest)"
    using sample_normal(2) by (simp add: normalised_release_identifier_def manifest_identifier_def sample_manifest_def)
  ultimately show ?thesis using sample_key(1) by blast
qed

theorem find_release_misses_witness:
  "\<exists>s'. find_release shipped_features 27 sample_s3 (sample_codec sample_manifest) ''bucket''
       ((manifest_identifier sample_manifest)\<lparr>ri_modifiers := [''gardener'']\<rparr>) s' = Inr None"
proof -
  obtain s' where up: "upload_release_manifest sample_s3 (sample_codec sample_manifest) ''bucket''
       ''meta/singles/aws-cloud-gardener-560.0-012345'' (manifest_attrs sample_manifest) [] = Inr s'"
    using sample_upload by blast
  have "s3_download_fileobj sample_s3 ''bucket'' ''meta/singles/aws-gardener-560.0-012345'' [] =
      Inl (ClientError ''404'')" by (simp add: sample_s3_def)
  from find_release_misses [OF sample_read_your_writes up this] show ?thesis by blast
qed

text \<open>
  C18: enumeration ends and is complete. Whatever the size of the pages, the manifests of all keys
  with the prefix are returned, each once and in the order of the keys, unless fetching one of
  them raises; for manifest sets the directories are left out.
\<close>

theorem enumeration_complete:
  assumes "s3_listing s3 keys pos"
    and "\<forall>k \<in> set (keys s b). \<exists>ct. s3_head_object_content_type s3 b k s = Inr ct"
  shows "enumerate_releases s3 cd b prefx s =
      Some (mapR (\<lambda>k. present (fetch_release_manifest s3 cd b k False s))
        (filter (\<lambda>k. startswith k prefx) (keys s b))) \<and>
    enumerate_release_sets s3 cd b prefx s =
      Some (mapR (\<lambda>k. present (fetch_release_manifest_set s3 cd b k False s))
        (filter (\<lambda>k. startswith k prefx \<and> \<not> is_directory s3 b s k) (keys s b)))"
  using enumerate_releases_listed [OF assms(1)] enumerate_release_sets_listed [where keys = keys, OF assms]
  by blast

theorem enumeration_complete_witness:
  "\<exists>r. enumerate_releases sample_s3 (sample_codec sample_manifest) ''bucket'' ''meta/''
       [((''bucket'', ''meta/a''), ''x''), ((''bucket'', ''meta/b''), ''x''), ((''bucket'', ''meta/c''), ''x''),
        ((''bucket'', ''objects/d''), ''x'')] = Some r"
proof -
  have "\<forall>k \<in> set (sample_keys s b). \<exists>ct. s3_head_object_content_type sample_s3 b k s = Inr ct" for s b
    by (simp add: sample_s3_def)
  from enumeration_complete [OF sample_listing this] show ?thesis by blast
qed

end
