(* ===== verification/Clean.thy ===== *)
theory Clean
  imports Store_Properties Epoch
begin

text \<open>
  The clean-up jobs of \<open>ci/clean.py\<close>: they delete outdated manifest sets and single manifests, and
  then the objects that no manifest refers to.
\<close>

subsection \<open>Outdated manifests\<close>

text \<open>
  Microseconds since the first day of the calendar; \<open>oldest_allowed_date\<close> is \<open>now\<close> less the days.
  Comparing a naive with an aware date raises.  \<open>isoparse\<close> is \<open>dateutil\<close>'s function.
\<close>

definition stamp :: "datetime \<Rightarrow> int" where
  "stamp t = int (toordinal (dt_date t)) * 86400000000 + int (dt_micros t)"

record clean_env =
  ce_now :: datetime
  ce_isoparse :: "string \<Rightarrow> datetime res"

text \<open>The distance of a build from the oldest allowed date; positive for a later build.\<close>

definition build_age :: "clean_env \<Rightarrow> nat \<Rightarrow> 'a release_manifest_scheme \<Rightarrow> int res" where
  "build_age env max_age_days m =
     bindR (ce_isoparse env (rm_build_timestamp m)) (\<lambda>t.
       if dt_aware t \<noteq> dt_aware (ce_now env) then Inl (TypeError ''cannot compare offset-naive and offset-aware datetimes'')
       else Inr (stamp t - (stamp (ce_now env) - int max_age_days * 86400000000)))"

definition purge_set_if_outdated :: "'s s3_client \<Rightarrow> clean_env \<Rightarrow> nat \<Rightarrow> bool \<Rightarrow>
    online_release_manifest_set \<Rightarrow> 's \<Rightarrow> bool res \<times> 's" where
  "purge_set_if_outdated s3 env max_age_days dry_run ms s =
     (case rms_manifests ms of
        [] \<Rightarrow> (Inr False, s)
      | first_manifest # _ \<Rightarrow>
          (case build_age env max_age_days first_manifest of
             Inl e \<Rightarrow> (Inl e, s)
           | Inr age \<Rightarrow>
               if 0 < age then (Inr False, s)
               else if dry_run then (Inr False, s)
               else (case s3_delete_object s3 (oms_s3_bucket ms) (oms_s3_key ms) s of
                   Inl e \<Rightarrow> (Inl e, s) | Inr s' \<Rightarrow> (Inr True, s'))))"

definition purge_single_if_outdated :: "'s s3_client \<Rightarrow> clean_env \<Rightarrow> nat \<Rightarrow> bool \<Rightarrow>
    online_release_manifest \<Rightarrow> 's \<Rightarrow> bool res \<times> 's" where
  "purge_single_if_outdated s3 env max_age_days dry_run m s =
     (case build_age env max_age_days m of
        Inl e \<Rightarrow> (Inl e, s)
      | Inr age \<Rightarrow>
          if age < 0 then
            (if dry_run then (Inr False, s)
             else (case s3_delete_object s3 (orm_s3_bucket m) (orm_s3_key m) s of
                 Inl e \<Rightarrow> (Inl e, s) | Inr s' \<Rightarrow> (Inr True, s')))
          else (Inr False, s))"

text \<open>
  \<open>executor.map\<close> starts all tasks, whatever the others do; \<open>sched\<close> is the order in which they
  happen to run.  The results are looked at in the order of the items, and the first error is raised.
\<close>

fun run_tasks :: "('a \<Rightarrow> 's \<Rightarrow> 'b res \<times> 's) \<Rightarrow> 'a list \<Rightarrow> 's \<Rightarrow> ('a \<times> 'b res) list \<times> 's" where
  "run_tasks f [] s = ([], s)"
| "run_tasks f (x # xs) s =
     (let (r, s1) = f x s; (rs, s2) = run_tasks f xs s1 in ((x, r) # rs, s2))"

definition executor_map :: "('a list \<Rightarrow> 'a list) \<Rightarrow> ('a \<Rightarrow> 's \<Rightarrow> 'b res \<times> 's) \<Rightarrow> 'a list \<Rightarrow> 's \<Rightarrow>
    'b list res \<times> 's" where
  "executor_map sched f xs s =
     (let (rs, s') = run_tasks f (sched xs) s
      in (mapR (\<lambda>x. case map_of rs x of Some r \<Rightarrow> r | None \<Rightarrow> Inl (RuntimeError ''not run'')) xs, s'))"

definition snapshot_sets_prefix :: string where
  "snapshot_sets_prefix = path_join release_manifest_set_prefix [pipeline_flavour_value PF_SNAPSHOT]"

definition clean_release_manifest_sets :: "'s s3_client \<Rightarrow> codec \<Rightarrow> clean_env \<Rightarrow>
    (online_release_manifest_set list \<Rightarrow> online_release_manifest_set list) \<Rightarrow>
    string \<Rightarrow> nat \<Rightarrow> string \<Rightarrow> bool \<Rightarrow> 's \<Rightarrow> (unit res \<times> 's) option" where
  "clean_release_manifest_sets s3 cd env sched bucket_name max_age_days prefx dry_run s =
     Option.bind (enumerate_release_sets s3 cd bucket_name prefx s) (\<lambda>r. Some (case r of
       Inl e \<Rightarrow> (Inl e, s)
     | Inr sets \<Rightarrow>
         (let (rs, s') = executor_map sched (purge_set_if_outdated s3 env max_age_days dry_run) sets s
          in (bindR rs (\<lambda>_. Inr ()), s'))))"

definition clean_single_release_manifests :: "'s s3_client \<Rightarrow> codec \<Rightarrow> clean_env \<Rightarrow>
    (online_release_manifest list \<Rightarrow> online_release_manifest list) \<Rightarrow>
    string \<Rightarrow> nat \<Rightarrow> bool \<Rightarrow> 's \<Rightarrow> (unit res \<times> 's) option" where
  "clean_single_release_manifests s3 cd env sched bucket_name max_age_days dry_run s =
     Option.bind (enumerate_releases s3 cd bucket_name manifest_key_prefix s) (\<lambda>r. Some (case r of
       Inl e \<Rightarrow> (Inl e, s)
     | Inr manifests \<Rightarrow>
         (let (rs, s') = executor_map sched (purge_single_if_outdated s3 env max_age_days dry_run) manifests s
          in (bindR rs (\<lambda>_. Inr ()), s'))))"

subsection \<open>Objects without a reference\<close>

definition set_files :: "online_release_manifest_set \<Rightarrow> s3_release_file list" where
  "set_files ms = concat (map rm_paths (rms_manifests ms)) @ (case oms_logs ms of Some ls \<Rightarrow> ls | None \<Rightarrow> [])"

definition referenced_objects :: "'s s3_client \<Rightarrow> codec \<Rightarrow> string \<Rightarrow> 's \<Rightarrow> s3_release_file list res option" where
  "referenced_objects s3 cd bucket_name s =
     Option.bind (enumerate_release_sets s3 cd bucket_name release_manifest_set_prefix s) (\<lambda>r. case r of
       Inl e \<Rightarrow> Some (Inl e)
     | Inr sets \<Rightarrow>
         Option.bind (enumerate_releases s3 cd bucket_name manifest_key_prefix s) (\<lambda>r'. Some (bindR r' (\<lambda>singles.
           Inr (concat (map set_files sets) @ concat (map rm_paths singles))))))"

partial_function (option) purge_pages :: "'s s3_client \<Rightarrow> string \<Rightarrow> string \<Rightarrow> string list \<Rightarrow> bool \<Rightarrow>
    string option \<Rightarrow> 's \<Rightarrow> (unit res \<times> 's) option" where
  "purge_pages s3 bucket_name prefx all_object_keys dry_run token s =
     (case s3_list_objects_v2 s3 bucket_name prefx token s of
        Inl e \<Rightarrow> Some (Inl e, s)
      | Inr page \<Rightarrow>
          if lp_key_count page = 0 then Some (Inr (), s)
          else
            (case (let loose = filter (\<lambda>k. k \<notin> set all_object_keys) (py_set (lp_keys page))
                   in if dry_run \<or> loose = [] then Inr s else s3_delete_objects s3 bucket_name loose s) of
               Inl e \<Rightarrow> Some (Inl e, s)
             | Inr s' \<Rightarrow>
                 (case lp_next_token page of
                    None \<Rightarrow> Some (Inr (), s')
                  | Some t \<Rightarrow>
                      if t = [] then Some (Inr (), s')
                      else purge_pages s3 bucket_name prefx all_object_keys dry_run (Some t) s')))"

definition object_keys_in :: "string \<Rightarrow> s3_release_file list \<Rightarrow> string list" where
  "object_keys_in bucket_name files = map rf_s3_key (filter (\<lambda>f. rf_s3_bucket_name f = bucket_name) files)"

definition clean_orphaned_objects :: "'s s3_client \<Rightarrow> codec \<Rightarrow> string \<Rightarrow> string \<Rightarrow> bool \<Rightarrow> 's \<Rightarrow>
    (unit res \<times> 's) option" where
  "clean_orphaned_objects s3 cd bucket_name prefx dry_run s =
     Option.bind (referenced_objects s3 cd bucket_name s) (\<lambda>r. case r of
       Inl e \<Rightarrow> Some (Inl e, s)
     | Inr files \<Rightarrow>
         purge_pages s3 bucket_name prefx (object_keys_in bucket_name files) dry_run None s)"

subsection \<open>What the tasks delete\<close>

lemma run_tasks_fst: "map fst (fst (run_tasks f xs s)) = xs"
  by (induction xs arbitrary: s) (auto simp: Let_def split: prod.splits, metis fst_conv)

text \<open>
  Tasks that either leave the state alone or delete one key: whatever their order, the keys that
  are gone are the keys of the tasks that delete.
\<close>

definition deletes :: "('s \<Rightarrow> string \<Rightarrow> string list) \<Rightarrow> ('a \<Rightarrow> 's \<Rightarrow> 'b res \<times> 's) \<Rightarrow> ('a \<Rightarrow> bool) \<Rightarrow>
    ('a \<Rightarrow> string) \<Rightarrow> ('a \<Rightarrow> string) \<Rightarrow> bool" where
  "deletes keys f outdated bucket key \<longleftrightarrow> (\<forall>x s b. keys (snd (f x s)) b =
     (if outdated x \<and> bucket x = b then filter (\<lambda>k. k \<noteq> key x) (keys s b) else keys s b))"

lemma run_tasks_keys:
  assumes "deletes keys f outdated bucket key"
  shows "keys (snd (run_tasks f xs s)) b =
    filter (\<lambda>k. \<not> (\<exists>x \<in> set xs. outdated x \<and> bucket x = b \<and> key x = k)) (keys s b)"
proof (induction xs arbitrary: s)
  case (Cons x xs)
  have "snd (run_tasks f (x # xs) s) = snd (run_tasks f xs (snd (f x s)))"
    by (simp add: Let_def split: prod.splits)
  then have "keys (snd (run_tasks f (x # xs) s)) b =
      filter (\<lambda>k. \<not> (\<exists>x \<in> set xs. outdated x \<and> bucket x = b \<and> key x = k)) (keys (snd (f x s)) b)"
    using Cons.IH by simp
  also have "keys (snd (f x s)) b =
      filter (\<lambda>k. \<not> (outdated x \<and> bucket x = b \<and> key x = k)) (keys s b)"
    using assms unfolding deletes_def by (auto intro!: filter_cong)
  finally show ?case by (simp add: conj_commute)
qed simp

definition set_outdated :: "clean_env \<Rightarrow> nat \<Rightarrow> online_release_manifest_set \<Rightarrow> bool" where
  "set_outdated env d ms \<longleftrightarrow> (\<exists>m ms' age. rms_manifests ms = m # ms' \<and>
     build_age env d m = Inr age \<and> age \<le> 0)"

definition single_outdated :: "clean_env \<Rightarrow> nat \<Rightarrow> 'a release_manifest_scheme \<Rightarrow> bool" where
  "single_outdated env d m \<longleftrightarrow> (\<exists>age. build_age env d m = Inr age \<and> age < 0)"

lemma s3_deletion_one:
  "s3_deletion s3 keys \<Longrightarrow> \<exists>s'. s3_delete_object s3 b k s = Inr s' \<and>
    (\<forall>b'. keys s' b' = (if b' = b then filter (\<lambda>x. x \<noteq> k) (keys s b) else keys s b'))"
  by (simp add: s3_deletion_def)

lemma purge_set_deletes:
  assumes "s3_deletion s3 keys"
  shows "deletes keys (purge_set_if_outdated s3 env d False) (set_outdated env d) oms_s3_bucket oms_s3_key"
  unfolding deletes_def
proof (intro allI)
  fix ms :: online_release_manifest_set and s b
  obtain s' where s': "s3_delete_object s3 (oms_s3_bucket ms) (oms_s3_key ms) s = Inr s'"
    "\<And>b'. keys s' b' = (if b' = oms_s3_bucket ms then filter (\<lambda>x. x \<noteq> oms_s3_key ms) (keys s (oms_s3_bucket ms))
       else keys s b')"
    using s3_deletion_one [OF assms, of "oms_s3_bucket ms" "oms_s3_key ms" s] by blast
  then show "keys (snd (purge_set_if_outdated s3 env d False ms s)) b =
     (if set_outdated env d ms \<and> oms_s3_bucket ms = b then filter (\<lambda>k. k \<noteq> oms_s3_key ms) (keys s b) else keys s b)"
    by (auto simp: purge_set_if_outdated_def set_outdated_def split: list.splits sum.splits)
qed

lemma purge_single_deletes:
  assumes "s3_deletion s3 keys"
  shows "deletes keys (purge_single_if_outdated s3 env d False) (single_outdated env d) orm_s3_bucket orm_s3_key"
  unfolding deletes_def
proof (intro allI)
  fix m :: online_release_manifest and s b
  obtain s' where s': "s3_delete_object s3 (orm_s3_bucket m) (orm_s3_key m) s = Inr s'"
    "\<And>b'. keys s' b' = (if b' = orm_s3_bucket m then filter (\<lambda>x. x \<noteq> orm_s3_key m) (keys s (orm_s3_bucket m))
       else keys s b')"
    using s3_deletion_one [OF assms, of "orm_s3_bucket m" "orm_s3_key m" s] by blast
  then show "keys (snd (purge_single_if_outdated s3 env d False m s)) b =
     (if single_outdated env d m \<and> orm_s3_bucket m = b then filter (\<lambda>k. k \<noteq> orm_s3_key m) (keys s b) else keys s b)"
    by (auto simp: purge_single_if_outdated_def single_outdated_def split: sum.splits)
qed

lemma executor_map_keys:
  assumes "deletes keys f outdated bucket key" "\<And>xs. set (sched xs) = set xs"
  shows "keys (snd (executor_map sched f xs s)) b =
    filter (\<lambda>k. \<not> (\<exists>x \<in> set xs. outdated x \<and> bucket x = b \<and> key x = k)) (keys s b)"
proof -
  have "snd (executor_map sched f xs s) = snd (run_tasks f (sched xs) s)"
    by (simp add: executor_map_def Let_def split: prod.splits)
  then show ?thesis using run_tasks_keys [OF assms(1), of "sched xs" s b] assms(2) by simp
qed

subsection \<open>Objects without a reference\<close>

lemma s3_deletion_many:
  "s3_deletion s3 keys \<Longrightarrow> \<exists>s'. s3_delete_objects s3 b ks s = Inr s' \<and>
    (\<forall>b'. keys s' b' = (if b' = b then filter (\<lambda>x. x \<notin> set ks) (keys s b) else keys s b'))"
  by (simp add: s3_deletion_def)

lemma filter_eq_self: "(\<And>x. x \<in> set xs \<Longrightarrow> P x) \<Longrightarrow> filter P xs = xs"
  by (simp add: filter_id_conv)

lemma purge_pages_keys:
  assumes lst: "s3_listing s3 keys pos" and del: "s3_deletion s3 keys"
  shows "\<exists>s'. purge_pages s3 b prefx refs False token s = Some (Inr (), s') \<and>
    keys s' b = filter (\<lambda>k. k \<in> set (listed pos prefx token (keys s b)) \<longrightarrow> k \<in> set refs) (keys s b) \<and>
    (\<forall>b'. b' \<noteq> b \<longrightarrow> keys s' b' = keys s b')"
proof (induction "length (listed pos prefx token (keys s b))" arbitrary: token s rule: less_induct)
  case less
  let ?L = "listed pos prefx token (keys s b)"
  have ks: "sorted (keys s b)" "distinct (keys s b)" using lst by (auto simp: s3_listing_def)
  obtain page where page: "s3_list_objects_v2 s3 b prefx token s = Inr page" "page_of pos ?L page"
    using lst unfolding s3_listing_def by blast
  then obtain zs where parts: "?L = lp_keys page @ zs" "?L \<noteq> [] \<longrightarrow> lp_keys page \<noteq> []"
    "lp_key_count page = length (lp_keys page)"
    and rest: "if zs = [] then \<not> lp_is_truncated page \<and> lp_next_token page = None
         else lp_is_truncated page \<and>
           (\<exists>t. lp_next_token page = Some t \<and> t \<noteq> [] \<and> pos t = last (lp_keys page))"
    unfolding page_of_def by blast
  show ?case
  proof (cases "lp_keys page = []")
    case True
    then have "?L = []" "lp_key_count page = 0" using parts(2,3) by auto
    then show ?thesis using page(1) by (subst purge_pages.simps) simp
  next
    case ne: False
    define loose where "loose = filter (\<lambda>k. k \<notin> set refs) (py_set (lp_keys page))"
    obtain s1 where s1: "(if loose = [] then Inr s else s3_delete_objects s3 b loose s) = Inr s1"
      "keys s1 b = filter (\<lambda>x. x \<notin> set loose) (keys s b)" "\<forall>b'. b' \<noteq> b \<longrightarrow> keys s1 b' = keys s b'"
    proof (cases "loose = []")
      case True
      then show ?thesis using that [of s] by simp
    next
      case False
      obtain s1 where "s3_delete_objects s3 b loose s = Inr s1"
        "\<And>b'. keys s1 b' = (if b' = b then filter (\<lambda>x. x \<notin> set loose) (keys s b) else keys s b')"
        using s3_deletion_many [OF del, of b loose s] by blast
      then show ?thesis using that [of s1] False by simp
    qed
    have gone: "k \<in> set loose \<longleftrightarrow> k \<in> set (lp_keys page) \<and> k \<notin> set refs" for k
      by (simp add: loose_def)
    show ?thesis
    proof (cases "zs = []")
      case True
      then have "purge_pages s3 b prefx refs False token s = Some (Inr (), s1)"
        using page(1) parts(3) ne rest s1(1) unfolding loose_def
        by (subst purge_pages.simps) (simp add: Let_def)
      moreover have "keys s1 b = filter (\<lambda>k. k \<in> set ?L \<longrightarrow> k \<in> set refs) (keys s b)"
        unfolding s1(2) parts(1) True by (rule filter_cong) (auto simp: gone)
      ultimately show ?thesis using s1(3) by blast
    next
      case False
      then obtain t where t: "lp_next_token page = Some t" "t \<noteq> []" "pos t = last (lp_keys page)"
        using rest by auto
      have nx: "listed pos prefx (Some t) (keys s b) = zs"
        using listed_next [OF ks parts(1) ne t(3)] .
      have disj: "k \<notin> set loose" if "k \<in> set zs" for k
      proof -
        have "distinct ?L" using ks(2) by (simp add: listed_def)
        then show ?thesis using parts(1) that gone by auto
      qed
      have "listed pos prefx (Some t) (keys s1 b) =
          filter (\<lambda>x. x \<notin> set loose) (listed pos prefx (Some t) (keys s b))"
        unfolding s1(2) listed_def by (simp add: conj_commute)
      then have nx1: "listed pos prefx (Some t) (keys s1 b) = zs"
        using nx disj filter_eq_self [of zs "\<lambda>x. x \<notin> set loose"] by simp
      have "length zs < length ?L" using parts(1) ne by simp
      then obtain s2 where s2: "purge_pages s3 b prefx refs False (Some t) s1 = Some (Inr (), s2)"
        "keys s2 b = filter (\<lambda>k. k \<in> set zs \<longrightarrow> k \<in> set refs) (keys s1 b)"
        "\<forall>b'. b' \<noteq> b \<longrightarrow> keys s2 b' = keys s1 b'"
        using less [of "Some t" s1] nx1 by auto
      have "purge_pages s3 b prefx refs False token s = Some (Inr (), s2)"
        using page(1) parts(3) ne t(1,2) s1(1) s2(1) unfolding loose_def
        by (subst purge_pages.simps) (simp add: Let_def)
      moreover have "keys s2 b = filter (\<lambda>k. k \<in> set ?L \<longrightarrow> k \<in> set refs) (keys s b)"
        unfolding s2(2) s1(2) parts(1) filter_filter by (rule filter_cong) (auto simp: gone)
      ultimately show ?thesis using s1(3) s2(3) by auto
    qed
  qed
qed

lemma purge_pages_dry:
  assumes lst: "s3_listing s3 keys pos"
  shows "purge_pages s3 b prefx refs True token s = Some (Inr (), s)"
proof (induction "length (listed pos prefx token (keys s b))" arbitrary: token rule: less_induct)
  case less
  let ?L = "listed pos prefx token (keys s b)"
  have ks: "sorted (keys s b)" "distinct (keys s b)" using lst by (auto simp: s3_listing_def)
  obtain page where page: "s3_list_objects_v2 s3 b prefx token s = Inr page" "page_of pos ?L page"
    using lst unfolding s3_listing_def by blast
  then obtain zs where parts: "?L = lp_keys page @ zs" "lp_key_count page = length (lp_keys page)"
    and rest: "if zs = [] then \<not> lp_is_truncated page \<and> lp_next_token page = None
         else lp_is_truncated page \<and>
           (\<exists>t. lp_next_token page = Some t \<and> t \<noteq> [] \<and> pos t = last (lp_keys page))"
    unfolding page_of_def by blast
  show ?case
  proof (cases "lp_keys page = [] \<or> zs = []")
    case True
    then show ?thesis using page(1) parts(2) rest by (subst purge_pages.simps) auto
  next
    case False
    then obtain t where t: "lp_next_token page = Some t" "t \<noteq> []" "pos t = last (lp_keys page)"
      using rest by auto
    have "listed pos prefx (Some t) (keys s b) = zs"
      using listed_next [OF ks parts(1) _ t(3)] False by simp
    then have "purge_pages s3 b prefx refs True (Some t) s = Some (Inr (), s)"
      using less [of "Some t"] parts(1) False by simp
    then show ?thesis using page(1) parts(2) False t by (subst purge_pages.simps) simp
  qed
qed

lemma referenced_objects_Inr:
  assumes "referenced_objects s3 cd b s = Some (Inr files)"
  obtains sets singles where
    "enumerate_release_sets s3 cd b release_manifest_set_prefix s = Some (Inr sets)"
    "enumerate_releases s3 cd b manifest_key_prefix s = Some (Inr singles)"
    "files = concat (map set_files sets) @ concat (map rm_paths singles)"
proof -
  obtain r where r: "enumerate_release_sets s3 cd b release_manifest_set_prefix s = Some r"
    using assms by (auto simp: referenced_objects_def bind_eq_Some_conv)
  obtain sets where "r = Inr sets" using r assms by (cases r) (auto simp: referenced_objects_def)
  with r assms that show thesis
    by (auto simp: referenced_objects_def bind_eq_Some_conv bindR_Inr_iff)
qed

lemma referenced_single:
  assumes lst: "s3_listing s3 keys pos" and refs: "referenced_objects s3 cd b s = Some (Inr files)"
    and k: "k \<in> set (keys s b)" "startswith k manifest_key_prefix"
    and m: "present (fetch_release_manifest s3 cd b k False s) = Inr m"
  shows "set (rm_paths m) \<subseteq> set files"
proof -
  obtain sets singles where "enumerate_releases s3 cd b manifest_key_prefix s = Some (Inr singles)"
    and files: "files = concat (map set_files sets) @ concat (map rm_paths singles)"
    by (rule referenced_objects_Inr [OF refs])
  then have "mapR (\<lambda>k. present (fetch_release_manifest s3 cd b k False s))
      (filter (\<lambda>k. startswith k manifest_key_prefix) (keys s b)) = Inr singles"
    using enumerate_releases_listed [OF lst] by simp
  then have "m \<in> set singles" using k m by (auto simp: mapR_mem)
  then show ?thesis by (auto simp: files)
qed

lemma referenced_set:
  assumes lst: "s3_listing s3 keys pos"
    and heads: "\<forall>k \<in> set (keys s b). \<exists>ct. s3_head_object_content_type s3 b k s = Inr ct"
    and refs: "referenced_objects s3 cd b s = Some (Inr files)"
    and k: "k \<in> set (keys s b)" "startswith k release_manifest_set_prefix" "\<not> is_directory s3 b s k"
    and m: "present (fetch_release_manifest_set s3 cd b k False s) = Inr ms"
  shows "set (set_files ms) \<subseteq> set files"
proof -
  obtain sets and singles :: "online_release_manifest list" where
    "enumerate_release_sets s3 cd b release_manifest_set_prefix s = Some (Inr sets)"
    and files: "files = concat (map set_files sets) @ concat (map rm_paths singles)"
    by (rule referenced_objects_Inr [OF refs])
  then have "mapR (\<lambda>k. present (fetch_release_manifest_set s3 cd b k False s))
      (filter (\<lambda>k. startswith k release_manifest_set_prefix \<and> \<not> is_directory s3 b s k) (keys s b)) = Inr sets"
    using enumerate_release_sets_listed [where keys = keys, OF lst heads] by simp
  then have "ms \<in> set sets" using k m by (auto simp: mapR_mem)
  then show ?thesis by (auto simp: files)
qed

lemma set_object_keys_in: "k \<in> set (object_keys_in b files) \<longleftrightarrow> (\<exists>f \<in> set files. rf_s3_bucket_name f = b \<and> rf_s3_key f = k)"
  by (auto simp: object_keys_in_def)

lemma clean_orphaned_objects_keys:
  assumes "s3_listing s3 keys pos" "s3_deletion s3 keys" "referenced_objects s3 cd b s = Some (Inr files)"
  shows "\<exists>s'. clean_orphaned_objects s3 cd b prefx False s = Some (Inr (), s') \<and>
    keys s' b = filter (\<lambda>k. startswith k prefx \<longrightarrow> k \<in> set (object_keys_in b files)) (keys s b) \<and>
    (\<forall>b'. b' \<noteq> b \<longrightarrow> keys s' b' = keys s b')"
proof -
  obtain s' where s': "purge_pages s3 b prefx (object_keys_in b files) False None s = Some (Inr (), s')"
    "keys s' b = filter (\<lambda>k. k \<in> set (listed pos prefx None (keys s b)) \<longrightarrow> k \<in> set (object_keys_in b files)) (keys s b)"
    "\<forall>b'. b' \<noteq> b \<longrightarrow> keys s' b' = keys s b'"
    using purge_pages_keys [OF assms(1,2)] by blast
  have "keys s' b = filter (\<lambda>k. startswith k prefx \<longrightarrow> k \<in> set (object_keys_in b files)) (keys s b)"
    unfolding s'(2) by (rule filter_cong) (auto simp: listed_def after_def)
  then show ?thesis using s'(1,3) assms(3) by (simp add: clean_orphaned_objects_def)
qed

subsection \<open>Properties\<close>



text \<open>
  C17: outdated manifests. Whatever the order in which the tasks run, the jobs delete exactly the
  manifests of the bucket that are older than allowed: of the sets those under the prefix of snapshots
  whose first manifest is, so that sets of daily builds and releases stay, and of the single manifests
  all.
\<close>

theorem clean_manifests_exact:
  assumes "s3_listing s3 keys pos" and "s3_deletion s3 keys"
    and "\<forall>k \<in> set (keys s b). \<exists>ct. s3_head_object_content_type s3 b k s = Inr ct"
    and "\<And>xs. set (sched xs) = set xs" and "\<And>xs. set (sched' xs) = set xs"
    and "\<And>k. k \<in> set (keys s b) \<Longrightarrow> startswith k ''meta/sets/snapshot'' \<Longrightarrow> \<not> is_directory s3 b s k \<Longrightarrow>
      present (fetch_release_manifest_set s3 cd b k False s) = Inr (the_set k) \<and>
      oms_s3_key (the_set k) = k \<and> oms_s3_bucket (the_set k) = b"
    and "\<And>k. k \<in> set (keys s b) \<Longrightarrow> startswith k ''meta/singles'' \<Longrightarrow>
      present (fetch_release_manifest s3 cd b k False s) = Inr (the_single k) \<and>
      orm_s3_key (the_single k) = k \<and> orm_s3_bucket (the_single k) = b"
  shows "(\<exists>r s'. clean_release_manifest_sets s3 cd env sched b d snapshot_sets_prefix False s = Some (r, s') \<and>
      keys s' b = filter (\<lambda>k. \<not> (startswith k ''meta/sets/snapshot'' \<and> \<not> is_directory s3 b s k \<and>
        set_outdated env d (the_set k))) (keys s b)) \<and>
    (\<exists>r s'. clean_single_release_manifests s3 cd env sched' b d False s = Some (r, s') \<and>
      keys s' b = filter (\<lambda>k. \<not> (startswith k ''meta/singles'' \<and> single_outdated env d (the_single k))) (keys s b))"
proof
  let ?P = "\<lambda>k. startswith k snapshot_sets_prefix \<and> \<not> is_directory s3 b s k"
  have prefixes: "snapshot_sets_prefix = ''meta/sets/snapshot''" "manifest_key_prefix = ''meta/singles''"
    by (simp_all add: snapshot_sets_prefix_def release_manifest_set_prefix_def startswith_def manifest_key_prefix_def)
  have sets: "mapR (\<lambda>k. present (fetch_release_manifest_set s3 cd b k False s)) (filter ?P (keys s b)) =
      Inr (map the_set (filter ?P (keys s b)))"
    using mapR_cong [OF refl, of "filter ?P (keys s b)" _ "\<lambda>k. Inr (the_set k)"] assms(6)
    by (simp add: prefixes(1))
  have "keys (snd (executor_map sched (purge_set_if_outdated s3 env d False) (map the_set (filter ?P (keys s b))) s)) b =
      filter (\<lambda>k. \<not> (\<exists>x \<in> set (map the_set (filter ?P (keys s b))). set_outdated env d x \<and>
        oms_s3_bucket x = b \<and> oms_s3_key x = k)) (keys s b)"
    by (rule executor_map_keys [OF purge_set_deletes [OF assms(2)] assms(4)])
  also have "\<dots> = filter (\<lambda>k. \<not> (?P k \<and> set_outdated env d (the_set k))) (keys s b)"
    by (rule filter_cong) (use assms(6) in \<open>auto simp: prefixes(1)\<close>)
  finally show "\<exists>r s'. clean_release_manifest_sets s3 cd env sched b d snapshot_sets_prefix False s = Some (r, s') \<and>
      keys s' b = filter (\<lambda>k. \<not> (startswith k ''meta/sets/snapshot'' \<and> \<not> is_directory s3 b s k \<and>
        set_outdated env d (the_set k))) (keys s b)"
    using enumerate_release_sets_listed [where keys = keys, OF assms(1,3)] sets
    by (simp add: clean_release_manifest_sets_def prefixes(1) split_beta Let_def)
  let ?Q = "\<lambda>k. startswith k manifest_key_prefix"
  have singles: "mapR (\<lambda>k. present (fetch_release_manifest s3 cd b k False s)) (filter ?Q (keys s b)) =
      Inr (map the_single (filter ?Q (keys s b)))"
    using mapR_cong [OF refl, of "filter ?Q (keys s b)" _ "\<lambda>k. Inr (the_single k)"] assms(7)
    by (simp add: prefixes(2))
  have "keys (snd (executor_map sched' (purge_single_if_outdated s3 env d False) (map the_single (filter ?Q (keys s b))) s)) b =
      filter (\<lambda>k. \<not> (\<exists>x \<in> set (map the_single (filter ?Q (keys s b))). single_outdated env d x \<and>
        orm_s3_bucket x = b \<and> orm_s3_key x = k)) (keys s b)"
    by (rule executor_map_keys [OF purge_single_deletes [OF assms(2)] assms(5)])
  also have "\<dots> = filter (\<lambda>k. \<not> (?Q k \<and> single_outdated env d (the_single k))) (keys s b)"
    by (rule filter_cong) (use assms(7) in \<open>auto simp: prefixes(2)\<close>)
  finally show "\<exists>r s'. clean_single_release_manifests s3 cd env sched' b d False s = Some (r, s') \<and>
      keys s' b = filter (\<lambda>k. \<not> (startswith k ''meta/singles'' \<and> single_outdated env d (the_single k))) (keys s b)"
    using enumerate_releases_listed [OF assms(1)] singles
    by (simp add: clean_single_release_manifests_def prefixes(2) split_beta Let_def)
qed

text \<open>A store with a manifest of each kind and a codec that reads all of them as the same release.\<close>

definition clean_file :: s3_release_file where
  "clean_file = \<lparr>rf_name = ''rootfs.raw'', rf_suffix = ''rootfs.raw'', rf_s3_key = ''objects/2'',
     rf_s3_bucket_name = ''bucket''\<rparr>"

definition clean_manifest :: release_manifest where
  "clean_manifest = sample_manifest\<lparr>rm_paths := [clean_file]\<rparr>"

definition clean_codec :: codec where
  "clean_codec =
     \<lparr>cd_safe_load = (\<lambda>_. Inr []), cd_safe_dump = (\<lambda>_. ''manifest''),
      cd_manifest_from_dict = (\<lambda>d. case (map_of d ''s3_key'', map_of d ''s3_bucket'') of
           (Some (PStr k), Some (PStr b)) \<Rightarrow> Inr (as_online k b clean_manifest)
         | _ \<Rightarrow> Inl (OtherException ''MissingValueError'')),
      cd_set_from_dict = (\<lambda>d. case (map_of d ''s3_key'', map_of d ''s3_bucket'') of
           (Some (PStr k), Some (PStr b)) \<Rightarrow> Inr (as_online_set k b
             \<lparr>rms_manifests = [as_online k b clean_manifest], rms_flavour_set_name = ''all''\<rparr>)
         | _ \<Rightarrow> Inl (OtherException ''MissingValueError''))\<rparr>"

definition clean_store :: sample_store where
  "clean_store = map (\<lambda>k. ((''bucket'', k), ''x''))
     [''meta/sets/release/27.0-all'', ''meta/sets/snapshot/27-012345-all'', ''meta/singles/aws'',
      ''objects/1'', ''objects/2'', ''objects/3'']"

lemma clean_keys: "sample_keys clean_store ''bucket'' =
    [''meta/sets/release/27.0-all'', ''meta/sets/snapshot/27-012345-all'', ''meta/singles/aws'',
     ''objects/1'', ''objects/2'', ''objects/3'']"
  by code_simp

lemma clean_heads: "\<forall>k \<in> set (sample_keys s b). \<exists>ct. s3_head_object_content_type sample_s3 b k s = Inr ct"
  by (simp add: sample_s3_def)

lemma clean_fetch:
  assumes "k \<in> set (sample_keys clean_store ''bucket'')"
  shows "present (fetch_release_manifest_set sample_s3 clean_codec ''bucket'' k False clean_store) =
      Inr (as_online_set k ''bucket'' \<lparr>rms_manifests = [as_online k ''bucket'' clean_manifest], rms_flavour_set_name = ''all''\<rparr>)"
    "present (fetch_release_manifest sample_s3 clean_codec ''bucket'' k False clean_store) =
      Inr (as_online k ''bucket'' clean_manifest)"
proof -
  have "s3_download_fileobj sample_s3 ''bucket'' k clean_store = Inr ''x''"
    using assms unfolding clean_keys by (auto simp: sample_s3_def clean_store_def)
  then show "present (fetch_release_manifest_set sample_s3 clean_codec ''bucket'' k False clean_store) =
      Inr (as_online_set k ''bucket'' \<lparr>rms_manifests = [as_online k ''bucket'' clean_manifest], rms_flavour_set_name = ''all''\<rparr>)"
    "present (fetch_release_manifest sample_s3 clean_codec ''bucket'' k False clean_store) =
      Inr (as_online k ''bucket'' clean_manifest)"
    by (simp_all add: present_def fetch_release_manifest_set_def fetch_release_manifest_def load_object_def
        clean_codec_def patch_transient_def)
qed

lemma clean_references: "\<exists>files. referenced_objects sample_s3 clean_codec ''bucket'' clean_store = Some (Inr files)"
proof -
  let ?sets = "\<lambda>k. present (fetch_release_manifest_set sample_s3 clean_codec ''bucket'' k False clean_store)"
  let ?singles = "\<lambda>k. present (fetch_release_manifest sample_s3 clean_codec ''bucket'' k False clean_store)"
  let ?ks = "sample_keys clean_store ''bucket''"
  have sets: "\<exists>ys. mapR ?sets (filter P ?ks) = Inr ys" for P
    by (rule mapR_total) (rule exI, rule clean_fetch(1), simp)
  have singles: "\<exists>zs. mapR ?singles (filter P ?ks) = Inr zs" for P
    by (rule mapR_total) (rule exI, rule clean_fetch(2), simp)
  from sets obtain ys where "mapR ?sets (filter (\<lambda>k. startswith k release_manifest_set_prefix \<and>
      \<not> is_directory sample_s3 ''bucket'' clean_store k) ?ks) = Inr ys" by (rule exE)
  then have "enumerate_release_sets sample_s3 clean_codec ''bucket'' release_manifest_set_prefix clean_store =
      Some (Inr ys)"
    using enumerate_release_sets_listed [where keys = sample_keys, OF sample_listing clean_heads] by simp
  moreover from singles obtain zs where
    "mapR ?singles (filter (\<lambda>k. startswith k manifest_key_prefix) ?ks) = Inr zs" by (rule exE)
  then have "enumerate_releases sample_s3 clean_codec ''bucket'' manifest_key_prefix clean_store = Some (Inr zs)"
    using enumerate_releases_listed [OF sample_listing] by simp
  ultimately show ?thesis by (simp add: referenced_objects_def)
qed




definition clean_env_sample :: clean_env where
  "clean_env_sample = \<lparr>ce_now = midnight (Date 2022 6 1), ce_isoparse = (\<lambda>_. Inr (midnight (Date 2022 5 1)))\<rparr>"

theorem clean_manifests_exact_witness:
  "\<exists>r s'. clean_single_release_manifests sample_s3 clean_codec clean_env_sample rev ''bucket'' 14 False clean_store =
     Some (r, s') \<and> ''meta/singles/aws'' \<notin> set (sample_keys s' ''bucket'')"
proof -
  let ?set = "\<lambda>k. as_online_set k ''bucket''
    \<lparr>rms_manifests = [as_online k ''bucket'' clean_manifest], rms_flavour_set_name = ''all''\<rparr>"
  let ?single = "\<lambda>k. as_online k ''bucket'' clean_manifest"
  have "(\<exists>r s'. clean_single_release_manifests sample_s3 clean_codec clean_env_sample rev ''bucket'' 14 False clean_store =
      Some (r, s') \<and> sample_keys s' ''bucket'' = filter (\<lambda>k. \<not> (startswith k ''meta/singles'' \<and>
        single_outdated clean_env_sample 14 (?single k))) (sample_keys clean_store ''bucket''))"
    by (rule clean_manifests_exact [where keys = sample_keys and b = "''bucket''" and
          s = clean_store and cd = clean_codec and sched = rev and sched' = rev and the_set = ?set and
          the_single = ?single, OF sample_listing sample_deletion clean_heads, THEN conjunct2])
      (simp_all add: clean_fetch, simp_all add: as_online_set_def as_online_def)
  moreover have "days_before_month 2022 6 = days_before_month 2022 5 + 31"
    using days_before_month_Suc [of 5 2022] by (simp add: days_in_month_def)
  then have "stamp (midnight (Date 2022 5 1)) < stamp (midnight (Date 2022 6 1)) - 1209600000000"
    by (simp add: stamp_def midnight_def)
  then have "single_outdated clean_env_sample 14 (?single k)" for k
    by (simp add: single_outdated_def build_age_def clean_env_sample_def midnight_def)
  ultimately show ?thesis by (auto simp: startswith_def)
qed

end
