(* ===== verification/Calls.thy ===== *)
theory Calls
  imports Tekton_Model
begin

text \<open>
  Programs that call services: the cloud providers, git, Kubernetes, GitHub.  A call is the client it
  goes to, the method and its arguments; what a service answers may depend on all calls that were
  made before, so a service is a function of that history, and a program is a function from the
  history to its result and the longer history.  A program that never returns is \<open>None\<close>.

  The second half is about waiting.  The programs poll a service in loops without a bound;
  \<open>pollP\<close> is such a loop, and the locale \<open>poller\<close> shows once when one returns and what.
\<close>

subsection \<open>Calls, services and programs\<close>

record call =
  c_client :: "string list"
  c_method :: string
  c_args :: "(string \<times> pobj) list"

text \<open>The clock counts microseconds, the resolution of \<open>datetime\<close>.\<close>

record world =
  answer :: "call list \<Rightarrow> call \<Rightarrow> pobj res"
  clock :: "call list \<Rightarrow> int"

text \<open>A procedure on any state, and the programs whose state is the history of calls.\<close>

type_synonym ('s, 'a) proc = "'s \<Rightarrow> ('a res \<times> 's) option"

type_synonym 'a prog = "(call list, 'a) proc"

definition mk_call :: "string list \<Rightarrow> string \<Rightarrow> (string \<times> pobj) list \<Rightarrow> call" where
  "mk_call client method params = \<lparr>c_client = client, c_method = method, c_args = params\<rparr>"

definition liftP :: "'a res \<Rightarrow> ('s, 'a) proc" where
  "liftP r h = Some (r, h)"

definition retP :: "'a \<Rightarrow> ('s, 'a) proc" where
  "retP x h = Some (Inr x, h)"

definition raiseP :: "py_err \<Rightarrow> ('s, 'a) proc" where
  "raiseP e h = Some (Inl e, h)"

definition ask :: "world \<Rightarrow> call \<Rightarrow> pobj prog" where
  "ask w c h = Some (answer w h c, h @ [c])"

definition sleep_call :: "int \<Rightarrow> call" where
  "sleep_call seconds = mk_call [''time''] ''sleep'' [(''secs'', PInt seconds)]"

definition sleepP :: "int \<Rightarrow> unit prog" where
  "sleepP seconds h = Some (Inr (), h @ [sleep_call seconds])"

definition now_call :: call where
  "now_call = mk_call [''datetime''] ''now'' []"

definition nowP :: "world \<Rightarrow> int prog" where
  "nowP w h = Some (Inr (clock w h), h @ [now_call])"

definition bindP :: "('s, 'a) proc \<Rightarrow> ('a \<Rightarrow> ('s, 'b) proc) \<Rightarrow> ('s, 'b) proc" where
  "bindP m f h = Option.bind (m h) (\<lambda>(r, h').
     case r of Inl e \<Rightarrow> Some (Inl e, h') | Inr x \<Rightarrow> f x h')"

text \<open>\<open>try: m except: handler\<close>\<close>

definition catchP :: "('s, 'a) proc \<Rightarrow> (py_err \<Rightarrow> ('s, 'a) proc) \<Rightarrow> ('s, 'a) proc" where
  "catchP m handler h = Option.bind (m h) (\<lambda>(r, h').
     case r of Inl e \<Rightarrow> handler e h' | Inr x \<Rightarrow> Some (Inr x, h'))"

primrec mapP :: "('a \<Rightarrow> ('s, 'b) proc) \<Rightarrow> 'a list \<Rightarrow> ('s, 'b list) proc" where
  "mapP f [] = retP []"
| "mapP f (x # xs) = bindP (f x) (\<lambda>y. bindP (mapP f xs) (\<lambda>ys. retP (y # ys)))"

primrec foldP :: "('a \<Rightarrow> 'b \<Rightarrow> ('s, 'b) proc) \<Rightarrow> 'a list \<Rightarrow> 'b \<Rightarrow> ('s, 'b) proc" where
  "foldP f [] s = retP s"
| "foldP f (x # xs) s = bindP (f x s) (foldP f xs)"

definition forP :: "('a \<Rightarrow> ('s, unit) proc) \<Rightarrow> 'a list \<Rightarrow> ('s, unit) proc" where
  "forP f xs = foldP (\<lambda>x _. f x) xs ()"

lemma mk_call_sel [simp]:
  "c_client (mk_call cl m ps) = cl" "c_method (mk_call cl m ps) = m" "c_args (mk_call cl m ps) = ps"
  by (simp_all add: mk_call_def)

lemma mk_call_inject [simp]:
  "mk_call cl m ps = mk_call cl' m' ps' \<longleftrightarrow> cl = cl' \<and> m = m' \<and> ps = ps'"
  by (auto simp: mk_call_def)

lemma system_call_methods [simp]:
  "c_method (sleep_call n) = ''sleep''" "c_method now_call = ''now''"
  by (simp_all add: sleep_call_def now_call_def)

subsection \<open>Reading an answer\<close>

text \<open>
  \<open>v[k]\<close>, \<open>v[i]\<close> and \<open>v.get(k)\<close> on what a service answered, and the values of a type that the code
  relies on where it puts an answer into a typed field.
\<close>

fun item :: "string \<Rightarrow> pobj \<Rightarrow> pobj res" where
  "item k (PDict d) = pget k d"
| "item k v = Inl (TypeError k)"

fun elem :: "nat \<Rightarrow> pobj \<Rightarrow> pobj res" where
  "elem i (PList xs) = (if i < length xs then Inr (xs ! i) else Inl IndexError)"
| "elem i v = Inl (TypeError ''indices'')"

fun dget :: "string \<Rightarrow> pobj \<Rightarrow> pobj res" where
  "dget k (PDict d) = Inr (case map_of d k of None \<Rightarrow> PNone | Some v \<Rightarrow> v)"
| "dget k v = Inl (AttributeError ''get'')"

fun as_str :: "pobj \<Rightarrow> string res" where
  "as_str (PStr s) = Inr s"
| "as_str v = Inl (TypeError ''str'')"

fun as_int :: "pobj \<Rightarrow> int res" where
  "as_int (PInt i) = Inr i"
| "as_int v = Inl (TypeError ''int'')"

fun as_list :: "pobj \<Rightarrow> pobj list res" where
  "as_list (PList xs) = Inr xs"
| "as_list v = Inl (TypeError ''not iterable'')"

definition item_str :: "string \<Rightarrow> pobj \<Rightarrow> string res" where
  "item_str k v = bindR (item k v) as_str"

subsection \<open>Inversion rules\<close>

named_theorems prog_simps \<open>what it means that a program returns\<close>

lemma retP_iff [prog_simps]: "retP x h = Some (r, h') \<longleftrightarrow> r = Inr x \<and> h' = h"
  by (auto simp: retP_def)

lemma raiseP_iff [prog_simps]: "raiseP e h = Some (r, h') \<longleftrightarrow> r = Inl e \<and> h' = h"
  by (auto simp: raiseP_def)

lemma liftP_iff [prog_simps]: "liftP x h = Some (r, h') \<longleftrightarrow> x = r \<and> h' = h"
  by (auto simp: liftP_def)

lemma ask_iff [prog_simps]: "ask w c h = Some (r, h') \<longleftrightarrow> answer w h c = r \<and> h' = h @ [c]"
  by (auto simp: ask_def)

lemma sleepP_iff [prog_simps]:
  "sleepP n h = Some (r, h') \<longleftrightarrow> r = Inr () \<and> h' = h @ [sleep_call n]"
  by (auto simp: sleepP_def)

lemma nowP_iff [prog_simps]: "nowP w h = Some (r, h') \<longleftrightarrow> r = Inr (clock w h) \<and> h' = h @ [now_call]"
  by (auto simp: nowP_def)

lemma bindP_Inr_iff [prog_simps]:
  "bindP m f h = Some (Inr y, h'') \<longleftrightarrow> (\<exists>x h'. m h = Some (Inr x, h') \<and> f x h' = Some (Inr y, h''))"
  unfolding bindP_def by (cases "m h"; cases "fst (the (m h))") (auto simp: split_beta)

lemma bindP_Inl_iff [prog_simps]:
  "bindP m f h = Some (Inl e, h'') \<longleftrightarrow>
     m h = Some (Inl e, h'') \<or> (\<exists>x h'. m h = Some (Inr x, h') \<and> f x h' = Some (Inl e, h''))"
  unfolding bindP_def by (cases "m h"; cases "fst (the (m h))") (auto simp: split_beta)

lemma catchP_Inr_iff [prog_simps]:
  "catchP m g h = Some (Inr y, h'') \<longleftrightarrow>
     m h = Some (Inr y, h'') \<or> (\<exists>e h'. m h = Some (Inl e, h') \<and> g e h' = Some (Inr y, h''))"
  unfolding catchP_def by (cases "m h"; cases "fst (the (m h))") (auto simp: split_beta)

lemma catchP_Inl_iff [prog_simps]:
  "catchP m g h = Some (Inl e', h'') \<longleftrightarrow> (\<exists>e h'. m h = Some (Inl e, h') \<and> g e h' = Some (Inl e', h''))"
  unfolding catchP_def by (cases "m h"; cases "fst (the (m h))") (auto simp: split_beta)

text \<open>Running a program forwards.\<close>

named_theorems run_simps \<open>evaluation of programs\<close>

lemma bindP_run [run_simps]:
  "m h = Some (Inr x, h') \<Longrightarrow> bindP m f h = f x h'"
  "m h = Some (Inl e, h') \<Longrightarrow> bindP m f h = Some (Inl e, h')"
  "m h = None \<Longrightarrow> bindP m f h = None"
  by (simp_all add: bindP_def)

lemma bindP_basic [run_simps]:
  "bindP (retP x) f h = f x h"
  "bindP (raiseP e) f h = Some (Inl e, h)"
  "bindP (sleepP n) g h = g () (h @ [sleep_call n])"
  "bindP (nowP w) k h = k (clock w h) (h @ [now_call])"
  by (simp_all add: bindP_def retP_def raiseP_def sleepP_def nowP_def)

lemma bindP_lift [run_simps]:
  "bindP (liftP (Inr x)) f h = f x h"
  "bindP (liftP (Inl e)) f h = Some (Inl e, h)"
  by (simp_all add: bindP_def liftP_def)

lemma bindP_ask:
  "bindP (ask w c) f h =
     (case answer w h c of Inl e \<Rightarrow> Some (Inl e, h @ [c]) | Inr x \<Rightarrow> f x (h @ [c]))"
  by (simp add: bindP_def ask_def)

lemma bindP_assoc: "bindP (bindP m f) g = bindP m (\<lambda>x. bindP (f x) g)"
  by (rule ext) (auto simp: bindP_def split: Option.bind_splits sum.splits)

text \<open>
  A loop whose bodies each make a known sequence of calls makes those sequences one after the other.
\<close>

lemma mapP_trace:
  assumes "mapP f xs h = Some (Inr ys, h')"
    and "\<And>x y g g'. x \<in> set xs \<Longrightarrow> f x g = Some (Inr y, g') \<Longrightarrow> g' = g @ t x y"
  shows "h' = h @ concat (map2 t xs ys) \<and> length ys = length xs"
  using assms
proof (induction xs arbitrary: h ys)
  case Nil
  then show ?case by (simp add: prog_simps)
next
  case (Cons x xs)
  from Cons.prems(1) obtain y zs g where
    y: "f x h = Some (Inr y, g)" and zs: "mapP f xs g = Some (Inr zs, h')" and ys: "ys = y # zs"
    by (auto simp: prog_simps)
  have "g = h @ t x y" using Cons.prems(2) y by simp
  moreover have "h' = g @ concat (map2 t xs zs) \<and> length zs = length xs"
    using Cons.IH [OF zs] Cons.prems(2) by simp
  ultimately show ?case using ys by simp
qed

lemma concat_map2_const: "length xs = length ys \<Longrightarrow> concat (map2 (\<lambda>x y. [f x]) xs ys) = map f xs"
  by (induction xs ys rule: list_induct2) auto

lemma list_all2_fst: "list_all2 (\<lambda>x y. fst y = x) xs ys \<Longrightarrow> map fst ys = xs"
  by (induction rule: list_all2_induct) auto

lemma mapP_results:
  assumes "mapP f xs h = Some (Inr ys, h')"
  shows "list_all2 (\<lambda>x y. \<exists>g g'. f x g = Some (Inr y, g')) xs ys"
  using assms
proof (induction xs arbitrary: h ys)
  case Nil
  then show ?case by (simp add: prog_simps)
next
  case (Cons a xs)
  from Cons.prems obtain y zs g where
    "f a h = Some (Inr y, g)" "mapP f xs g = Some (Inr zs, h')" "ys = y # zs"
    by (auto simp: prog_simps)
  then show ?case using Cons.IH [of g zs] by auto
qed

lemma forP_Nil [simp]: "forP f [] = retP ()"
  by (simp add: forP_def)

lemma forP_Cons [simp]: "forP f (x # xs) = bindP (f x) (\<lambda>_. forP f xs)"
  by (simp add: forP_def)

lemma forP_trace:
  assumes "forP f xs h = Some (Inr (), h')"
    and "\<And>x g g'. x \<in> set xs \<Longrightarrow> f x g = Some (Inr (), g') \<Longrightarrow> g' = g @ t x"
  shows "h' = h @ concat (map t xs)"
  using assms
proof (induction xs arbitrary: h)
  case Nil
  then show ?case by (simp add: prog_simps)
next
  case (Cons x xs)
  from Cons.prems(1) obtain g where "f x h = Some (Inr (), g)" "forP f xs g = Some (Inr (), h')"
    by (auto simp: prog_simps)
  then show ?case using Cons.IH [of g] Cons.prems(2) by simp
qed

text \<open>A call that was made when \<open>P\<close> held of the calls before it.\<close>

definition seen :: "call \<Rightarrow> (call list \<Rightarrow> bool) \<Rightarrow> call list \<Rightarrow> bool" where
  "seen c P h \<longleftrightarrow> (\<exists>us vs. h = us @ c # vs \<and> P us)"

lemma seenI: "h = us @ c # vs \<Longrightarrow> P us \<Longrightarrow> seen c P h"
  by (auto simp: seen_def)

lemma seen_append: "seen c P h \<Longrightarrow> seen c P (h @ cs)"
  by (fastforce simp: seen_def)

lemma seen_snoc: "seen c P (h @ [d]) \<longleftrightarrow> seen c P h \<or> c = d \<and> P h"
proof
  assume "seen c P (h @ [d])"
  then obtain us vs where "h @ [d] = us @ c # vs" "P us" by (auto simp: seen_def)
  then show "seen c P h \<or> c = d \<and> P h"
    by (cases vs rule: rev_cases) (auto simp: seen_def)
next
  assume "seen c P h \<or> c = d \<and> P h"
  then show "seen c P (h @ [d])" by (auto simp: seen_append intro: seenI [of _ h _ "[]"])
qed

text \<open>
  What a program appends to the history: \<open>guarded Q p h\<close> says that \<open>p\<close>, run after \<open>h\<close>, only makes calls
  that \<open>Q\<close> allows after the calls before them, whatever it returns or raises.
\<close>

primrec ok_calls :: "(call list \<Rightarrow> call \<Rightarrow> bool) \<Rightarrow> call list \<Rightarrow> call list \<Rightarrow> bool" where
  "ok_calls Q h [] = True"
| "ok_calls Q h (c # cs) = (Q h c \<and> ok_calls Q (h @ [c]) cs)"

lemma ok_calls_append: "ok_calls Q h (cs @ ds) \<longleftrightarrow> ok_calls Q h cs \<and> ok_calls Q (h @ cs) ds"
  by (induction cs arbitrary: h) auto

lemma ok_calls_plain: "ok_calls (\<lambda>_. P) h cs \<longleftrightarrow> list_all P cs"
  by (induction cs arbitrary: h) auto

lemma ok_calls_split: "ok_calls Q h (us @ c # vs) \<Longrightarrow> Q (h @ us) c"
  by (simp add: ok_calls_append)

definition guarded :: "(call list \<Rightarrow> call \<Rightarrow> bool) \<Rightarrow> 'a prog \<Rightarrow> call list \<Rightarrow> bool" where
  "guarded Q p h \<longleftrightarrow> (\<forall>r h'. p h = Some (r, h') \<longrightarrow> (\<exists>cs. h' = h @ cs \<and> ok_calls Q h cs))"

named_theorems guarded_intros \<open>programs that only make allowed calls\<close>

lemma guardedI: "(\<And>r h'. p h = Some (r, h') \<Longrightarrow> \<exists>cs. h' = h @ cs \<and> ok_calls Q h cs) \<Longrightarrow> guarded Q p h"
  by (simp add: guarded_def)

lemma guardedD: "guarded Q p h \<Longrightarrow> p h = Some (r, h') \<Longrightarrow> \<exists>cs. h' = h @ cs \<and> ok_calls Q h cs"
  by (simp add: guarded_def)

lemma guarded_basic [guarded_intros]:
  "guarded Q (retP x) h" "guarded Q (raiseP e) h" "guarded Q (liftP r) h"
  "Q h c \<Longrightarrow> guarded Q (ask w c) h"
  "Q h (sleep_call n) \<Longrightarrow> guarded Q (sleepP n) h"
  "Q h now_call \<Longrightarrow> guarded Q (nowP w) h"
  by (simp_all add: guarded_def prog_simps)

lemma guarded_bind [guarded_intros]:
  assumes "guarded Q m h" "\<And>x h'. m h = Some (Inr x, h') \<Longrightarrow> guarded Q (f x) h'"
  shows "guarded Q (bindP m f) h"
proof (rule guardedI)
  fix r h'' assume a: "bindP m f h = Some (r, h'')"
  show "\<exists>cs. h'' = h @ cs \<and> ok_calls Q h cs"
  proof (cases "m h")
    case None
    with a show ?thesis by (simp add: bindP_def)
  next
    case (Some p)
    obtain q h' where p: "p = (q, h')" by (cases p)
    with Some obtain cs where cs: "h' = h @ cs" "ok_calls Q h cs" using guardedD [OF assms(1)] by blast
    show ?thesis
    proof (cases q)
      case (Inl e)
      with a Some p cs show ?thesis by (auto simp: bindP_def)
    next
      case (Inr x)
      with a Some p have "f x h' = Some (r, h'')" by (simp add: bindP_def)
      moreover have "guarded Q (f x) h'" using assms(2) Some p Inr by simp
      ultimately obtain ds where "h'' = h' @ ds" "ok_calls Q h' ds" using guardedD by blast
      then show ?thesis using cs by (auto simp: ok_calls_append)
    qed
  qed
qed

lemma guarded_catch [guarded_intros]:
  assumes "guarded Q m h" "\<And>e h'. m h = Some (Inl e, h') \<Longrightarrow> guarded Q (g e) h'"
  shows "guarded Q (catchP m g) h"
proof (rule guardedI)
  fix r h'' assume a: "catchP m g h = Some (r, h'')"
  show "\<exists>cs. h'' = h @ cs \<and> ok_calls Q h cs"
  proof (cases "m h")
    case None
    with a show ?thesis by (simp add: catchP_def)
  next
    case (Some p)
    obtain q h' where p: "p = (q, h')" by (cases p)
    with Some obtain cs where cs: "h' = h @ cs" "ok_calls Q h cs" using guardedD [OF assms(1)] by blast
    show ?thesis
    proof (cases q)
      case (Inr x)
      with a Some p cs show ?thesis by (auto simp: catchP_def)
    next
      case (Inl e)
      with a Some p have "g e h' = Some (r, h'')" by (simp add: catchP_def)
      moreover have "guarded Q (g e) h'" using assms(2) Some p Inl by simp
      ultimately obtain ds where "h'' = h' @ ds" "ok_calls Q h' ds" using guardedD by blast
      then show ?thesis using cs by (auto simp: ok_calls_append)
    qed
  qed
qed

lemma guarded_if [guarded_intros]:
  "(b \<Longrightarrow> guarded Q p h) \<Longrightarrow> (\<not> b \<Longrightarrow> guarded Q q h) \<Longrightarrow> guarded Q (if b then p else q) h"
  by simp

lemma guarded_option [guarded_intros]:
  "(x = None \<Longrightarrow> guarded Q p h) \<Longrightarrow> (\<And>y. x = Some y \<Longrightarrow> guarded Q (q y) h) \<Longrightarrow>
     guarded Q (case x of None \<Rightarrow> p | Some y \<Rightarrow> q y) h"
  by (cases x) simp_all

lemma guarded_mapP [guarded_intros]:
  assumes "\<And>x h. x \<in> set xs \<Longrightarrow> guarded Q (f x) h"
  shows "guarded Q (mapP f xs) h"
  using assms by (induction xs arbitrary: h) (auto intro!: guarded_intros)

lemma guarded_foldP [guarded_intros]:
  assumes "\<And>x s h. x \<in> set xs \<Longrightarrow> guarded Q (f x s) h"
  shows "guarded Q (foldP f xs s) h"
  using assms by (induction xs arbitrary: h s) (auto intro!: guarded_intros)

text \<open>A loop whose calls are allowed as long as a fact holds that calls do not destroy.\<close>

lemma guarded_forP:
  assumes "\<And>x h. x \<in> set xs \<Longrightarrow> I h \<Longrightarrow> guarded Q (f x) h" "I h" "\<And>h cs. I h \<Longrightarrow> I (h @ cs)"
  shows "guarded Q (forP f xs) h"
  using assms
proof (induction xs arbitrary: h)
  case Nil
  then show ?case by (simp add: guarded_intros)
next
  case (Cons x xs)
  have fx: "guarded Q (f x) h" using Cons.prems by simp
  show ?case unfolding forP_Cons
  proof (rule guarded_bind [OF fx])
    fix u g assume "f x h = Some (Inr u, g)"
    then obtain cs where "g = h @ cs" using guardedD [OF fx] by blast
    then have "I g" using Cons.prems by simp
    then show "guarded Q (forP f xs) g" using Cons by simp
  qed
qed

lemma guarded_weaken: "guarded Q p h \<Longrightarrow> (\<And>h c. Q h c \<Longrightarrow> R h c) \<Longrightarrow> guarded R p h"
proof (rule guardedI)
  fix r h'
  assume p: "guarded Q p h" "p h = Some (r, h')" and QR: "\<And>h c. Q h c \<Longrightarrow> R h c"
  have "ok_calls R g cs" if "ok_calls Q g cs" for g cs
    using that QR by (induction cs arbitrary: g) auto
  then show "\<exists>cs. h' = h @ cs \<and> ok_calls R h cs" using guardedD [OF p] by blast
qed

text \<open>A program that makes any calls only appends to the history.\<close>

abbreviation grows :: "'a prog \<Rightarrow> call list \<Rightarrow> bool" where
  "grows p h \<equiv> guarded (\<lambda>_ _. True) p h"

lemma growsD: "grows p h \<Longrightarrow> p h = Some (r, h') \<Longrightarrow> \<exists>cs. h' = h @ cs"
  using guardedD by blast

subsection \<open>Polling\<close>

text \<open>
  A loop that looks at a service until the look is decisive: one round returns \<open>None\<close> to go on.
\<close>

partial_function (option) poll_aux :: "'a option prog \<Rightarrow> call list \<Rightarrow> ('a res \<times> call list) option" where
  "poll_aux step h = Option.bind (step h) (\<lambda>(r, h').
     case r of
       Inl e \<Rightarrow> Some (Inl e, h')
     | Inr (Some x) \<Rightarrow> Some (Inr x, h')
     | Inr None \<Rightarrow> poll_aux step h')"

definition pollP :: "'a option prog \<Rightarrow> 'a prog" where
  "pollP step h = poll_aux step h"

lemma pollP_unfold [code]:
  "pollP step h = Option.bind (step h) (\<lambda>(r, h').
     case r of
       Inl e \<Rightarrow> Some (Inl e, h')
     | Inr (Some x) \<Rightarrow> Some (Inr x, h')
     | Inr None \<Rightarrow> pollP step h')"
  unfolding pollP_def by (subst poll_aux.simps) (auto cong: option.case_cong)

lemma pollP_steps:
  "step h = Some (Inr None, h') \<Longrightarrow> pollP step h = pollP step h'"
  "step h = Some (Inr (Some x), h') \<Longrightarrow> pollP step h = Some (Inr x, h')"
  "step h = Some (Inl e, h') \<Longrightarrow> pollP step h = Some (Inl e, h')"
  by (simp_all add: pollP_unfold [of step h])

lemma pollP_induct_aux:
  assumes "poll_aux step h = Some p"
    and "\<And>h x h'. step h = Some (Inr (Some x), h') \<Longrightarrow> P h (Inr x) h'"
    and "\<And>h e h'. step h = Some (Inl e, h') \<Longrightarrow> P h (Inl e) h'"
    and "\<And>h g r h'. step h = Some (Inr None, g) \<Longrightarrow> P g r h' \<Longrightarrow> P h r h'"
  shows "P h (fst p) (snd p)"
  using assms
proof (induction step h p rule: poll_aux.raw_induct [rotated, consumes 1, case_names step])
  case (step poll s h p)
  from step(2) obtain q g where q: "s h = Some (q, g)"
    by (auto simp: bind_eq_Some_conv)
  show ?case
  proof (cases q)
    case (Inl e)
    then show ?thesis using step(2) q step.prems(2) by auto
  next
    case (Inr look)
    show ?thesis
    proof (cases look)
      case None
      then have "poll s g = Some p" using step(2) q Inr by simp
      then have "P g (fst p) (snd p)"
        by (rule step.IH [OF _ step.prems])
      moreover have "s h = Some (Inr None, g)" using q Inr None by simp
      ultimately show ?thesis by (rule step.prems(3) [rotated])
    next
      case (Some x)
      then show ?thesis using step(2) q step.prems(1) Inr by auto
    qed
  qed
qed

lemma pollP_induct [consumes 1, case_names decided failed again]:
  assumes "pollP step h = Some (r, h')"
    and "\<And>h x h'. step h = Some (Inr (Some x), h') \<Longrightarrow> P h (Inr x) h'"
    and "\<And>h e h'. step h = Some (Inl e, h') \<Longrightarrow> P h (Inl e) h'"
    and "\<And>h g r h'. step h = Some (Inr None, g) \<Longrightarrow> P g r h' \<Longrightarrow> P h r h'"
  shows "P h r h'"
  using pollP_induct_aux [of step h "(r, h')" P] assms by (simp add: pollP_def)

lemma guarded_poll [guarded_intros]:
  assumes "\<And>h. guarded Q step h"
  shows "guarded Q (pollP step) h"
proof (rule guardedI)
  fix r h' assume "pollP step h = Some (r, h')"
  then show "\<exists>cs. h' = h @ cs \<and> ok_calls Q h cs"
  proof (induction rule: pollP_induct)
    case (again h g r h')
    from guardedD [OF assms again(1)] obtain cs where "g = h @ cs" "ok_calls Q h cs" by blast
    moreover from again(2) obtain ds where "h' = g @ ds" "ok_calls Q g ds" by blast
    ultimately show ?case by (auto simp: ok_calls_append)
  qed (use guardedD [OF assms] in blast)+
qed

text \<open>
  A poller: the calls of a round that is not decisive are always the same, and the history before
  the round decides its verdict.
\<close>

definition rounds :: "call list \<Rightarrow> nat \<Rightarrow> call list" where
  "rounds cs n = concat (replicate n cs)"

lemma rounds_0 [simp]: "rounds cs 0 = []"
  by (simp add: rounds_def)

lemma rounds_Suc: "rounds cs (Suc n) = cs @ rounds cs n"
  by (simp add: rounds_def)

locale poller =
  fixes step :: "'a option prog" and round :: "call list" and verdict :: "call list \<Rightarrow> 'a option res"
  assumes undecided: "verdict h = Inr None \<Longrightarrow> step h = Some (Inr None, h @ round)"
    and decided: "verdict h \<noteq> Inr None \<Longrightarrow> \<exists>h'. step h = Some (verdict h, h')"
begin

lemma again: "verdict h = Inr None \<Longrightarrow> pollP step h = pollP step (h @ round)"
  by (simp add: pollP_steps undecided)

lemma skip: "\<forall>m < n. verdict (h @ rounds round m) = Inr None \<Longrightarrow>
    pollP step h = pollP step (h @ rounds round n)"
proof (induction n arbitrary: h)
  case 0
  then show ?case by simp
next
  case (Suc n)
  from Suc.prems have "verdict h = Inr None" by (metis append_Nil2 rounds_0 zero_less_Suc)
  then have "pollP step h = pollP step (h @ round)" by (rule again)
  moreover have "\<forall>m < n. verdict ((h @ round) @ rounds round m) = Inr None"
    using Suc.prems by (metis Suc_less_eq append_assoc rounds_Suc)
  ultimately show ?case using Suc.IH [of "h @ round"] by (simp add: rounds_Suc)
qed

lemma first_verdict:
  assumes "\<forall>m < n. verdict (h @ rounds round m) = Inr None" "verdict (h @ rounds round n) = Inr (Some x)"
  shows "\<exists>h'. pollP step h = Some (Inr x, h')"
  using skip [OF assms(1)] decided [of "h @ rounds round n"] assms(2) by (auto simp: pollP_steps)

lemma first_error:
  assumes "\<forall>m < n. verdict (h @ rounds round m) = Inr None" "verdict (h @ rounds round n) = Inl e"
  shows "\<exists>h'. pollP step h = Some (Inl e, h')"
  using skip [OF assms(1)] decided [of "h @ rounds round n"] assms(2) by (auto simp: pollP_steps)

lemma round_cases:
  assumes "step h = Some (r, h')"
  shows "verdict h = r"
proof (cases "verdict h = Inr None")
  case True
  then show ?thesis using undecided assms by simp
next
  case False
  then show ?thesis using decided assms by fastforce
qed

lemma returned:
  assumes "pollP step h = Some (r, h')"
  shows "\<exists>n. (\<forall>m < n. verdict (h @ rounds round m) = Inr None) \<and>
     verdict (h @ rounds round n) = map_sum id Some r"
  using assms
proof (induction rule: pollP_induct)
  case (decided h x h')
  then show ?case using round_cases by (intro exI [of _ 0]) simp
next
  case (failed h e h')
  then show ?case using round_cases by (intro exI [of _ 0]) simp
next
  case (again h g r h')
  have v: "verdict h = Inr None" by (rule round_cases [OF again(1)])
  then have g: "g = h @ round" using undecided again(1) by simp
  from again(2) obtain n where n: "\<forall>m < n. verdict (g @ rounds round m) = Inr None"
    "verdict (g @ rounds round n) = map_sum id Some r" by blast
  have "verdict (h @ rounds round m) = Inr None" if "m < Suc n" for m
    using that v n(1) g by (cases m) (simp_all add: rounds_Suc)
  moreover have "verdict (h @ rounds round (Suc n)) = map_sum id Some r"
    using n(2) g by (simp add: rounds_Suc)
  ultimately show ?case by blast
qed

lemma returns_iff:
  "(\<exists>r. pollP step h = Some r) \<longleftrightarrow> (\<exists>n. verdict (h @ rounds round n) \<noteq> Inr None)"
proof
  assume "\<exists>r. pollP step h = Some r"
  then obtain r h' where "pollP step h = Some (r, h')" by auto
  then obtain n where "verdict (h @ rounds round n) = map_sum id Some r" using returned by blast
  then show "\<exists>n. verdict (h @ rounds round n) \<noteq> Inr None" by (cases r) (auto intro: exI [of _ n])
next
  assume ex: "\<exists>n. verdict (h @ rounds round n) \<noteq> Inr None"
  define n where "n = (LEAST n. verdict (h @ rounds round n) \<noteq> Inr None)"
  have n: "verdict (h @ rounds round n) \<noteq> Inr None"
    unfolding n_def by (rule LeastI_ex [OF ex])
  have least: "\<forall>m < n. verdict (h @ rounds round m) = Inr None"
    unfolding n_def using not_less_Least by blast
  show "\<exists>r. pollP step h = Some r"
  proof (cases "verdict (h @ rounds round n)")
    case (Inl e)
    then show ?thesis using first_error [OF least] by blast
  next
    case (Inr x)
    with n obtain y where "verdict (h @ rounds round n) = Inr (Some y)" by (cases x) auto
    then show ?thesis using first_verdict [OF least] by blast
  qed
qed

end

end
