(* ===== verification/Cicd_Cfg.thy ===== *)
theory Cicd_Cfg
  imports Calls Flavours
begin

text \<open>
  The configuration of the jobs: the data classes of \<open>ci/glci/model.py\<close> from \<open>BuildCfg\<close> to \<open>CicdCfg\<close>
  and the functions of \<open>ci/glci/util.py\<close> that read configurations and flavour sets.  The conversion
  of a dictionary to a data class is that of the library dacite, a parameter.
\<close>

record build_cfg =
  bc_aws_cfg_name :: string
  bc_aws_region :: string
  bc_s3_bucket_name :: string
  bc_gcp_bucket_name :: string
  bc_gcp_cfg_name :: string
  bc_storage_account_config_name :: string
  bc_service_principal_name :: string
  bc_plan_config_name :: string
  bc_oss_bucket_name :: string
  bc_alicloud_region :: string
  bc_alicloud_cfg_name :: string

record package_build_cfg =
  pbc_aws_cfg_name :: string
  pbc_s3_bucket_name :: string

record azure_marketplace_cfg =
  amc_offer_id :: string
  amc_publisher_id :: string
  amc_plan_id :: string

record azure_service_principal_cfg =
  asp_tenant_id :: string
  asp_client_id :: string
  asp_client_secret :: string
  asp_subscription_id :: string

record azure_storage_account_cfg =
  asa_storage_account_name :: string
  asa_container_name :: string
  asa_container_name_sig :: string
  asa_access_key :: string

record azure_publish_cfg =
  apc_offer_id :: string
  apc_publisher_id :: string
  apc_plan_id :: string
  apc_service_principal_cfg_name :: string
  apc_storage_account_cfg_name :: string
  apc_shared_gallery_cfg_name :: string
  apc_notification_emails :: "string list"

record azure_shared_gallery_cfg =
  asg_resource_group_name :: string
  asg_gallery_name :: string
  asg_location :: string
  asg_published_name :: string
  asg_description :: string
  asg_eula :: string
  asg_release_note_uri :: string
  asg_identifier_publisher :: string
  asg_identifier_offer :: string
  asg_identifier_sku :: string

record openstack_environment =
  ose_auth_url :: string
  ose_domain :: string
  ose_region :: string
  ose_project_name :: string
  ose_username :: string
  ose_password :: string

record openstack_publish_cfg =
  opc_environment_cfg_name :: string
  opc_image_properties_cfg_name :: string

record oci_publish_cfg =
  ocp_image_prefix :: string

record publish_cfg =
  pc_azure :: azure_publish_cfg
  pc_openstack :: openstack_publish_cfg
  pc_oci :: oci_publish_cfg

record notification_cfg =
  nc_email_cfg_name :: string
  nc_slack_cfg_name :: string
  nc_slack_channel :: string
  nc_branches :: "string list"

record cicd_cfg =
  cc_name :: string
  cc_build :: build_cfg
  cc_publish :: publish_cfg
  cc_notify :: notification_cfg
  cc_package_build :: "package_build_cfg option"

text \<open>
  The entries of the file are converted one after the other until the name fits: an entry before
  that cannot be converted raises, one after is never looked at.
\<close>

fun first_cfg :: "(pobj \<Rightarrow> cicd_cfg res) \<Rightarrow> string \<Rightarrow> pobj list \<Rightarrow> cicd_cfg res" where
  "first_cfg from_dict cfg_name [] = Inl (ValueError cfg_name)"
| "first_cfg from_dict cfg_name (raw # raws) =
     bindR (from_dict raw) (\<lambda>cfg.
       if cc_name cfg = cfg_name then Inr cfg else first_cfg from_dict cfg_name raws)"

definition find_cicd_cfg :: "(pobj \<Rightarrow> cicd_cfg res) \<Rightarrow> string \<Rightarrow> pobj \<Rightarrow> cicd_cfg res" where
  "find_cicd_cfg from_dict cfg_name parsed =
     bindR (item ''cicd_cfgs'' parsed) (\<lambda>raws. bindR (as_list raws) (first_cfg from_dict cfg_name))"

definition flavour_sets :: "(pobj \<Rightarrow> flavour_set res) \<Rightarrow> pobj \<Rightarrow> flavour_set list res" where
  "flavour_sets from_dict parsed =
     bindR (item ''flavour_sets'' parsed) (\<lambda>raws. bindR (as_list raws) (mapR from_dict))"

lemma first_cfg_Inr:
  "first_cfg from_dict n raws = Inr cfg \<longleftrightarrow>
     (\<exists>us raw vs. raws = us @ raw # vs \<and> from_dict raw = Inr cfg \<and> cc_name cfg = n \<and>
        (\<forall>u \<in> set us. \<exists>c. from_dict u = Inr c \<and> cc_name c \<noteq> n))"
proof (induction raws)
  case Nil
  then show ?case by simp
next
  case (Cons raw raws)
  show ?case
  proof
    assume "first_cfg from_dict n (raw # raws) = Inr cfg"
    then obtain c where c: "from_dict raw = Inr c"
      and r: "(if cc_name c = n then Inr c else first_cfg from_dict n raws) = Inr cfg"
      by (auto simp: bindR_Inr_iff)
    show "\<exists>us r vs. raw # raws = us @ r # vs \<and> from_dict r = Inr cfg \<and> cc_name cfg = n \<and>
        (\<forall>u \<in> set us. \<exists>c. from_dict u = Inr c \<and> cc_name c \<noteq> n)"
    proof (cases "cc_name c = n")
      case True
      with c r show ?thesis by (intro exI [of _ "[]"] exI [of _ raw] exI [of _ raws]) simp
    next
      case False
      with r Cons.IH obtain us r' vs where "raws = us @ r' # vs" "from_dict r' = Inr cfg"
        "cc_name cfg = n" "\<forall>u \<in> set us. \<exists>c. from_dict u = Inr c \<and> cc_name c \<noteq> n" by auto
      with c False show ?thesis by (intro exI [of _ "raw # us"] exI [of _ r'] exI [of _ vs]) simp
    qed
  next
    assume "\<exists>us r vs. raw # raws = us @ r # vs \<and> from_dict r = Inr cfg \<and> cc_name cfg = n \<and>
        (\<forall>u \<in> set us. \<exists>c. from_dict u = Inr c \<and> cc_name c \<noteq> n)"
    then obtain us r' vs where *: "raw # raws = us @ r' # vs" "from_dict r' = Inr cfg" "cc_name cfg = n"
      "\<forall>u \<in> set us. \<exists>c. from_dict u = Inr c \<and> cc_name c \<noteq> n" by blast
    show "first_cfg from_dict n (raw # raws) = Inr cfg"
    proof (cases us)
      case Nil
      with * show ?thesis by simp
    next
      case (Cons u us')
      with *(1) have "raws = us' @ r' # vs" "u = raw" by simp_all
      with * Cons Cons.IH show ?thesis by auto
    qed
  qed
qed

end
