(* ===== verification/Aws.thy ===== *)
theory Aws
  imports Cicd_Cfg Object_Store
begin

text \<open>
  Publishing on AWS: \<open>ci/glci/aws.py\<close>.  An image is imported as a snapshot, registered in the home
  region, copied to all other regions and, once all copies are available, made public.  The EC2
  client of a region is named \<open>ec2\<close> and the region; what the calls return is the answer of the world.
\<close>

subsection \<open>Single calls\<close>

definition ec2_client :: "string \<Rightarrow> string list" where
  "ec2_client region_name = [''ec2'', region_name]"

text \<open>The client of the session without a region.\<close>

definition ec2_default_client :: "string list" where
  "ec2_default_client = [''ec2'']"

definition response_ok :: "pobj \<Rightarrow> pobj res" where
  "response_ok response =
     bindR (item ''ResponseMetadata'' response) (\<lambda>resp_meta.
     bindR (item ''HTTPStatusCode'' resp_meta) (\<lambda>status_code.
       if status_code = PInt 200 then Inr response
       else bindR (item ''RequestId'' resp_meta) (\<lambda>_. Inl (RuntimeError ''rq failed''))))"

definition user_bucket :: "string \<Rightarrow> string \<Rightarrow> pobj" where
  "user_bucket s3_bucket_name image_key =
     PDict [(''UserBucket'', PDict [(''S3Bucket'', PStr s3_bucket_name), (''S3Key'', PStr image_key)]),
       (''Format'', PStr ''raw''), (''Description'', PStr ''uploaded by gardenlinux-cicd'')]"

definition import_call :: "string list \<Rightarrow> string \<times> pobj \<Rightarrow> call" where
  "import_call ec2 disk_container = mk_call ec2 ''import_snapshot''
     [(''ClientData'', PDict [(''Comment'', PStr ''uploaded by gardenlinux-cicd'')]),
      (''Description'', PStr ''uploaded by gardenlinux-cicd''), disk_container]"

definition import_snapshot_call :: "string list \<Rightarrow> string \<Rightarrow> string \<Rightarrow> call" where
  "import_snapshot_call ec2 s3_bucket_name image_key =
     import_call ec2 (''DiskContainer'', user_bucket s3_bucket_name image_key)"

definition import_snapshot :: "world \<Rightarrow> string list \<Rightarrow> string \<Rightarrow> string \<Rightarrow> string prog" where
  "import_snapshot w ec2 s3_bucket_name image_key =
     bindP (ask w (import_snapshot_call ec2 s3_bucket_name image_key)) (\<lambda>res.
       liftP (item_str ''ImportTaskId'' res))"

definition import_image :: "world \<Rightarrow> string list \<Rightarrow> string \<Rightarrow> string \<Rightarrow> string prog" where
  "import_image w ec2 s3_bucket_name image_key =
     bindP (ask w (import_call ec2 (''DiskContainers'', PList [user_bucket s3_bucket_name image_key])))
       (\<lambda>res. liftP (item_str ''ImportTaskId'' res))"

definition import_status_call :: "string list \<Rightarrow> string \<Rightarrow> call" where
  "import_status_call ec2 snapshot_task_id =
     mk_call ec2 ''describe_import_snapshot_tasks'' [(''ImportTaskIds'', PList [PStr snapshot_task_id])]"

text \<open>\<open>res[field][0]\<close>\<close>

definition first_of :: "string \<Rightarrow> pobj \<Rightarrow> pobj res" where
  "first_of field res = bindR (item field res) (elem 0)"

definition task_detail :: "string \<Rightarrow> pobj \<Rightarrow> string res" where
  "task_detail field res =
     bindR (first_of ''ImportSnapshotTasks'' res) (\<lambda>status.
     bindR (item ''SnapshotTaskDetail'' status) (item_str field))"

definition task_status :: "pobj \<Rightarrow> aws_task_status res" where
  "task_status res = bindR (task_detail ''Status'' res) aws_task_status_of"

definition snapshot_import_look :: "world \<Rightarrow> string list \<Rightarrow> string \<Rightarrow> unit option prog" where
  "snapshot_import_look w ec2 snapshot_task_id =
     bindP (ask w (import_status_call ec2 snapshot_task_id)) (\<lambda>res.
     bindP (liftP (task_status res)) (\<lambda>status.
       if status = TS_COMPLETED then retP (Some ())
       else if status = TS_DELETED then raiseP (RuntimeError ''image was rejected'')
       else bindP (sleepP 15) (\<lambda>_. retP None)))"

definition wait_for_snapshot_import :: "world \<Rightarrow> string list \<Rightarrow> string \<Rightarrow> string prog" where
  "wait_for_snapshot_import w ec2 snapshot_task_id =
     bindP (pollP (snapshot_import_look w ec2 snapshot_task_id)) (\<lambda>_.
     bindP (ask w (import_status_call ec2 snapshot_task_id)) (\<lambda>res.
       liftP (task_detail ''SnapshotId'' res)))"

definition register_image_call :: "string list \<Rightarrow> string \<Rightarrow> string \<Rightarrow> call" where
  "register_image_call ec2 snapshot_id image_name = mk_call ec2 ''register_image''
     [(''Architecture'', PStr ''x86_64''),
      (''BlockDeviceMappings'', PList [PDict [(''DeviceName'', PStr ''/dev/xvda''),
         (''Ebs'', PDict [(''DeleteOnTermination'', PBool True), (''SnapshotId'', PStr snapshot_id),
            (''VolumeType'', PStr ''gp2'')])]]),
      (''Description'', PStr ''gardenlinux''), (''EnaSupport'', PBool True), (''Name'', PStr image_name),
      (''RootDeviceName'', PStr ''/dev/xvda''), (''VirtualizationType'', PStr ''hvm'')]"

definition create_tags_call :: "string list \<Rightarrow> string \<Rightarrow> call" where
  "create_tags_call ec2 image_id = mk_call ec2 ''create_tags''
     [(''Resources'', PList [PStr image_id]),
      (''Tags'', PList [PDict [(''Key'', PStr ''sec-by-def-public-image-exception''), (''Value'', PStr ''enabled'')]])]"

definition register_image :: "world \<Rightarrow> string list \<Rightarrow> string \<Rightarrow> string \<Rightarrow> string prog" where
  "register_image w ec2 snapshot_id image_name =
     bindP (ask w (register_image_call ec2 snapshot_id image_name)) (\<lambda>result.
     bindP (liftP (item_str ''ImageId'' result)) (\<lambda>image_id.
     bindP (ask w (create_tags_call ec2 image_id)) (\<lambda>_. retP image_id)))"

definition describe_regions_call :: "string list \<Rightarrow> call" where
  "describe_regions_call ec2 = mk_call ec2 ''describe_regions'' []"

definition enumerate_region_names :: "world \<Rightarrow> string list \<Rightarrow> string list prog" where
  "enumerate_region_names w ec2 =
     bindP (ask w (describe_regions_call ec2)) (\<lambda>res.
       liftP (bindR (item ''Regions'' res) (\<lambda>regions.
         bindR (as_list regions) (mapR (item_str ''RegionName'')))))"

subsection \<open>Images\<close>

definition image_state_call :: "string list \<Rightarrow> string \<Rightarrow> call" where
  "image_state_call ec2 image_id = mk_call ec2 ''describe_images'' [(''ImageIds'', PList [PStr image_id])]"

definition read_image_state :: "pobj \<Rightarrow> image_state res" where
  "read_image_state res =
     bindR (first_of ''Images'' res) (\<lambda>details. bindR (item_str ''State'' details) image_state_of)"

definition image_state_look :: "world \<Rightarrow> string list \<Rightarrow> string \<Rightarrow> image_state \<Rightarrow> image_state option prog" where
  "image_state_look w ec2 image_id target_state =
     bindP (ask w (image_state_call ec2 image_id)) (\<lambda>res.
     bindP (liftP (read_image_state res)) (\<lambda>st.
       if st = target_state then retP (Some st)
       else if is_erroneous st then raiseP (RuntimeError image_id)
       else bindP (sleepP 15) (\<lambda>_. retP None)))"

definition wait_for_image_state :: "world \<Rightarrow> string list \<Rightarrow> string \<Rightarrow> image_state \<Rightarrow> image_state prog" where
  "wait_for_image_state w ec2 image_id target_state = pollP (image_state_look w ec2 image_id target_state)"

text \<open>\<open>region_img_map\<close>: the image of each region, a dict in the order of insertion.\<close>

definition wait_for_images :: "world \<Rightarrow> (string \<times> string) list \<Rightarrow> unit prog" where
  "wait_for_images w region_img_map =
     forP (\<lambda>(region_name, image_id).
       bindP (wait_for_image_state w (ec2_client region_name) image_id IS_AVAILABLE) (\<lambda>_. retP ()))
     region_img_map"

definition make_public_call :: "string \<times> string \<Rightarrow> call" where
  "make_public_call r = mk_call (ec2_client (fst r)) ''modify_image_attribute''
     [(''Attribute'', PStr ''launchPermission''), (''ImageId'', PStr (snd r)),
      (''LaunchPermission'', PDict [(''Add'', PList [PDict [(''Group'', PStr ''all'')]])])]"

definition set_images_public :: "world \<Rightarrow> (string \<times> string) list \<Rightarrow> unit prog" where
  "set_images_public w region_img_map =
     forP (\<lambda>r. bindP (ask w (make_public_call r)) (\<lambda>res.
       bindP (liftP (response_ok res)) (\<lambda>_. retP ()))) region_img_map"

definition copy_image_call :: "string \<Rightarrow> string \<Rightarrow> string \<Rightarrow> string \<Rightarrow> call" where
  "copy_image_call ami_image_id image_name src_region_name target_region =
     mk_call (ec2_client target_region) ''copy_image''
       [(''SourceImageId'', PStr ami_image_id), (''SourceRegion'', PStr src_region_name), (''Name'', PStr image_name)]"

definition copy_image :: "world \<Rightarrow> string \<Rightarrow> string \<Rightarrow> string \<Rightarrow> string list \<Rightarrow> (string \<times> string) list prog" where
  "copy_image w ami_image_id image_name src_region_name target_regions =
     mapP (\<lambda>target_region.
       bindP (ask w (copy_image_call ami_image_id image_name src_region_name target_region)) (\<lambda>res.
       bindP (liftP (response_ok res)) (\<lambda>_.
       bindP (liftP (item_str ''ImageId'' res)) (\<lambda>image_id. retP (target_region, image_id)))))
     (filter (\<lambda>target_region. target_region \<noteq> src_region_name) target_regions)"

subsection \<open>Removing images\<close>

definition find_image_call :: "string \<Rightarrow> string \<Rightarrow> call" where
  "find_image_call image_name region_name = mk_call (ec2_client region_name) ''describe_images''
     [(''Filters'', PList [PDict [(''Name'', PStr ''name''), (''Values'', PList [PStr image_name])]])]"

text \<open>One step of the generator \<open>image_ids_by_name\<close>: the image of a region, if there is one.\<close>

definition image_id_by_name :: "world \<Rightarrow> string \<Rightarrow> string \<Rightarrow> string option prog" where
  "image_id_by_name w image_name region_name =
     bindP (ask w (find_image_call image_name region_name)) (\<lambda>res.
     bindP (liftP (bindR (item ''Images'' res) as_list)) (\<lambda>images.
       if length images < 1 then retP None
       else if length images > 1 then raiseP (ValueError ''found more than one image'')
       else liftP (bindR (item_str ''ImageId'' (images ! 0)) (\<lambda>image_id. Inr (Some image_id)))))"

definition deregister_call :: "string \<times> string \<Rightarrow> call" where
  "deregister_call r = mk_call (ec2_client (fst r)) ''deregister_image'' [(''ImageId'', PStr (snd r))]"

text \<open>
  The tasks of the loop in \<open>unregister_images_by_name\<close> are closures over its variables
  \<open>region_name\<close> and \<open>image_id\<close>: a task that runs reads what the loop has assigned last.  So tasks
  that are pending are told apart by nothing, and what the pool does is how many of them it runs
  before the loop goes on to the next region (\<open>sched\<close>, by the number of the region).  The loop waits
  for the rest at its end; an exception of a task stays in its future, which nobody reads.
\<close>

primrec run_pending :: "world \<Rightarrow> (string \<times> string) option \<Rightarrow> nat \<Rightarrow> unit prog" where
  "run_pending w current 0 = retP ()"
| "run_pending w current (Suc k) =
     (case current of
        None \<Rightarrow> retP ()
      | Some r \<Rightarrow> bindP (catchP (bindP (ask w (deregister_call r)) (\<lambda>_. retP ())) (\<lambda>_. retP ()))
          (\<lambda>_. run_pending w current k))"

fun unregister_loop :: "world \<Rightarrow> string \<Rightarrow> (nat \<Rightarrow> nat) \<Rightarrow> nat \<Rightarrow> (string \<times> string) option \<Rightarrow> nat \<Rightarrow>
    string list \<Rightarrow> unit prog" where
  "unregister_loop w image_name sched i current pending [] = run_pending w current pending"
| "unregister_loop w image_name sched i current pending (region_name # region_names) =
     bindP (run_pending w current (min (sched i) pending)) (\<lambda>_.
     bindP (catchP (image_id_by_name w image_name region_name)
         (\<lambda>e. bindP (run_pending w current (pending - sched i)) (\<lambda>_. raiseP e))) (\<lambda>found.
       case found of
         None \<Rightarrow> unregister_loop w image_name sched (Suc i) current (pending - sched i) region_names
       | Some image_id \<Rightarrow> unregister_loop w image_name sched (Suc i) (Some (region_name, image_id))
           (Suc (pending - sched i)) region_names))"

definition unregister_images_by_name :: "world \<Rightarrow> string \<Rightarrow> (nat \<Rightarrow> nat) \<Rightarrow> string list \<Rightarrow> unit prog" where
  "unregister_images_by_name w image_name sched region_names =
     bindP (if region_names = [] then enumerate_region_names w ec2_default_client else retP region_names)
       (\<lambda>region_names.
          if region_names = [] then raiseP (ValueError ''max_workers must be greater than 0'')
          else unregister_loop w image_name sched 0 None 0 region_names)"

subsection \<open>Publishing\<close>

definition target_image_name_for_release ::
  "feature_descriptor list \<Rightarrow> nat \<Rightarrow> online_release_manifest \<Rightarrow> string res" where
  "target_image_name_for_release fs n release =
     bindR (canonical_release_manifest_key_suffix fs n (manifest_identifier release))
       (\<lambda>sfx. Inr (''gardenlinux-'' @ sfx))"

definition copy_to_regions :: "world \<Rightarrow> (nat \<Rightarrow> nat) \<Rightarrow> string \<Rightarrow> string \<Rightarrow> string \<Rightarrow> string list \<Rightarrow>
    (string \<times> string) list prog" where
  "copy_to_regions w sched ami_id image_name home region_names =
     catchP (bindP (copy_image w ami_id image_name home region_names) (\<lambda>copies. retP (dict_of copies)))
       (\<lambda>e. bindP (unregister_images_by_name w image_name sched region_names) (\<lambda>_. raiseP e))"

definition published_aws :: "string \<Rightarrow> (string \<times> string) list \<Rightarrow> online_release_manifest \<Rightarrow> online_release_manifest" where
  "published_aws image_name image_map release = release\<lparr>rm_published_image_metadata :=
     Some (AwsPublishedImageSet (map (\<lambda>(region_name, ami_id).
       \<lparr>awi_ami_id = ami_id, awi_aws_region_id = region_name, awi_image_name = image_name\<rparr>) image_map))\<rparr>"

definition upload_and_register_gardenlinux_image :: "feature_descriptor list \<Rightarrow> nat \<Rightarrow> world \<Rightarrow>
    (nat \<Rightarrow> nat) \<Rightarrow> build_cfg \<Rightarrow> online_release_manifest \<Rightarrow> online_release_manifest prog" where
  "upload_and_register_gardenlinux_image fs n w sched cfg release =
     (let home = bc_aws_region cfg; ec2 = ec2_client home in
     bindP (liftP (target_image_name_for_release fs n release)) (\<lambda>target_image_name.
     bindP (liftP (bindR (virtual_image_artifact_for_platform ''aws'') (\<lambda>artifact.
         path_by_suffix artifact release))) (\<lambda>artifact_path.
     bindP (import_snapshot w ec2 (rf_s3_bucket_name artifact_path) (rf_s3_key artifact_path)) (\<lambda>snapshot_task_id.
     bindP (wait_for_snapshot_import w ec2 snapshot_task_id) (\<lambda>snapshot_id.
     bindP (register_image w ec2 snapshot_id target_image_name) (\<lambda>initial_ami_id.
     bindP (enumerate_region_names w ec2) (\<lambda>region_names.
     bindP (copy_to_regions w sched initial_ami_id target_image_name home region_names) (\<lambda>copies.
     (let image_map = dict_set home initial_ami_id copies in
     bindP (wait_for_images w image_map) (\<lambda>_.
     bindP (set_images_public w image_map) (\<lambda>_.
       retP (published_aws target_image_name image_map release))))))))))))"

subsection \<open>Waiting\<close>

definition snapshot_import_verdict :: "world \<Rightarrow> string list \<Rightarrow> string \<Rightarrow> call list \<Rightarrow> unit option res" where
  "snapshot_import_verdict w ec2 snapshot_task_id h =
     bindR (answer w h (import_status_call ec2 snapshot_task_id)) (\<lambda>res. bindR (task_status res) (\<lambda>st.
       if st = TS_COMPLETED then Inr (Some ())
       else if st = TS_DELETED then Inl (RuntimeError ''image was rejected'') else Inr None))"

interpretation snapshot_import: poller "snapshot_import_look w ec2 t"
  "[import_status_call ec2 t, sleep_call 15]" "snapshot_import_verdict w ec2 t" for w ec2 t
proof
  fix h
  show "snapshot_import_verdict w ec2 t h = Inr None \<Longrightarrow>
      snapshot_import_look w ec2 t h = Some (Inr None, h @ [import_status_call ec2 t, sleep_call 15])"
    by (auto simp: snapshot_import_verdict_def snapshot_import_look_def bindP_ask bindR_Inr_iff run_simps
        retP_def split: sum.splits if_splits)
  show "snapshot_import_verdict w ec2 t h \<noteq> Inr None \<Longrightarrow>
      \<exists>h'. snapshot_import_look w ec2 t h = Some (snapshot_import_verdict w ec2 t h, h')"
    by (cases "answer w h (import_status_call ec2 t)"; cases "task_status (projr (answer w h (import_status_call ec2 t)))")
      (auto simp: snapshot_import_verdict_def snapshot_import_look_def bindP_ask run_simps retP_def raiseP_def)
qed

definition image_state_verdict :: "world \<Rightarrow> string list \<Rightarrow> string \<Rightarrow> image_state \<Rightarrow> call list \<Rightarrow> image_state option res" where
  "image_state_verdict w ec2 image_id target_state h =
     bindR (answer w h (image_state_call ec2 image_id)) (\<lambda>res. bindR (read_image_state res) (\<lambda>st.
       if st = target_state then Inr (Some st)
       else if is_erroneous st then Inl (RuntimeError image_id) else Inr None))"

interpretation image_state: poller "image_state_look w ec2 i target"
  "[image_state_call ec2 i, sleep_call 15]" "image_state_verdict w ec2 i target" for w ec2 i target
proof
  fix h
  show "image_state_verdict w ec2 i target h = Inr None \<Longrightarrow>
      image_state_look w ec2 i target h = Some (Inr None, h @ [image_state_call ec2 i, sleep_call 15])"
    by (auto simp: image_state_verdict_def image_state_look_def bindP_ask bindR_Inr_iff run_simps
        retP_def split: sum.splits if_splits)
  show "image_state_verdict w ec2 i target h \<noteq> Inr None \<Longrightarrow>
      \<exists>h'. image_state_look w ec2 i target h = Some (image_state_verdict w ec2 i target h, h')"
    by (cases "answer w h (image_state_call ec2 i)"; cases "read_image_state (projr (answer w h (image_state_call ec2 i)))")
      (auto simp: image_state_verdict_def image_state_look_def bindP_ask run_simps retP_def raiseP_def)
qed

text \<open>What a look at an image tells.\<close>

definition image_seen :: "world \<Rightarrow> call list \<Rightarrow> string list \<Rightarrow> string \<Rightarrow> image_state res" where
  "image_seen w h ec2 image_id = bindR (answer w h (image_state_call ec2 image_id)) read_image_state"

definition seen_available :: "world \<Rightarrow> string \<times> string \<Rightarrow> call list \<Rightarrow> bool" where
  "seen_available w r h \<longleftrightarrow> seen (image_state_call (ec2_client (fst r)) (snd r))
     (\<lambda>us. image_seen w us (ec2_client (fst r)) (snd r) = Inr IS_AVAILABLE) h"

lemma seen_available_append: "seen_available w r h \<Longrightarrow> seen_available w r (h @ cs)"
  by (simp add: seen_available_def seen_append)

lemma wait_for_image_state_returned:
  assumes "wait_for_image_state w ec2 i target h = Some (Inr st, h')"
  shows "st = target \<and> (\<exists>us. h' = us @ [image_state_call ec2 i] \<and> image_seen w us ec2 i = Inr target)"
proof -
  have "\<forall>st. r = Inr st \<longrightarrow> st = target \<and>
      (\<exists>us. h' = us @ [image_state_call ec2 i] \<and> image_seen w us ec2 i = Inr target)"
    if "pollP (image_state_look w ec2 i target) h = Some (r, h')" for r h h'
    using that
  proof (induction rule: pollP_induct)
    case (decided h x h')
    then show ?case
      by (auto simp: image_state_look_def prog_simps image_seen_def bindR_Inr_iff split: if_splits)
  qed auto
  then show ?thesis using assms by (simp add: wait_for_image_state_def)
qed

lemma wait_for_images_returned:
  assumes "wait_for_images w m h = Some (Inr (), h')" "x \<in> set m"
  shows "seen_available w x h'"
  using assms
proof (induction m arbitrary: h)
  case Nil
  then show ?case by simp
next
  case (Cons y m)
  have grow: "grows (wait_for_images w m) g" for g
    unfolding wait_for_images_def wait_for_image_state_def image_state_look_def
    by (auto intro!: guarded_forP [where I = "\<lambda>_. True"] guarded_intros split: prod.splits)
  from Cons.prems(1) obtain st g where
    y: "wait_for_image_state w (ec2_client (fst y)) (snd y) IS_AVAILABLE h = Some (Inr st, g)"
    and m: "wait_for_images w m g = Some (Inr (), h')"
    by (auto simp: wait_for_images_def prog_simps split: prod.splits)
  show ?case
  proof (cases "x = y")
    case True
    have "seen_available w y g"
      using wait_for_image_state_returned [OF y] by (auto simp: seen_available_def seen_def)
    moreover obtain cs where "h' = g @ cs" using growsD [OF grow m] by blast
    ultimately show ?thesis using True seen_available_append [of w y g cs] by simp
  next
    case False
    then show ?thesis using Cons m by simp
  qed
qed

subsection \<open>What a run of the upload does\<close>

lemma copy_image_returned:
  assumes "copy_image w ami name home regions h = Some (Inr copies, h')"
  shows "map fst copies = filter (\<lambda>r. r \<noteq> home) regions \<and>
    h' = h @ map (copy_image_call ami name home) (filter (\<lambda>r. r \<noteq> home) regions)"
proof -
  note mapP_results [OF assms [unfolded copy_image_def]]
  then have "list_all2 (\<lambda>x y. fst y = x) (filter (\<lambda>r. r \<noteq> home) regions) copies"
    by (rule list_all2_mono) (auto simp: prog_simps)
  moreover have "h' = h @ concat (map2 (\<lambda>x y. [copy_image_call ami name home x])
      (filter (\<lambda>r. r \<noteq> home) regions) copies) \<and> length copies = length (filter (\<lambda>r. r \<noteq> home) regions)"
    by (rule mapP_trace [OF assms [unfolded copy_image_def]]) (auto simp: prog_simps)
  ultimately show ?thesis by (auto simp: concat_map2_const dest: list_all2_fst)
qed

lemma set_images_public_returned:
  assumes "set_images_public w m h = Some (Inr (), h')"
  shows "h' = h @ map make_public_call m"
proof -
  have "h' = h @ concat (map (\<lambda>x. [make_public_call x]) m)"
    by (rule forP_trace [OF assms [unfolded set_images_public_def]]) (auto simp: prog_simps)
  then show ?thesis by simp
qed

end
