(* ===== verification/Alicloud.thy ===== *)
theory Alicloud
  imports Aws
begin

text \<open>
  Publishing on Alibaba Cloud: \<open>ci/glci/alicloud.py\<close>.  The client works on one region at a time, which
  the code switches before a request (\<open>set_region_id\<close>); the switches are calls of the history, and the
  region of a request is that of the last switch before it.  Answers are the parsed JSON documents.
\<close>

subsection \<open>The client\<close>

definition acs_call :: "string \<Rightarrow> (string \<times> pobj) list \<Rightarrow> call" where
  "acs_call method params = mk_call [''acs''] method params"

definition set_region_call :: "string \<Rightarrow> call" where
  "set_region_call region = acs_call ''set_region_id'' [(''region'', PStr region)]"

text \<open>A switch only changes the client; it makes no request and cannot fail.\<close>

definition set_region_id :: "string \<Rightarrow> unit prog" where
  "set_region_id region h = Some (Inr (), h @ [set_region_call region])"

definition acs_region :: "call list \<Rightarrow> pobj option" where
  "acs_region h =
     (case rev (filter (\<lambda>c. c_client c = [''acs''] \<and> c_method c = ''set_region_id'') h) of
        [] \<Rightarrow> None | c # cs \<Rightarrow> Some (snd (hd (c_args c))))"

record image_maker =
  im_release :: online_release_manifest
  im_bucket_name :: string
  im_region :: string
  im_image_oss_key :: string
  im_image_name :: string

definition mk_image_maker :: "feature_descriptor list \<Rightarrow> nat \<Rightarrow> online_release_manifest \<Rightarrow> build_cfg \<Rightarrow>
    image_maker res" where
  "mk_image_maker fs n release cfg =
     bindR (canonical_release_manifest_key_suffix fs n (manifest_identifier release)) (\<lambda>sfx.
       Inr \<lparr>im_release = release, im_bucket_name = bc_oss_bucket_name cfg, im_region = bc_alicloud_region cfg,
            im_image_oss_key = ''gardenlinux-'' @ ri_version release @ ''.qcow2'',
            im_image_name = ''gardenlinux-'' @ sfx\<rparr>)"

definition all_statuses :: string where
  "all_statuses = py_join '','' to_availbel_str_array"

definition describe_by_name_call :: "string \<Rightarrow> call" where
  "describe_by_name_call image_name = acs_call ''DescribeImages''
     [(''ImageName'', PStr image_name), (''Status'', PStr all_statuses)]"

definition describe_by_id_call :: "string \<Rightarrow> call" where
  "describe_by_id_call image_id = acs_call ''DescribeImages''
     [(''ImageId'', PStr image_id), (''Status'', PStr all_statuses)]"

definition share_call :: "image_share_option \<Rightarrow> string \<Rightarrow> call" where
  "share_call option image_id = acs_call ''ModifyImageSharePermission''
     [(''ImageId'', PStr image_id), (''LaunchPermission'', PStr (image_share_option_value option))]"

definition delete_image_call :: "string \<Rightarrow> call" where
  "delete_image_call image_id = acs_call ''DeleteImage'' [(''ImageId'', PStr image_id)]"

text \<open>\<open>response.get(field)\<close> where a string is expected.\<close>

definition dget_str :: "string \<Rightarrow> pobj \<Rightarrow> string res" where
  "dget_str field response = bindR (dget field response) as_str"

text \<open>\<open>response.get("Images").get("Image")[0]\<close>\<close>

definition first_image :: "pobj \<Rightarrow> pobj res" where
  "first_image response =
     bindR (dget ''Images'' response) (\<lambda>images. bindR (dget ''Image'' images) (elem 0))"

subsection \<open>The methods of the image maker\<close>

definition cp_image_from_s3 :: "world \<Rightarrow> image_maker \<Rightarrow> unit prog" where
  "cp_image_from_s3 w m =
     bindP (liftP (bindR (virtual_image_artifact_for_platform ''ali'') (\<lambda>artifact.
         path_by_suffix artifact (im_release m)))) (\<lambda>artifact_path.
     bindP (ask w (mk_call [''s3''] ''download_fileobj''
         [(''Bucket'', PStr (rf_s3_bucket_name artifact_path)), (''Key'', PStr (rf_s3_key artifact_path))])) (\<lambda>content.
     bindP (ask w (mk_call [''oss2'', ''https://oss-'' @ im_region m @ ''.aliyuncs.com'', im_bucket_name m] ''put_object''
         [(''key'', PStr (im_image_oss_key m)), (''data'', content)])) (\<lambda>_. retP ())))"

definition list_regions :: "world \<Rightarrow> image_maker \<Rightarrow> string list prog" where
  "list_regions w m =
     bindP (ask w (acs_call ''DescribeRegions'' [])) (\<lambda>response.
       liftP (bindR (dget ''Regions'' response) (\<lambda>regions.
         bindR (dget ''Region'' regions) (\<lambda>rs. bindR (as_list rs) (\<lambda>rs.
         bindR (mapR (dget_str ''RegionId'') rs) (\<lambda>ids. Inr (filter (\<lambda>r. r \<noteq> im_region m) ids)))))))"

definition check_image_existance :: "world \<Rightarrow> image_maker \<Rightarrow> string \<Rightarrow> string \<Rightarrow> (bool \<times> string) prog" where
  "check_image_existance w m region image_name =
     bindP (set_region_id region) (\<lambda>_.
     bindP (ask w (describe_by_name_call image_name)) (\<lambda>response.
     bindP (liftP (dget ''TotalCount'' response)) (\<lambda>count.
     bindP (set_region_id (im_region m)) (\<lambda>_.
       if count = PInt 0 then retP (False, '''')
       else liftP (bindR (first_image response) (\<lambda>image.
         bindR (dget_str ''ImageId'' image) (\<lambda>image_id. Inr (True, image_id))))))))"

text \<open>\<open>elapse.seconds\<close> leaves out the days of the time that has passed.\<close>

definition timedelta_seconds :: "int \<Rightarrow> int" where
  "timedelta_seconds microseconds = (microseconds div 1000000) mod 86400"

definition TIME_OUT :: int where
  "TIME_OUT = 120 * 60"

definition image_ready :: "pobj \<Rightarrow> bool res" where
  "image_ready response = bindR (first_image response) (\<lambda>image.
     bindR (dget ''Status'' image) (\<lambda>st. Inr (st = PStr (alicloud_image_status_value AIS_AVAILABLE))))"

definition ali_image_look :: "world \<Rightarrow> int \<Rightarrow> string \<Rightarrow> unit option prog" where
  "ali_image_look w start_time image_id =
     bindP (nowP w) (\<lambda>now.
       if timedelta_seconds (now - start_time) > TIME_OUT then raiseP (OtherException ''Time out'')
       else bindP (ask w (describe_by_id_call image_id)) (\<lambda>response.
         bindP (liftP (image_ready response)) (\<lambda>ready.
           if ready then retP (Some ()) else bindP (sleepP 30) (\<lambda>_. retP None))))"

definition wait_for_image :: "world \<Rightarrow> image_maker \<Rightarrow> string \<Rightarrow> string \<Rightarrow> unit prog" where
  "wait_for_image w m region image_id =
     bindP (nowP w) (\<lambda>start_time.
     bindP (set_region_id region) (\<lambda>_.
     bindP (pollP (ali_image_look w start_time image_id)) (\<lambda>_.
       set_region_id (im_region m))))"

definition import_image_call :: "image_maker \<Rightarrow> call" where
  "import_image_call m = acs_call ''ImportImage''
     [(''Description'', PStr (im_image_name m)), (''Platform'', PStr ''Others Linux''),
      (''ImageName'', PStr (im_image_name m)),
      (''DiskDeviceMappings'', PList [PDict [(''OSSBucket'', PStr (im_bucket_name m)),
         (''DiskImageSize'', PStr ''20''), (''Format'', PStr ''qcow2''), (''OSSObject'', PStr (im_image_oss_key m))]])]"

definition ali_import_image :: "world \<Rightarrow> image_maker \<Rightarrow> string prog" where
  "ali_import_image w m =
     bindP (check_image_existance w m (im_region m) (im_image_name m)) (\<lambda>(exists, image_id).
       if exists then bindP (wait_for_image w m (im_region m) image_id) (\<lambda>_. retP image_id)
       else bindP (ask w (import_image_call m)) (\<lambda>response.
         bindP (liftP (dget_str ''ImageId'' response)) (\<lambda>image_id.
         bindP (wait_for_image w m (im_region m) image_id) (\<lambda>_. retP image_id))))"

definition ali_copy_call :: "image_maker \<Rightarrow> string \<Rightarrow> string \<Rightarrow> call" where
  "ali_copy_call m src_image_id dest_region = acs_call ''CopyImage''
     [(''DestinationDescription'', PStr (im_image_name m)), (''DestinationImageName'', PStr (im_image_name m)),
      (''ImageId'', PStr src_image_id), (''DestinationRegionId'', PStr dest_region)]"

definition ali_copy_image :: "world \<Rightarrow> image_maker \<Rightarrow> string \<Rightarrow> string \<Rightarrow> string prog" where
  "ali_copy_image w m src_image_id dest_region =
     bindP (check_image_existance w m dest_region (im_image_name m)) (\<lambda>(exists, image_id).
       if exists then retP image_id
       else bindP (ask w (ali_copy_call m src_image_id dest_region)) (\<lambda>response.
         liftP (dget_str ''ImageId'' response)))"

definition share_images :: "world \<Rightarrow> image_maker \<Rightarrow> (string \<times> string) list \<Rightarrow> unit prog" where
  "share_images w m region_image_map =
     bindP (forP (\<lambda>(region, image_id).
         bindP (set_region_id region) (\<lambda>_.
         bindP (ask w (share_call ISO_SHARE image_id)) (\<lambda>_. retP ()))) region_image_map)
       (\<lambda>_. set_region_id (im_region m))"

definition published_ali :: "image_maker \<Rightarrow> (string \<times> string) list \<Rightarrow> online_release_manifest" where
  "published_ali m region_image_map = (im_release m)\<lparr>rm_published_image_metadata :=
     Some (AlicloudPublishedImageSet (map (\<lambda>(region, image_id).
       \<lparr>ali_image_id = image_id, ali_region_id = region, ali_image_name = im_image_name m\<rparr>) region_image_map))\<rparr>"

text \<open>
  The loop over \<open>region_image_map.items()\<close> calls the region \<open>image\<close> and the image \<open>region\<close>; since both are
  passed on by position, each image is waited for in its region.
\<close>

definition make_image :: "world \<Rightarrow> image_maker \<Rightarrow> online_release_manifest prog" where
  "make_image w m =
     bindP (ali_import_image w m) (\<lambda>image_id.
     bindP (list_regions w m) (\<lambda>other_regions.
     bindP (mapP (\<lambda>region. bindP (ali_copy_image w m image_id region) (\<lambda>i. retP (region, i))) other_regions) (\<lambda>copies.
     bindP (forP (\<lambda>(image, region). wait_for_image w m image region) (dict_of copies)) (\<lambda>_.
     (let region_image_map = dict_set (im_region m) image_id (dict_of copies) in
     bindP (share_images w m region_image_map) (\<lambda>_.
       retP (published_ali m region_image_map)))))))"

definition del_image :: "world \<Rightarrow> string \<Rightarrow> string \<Rightarrow> unit prog" where
  "del_image w region image_id =
     bindP (set_region_id region) (\<lambda>_.
     bindP (ask w (share_call ISO_UNSHARE image_id)) (\<lambda>_.
     bindP (ask w (delete_image_call image_id)) (\<lambda>_. retP ())))"

text \<open>
  The final \<open>raise\<close> stands outside of the handler: it raises the exception that the caller is handling
  (\<open>active\<close>), and \<open>RuntimeError\<close> if there is none.
\<close>

definition delete_step :: "world \<Rightarrow> image_maker \<Rightarrow> bool \<Rightarrow> string \<Rightarrow> bool \<Rightarrow> bool prog" where
  "delete_step w m keep_going region did_raise =
     bindP (check_image_existance w m region (im_image_name m)) (\<lambda>(exists, image_id).
       if exists
       then catchP (bindP (del_image w region image_id) (\<lambda>_. retP did_raise))
              (\<lambda>e. if keep_going then retP True else raiseP e)
       else retP did_raise)"

definition delete_images :: "world \<Rightarrow> image_maker \<Rightarrow> bool \<Rightarrow> py_err option \<Rightarrow> unit prog" where
  "delete_images w m keep_going active =
     bindP (list_regions w m) (\<lambda>regions.
     bindP (foldP (delete_step w m keep_going) (regions @ [im_region m]) False) (\<lambda>did_raise.
       if did_raise
       then raiseP (case active of Some e \<Rightarrow> e | None \<Rightarrow> RuntimeError ''No active exception to reraise'')
       else retP ()))"

end
