(* ===== verification/Gcp_Openstack.thy ===== *)
theory Gcp_Openstack
  imports Aws
begin

text \<open>
  Publishing on GCP (\<open>ci/glci/gcp.py\<close>) and OpenStack (\<open>ci/glci/openstack_image.py\<close>).  A client that
  is opened for a project or environment is named by it; opening it is not a call of its own.
\<close>

subsection \<open>Google Cloud\<close>

definition gcs_client :: "string list" where
  "gcs_client = [''storage'']"

definition gce_client :: "string list" where
  "gce_client = [''compute'', ''v1'']"

text \<open>The blob is the bucket and the name under which the image was stored there.\<close>

record gcs_blob =
  gb_bucket :: string
  gb_name :: string

definition upload_image_to_gcp_store :: "world \<Rightarrow> online_release_manifest \<Rightarrow> build_cfg \<Rightarrow> gcs_blob prog" where
  "upload_image_to_gcp_store w release cfg =
     (let image_blob_name = ''gardenlinux-'' @ ri_version release @ ''.tar.gz'' in
     bindP (liftP (bindR (virtual_image_artifact_for_platform ''gcp'') (\<lambda>artifact.
         path_by_suffix artifact release))) (\<lambda>artifact_path.
     bindP (ask w (mk_call [''s3''] ''download_fileobj''
         [(''Bucket'', PStr (rf_s3_bucket_name artifact_path)), (''Key'', PStr (rf_s3_key artifact_path))])) (\<lambda>content.
     bindP (ask w (mk_call gcs_client ''get_bucket'' [(''bucket'', PStr (bc_gcp_bucket_name cfg))])) (\<lambda>_.
     bindP (ask w (mk_call (gcs_client @ [bc_gcp_bucket_name cfg, image_blob_name]) ''upload_from_file''
         [(''file'', content), (''content_type'', PStr ''application/x-xz'')])) (\<lambda>_.
       retP \<lparr>gb_bucket = bc_gcp_bucket_name cfg, gb_name = image_blob_name\<rparr>)))))"

definition gcp_image_name :: "feature_descriptor list \<Rightarrow> nat \<Rightarrow> online_release_manifest \<Rightarrow> string res" where
  "gcp_image_name fs n release =
     bindR (canonical_release_manifest_key_suffix fs n (manifest_identifier release)) (\<lambda>sfx.
       Inr (strip_char CHR ''-'' (py_replace (py_replace (''gardenlinux-'' @ sfx) ''.'' ''-'') ''_'' ''-'')))"

text \<open>\<open>v.append(x)\<close>: only a list has it.\<close>

fun py_append :: "pobj \<Rightarrow> pobj \<Rightarrow> pobj res" where
  "py_append (PList xs) x = Inr (PList (xs @ [x]))"
| "py_append v x = Inl (AttributeError ''append'')"

fun has_key :: "string \<Rightarrow> pobj \<Rightarrow> bool res" where
  "has_key k (PDict d) = Inr (k \<in> fst ` set d)"
| "has_key k (PList xs) = Inr (PStr k \<in> set xs)"
| "has_key k v = Inl (TypeError ''not iterable'')"

definition public_binding :: pobj where
  "public_binding = PDict [(''members'', PList [PStr ''allAuthenticatedUsers'']),
     (''role'', PStr ''roles/compute.imageUser'')]"

text \<open>
  The bindings that are written: without bindings a new list, otherwise the policy itself, which is
  a dictionary, is appended to.
\<close>

definition new_bindings :: "pobj \<Rightarrow> pobj res" where
  "new_bindings iam_policies =
     bindR (has_key ''bindings'' iam_policies) (\<lambda>present.
       py_append (if present then iam_policies else PList []) public_binding)"

definition signed_url_call :: "gcs_blob \<Rightarrow> int \<Rightarrow> call" where
  "signed_url_call blob expiration = mk_call (gcs_client @ [gb_bucket blob, gb_name blob]) ''generate_signed_url''
     [(''expiration'', PInt expiration)]"

definition insert_image_call :: "string \<Rightarrow> string \<Rightarrow> pobj \<Rightarrow> call" where
  "insert_image_call gcp_project_name image_name source = mk_call gce_client ''images.insert''
     [(''project'', PStr gcp_project_name),
      (''body'', PDict [(''description'', PStr ''gardenlinux''), (''name'', PStr image_name),
         (''rawDisk'', PDict [(''source'', source)])])]"

definition set_policy_call :: "string \<Rightarrow> string \<Rightarrow> pobj \<Rightarrow> call" where
  "set_policy_call gcp_project_name image_name bindings = mk_call gce_client ''images.setIamPolicy''
     [(''project'', PStr gcp_project_name), (''resource'', PStr image_name), (''body'', PDict [(''bindings'', bindings)])]"

definition upload_image_from_gcp_store :: "feature_descriptor list \<Rightarrow> nat \<Rightarrow> world \<Rightarrow> gcs_blob \<Rightarrow> string \<Rightarrow>
    online_release_manifest \<Rightarrow> online_release_manifest prog" where
  "upload_image_from_gcp_store fs n w image_blob gcp_project_name release =
     bindP (liftP (gcp_image_name fs n release)) (\<lambda>image_name.
     bindP (nowP w) (\<lambda>now.
     bindP (ask w (signed_url_call image_blob (now div 1000000))) (\<lambda>source.
     bindP (ask w (insert_image_call gcp_project_name image_name source)) (\<lambda>resp.
     bindP (liftP (item ''name'' resp)) (\<lambda>op_name.
     bindP (ask w (mk_call gce_client ''globalOperations.wait''
         [(''project'', PStr gcp_project_name), (''operation'', op_name)])) (\<lambda>_.
     bindP (ask w (mk_call (gcs_client @ [gb_bucket image_blob, gb_name image_blob]) ''delete'' [])) (\<lambda>_.
     bindP (ask w (mk_call gce_client ''images.getIamPolicy''
         [(''project'', PStr gcp_project_name), (''resource'', PStr image_name)])) (\<lambda>iam_policies.
     bindP (liftP (new_bindings iam_policies)) (\<lambda>bindings.
     bindP (ask w (set_policy_call gcp_project_name image_name bindings)) (\<lambda>_.
       retP (release\<lparr>rm_published_image_metadata := Some (GcpPublishedImage
         \<lparr>gci_gcp_image_name = image_name, gci_gcp_project_name = gcp_project_name\<rparr>)\<rparr>)))))))))))"

definition gcp_upload_and_publish_image :: "feature_descriptor list \<Rightarrow> nat \<Rightarrow> world \<Rightarrow> string \<Rightarrow>
    online_release_manifest \<Rightarrow> build_cfg \<Rightarrow> online_release_manifest prog" where
  "gcp_upload_and_publish_image fs n w gcp_project_name release cfg =
     bindP (upload_image_to_gcp_store w release cfg) (\<lambda>image_blob.
       upload_image_from_gcp_store fs n w image_blob gcp_project_name release)"

subsection \<open>OpenStack\<close>

definition glance_client :: "openstack_environment \<Rightarrow> string list" where
  "glance_client env = [''glance'', ose_auth_url env, ose_project_name env, ose_region env]"

definition create_image_args :: "string \<Rightarrow> (string \<times> pobj) list \<Rightarrow> (string \<times> pobj) list \<Rightarrow> int \<Rightarrow> (string \<times> pobj) list" where
  "create_image_args name source meta timeout_seconds =
     [(''name'', PStr name)] @ source @ [(''disk_format'', PStr ''vmdk''), (''container_format'', PStr ''bare''),
      (''visibility'', PStr ''community''), (''timeout'', PInt timeout_seconds)] @ meta"

definition upload_image_from_fs :: "world \<Rightarrow> openstack_environment \<Rightarrow> string \<Rightarrow> string \<Rightarrow> (string \<times> pobj) list \<Rightarrow>
    int \<Rightarrow> string prog" where
  "upload_image_from_fs w env name path meta timeout_seconds =
     bindP (ask w (mk_call (glance_client env) ''create_image''
         (create_image_args name [(''filename'', PStr path)] meta timeout_seconds))) (\<lambda>image.
       liftP (item_str ''id'' image))"

definition upload_image_from_url :: "world \<Rightarrow> openstack_environment \<Rightarrow> string \<Rightarrow> pobj \<Rightarrow> (string \<times> pobj) list \<Rightarrow>
    int \<Rightarrow> string prog" where
  "upload_image_from_url w env name url meta timeout_seconds =
     bindP (ask w (mk_call (glance_client env) ''create_image''
         (create_image_args name [] meta timeout_seconds))) (\<lambda>image.
     bindP (ask w (mk_call (glance_client env) ''import_image''
         [(''image'', image), (''method'', PStr ''web-download''), (''uri'', url)])) (\<lambda>_.
       liftP (item_str ''id'' image)))"

definition get_image_call :: "openstack_environment \<Rightarrow> string \<Rightarrow> call" where
  "get_image_call env image_id = mk_call (glance_client env) ''get_image'' [(''image'', PStr image_id)]"

definition glance_look :: "world \<Rightarrow> openstack_environment \<Rightarrow> int \<Rightarrow> string \<Rightarrow> int \<Rightarrow> int \<Rightarrow> unit option prog" where
  "glance_look w env start_time image_id wait_interval_seconds timeout =
     bindP (nowP w) (\<lambda>now.
       if now - start_time > timeout * 1000000 then raiseP (RuntimeError ''Timeout'')
       else bindP (ask w (get_image_call env image_id)) (\<lambda>image.
         bindP (liftP (item ''status'' image)) (\<lambda>st.
           if st \<in> {PStr ''queued'', PStr ''saving'', PStr ''importing''}
           then bindP (sleepP wait_interval_seconds) (\<lambda>_. retP None)
           else if st = PStr ''active'' then retP (Some ())
           else raiseP (RuntimeError ''image upload to Glance failed''))))"

definition wait_image_ready :: "world \<Rightarrow> openstack_environment \<Rightarrow> string \<Rightarrow> int \<Rightarrow> int \<Rightarrow> unit prog" where
  "wait_image_ready w env image_id wait_interval_seconds timeout =
     bindP (nowP w) (\<lambda>start_time.
       pollP (glance_look w env start_time image_id wait_interval_seconds timeout))"

text \<open>\<open>release.architecture.name\<close>: the name of the member, not its value.\<close>

fun architecture_name :: "architecture \<Rightarrow> string" where
  "architecture_name AMD64 = ''AMD64''"

definition presigned_url_call :: "s3_release_file \<Rightarrow> int \<Rightarrow> call" where
  "presigned_url_call f expires_in = mk_call [''s3''] ''generate_presigned_url''
     [(''ClientMethod'', PStr ''get_object''), (''ExpiresIn'', PInt expires_in),
      (''Params'', PDict [(''Bucket'', PStr (rf_s3_bucket_name f)), (''Key'', PStr (rf_s3_key f))])]"

definition openstack_upload_and_publish_image :: "world \<Rightarrow> openstack_environment list \<Rightarrow> pobj \<Rightarrow>
    online_release_manifest \<Rightarrow> online_release_manifest prog" where
  "openstack_upload_and_publish_image w environments image_properties release =
     (let image_name = ''gardenlinux-'' @ ri_version release;
          image_meta = [(''architecture'', PStr (architecture_name (ri_architecture release))),
                        (''properties'', image_properties)] in
     bindP (liftP (bindR (virtual_image_artifact_for_platform ''openstack'') (\<lambda>artifact.
         path_by_suffix artifact release))) (\<lambda>artifact_path.
     bindP (ask w (presigned_url_call artifact_path (1200 * int (length environments)))) (\<lambda>url.
     bindP (mapP (\<lambda>env.
         bindP (upload_image_from_url w env image_name url image_meta 86400) (\<lambda>image_id.
         bindP (wait_image_ready w env image_id 10 3600) (\<lambda>_.
           retP \<lparr>osi_region_name = ose_region env, osi_image_id = image_id, osi_image_name = image_name\<rparr>)))
         environments) (\<lambda>published.
       retP (release\<lparr>rm_published_image_metadata := Some (OpenstackPublishedImageSet published)\<rparr>)))))"

end
