(* ===== verification/Aws_Properties.thy ===== *)
theory Aws_Properties
  imports Aws Store_Properties
begin

text \<open>
  What the publishing on AWS guarantees: the changes it makes and their order, that no image becomes
  public before it was seen available, when waiting ends, and which images a clean-up removes.
\<close>

subsection \<open>The calls that change something\<close>

definition aws_write :: "call \<Rightarrow> bool" where
  "aws_write c \<longleftrightarrow> c_method c \<in> {''import_snapshot'', ''register_image'', ''create_tags'', ''copy_image'',
     ''modify_image_attribute'', ''deregister_image''}"

lemmas aws_calls = import_call_def import_snapshot_call_def import_status_call_def register_image_call_def
  create_tags_call_def describe_regions_call_def image_state_call_def make_public_call_def
  copy_image_call_def find_image_call_def deregister_call_def

lemma aws_write_simps [simp]:
  "aws_write (import_snapshot_call ec2 b k)" "aws_write (register_image_call ec2 s name)"
  "aws_write (create_tags_call ec2 i)" "aws_write (copy_image_call a name home r)"
  "aws_write (make_public_call x)" "aws_write (deregister_call x)"
  "\<not> aws_write (import_status_call ec2 t)" "\<not> aws_write (describe_regions_call ec2)"
  "\<not> aws_write (image_state_call ec2 i)" "\<not> aws_write (find_image_call name r)"
  "\<not> aws_write (sleep_call n)"
  by (simp_all add: aws_write_def aws_calls)

lemma no_writes:
  assumes "guarded (\<lambda>_ c. \<not> aws_write c) p h" "p h = Some (r, h')"
  obtains cs where "h' = h @ cs" "filter aws_write cs = []"
  using guardedD [OF assms] by (auto simp: ok_calls_plain list_all_iff filter_empty_conv)

lemma wait_for_snapshot_import_reads:
  "guarded (\<lambda>_ c. \<not> aws_write c) (wait_for_snapshot_import w ec2 t) h"
  unfolding wait_for_snapshot_import_def snapshot_import_look_def
  by (auto intro!: guarded_intros)

lemma wait_for_images_reads: "guarded (\<lambda>_ c. \<not> aws_write c) (wait_for_images w m) h"
  unfolding wait_for_images_def wait_for_image_state_def image_state_look_def
  by (auto intro!: guarded_forP [where I = "\<lambda>_. True"] guarded_intros split: prod.splits)

lemma enumerate_region_names_returned:
  assumes "enumerate_region_names w ec2 h = Some (Inr regions, h')"
  shows "h' = h @ [describe_regions_call ec2]"
  using assms by (auto simp: enumerate_region_names_def prog_simps)

lemma import_snapshot_returned:
  assumes "import_snapshot w ec2 b k h = Some (Inr t, h')"
  shows "h' = h @ [import_snapshot_call ec2 b k]"
  using assms by (auto simp: import_snapshot_def prog_simps)

lemma register_image_returned:
  assumes "register_image w ec2 s name h = Some (Inr ami, h')"
  shows "h' = h @ [register_image_call ec2 s name, create_tags_call ec2 ami]"
  using assms by (auto simp: register_image_def prog_simps)

text \<open>The parts of a run of the upload that returns.\<close>

lemma upload_parts:
  assumes "upload_and_register_gardenlinux_image fs n w sched cfg release h = Some (Inr release', h')"
  obtains name f t sid ami regions copies h1 h2 h3 h4 h5 h6 where
    "target_image_name_for_release fs n release = Inr name"
    "bindR (virtual_image_artifact_for_platform ''aws'') (\<lambda>a. path_by_suffix a release) = Inr f"
    "import_snapshot w (ec2_client (bc_aws_region cfg)) (rf_s3_bucket_name f) (rf_s3_key f) h = Some (Inr t, h1)"
    "wait_for_snapshot_import w (ec2_client (bc_aws_region cfg)) t h1 = Some (Inr sid, h2)"
    "register_image w (ec2_client (bc_aws_region cfg)) sid name h2 = Some (Inr ami, h3)"
    "enumerate_region_names w (ec2_client (bc_aws_region cfg)) h3 = Some (Inr regions, h4)"
    "copy_image w ami name (bc_aws_region cfg) regions h4 = Some (Inr copies, h5)"
    "wait_for_images w (dict_set (bc_aws_region cfg) ami (dict_of copies)) h5 = Some (Inr (), h6)"
    "set_images_public w (dict_set (bc_aws_region cfg) ami (dict_of copies)) h6 = Some (Inr (), h')"
    "release' = published_aws name (dict_set (bc_aws_region cfg) ami (dict_of copies)) release"
proof -
  from assms show ?thesis
    unfolding upload_and_register_gardenlinux_image_def Let_def copy_to_regions_def
    by (auto simp: prog_simps intro: that)
qed

subsection \<open>A run\<close>

text \<open>
  A world with two regions: the import is first active, then completed, and every image is pending
  when it is looked at for the first time.
\<close>

definition sample_aws_answer :: "call list \<Rightarrow> call \<Rightarrow> pobj" where
  "sample_aws_answer h c =
     (if c_method c = ''import_snapshot'' then PDict [(''ImportTaskId'', PStr ''task'')]
      else if c_method c = ''describe_import_snapshot_tasks'' then
        PDict [(''ImportSnapshotTasks'', PList [PDict [(''SnapshotTaskDetail'', PDict
          [(''Status'', PStr (if c \<in> set h then ''completed'' else ''active'')), (''SnapshotId'', PStr ''snap'')])]])]
      else if c_method c = ''register_image'' then PDict [(''ImageId'', PStr ''ami-1'')]
      else if c_method c = ''describe_regions'' then
        PDict [(''Regions'', PList [PDict [(''RegionName'', PStr ''home'')], PDict [(''RegionName'', PStr ''away'')]])]
      else if c_method c = ''describe_images'' then
        PDict [(''Images'', PList [PDict [(''ImageId'', PStr ''ami-1''),
          (''State'', PStr (if c \<in> set h then ''available'' else ''pending''))]])]
      else PDict [(''ResponseMetadata'', PDict [(''HTTPStatusCode'', PInt 200)]), (''ImageId'', PStr ''ami-2'')])"

definition sample_aws :: world where
  "sample_aws = \<lparr>answer = (\<lambda>h c. Inr (sample_aws_answer h c)), clock = (\<lambda>h. int (length h))\<rparr>"

definition sample_aws_features :: "feature_descriptor list" where
  "sample_aws_features = [\<lparr>fd_type = PLATFORM, fd_name = ''aws'', fd_description = '''', fd_features = None\<rparr>]"

definition sample_build_cfg :: build_cfg where
  "sample_build_cfg = \<lparr>bc_aws_cfg_name = ''aws'', bc_aws_region = ''home'', bc_s3_bucket_name = ''bucket'',
     bc_gcp_bucket_name = ''gcp'', bc_gcp_cfg_name = ''gcp'', bc_storage_account_config_name = ''st'',
     bc_service_principal_name = ''sp'', bc_plan_config_name = ''plan'', bc_oss_bucket_name = ''oss'',
     bc_alicloud_region = ''home'', bc_alicloud_cfg_name = ''ali''\<rparr>"

definition sample_release :: "string \<Rightarrow> string \<Rightarrow> online_release_manifest" where
  "sample_release platform artifact =
     \<lparr>ri_build_committish = ''0123456789abcdef'', ri_version = ''560.0'', ri_gardenlinux_epoch = 560,
      ri_architecture = AMD64, ri_platform = platform, ri_modifiers = [],
      rm_build_timestamp = ''2021-10-12T06:00:00'',
      rm_paths = [\<lparr>rf_name = ''image'', rf_suffix = artifact, rf_s3_key = ''objects/1'', rf_s3_bucket_name = ''bucket''\<rparr>],
      rm_base_image = None, rm_published_image_metadata = None,
      orm_s3_key = ''meta'', orm_s3_bucket = ''bucket'', orm_test_result = None, orm_logs = None\<rparr>"

lemma sample_aws_result:
  "map_option fst (upload_and_register_gardenlinux_image sample_aws_features 2 sample_aws (\<lambda>_. 0)
     sample_build_cfg (sample_release ''aws'' ''rootfs.raw'') []) =
   Some (Inr (published_aws ''gardenlinux-aws-560.0-012345'' [(''away'', ''ami-2''), (''home'', ''ami-1'')]
     (sample_release ''aws'' ''rootfs.raw'')))"
  "map_option (last \<circ> snd) (upload_and_register_gardenlinux_image sample_aws_features 2 sample_aws (\<lambda>_. 0)
     sample_build_cfg (sample_release ''aws'' ''rootfs.raw'') []) = Some (make_public_call (''home'', ''ami-1''))"
  "map_option (\<lambda>p. snd p = []) (upload_and_register_gardenlinux_image sample_aws_features 2 sample_aws (\<lambda>_. 0)
     sample_build_cfg (sample_release ''aws'' ''rootfs.raw'') []) = Some False"
  by code_simp+


subsection \<open>Publishing\<close>

text \<open>The calls up to the copies being available, and those of them that change anything.\<close>

lemma upload_calls:
  fixes home :: string
  defines "ec2 \<equiv> ec2_client home"
  assumes "import_snapshot w ec2 b k h = Some (Inr t, h1)" "wait_for_snapshot_import w ec2 t h1 = Some (Inr sid, h2)"
    and "register_image w ec2 sid name h2 = Some (Inr ami, h3)" "enumerate_region_names w ec2 h3 = Some (Inr regions, h4)"
    and "copy_image w ami name home regions h4 = Some (Inr copies, h5)" "wait_for_images w m h5 = Some (Inr u, h6)"
  obtains cs where "h6 = h @ cs" "map fst copies = filter (\<lambda>r. r \<noteq> home) regions"
    "filter aws_write cs = [import_snapshot_call ec2 b k, register_image_call ec2 sid name, create_tags_call ec2 ami] @
      map (copy_image_call ami name home) (map fst copies)"
proof -
  have c: "map fst copies = filter (\<lambda>r. r \<noteq> home) regions" "h5 = h4 @ map (copy_image_call ami name home) (map fst copies)"
    using copy_image_returned [OF assms(6)] by simp_all
  obtain cs1 where w1: "h2 = h1 @ cs1" "filter aws_write cs1 = []"
    using no_writes [OF wait_for_snapshot_import_reads assms(3)] by blast
  obtain cs2 where w2: "h6 = h5 @ cs2" "filter aws_write cs2 = []"
    using no_writes [OF wait_for_images_reads assms(7)] by blast
  define cs where "cs = [import_snapshot_call ec2 b k] @ cs1 @ [register_image_call ec2 sid name, create_tags_call ec2 ami] @
    [describe_regions_call ec2] @ map (copy_image_call ami name home) (map fst copies) @ cs2"
  have h6: "h6 = h @ cs"
    using import_snapshot_returned [OF assms(2)] w1 register_image_returned [OF assms(4)]
      enumerate_region_names_returned [OF assms(5)] c(2) w2 by (simp add: cs_def)
  have "filter aws_write (map (copy_image_call ami name home) rs) = map (copy_image_call ami name home) rs"
    for rs by (induction rs) auto
  then show ?thesis using that [OF h6 c(1)] w1(2) w2(2) by (simp add: cs_def ec2_def)
qed



subsection \<open>Publication only of available images\<close>

text \<open>The call that makes an image public, for an image that was not seen available.\<close>

definition premature :: "world \<Rightarrow> call list \<Rightarrow> call \<Rightarrow> bool" where
  "premature w us c \<longleftrightarrow> (\<exists>x. c = make_public_call x \<and> \<not> seen_available w x us)"

lemma not_premature:
  "c_method c \<noteq> ''modify_image_attribute'' \<Longrightarrow> \<not> premature w us c"
  by (auto simp: premature_def make_public_call_def)

lemma methods [simp]:
  "c_method (import_call ec2 d) = ''import_snapshot''"
  "c_method (import_snapshot_call ec2 b k) = ''import_snapshot''"
  "c_method (register_image_call ec2 s name) = ''register_image''"
  "c_method (create_tags_call ec2 i) = ''create_tags''"
  "c_method (copy_image_call a name home r) = ''copy_image''"
  "c_method (deregister_call x) = ''deregister_image''"
  "c_method (import_status_call ec2 t) = ''describe_import_snapshot_tasks''"
  "c_method (describe_regions_call ec2) = ''describe_regions''"
  "c_method (image_state_call ec2 i) = ''describe_images''"
  "c_method (find_image_call name r) = ''describe_images''"
  by (simp_all add: aws_calls)

lemma make_public_inject: "make_public_call x = make_public_call y \<longleftrightarrow> x = y"
  by (cases x; cases y) (auto simp: make_public_call_def ec2_client_def)

lemma set_images_public_guarded:
  assumes "\<forall>x \<in> set m. seen_available w x h"
  shows "guarded (\<lambda>us c. \<not> premature w us c) (set_images_public w m) h"
  unfolding set_images_public_def
proof (rule guarded_forP [where I = "\<lambda>g. \<forall>x \<in> set m. seen_available w x g"])
  fix x g assume x: "x \<in> set m" "\<forall>x \<in> set m. seen_available w x g"
  then have "\<not> premature w g (make_public_call x)"
    by (auto simp: premature_def make_public_inject)
  then show "guarded (\<lambda>us c. \<not> premature w us c)
      (bindP (ask w (make_public_call x)) (\<lambda>res. bindP (liftP (response_ok res)) (\<lambda>_. retP ()))) g"
    by (auto intro!: guarded_intros)
qed (use assms in \<open>auto intro: seen_available_append\<close>)

lemma run_pending_guarded: "guarded (\<lambda>us c. \<not> premature w us c) (run_pending w current k) h"
  by (induction k arbitrary: h) (auto intro!: guarded_intros not_premature split: option.splits)

lemma unregister_loop_guarded:
  "guarded (\<lambda>us c. \<not> premature w us c) (unregister_loop w name sched i current k regions) h"
proof (induction w name sched i current k regions arbitrary: h rule: unregister_loop.induct)
  case 1
  then show ?case by (simp add: run_pending_guarded)
next
  case 2
  then show ?case unfolding unregister_loop.simps image_id_by_name_def
    by (auto intro!: guarded_intros run_pending_guarded not_premature)
qed

lemma unregister_guarded:
  "guarded (\<lambda>us c. \<not> premature w us c) (unregister_images_by_name w name sched regions) h"
  unfolding unregister_images_by_name_def enumerate_region_names_def
  by (auto intro!: guarded_intros unregister_loop_guarded not_premature)

lemma upload_guarded:
  "guarded (\<lambda>us c. \<not> premature w us c) (upload_and_register_gardenlinux_image fs n w sched cfg release) h"
proof -
  have reads: "\<not> aws_write c \<Longrightarrow> \<not> premature w us c" for us c
    by (auto simp: premature_def)
  note waits = guarded_weaken [OF wait_for_snapshot_import_reads reads]
    guarded_weaken [OF wait_for_images_reads reads]
  show ?thesis
    unfolding upload_and_register_gardenlinux_image_def Let_def copy_to_regions_def import_snapshot_def
      register_image_def enumerate_region_names_def copy_image_def
    by (intro guarded_intros waits unregister_guarded not_premature set_images_public_guarded)
      (simp_all add: wait_for_images_returned)
qed

text \<open>
  C30: on no path, whether the upload returns, raises or cleans up after an error, an image is made
  public that was not seen available before.
\<close>

theorem aws_public_after_available:
  assumes "upload_and_register_gardenlinux_image fs n w sched cfg release h = Some (r, h @ us @ make_public_call x # vs)"
  shows "seen_available w x (h @ us)"
proof -
  from guardedD [OF upload_guarded assms] obtain cs where
    "us @ make_public_call x # vs = cs" "ok_calls (\<lambda>us c. \<not> premature w us c) h cs" by auto
  then have "\<not> premature w (h @ us) (make_public_call x)" using ok_calls_split by blast
  then show ?thesis by (simp add: premature_def make_public_inject)
qed

theorem aws_public_after_available_witness:
  "\<exists>us r. upload_and_register_gardenlinux_image sample_aws_features 2 sample_aws (\<lambda>_. 0)
       sample_build_cfg (sample_release ''aws'' ''rootfs.raw'') [] =
       Some (r, us @ [make_public_call (''home'', ''ami-1'')]) \<and>
     seen_available sample_aws (''home'', ''ami-1'') us"
proof -
  let ?run = "upload_and_register_gardenlinux_image sample_aws_features 2 sample_aws (\<lambda>_. 0)
    sample_build_cfg (sample_release ''aws'' ''rootfs.raw'') []"
  from sample_aws_result(2,3) obtain r h' where
    h': "?run = Some (r, h')" "last h' = make_public_call (''home'', ''ami-1'')" "h' \<noteq> []" by auto
  define us where "us = butlast h'"
  have run: "?run = Some (r, us @ [make_public_call (''home'', ''ami-1'')])"
    using h' append_butlast_last_id [of h'] by (simp add: us_def)
  then have "seen_available sample_aws (''home'', ''ami-1'') ([] @ us)"
    by (intro aws_public_after_available [where vs = "[]"]) simp
  with run show ?thesis by auto
qed

subsection \<open>Removing the images of a release\<close>

text \<open>
  The images that EC2 finds by the name, as long as the answers do not depend on what was called
  before: an answer with at most one image per region.
\<close>

definition finds_images :: "world \<Rightarrow> string \<Rightarrow> (string \<Rightarrow> string option) \<Rightarrow> bool" where
  "finds_images w name im \<longleftrightarrow> (\<forall>h r. answer w h (find_image_call name r) =
     Inr (PDict [(''Images'', PList (case im r of None \<Rightarrow> [] | Some i \<Rightarrow> [PDict [(''ImageId'', PStr i)]]))]))"

lemma image_id_by_name_run:
  "finds_images w name im \<Longrightarrow> image_id_by_name w name r h = Some (Inr (im r), h @ [find_image_call name r])"
  by (cases "im r") (auto simp: finds_images_def image_id_by_name_def bindP_ask pget_def item_str_def
      bindP_lift retP_def liftP_def)

lemma run_pending_run:
  "run_pending w current k h =
     Some (Inr (), h @ (case current of None \<Rightarrow> [] | Some r \<Rightarrow> replicate k (deregister_call r)))"
proof (induction k arbitrary: h)
  case 0
  then show ?case by (auto simp: retP_def split: option.splits)
next
  case (Suc k)
  then show ?case
    by (cases current; cases "answer w h (deregister_call (the current))")
      (auto simp: retP_def catchP_def bindP_ask bindP_def ask_def)
qed

definition regions_with :: "(string \<Rightarrow> string option) \<Rightarrow> string list \<Rightarrow> (string \<times> string) list" where
  "regions_with im regions = concat (map (\<lambda>r. case im r of None \<Rightarrow> [] | Some i \<Rightarrow> [(r, i)]) regions)"

lemma regions_with_simps [simp]:
  "regions_with im [] = []"
  "regions_with im (r # rs) = (case im r of None \<Rightarrow> [] | Some i \<Rightarrow> [(r, i)]) @ regions_with im rs"
  by (simp_all add: regions_with_def)

text \<open>The images deregistered, in order.\<close>

definition deregistered :: "call list \<Rightarrow> call list" where
  "deregistered cs = filter (\<lambda>c. c_method c = ''deregister_image'') cs"

lemma deregistered_simps [simp]:
  "deregistered [] = []" "deregistered (cs @ ds) = deregistered cs @ deregistered ds"
  "deregistered (find_image_call name r # cs) = deregistered cs"
  "deregistered (deregister_call x # cs) = deregister_call x # deregistered cs"
  "deregistered (replicate k (deregister_call x)) = replicate k (deregister_call x)"
  by (simp_all add: deregistered_def)

lemma unregister_loop_eager:
  assumes "finds_images w name im" "\<And>i. sched i > 0" "k \<le> 1" "current = None \<longrightarrow> k = 0"
  shows "\<exists>cs. unregister_loop w name sched i current k regions h = Some (Inr (), h @ cs) \<and>
    deregistered cs = (case current of None \<Rightarrow> [] | Some x \<Rightarrow> replicate k (deregister_call x)) @
      map deregister_call (regions_with im regions)"
  using assms(3-)
proof (induction regions arbitrary: i current k h)
  case Nil
  then show ?case by (auto simp: run_pending_run split: option.splits)
next
  case (Cons r regions)
  have all: "min (sched i) k = k" "k - sched i = 0" using assms(2) [of i] Cons.prems(1) by simp_all
  define g where "g = (h @ (case current of None \<Rightarrow> [] | Some x \<Rightarrow> replicate k (deregister_call x))) @
    [find_image_call name r]"
  have step: "unregister_loop w name sched i current k (r # regions) h =
      (case im r of
         None \<Rightarrow> unregister_loop w name sched (Suc i) current 0 regions g
       | Some image_id \<Rightarrow> unregister_loop w name sched (Suc i) (Some (r, image_id)) 1 regions g)"
    unfolding unregister_loop.simps all
    by (simp add: bindP_def run_pending_run catchP_def image_id_by_name_run [OF assms(1)] g_def
        split: option.splits)
  show ?case
  proof (cases "im r")
    case None
    obtain cs where "unregister_loop w name sched (Suc i) current 0 regions g = Some (Inr (), g @ cs)"
      "deregistered cs = map deregister_call (regions_with im regions)"
      using Cons.IH [of 0 current "Suc i" g] by (auto split: option.splits)
    then show ?thesis
      unfolding step using None by (auto simp: g_def split: option.splits)
  next
    case (Some image_id)
    obtain cs where "unregister_loop w name sched (Suc i) (Some (r, image_id)) 1 regions g = Some (Inr (), g @ cs)"
      "deregistered cs = deregister_call (r, image_id) # map deregister_call (regions_with im regions)"
      using Cons.IH [of 1 "Some (r, image_id)" "Suc i" g] by auto
    then show ?thesis
      unfolding step using Some by (auto simp: g_def split: option.splits)
  qed
qed

lemma unregister_loop_lazy:
  assumes "finds_images w name im" "\<And>i. sched i = 0"
  shows "\<exists>cs. unregister_loop w name sched i current k regions h = Some (Inr (), h @ cs) \<and>
    deregistered cs =
      (if regions_with im regions \<noteq> []
       then replicate (k + length (regions_with im regions)) (deregister_call (last (regions_with im regions)))
       else case current of None \<Rightarrow> [] | Some x \<Rightarrow> replicate k (deregister_call x))"
proof (induction regions arbitrary: i current k h)
  case Nil
  then show ?case by (auto simp: run_pending_run split: option.splits)
next
  case (Cons r regions)
  have step: "unregister_loop w name sched i current k (r # regions) h =
      (case im r of
         None \<Rightarrow> unregister_loop w name sched (Suc i) current k regions (h @ [find_image_call name r])
       | Some image_id \<Rightarrow> unregister_loop w name sched (Suc i) (Some (r, image_id)) (Suc k) regions
           (h @ [find_image_call name r]))"
    unfolding unregister_loop.simps assms(2)
    by (simp add: bindP_def retP_def catchP_def image_id_by_name_run [OF assms(1)] split: option.splits)
  show ?case
  proof (cases "im r")
    case None
    with step Cons.IH [of "Suc i" current k "h @ [find_image_call name r]"] show ?thesis by auto
  next
    case (Some image_id)
    with step Cons.IH [of "Suc i" "Some (r, image_id)" "Suc k" "h @ [find_image_call name r]"]
    show ?thesis by auto
  qed
qed

text \<open>
  C40: the clean-up after a failure. If every task runs before the loop goes on to the next region,
  the image of each region is deregistered once. But a task reads the variables of the loop when it
  runs: if the pool starts the tasks late, the image of the last region is deregistered once for
  every region and all the others stay. No exception tells the difference.
\<close>

theorem unregister_images_race:
  assumes "finds_images w name im" "regions \<noteq> []"
  shows "((\<forall>i. sched i > 0) \<longrightarrow> (\<exists>cs.
      unregister_images_by_name w name sched regions h = Some (Inr (), h @ cs) \<and>
      deregistered cs = map deregister_call (regions_with im regions))) \<and>
    ((\<forall>i. sched i = 0) \<and> regions_with im regions \<noteq> [] \<longrightarrow> (\<exists>cs.
      unregister_images_by_name w name sched regions h = Some (Inr (), h @ cs) \<and>
      deregistered cs =
        replicate (length (regions_with im regions)) (deregister_call (last (regions_with im regions)))))"
proof -
  have u: "unregister_images_by_name w name sched regions h = unregister_loop w name sched 0 None 0 regions h"
    using assms(2) by (simp add: unregister_images_by_name_def bindP_basic)
  show ?thesis
  proof (intro conjI impI)
    assume "\<forall>i. sched i > 0"
    then show "\<exists>cs. unregister_images_by_name w name sched regions h = Some (Inr (), h @ cs) \<and>
      deregistered cs = map deregister_call (regions_with im regions)"
      unfolding u using unregister_loop_eager [OF assms(1), of sched 0 None 0 regions h] by simp
  next
    assume "(\<forall>i. sched i = 0) \<and> regions_with im regions \<noteq> []"
    then show "\<exists>cs. unregister_images_by_name w name sched regions h = Some (Inr (), h @ cs) \<and>
      deregistered cs =
        replicate (length (regions_with im regions)) (deregister_call (last (regions_with im regions)))"
      unfolding u using unregister_loop_lazy [OF assms(1), of sched 0 None 0 regions h] by simp
  qed
qed

theorem unregister_images_race_witness:
  "\<exists>w cs. unregister_images_by_name w ''gardenlinux'' (\<lambda>_. 0) [''a'', ''b''] [] = Some (Inr (), cs) \<and>
     deregistered cs = [deregister_call (''b'', ''ami''), deregister_call (''b'', ''ami'')]"
proof -
  define w :: world where "w = \<lparr>answer = (\<lambda>_ _. Inr (PDict [(''Images'', PList [PDict [(''ImageId'', PStr ''ami'')]])])),
    clock = (\<lambda>_. 0)\<rparr>"
  have "finds_images w ''gardenlinux'' (\<lambda>_. Some ''ami'')"
    by (simp add: finds_images_def w_def)
  from unregister_images_race [OF this, of "[''a'', ''b'']" "\<lambda>_. 0" "[]"]
  have "\<exists>cs. unregister_images_by_name w ''gardenlinux'' (\<lambda>_. 0) [''a'', ''b''] [] = Some (Inr (), cs) \<and>
     deregistered cs = [deregister_call (''b'', ''ami''), deregister_call (''b'', ''ami'')]"
    by (simp add: numeral_2_eq_2)
  then show ?thesis by blast
qed

subsection \<open>When waiting ends\<close>

text \<open>
  C39: waiting for an image ends exactly if, looked at every 15 seconds, the image at some time is
  available, has failed, or cannot be read. So it never ends for an image that was deregistered
  in the meantime: that state is not among the erroneous ones.
\<close>

theorem image_wait_ends:
  "(\<exists>r. wait_for_image_state w ec2 i IS_AVAILABLE h = Some r) \<longleftrightarrow>
     (\<exists>n. case image_seen w (h @ rounds [image_state_call ec2 i, sleep_call 15] n) ec2 i of
        Inl e \<Rightarrow> True
      | Inr st \<Rightarrow> st \<in> {IS_AVAILABLE, IS_INVALID, IS_FAILED, IS_ERROR})"
proof -
  have "image_state_verdict w ec2 i IS_AVAILABLE g \<noteq> Inr None \<longleftrightarrow>
      (case image_seen w g ec2 i of Inl e \<Rightarrow> True | Inr st \<Rightarrow> st \<in> {IS_AVAILABLE, IS_INVALID, IS_FAILED, IS_ERROR})"
    for g
  proof -
    have "image_state_verdict w ec2 i IS_AVAILABLE g = bindR (image_seen w g ec2 i) (\<lambda>st.
        if st = IS_AVAILABLE then Inr (Some st) else if is_erroneous st then Inl (RuntimeError i) else Inr None)"
      by (simp add: image_state_verdict_def image_seen_def bindR_assoc)
    then show ?thesis by (cases "image_seen w g ec2 i") (auto simp: is_erroneous_def)
  qed
  then show ?thesis
    using image_state.returns_iff [of w ec2 i IS_AVAILABLE h] by (simp add: wait_for_image_state_def)
qed

end
