(* ===== verification/Timed_Waits.thy ===== *)
theory Timed_Waits
  imports Alicloud Gcp_Openstack Aws_Properties
begin

text \<open>
  The waiting loops that give up after a time, on Alibaba Cloud and OpenStack, and what the
  publishing there guarantees.
\<close>

subsection \<open>Pollers with a time limit\<close>

text \<open>
  The clock law: while a round of the loop passes, the clock advances by at least \<open>lo\<close> and at most
  \<open>hi\<close> microseconds.
\<close>

definition clock_runs :: "world \<Rightarrow> call list \<Rightarrow> int \<Rightarrow> int \<Rightarrow> bool" where
  "clock_runs w round lo hi \<longleftrightarrow>
     (\<forall>h. clock w h + lo \<le> clock w (h @ round) \<and> clock w (h @ round) \<le> clock w h + hi)"

locale timed_poller = poller +
  fixes w :: world and start_time limit horizon :: int
  assumes late: "limit < clock w h - start_time \<Longrightarrow> clock w h - start_time < horizon \<Longrightarrow> verdict h \<noteq> Inr None"
begin

lemma reaches_limit:
  assumes "clock_runs w round lo hi" "lo > 0" "limit + hi < horizon" "clock w h - start_time \<le> limit"
  shows "\<exists>n. limit < clock w (h @ rounds round n) - start_time \<and> clock w (h @ rounds round n) - start_time < horizon"
  using assms(4)
proof (induction "nat (limit - (clock w h - start_time))" arbitrary: h rule: less_induct)
  case less
  have step: "clock w h + lo \<le> clock w (h @ round)" "clock w (h @ round) \<le> clock w h + hi"
    using assms(1) by (auto simp: clock_runs_def)
  show ?case
  proof (cases "clock w (h @ round) - start_time \<le> limit")
    case True
    have "nat (limit - (clock w (h @ round) - start_time)) < nat (limit - (clock w h - start_time))"
      using step(1) assms(2) True less.prems by linarith
    from less.hyps [OF this True] obtain n where
      "limit < clock w ((h @ round) @ rounds round n) - start_time"
      "clock w ((h @ round) @ rounds round n) - start_time < horizon" by blast
    then show ?thesis by (intro exI [of _ "Suc n"]) (simp add: rounds_Suc)
  next
    case False
    then show ?thesis
      using step(2) assms(3) less.prems by (intro exI [of _ "Suc 0"]) (simp add: rounds_Suc)
  qed
qed

lemma ends:
  assumes "clock_runs w round lo hi" "lo > 0" "limit + hi < horizon" "clock w h - start_time \<le> limit + hi"
  shows "\<exists>r. pollP step h = Some r"
proof (cases "clock w h - start_time \<le> limit")
  case True
  then show ?thesis using reaches_limit [OF assms(1-3)] late returns_iff by blast
next
  case False
  then have "verdict (h @ rounds round 0) \<noteq> Inr None"
    using late [of h] assms(3,4) by simp
  then show ?thesis using returns_iff by blast
qed

end

definition ali_image_verdict :: "world \<Rightarrow> int \<Rightarrow> string \<Rightarrow> call list \<Rightarrow> unit option res" where
  "ali_image_verdict w start_time image_id h =
     (if timedelta_seconds (clock w h - start_time) > TIME_OUT then Inl (OtherException ''Time out'')
      else bindR (answer w (h @ [now_call]) (describe_by_id_call image_id)) (\<lambda>response.
        bindR (image_ready response) (\<lambda>ready. Inr (if ready then Some () else None))))"

interpretation ali_image: timed_poller "ali_image_look w start_time i"
  "[now_call, describe_by_id_call i, sleep_call 30]" "ali_image_verdict w start_time i"
  w start_time "7201 * 1000000 - 1" "86400 * 1000000" for w start_time i
proof
  fix h
  show "ali_image_verdict w start_time i h = Inr None \<Longrightarrow>
      ali_image_look w start_time i h = Some (Inr None, h @ [now_call, describe_by_id_call i, sleep_call 30])"
    by (auto simp: ali_image_verdict_def ali_image_look_def bindP_ask bindR_Inr_iff run_simps
        retP_def split: sum.splits if_splits)
  show "ali_image_verdict w start_time i h \<noteq> Inr None \<Longrightarrow>
      \<exists>h'. ali_image_look w start_time i h = Some (ali_image_verdict w start_time i h, h')"
    by (cases "answer w (h @ [now_call]) (describe_by_id_call i)";
        cases "image_ready (projr (answer w (h @ [now_call]) (describe_by_id_call i)))")
      (auto simp: ali_image_verdict_def ali_image_look_def bindP_ask run_simps retP_def raiseP_def)
  assume "7201 * 1000000 - 1 < clock w h - start_time" "clock w h - start_time < 86400 * 1000000"
  then have "timedelta_seconds (clock w h - start_time) > TIME_OUT"
    by (simp add: timedelta_seconds_def TIME_OUT_def)
  then show "ali_image_verdict w start_time i h \<noteq> Inr None"
    by (simp add: ali_image_verdict_def)
qed

definition glance_verdict :: "world \<Rightarrow> openstack_environment \<Rightarrow> int \<Rightarrow> string \<Rightarrow> int \<Rightarrow> call list \<Rightarrow> unit option res" where
  "glance_verdict w env start_time image_id timeout h =
     (if clock w h - start_time > timeout * 1000000 then Inl (RuntimeError ''Timeout'')
      else bindR (answer w (h @ [now_call]) (get_image_call env image_id)) (\<lambda>image.
        bindR (item ''status'' image) (\<lambda>st.
          if st \<in> {PStr ''queued'', PStr ''saving'', PStr ''importing''} then Inr None
          else if st = PStr ''active'' then Inr (Some ())
          else Inl (RuntimeError ''image upload to Glance failed''))))"

interpretation glance: timed_poller "glance_look w env start_time i interval timeout"
  "[now_call, get_image_call env i, sleep_call interval]" "glance_verdict w env start_time i timeout"
  w start_time "timeout * 1000000" horizon for w env start_time i interval timeout horizon
proof
  fix h
  show "glance_verdict w env start_time i timeout h = Inr None \<Longrightarrow>
      glance_look w env start_time i interval timeout h =
        Some (Inr None, h @ [now_call, get_image_call env i, sleep_call interval])"
    by (auto simp: glance_verdict_def glance_look_def bindP_ask bindR_Inr_iff run_simps
        retP_def split: sum.splits if_splits)
  show "glance_verdict w env start_time i timeout h \<noteq> Inr None \<Longrightarrow>
      \<exists>h'. glance_look w env start_time i interval timeout h = Some (glance_verdict w env start_time i timeout h, h')"
    by (cases "answer w (h @ [now_call]) (get_image_call env i)";
        cases "item ''status'' (projr (answer w (h @ [now_call]) (get_image_call env i)))")
      (auto simp: glance_verdict_def glance_look_def bindP_ask run_simps retP_def raiseP_def)
qed (simp add: glance_verdict_def)

subsection \<open>Waiting with a time limit ends\<close>

text \<open>
  C35: the two waits with a time limit always return, with the image or with an exception, whatever
  the service answers, provided that the clock runs: on Alibaba Cloud if one round of the loop takes
  less than 22 hours minus a second (the code reads the seconds of the elapsed time without its days,
  so a longer pause can step over the limit), on OpenStack without such a bound.
\<close>

theorem timed_waits_end:
  assumes "clock_runs w [now_call, describe_by_id_call i, sleep_call 30] lo hi"
    and "clock_runs w [now_call, get_image_call env i, sleep_call interval] lo hi'"
    and "0 < lo" "hi \<le> 79198 * 1000000"
    and "clock w (h @ [now_call, set_region_call region]) \<le> clock w h + hi"
    and "clock w (h @ [now_call]) \<le> clock w h + hi'" "0 \<le> timeout"
  shows "(\<exists>r. wait_for_image w m region i h = Some r) \<and>
    (\<exists>r. wait_image_ready w env i interval timeout h = Some r)"
proof
  obtain r h' where "pollP (ali_image_look w (clock w h) i) (h @ [now_call, set_region_call region]) = Some (r, h')"
    using ali_image.ends [OF assms(1,3), of "h @ [now_call, set_region_call region]" "clock w h"] assms(4,5)
    by fastforce
  then show "\<exists>r. wait_for_image w m region i h = Some r"
    by (cases r) (simp_all add: wait_for_image_def bindP_basic bindP_def set_region_id_def nowP_def)
  have "\<exists>r. pollP (glance_look w env (clock w h) i interval timeout) (h @ [now_call]) = Some r"
    by (rule glance.ends [OF assms(2,3), where horizon = "timeout * 1000000 + hi' + 1"])
      (use assms(6,7) in simp_all)
  then show "\<exists>r. wait_image_ready w env i interval timeout h = Some r"
    by (simp add: wait_image_ready_def bindP_basic)
qed

theorem timed_waits_end_witness:
  "\<exists>w. \<forall>m region i env. (\<exists>r. wait_for_image w m region i [] = Some r) \<and>
    (\<exists>r. wait_image_ready w env i 10 3600 [] = Some r)"
proof -
  define w :: world where
    "w = \<lparr>answer = (\<lambda>_ _. Inl (OtherException ''down'')), clock = (\<lambda>h. int (length h) * 10000000)\<rparr>"
  have "(\<exists>r. wait_for_image w m region i [] = Some r) \<and> (\<exists>r. wait_image_ready w env i 10 3600 [] = Some r)"
    for m region i env
    by (rule timed_waits_end [where lo = 30000000 and hi = 30000000 and hi' = 30000000])
      (simp_all add: clock_runs_def w_def)
  then show ?thesis by blast
qed

subsection \<open>Sharing only available images\<close>

text \<open>The image was looked at in the region and was available there.\<close>

definition seen_ready :: "world \<Rightarrow> string \<Rightarrow> string \<Rightarrow> call list \<Rightarrow> bool" where
  "seen_ready w region i h \<longleftrightarrow> seen (describe_by_id_call i) (\<lambda>us. acs_region us = Some (PStr region) \<and>
     bindR (answer w us (describe_by_id_call i)) image_ready = Inr True) h"

lemma seen_ready_append: "seen_ready w region i h \<Longrightarrow> seen_ready w region i (h @ cs)"
  by (simp add: seen_ready_def seen_append)

lemma acs_region_set [simp]: "acs_region (h @ [set_region_call region]) = Some (PStr region)"
  by (simp add: acs_region_def set_region_call_def acs_call_def)

lemma acs_region_other:
  "c_method c \<noteq> ''set_region_id'' \<Longrightarrow> acs_region (h @ [c]) = acs_region h"
  by (simp add: acs_region_def)

lemma acs_methods [simp]:
  "c_method (describe_by_id_call i) = ''DescribeImages''" "c_method (describe_by_name_call nm) = ''DescribeImages''"
  "c_method (share_call o' i) = ''ModifyImageSharePermission''" "c_method (delete_image_call i) = ''DeleteImage''"
  "c_method (import_image_call m) = ''ImportImage''" "c_method (ali_copy_call m i r) = ''CopyImage''"
  "c_method (set_region_call r) = ''set_region_id''" "c_method (acs_call nm ps) = nm"
  by (simp_all add: describe_by_id_call_def describe_by_name_call_def share_call_def delete_image_call_def
      import_image_call_def ali_copy_call_def set_region_call_def acs_call_def)

lemma share_call_inject: "share_call o' i = share_call o'' j \<longleftrightarrow> o' = o'' \<and> i = j"
  using iso.val_inj by (auto simp: share_call_def acs_call_def)

lemma poll_sees_ready:
  assumes "pollP (ali_image_look w start_time i) h = Some (r, h')" "acs_region h = Some (PStr region)" "r = Inr ()"
  shows "seen_ready w region i h'"
  using assms
proof (induction rule: pollP_induct)
  case (decided h x h')
  then have "h' = (h @ [now_call]) @ [describe_by_id_call i]" "acs_region (h @ [now_call]) = Some (PStr region)"
    "bindR (answer w (h @ [now_call]) (describe_by_id_call i)) image_ready = Inr True"
    by (auto simp: ali_image_look_def prog_simps acs_region_other split: if_splits)
  then show ?case unfolding seen_ready_def by (intro seenI [where us = "h @ [now_call]" and vs = "[]"]) simp_all
next
  case (again h g r h')
  from again(1) have g: "g = ((h @ [now_call]) @ [describe_by_id_call i]) @ [sleep_call 30]"
    by (auto simp: ali_image_look_def prog_simps split: if_splits)
  have "acs_region g = acs_region h"
    unfolding g by (subst acs_region_other, simp)+ simp
  with again show ?case by simp
qed simp

lemma wait_for_image_returned:
  assumes "wait_for_image w m region i h = Some (Inr (), h')"
  shows "seen_ready w region i h'"
proof -
  from assms obtain g where "pollP (ali_image_look w (clock w h) i) (h @ [now_call] @ [set_region_call region]) =
      Some (Inr (), g)" "h' = g @ [set_region_call (im_region m)]"
    by (auto simp: wait_for_image_def set_region_id_def prog_simps)
  then show ?thesis using poll_sees_ready [of w "clock w h" i _ "Inr ()" g region] seen_ready_append
    by (metis acs_region_set append_assoc)
qed

text \<open>The call that shares an image that was not seen available in the region of the client.\<close>

definition ali_premature :: "world \<Rightarrow> call list \<Rightarrow> call \<Rightarrow> bool" where
  "ali_premature w us c \<longleftrightarrow> (\<exists>i. c = share_call ISO_SHARE i \<and>
     \<not> (\<exists>region. acs_region us = Some (PStr region) \<and> seen_ready w region i us))"

lemma not_ali_premature:
  "c_method c \<noteq> ''ModifyImageSharePermission'' \<Longrightarrow> \<not> ali_premature w us c"
  by (auto simp: ali_premature_def)

lemma set_region_guarded [guarded_intros]: "Q h (set_region_call r) \<Longrightarrow> guarded Q (set_region_id r) h"
  by (simp add: set_region_id_def guarded_def)

lemma wait_for_image_guarded: "guarded (\<lambda>us c. \<not> ali_premature w us c) (wait_for_image w m region i) h"
  unfolding wait_for_image_def ali_image_look_def
  by (intro guarded_intros not_ali_premature) simp_all

lemma check_image_existance_guarded:
  "guarded (\<lambda>us c. \<not> ali_premature w us c) (check_image_existance w m region nm) h"
  unfolding check_image_existance_def
  by (intro guarded_intros not_ali_premature) simp_all

lemma ali_import_image_guarded: "guarded (\<lambda>us c. \<not> ali_premature w us c) (ali_import_image w m) h"
  unfolding ali_import_image_def
  by (auto intro!: guarded_intros wait_for_image_guarded check_image_existance_guarded not_ali_premature
      split: prod.splits)

lemma ali_import_image_returned:
  "ali_import_image w m h = Some (Inr i, h') \<Longrightarrow> seen_ready w (im_region m) i h'"
  by (auto simp: ali_import_image_def prog_simps dest!: wait_for_image_returned split: prod.splits if_splits)

lemma share_images_guarded:
  assumes "\<forall>(region, i) \<in> set rim. seen_ready w region i h"
  shows "guarded (\<lambda>us c. \<not> ali_premature w us c) (share_images w m rim) h"
proof -
  have body: "guarded (\<lambda>us c. \<not> ali_premature w us c)
      (case x of (region, i) \<Rightarrow> bindP (set_region_id region) (\<lambda>_. bindP (ask w (share_call ISO_SHARE i)) (\<lambda>_. retP ()))) g"
    if "x \<in> set rim" "\<forall>(region, i) \<in> set rim. seen_ready w region i g" for x g
  proof -
    obtain region i where x: "x = (region, i)" by (cases x)
    with that have "seen_ready w region i (g @ [set_region_call region])" by (auto intro: seen_ready_append)
    then have "\<not> ali_premature w (g @ [set_region_call region]) (share_call ISO_SHARE i)"
      by (auto simp: ali_premature_def share_call_inject)
    then have "guarded (\<lambda>us c. \<not> ali_premature w us c) (bindP (ask w (share_call ISO_SHARE i)) (\<lambda>_. retP ()))
        (g @ [set_region_call region])"
      by (intro guarded_intros)
    moreover have "guarded (\<lambda>us c. \<not> ali_premature w us c) (set_region_id region) g"
      by (intro set_region_guarded not_ali_premature) simp
    ultimately show ?thesis unfolding x prod.case
      by (elim guarded_bind) (simp add: set_region_id_def)
  qed
  show ?thesis unfolding share_images_def
    by (rule guarded_bind [OF guarded_forP [where I = "\<lambda>g. \<forall>(region, i) \<in> set rim. seen_ready w region i g",
          OF body]])
      (use assms in \<open>auto intro!: guarded_intros not_ali_premature intro: seen_ready_append\<close>)
qed

lemma waits_returned:
  assumes "forP (\<lambda>(region, i). wait_for_image w m region i) rim h = Some (Inr (), h')" "(region, i) \<in> set rim"
  shows "seen_ready w region i h'"
  using assms
proof (induction rim arbitrary: h)
  case Nil
  then show ?case by simp
next
  case (Cons x rim)
  have grow: "grows (forP (\<lambda>(region, i). wait_for_image w m region i) rim) g" for g
    by (rule guarded_forP [where I = "\<lambda>_. True"])
      (auto intro: guarded_weaken [OF wait_for_image_guarded] split: prod.splits)
  from Cons.prems(1) obtain g where
    x: "wait_for_image w m (fst x) (snd x) h = Some (Inr (), g)"
    and rest: "forP (\<lambda>(region, i). wait_for_image w m region i) rim g = Some (Inr (), h')"
    by (auto simp: prog_simps split: prod.splits)
  show ?case
  proof (cases "x = (region, i)")
    case True
    obtain cs where "h' = g @ cs" using growsD [OF grow rest] by blast
    then show ?thesis using wait_for_image_returned [OF x] True by (simp add: seen_ready_append)
  next
    case False
    then show ?thesis using Cons rest by simp
  qed
qed

lemma make_image_guarded: "guarded (\<lambda>us c. \<not> ali_premature w us c) (make_image w m) h"
proof -
  have copies: "guarded (\<lambda>us c. \<not> ali_premature w us c)
      (mapP (\<lambda>region. bindP (ali_copy_image w m i region) (\<lambda>i. retP (region, i))) rs) g" for i rs g
    unfolding ali_copy_image_def
    by (auto intro!: guarded_intros check_image_existance_guarded not_ali_premature split: prod.splits)
  have regions: "guarded (\<lambda>us c. \<not> ali_premature w us c) (list_regions w m) g" for g
    unfolding list_regions_def by (auto intro!: guarded_intros not_ali_premature)
  have waits: "guarded (\<lambda>us c. \<not> ali_premature w us c)
      (forP (\<lambda>(image, region). wait_for_image w m image region) rim) g" for rim g
    by (rule guarded_forP [where I = "\<lambda>_. True"]) (auto intro: wait_for_image_guarded split: prod.splits)
  show ?thesis unfolding make_image_def Let_def
  proof (intro guarded_bind [OF ali_import_image_guarded] guarded_bind [OF regions] guarded_bind [OF copies]
      guarded_bind [OF waits] guarded_bind [OF share_images_guarded] guarded_basic)
    fix i g1 rs g2 cps g3 u g4
    assume a: "ali_import_image w m h = Some (Inr i, g1)" "list_regions w m g1 = Some (Inr rs, g2)"
      "mapP (\<lambda>region. bindP (ali_copy_image w m i region) (\<lambda>i. retP (region, i))) rs g2 = Some (Inr cps, g3)"
      "forP (\<lambda>(image, region). wait_for_image w m image region) (dict_of cps) g3 = Some (Inr u, g4)"
    have "\<exists>cs. g4 = g1 @ cs"
      using guardedD [OF regions a(2)] guardedD [OF copies a(3)] guardedD [OF waits a(4)] by auto
    then have "seen_ready w (im_region m) i g4"
      using ali_import_image_returned [OF a(1)] seen_ready_append by blast
    moreover have "seen_ready w region j g4" if "(region, j) \<in> set (dict_of cps)" for region j
      using waits_returned a(4) that by (cases u) simp
    moreover have "set (dict_set k v d) \<subseteq> insert (k, v) (set d)" for k v and d :: "(string \<times> string) list"
      by (induction k v d rule: dict_set.induct) auto
    ultimately show "\<forall>(region, j) \<in> set (dict_set (im_region m) i (dict_of cps)). seen_ready w region j g4"
      by fastforce
  qed
qed

text \<open>
  C38: on Alibaba Cloud, too, an image is shared only after it was seen available, and in the region
  in which it is then shared, although the client's region is switched back and forth between the
  requests; on every path, errors included.
\<close>

theorem ali_shared_after_available:
  assumes "make_image w m h = Some (r, h @ us @ share_call ISO_SHARE i # vs)"
  shows "\<exists>region. acs_region (h @ us) = Some (PStr region) \<and> seen_ready w region i (h @ us)"
proof -
  from guardedD [OF make_image_guarded assms] obtain cs where
    "us @ share_call ISO_SHARE i # vs = cs" "ok_calls (\<lambda>us c. \<not> ali_premature w us c) h cs" by auto
  then have "\<not> ali_premature w (h @ us) (share_call ISO_SHARE i)" using ok_calls_split by blast
  then show ?thesis by (auto simp: ali_premature_def)
qed

definition sample_ali_answer :: "call list \<Rightarrow> call \<Rightarrow> pobj" where
  "sample_ali_answer h c =
     (if c_method c = ''DescribeRegions'' then
        PDict [(''Regions'', PDict [(''Region'', PList [PDict [(''RegionId'', PStr ''home'')], PDict [(''RegionId'', PStr ''away'')]])])]
      else PDict [(''TotalCount'', PInt 1), (''Images'', PDict [(''Image'', PList [PDict
        [(''ImageId'', PStr ''m-1''), (''Status'', PStr (if c \<in> set h then ''Available'' else ''Creating''))]])])])"

definition sample_ali :: world where
  "sample_ali = \<lparr>answer = (\<lambda>h c. Inr (sample_ali_answer h c)), clock = (\<lambda>_. 0)\<rparr>"

definition sample_maker :: image_maker where
  "sample_maker = \<lparr>im_release = sample_release ''ali'' ''rootfs.qcow2'', im_bucket_name = ''oss'', im_region = ''home'',
     im_image_oss_key = ''gardenlinux-560.0.qcow2'', im_image_name = ''gardenlinux-ali-560.0-012345''\<rparr>"

lemma sample_ali_run:
  "map_option (\<lambda>p. take 2 (rev (snd p))) (make_image sample_ali sample_maker []) =
     Some [set_region_call ''home'', share_call ISO_SHARE ''m-1'']"
  by code_simp

theorem ali_shared_after_available_witness:
  "\<exists>r us region. make_image sample_ali sample_maker [] =
       Some (r, us @ [share_call ISO_SHARE ''m-1'', set_region_call ''home'']) \<and>
     acs_region us = Some (PStr region) \<and> seen_ready sample_ali region ''m-1'' us"
proof -
  from sample_ali_run obtain r h' where run: "make_image sample_ali sample_maker [] = Some (r, h')"
    and t: "take 2 (rev h') = [set_region_call ''home'', share_call ISO_SHARE ''m-1'']" by auto
  define us where "us = rev (drop 2 (rev h'))"
  have "h' = rev (take 2 (rev h') @ drop 2 (rev h'))" by simp
  then have h': "h' = us @ [share_call ISO_SHARE ''m-1'', set_region_call ''home'']"
    unfolding t us_def by simp
  then show ?thesis
    using ali_shared_after_available [of sample_ali sample_maker "[]" r us "''m-1''" "[set_region_call ''home'']"]
      run by auto
qed

end
