(* ===== verification/Azure.thy ===== *)
theory Azure
  imports Gcp_Openstack
begin

text \<open>
  Publishing on Azure: \<open>ci/glci/az.py\<close>.  The image is copied to a storage account page by page and
  added to the marketplace offer, whose transport to staging and production is then followed by
  repeated checks; or it goes to a shared img gallery.  Responses of the marketplace are the object
  with the attributes \<open>ok\<close> and \<open>json\<close> that the code reads.  \<open>semver\<close> is \<open>parse_to_semver\<close> of the package
  \<open>version\<close>, printed.
\<close>

subsection \<open>The image store\<close>

record image_store =
  st_sa_name :: string
  st_sa_key :: string
  st_container_name :: string

definition copy_step_length :: int where
  "copy_step_length = 4 * 1024 * 1024"

text \<open>The offsets and lengths of the copy loop.\<close>

function page_ranges :: "int \<Rightarrow> int \<Rightarrow> (int \<times> int) list" where
  "page_ranges offset file_size =
     (if offset < file_size
      then (let actual_cp_bytes = min copy_step_length (file_size - offset) in
        (offset, actual_cp_bytes) # page_ranges (offset + actual_cp_bytes) file_size)
      else [])"
  by pat_completeness auto

termination
  by (relation "measure (\<lambda>(offset, file_size). nat (file_size - offset))") (auto simp: copy_step_length_def)

declare page_ranges.simps [simp del]

definition blob_client :: "image_store \<Rightarrow> string \<Rightarrow> string list" where
  "blob_client store blob_name =
     [''blob'', ''DefaultEndpointsProtocol=https;AccountName='' @ st_sa_name store @ '';AccountKey='' @
        st_sa_key store @ '';EndpointSuffix=core.windows.net'', st_container_name store, blob_name]"

definition upload_page_call :: "image_store \<Rightarrow> string \<Rightarrow> pobj \<Rightarrow> int \<times> int \<Rightarrow> call" where
  "upload_page_call store blob_name url r = mk_call (blob_client store blob_name) ''upload_pages_from_url''
     [(''source_url'', url), (''offset'', PInt (fst r)), (''length'', PInt (snd r)), (''source_offset'', PInt (fst r))]"

definition copy_from_s3 :: "world \<Rightarrow> image_store \<Rightarrow> string \<Rightarrow> string \<Rightarrow> string \<Rightarrow> unit prog" where
  "copy_from_s3 w store s3_bucket_name s3_object_key target_blob_name =
     bindP (ask w (mk_call [''s3''] ''head_object''
         [(''Bucket'', PStr s3_bucket_name), (''Key'', PStr s3_object_key)])) (\<lambda>resp.
     bindP (liftP (bindR (item ''ContentLength'' resp) as_int)) (\<lambda>file_size.
     bindP (ask w (mk_call [''s3''] ''generate_presigned_url'' [(''ClientMethod'', PStr ''get_object''),
         (''Params'', PDict [(''Bucket'', PStr s3_bucket_name), (''Key'', PStr s3_object_key)])])) (\<lambda>url.
     bindP (ask w (mk_call (blob_client store target_blob_name) ''create_page_blob'' [(''size'', PInt file_size)])) (\<lambda>_.
       forP (\<lambda>r. bindP (ask w (upload_page_call store target_blob_name url r)) (\<lambda>_. retP ()))
         (page_ranges 0 file_size)))))"

definition microseconds_per_day :: int where
  "microseconds_per_day = 86400 * 1000000"

definition get_image_url :: "world \<Rightarrow> image_store \<Rightarrow> string \<Rightarrow> bool \<Rightarrow> string prog" where
  "get_image_url w store image_name with_sas_token =
     (let result_url = ''https://'' @ st_sa_name store @ ''.blob.core.windows.net/'' @ st_container_name store @
        ''/'' @ image_name in
      if with_sas_token
      then bindP (nowP w) (\<lambda>t1. bindP (nowP w) (\<lambda>t2.
        bindP (ask w (mk_call [''azure.storage.blob''] ''generate_container_sas''
          [(''account_name'', PStr (st_sa_name store)), (''account_key'', PStr (st_sa_key store)),
           (''container_name'', PStr (st_container_name store)), (''permission'', PStr ''rl''),
           (''start'', PInt (t1 - microseconds_per_day)), (''expiry'', PInt (t2 + 30 * microseconds_per_day))]))
          (\<lambda>sas. liftP (bindR (as_str sas) (\<lambda>container_sas. Inr (result_url @ ''?'' @ container_sas))))))
      else retP result_url)"

definition copy_image_from_s3_to_az_storage_account :: "world \<Rightarrow> azure_storage_account_cfg \<Rightarrow> string \<Rightarrow> string \<Rightarrow>
    string \<Rightarrow> bool \<Rightarrow> string prog" where
  "copy_image_from_s3_to_az_storage_account w cfg s3_bucket_name s3_object_key target_blob_name with_sas_token =
     (let store = \<lparr>st_sa_name = asa_storage_account_name cfg, st_sa_key = asa_access_key cfg,
        st_container_name = asa_container_name cfg\<rparr> in
      bindP (copy_from_s3 w store s3_bucket_name s3_object_key target_blob_name) (\<lambda>_.
        get_image_url w store target_blob_name with_sas_token))"

subsection \<open>The marketplace client\<close>

definition mk_marketplace_client :: "world \<Rightarrow> azure_service_principal_cfg \<Rightarrow> string prog" where
  "mk_marketplace_client w cfg =
     bindP (ask w (mk_call [''msal'', asp_client_id cfg, ''https://login.microsoftonline.com/'' @ asp_tenant_id cfg]
         ''acquire_token_for_client'' [(''scopes'', PStr ''https://cloudpartner.azure.com/.default'')])) (\<lambda>token.
     bindP (liftP (has_key ''error'' token)) (\<lambda>failed.
       if failed then bindP (liftP (item ''error_description'' token)) (\<lambda>_. raiseP (RuntimeError ''Could not fetch token''))
       else liftP (item_str ''access_token'' token)))"

text \<open>
  \<open>_request\<close> has a mutable default for its headers.  All calls that pass no headers share one
  dictionary, into which the first of them puts its token.  So the dictionary is empty before the
  first such request of the process, and afterwards has the headers of that request; the requests that
  pass headers are those with \<open>If-Match\<close>.
\<close>

definition default_headers :: "call list \<Rightarrow> (string \<times> pobj) list" where
  "default_headers h =
     (case List.find (\<lambda>c. c_client c = [''requests''] \<and> (case map_of (c_args c) ''headers'' of
          Some (PDict d) \<Rightarrow> ''If-Match'' \<notin> fst ` set d | _ \<Rightarrow> False)) h of
        None \<Rightarrow> []
      | Some c \<Rightarrow> (case map_of (c_args c) ''headers'' of Some (PDict d) \<Rightarrow> d | _ \<Rightarrow> []))"

definition set_default :: "string \<Rightarrow> pobj \<Rightarrow> (string \<times> pobj) list \<Rightarrow> (string \<times> pobj) list" where
  "set_default k v d = (if k \<in> fst ` set d then d else dict_set k v d)"

definition request_headers :: "string \<Rightarrow> (string \<times> pobj) list \<Rightarrow> (string \<times> pobj) list" where
  "request_headers token headers =
     set_default ''Content-Type'' (PStr ''application/json'')
       (set_default ''Authorization'' (PStr (''Bearer '' @ token)) headers)"

definition api_url :: "string list \<Rightarrow> string" where
  "api_url parts = py_join ''/'' (''https://cloudpartner.azure.com/api/publishers'' # parts)"

definition request_call :: "string \<Rightarrow> string list \<Rightarrow> (string \<times> pobj) list \<Rightarrow> (string \<times> pobj) list \<Rightarrow> call" where
  "request_call method parts headers kwargs = mk_call [''requests''] ''request''
     ([(''method'', PStr method), (''url'', PStr (api_url parts)), (''headers'', PDict headers),
       (''params'', PDict [(''api-version'', PStr ''2017-10-31'')])] @ kwargs)"

text \<open>\<open>headers\<close> is \<open>None\<close> for a call that passes none.\<close>

definition request :: "world \<Rightarrow> string \<Rightarrow> string \<Rightarrow> string list \<Rightarrow> (string \<times> pobj) list option \<Rightarrow>
    (string \<times> pobj) list \<Rightarrow> pobj prog" where
  "request w token method parts headers kwargs h =
     ask w (request_call method parts
       (request_headers token (case headers of None \<Rightarrow> default_headers h | Some d \<Rightarrow> d)) kwargs) h"

definition raise_for_status :: "pobj \<Rightarrow> unit res" where
  "raise_for_status response =
     bindR (item ''ok'' response) (\<lambda>is_ok. if truthy is_ok then Inr () else Inl (RuntimeError ''HTTP call failed''))"

definition requested :: "world \<Rightarrow> string \<Rightarrow> string \<Rightarrow> string list \<Rightarrow> (string \<times> pobj) list option \<Rightarrow>
    (string \<times> pobj) list \<Rightarrow> pobj prog" where
  "requested w token method parts headers kwargs =
     bindP (request w token method parts headers kwargs) (\<lambda>response.
     bindP (liftP (raise_for_status response)) (\<lambda>_. retP response))"

definition fetch_offer :: "world \<Rightarrow> string \<Rightarrow> string \<Rightarrow> string \<Rightarrow> pobj prog" where
  "fetch_offer w token publisher_id offer_id =
     bindP (requested w token ''GET'' [publisher_id, ''offers'', offer_id] None []) (\<lambda>response.
       liftP (item ''json'' response))"

definition update_offer :: "world \<Rightarrow> string \<Rightarrow> string \<Rightarrow> string \<Rightarrow> pobj \<Rightarrow> unit prog" where
  "update_offer w token publisher_id offer_id spec =
     bindP (requested w token ''PUT'' [publisher_id, ''offers'', offer_id] (Some [(''If-Match'', PStr ''*'')])
         [(''json'', spec)]) (\<lambda>_. retP ())"

definition publish_offer :: "world \<Rightarrow> string \<Rightarrow> string \<Rightarrow> string \<Rightarrow> string list \<Rightarrow> unit prog" where
  "publish_offer w token publisher_id offer_id notification_mails =
     bindP (requested w token ''POST'' [publisher_id, ''offers'', offer_id, ''publish''] None
         [(''json'', PDict [(''metadata'', PDict [(''notification-emails'',
            PStr (py_join '','' notification_mails))])])]) (\<lambda>_. retP ())"

fun find_operation :: "azmp_transport_dest \<Rightarrow> pobj list \<Rightarrow> string res" where
  "find_operation dest [] = Inl (RuntimeError ''Did not find an ongoing transport operation'')"
| "find_operation dest (operation # operations) =
     bindR (bindR (item_str ''slot'' operation) azmp_transport_dest_of) (\<lambda>slot.
       if slot = dest
       then bindR (bindR (item_str ''submissionState'' operation) azmp_operation_state_of) (\<lambda>st.
         if st = AOS_RUNNING then item_str ''id'' operation else find_operation dest operations)
       else find_operation dest operations)"

definition fetch_ongoing_operation_id :: "world \<Rightarrow> string \<Rightarrow> string \<Rightarrow> string \<Rightarrow> azmp_transport_dest \<Rightarrow> string prog" where
  "fetch_ongoing_operation_id w token publisher_id offer_id transport_dest =
     bindP (requested w token ''GET'' [publisher_id, ''offers'', offer_id, ''submissions''] None []) (\<lambda>response.
       liftP (bindR (item ''json'' response) (\<lambda>operations.
         bindR (as_list operations) (find_operation transport_dest))))"

definition fetch_operation_state :: "world \<Rightarrow> string \<Rightarrow> string \<Rightarrow> string \<Rightarrow> string \<Rightarrow> azmp_operation_state prog" where
  "fetch_operation_state w token publisher_id offer_id operation_id =
     bindP (requested w token ''GET'' [publisher_id, ''offers'', offer_id, ''operations'', operation_id] None [])
       (\<lambda>response. liftP (bindR (item ''json'' response) (\<lambda>operation.
          bindR (item_str ''status'' operation) azmp_operation_state_of)))"

definition go_live :: "world \<Rightarrow> string \<Rightarrow> string \<Rightarrow> string \<Rightarrow> unit prog" where
  "go_live w token publisher_id offer_id =
     bindP (requested w token ''POST'' [publisher_id, ''offers'', offer_id, ''golive''] None []) (\<lambda>_. retP ())"

subsection \<open>The offer\<close>

definition vm_images :: string where
  "vm_images = ''microsoft-azure-virtualmachines.vmImages''"

text \<open>
  The plan is changed in place: \<open>on_plan f\<close> changes the first plan with the id.  If there is none, the
  message of the exception is built from \<open>plan_spec["id"]\<close>, and \<open>plan_spec\<close> is still empty.
\<close>

fun on_plan :: "string \<Rightarrow> (pobj \<Rightarrow> pobj res) \<Rightarrow> pobj list \<Rightarrow> pobj list res" where
  "on_plan plan_id f [] = Inl (KeyError ''id'')"
| "on_plan plan_id f (plan # plans) =
     bindR (item ''planId'' plan) (\<lambda>i.
       if i = PStr plan_id then bindR (f plan) (\<lambda>plan'. Inr (plan' # plans))
       else bindR (on_plan plan_id f plans) (\<lambda>plans'. Inr (plan # plans')))"

fun set_item :: "string \<Rightarrow> pobj \<Rightarrow> pobj \<Rightarrow> pobj res" where
  "set_item k v (PDict d) = Inr (PDict (dict_set k v d))"
| "set_item k v d = Inl (TypeError ''item assignment'')"

fun del_item :: "string \<Rightarrow> pobj \<Rightarrow> pobj res" where
  "del_item k (PDict d) =
     (if k \<in> fst ` set d then Inr (PDict (filter (\<lambda>e. fst e \<noteq> k) d)) else Inl (KeyError k))"
| "del_item k d = Inl (TypeError ''item deletion'')"

definition on_plan_of_spec :: "string \<Rightarrow> (pobj \<Rightarrow> pobj res) \<Rightarrow> pobj \<Rightarrow> pobj res" where
  "on_plan_of_spec plan_id f spec =
     bindR (item ''definition'' spec) (\<lambda>def. bindR (item ''plans'' def) (\<lambda>plans.
     bindR (as_list plans) (\<lambda>ps. bindR (on_plan plan_id f ps) (\<lambda>ps'.
     bindR (set_item ''plans'' (PList ps') def) (\<lambda>def'. set_item ''definition'' def' spec)))))"

definition on_vm_images :: "(pobj \<Rightarrow> pobj res) \<Rightarrow> pobj \<Rightarrow> pobj res" where
  "on_vm_images f plan = bindR (item vm_images plan) (\<lambda>images.
     bindR (f images) (\<lambda>images'. set_item vm_images images' plan))"

definition add_image_version_to_plan :: "pobj \<Rightarrow> string \<Rightarrow> string \<Rightarrow> string \<Rightarrow> pobj res" where
  "add_image_version_to_plan spec plan_id image_version image_url =
     on_plan_of_spec plan_id (on_vm_images (set_item image_version
       (PDict [(''osVhdUrl'', PStr image_url), (''lunVhdDetails'', PList [])]))) spec"

definition remove_image_version_from_plan :: "pobj \<Rightarrow> string \<Rightarrow> string \<Rightarrow> pobj res" where
  "remove_image_version_from_plan spec plan_id image_version =
     on_plan_of_spec plan_id (on_vm_images (del_item image_version)) spec"

definition generate_urn :: "azure_marketplace_cfg \<Rightarrow> string \<Rightarrow> string" where
  "generate_urn cfg image_version =
     amc_publisher_id cfg @ '':'' @ amc_offer_id cfg @ '':'' @ amc_plan_id cfg @ '':'' @ image_version"

definition update_and_publish_marketplace_offer :: "world \<Rightarrow> azure_service_principal_cfg \<Rightarrow>
    azure_marketplace_cfg \<Rightarrow> string \<Rightarrow> string \<Rightarrow> string list \<Rightarrow> string prog" where
  "update_and_publish_marketplace_offer w spn cfg image_version image_url notification_recipients =
     bindP (mk_marketplace_client w spn) (\<lambda>token.
     bindP (fetch_offer w token (amc_publisher_id cfg) (amc_offer_id cfg)) (\<lambda>offer_spec.
     bindP (liftP (add_image_version_to_plan offer_spec (amc_plan_id cfg) image_version image_url)) (\<lambda>modified_offer_spec.
     bindP (update_offer w token (amc_publisher_id cfg) (amc_offer_id cfg) modified_offer_spec) (\<lambda>_.
     bindP (publish_offer w token (amc_publisher_id cfg) (amc_offer_id cfg) notification_recipients) (\<lambda>_.
       fetch_ongoing_operation_id w token (amc_publisher_id cfg) (amc_offer_id cfg) ATD_STAGING)))))"

subsection \<open>The transport of the offer\<close>

definition with_image :: "azure_published_image \<Rightarrow> online_release_manifest \<Rightarrow> online_release_manifest" where
  "with_image img release = release\<lparr>rm_published_image_metadata := Some (AzurePublishedImage img)\<rparr>"

fun azure_image :: "published_images option \<Rightarrow> azure_published_image res" where
  "azure_image (Some (AzurePublishedImage img)) = Inr img"
| "azure_image metadata = Inl (AttributeError ''transport_state'')"

text \<open>
  \<open>AzurePublishedImage\<close> is frozen, so that the assignment in the branch of a failed operation raises
  \<open>FrozenInstanceError\<close>, which is an \<open>AttributeError\<close>.
\<close>

definition check_offer_transport_state :: "world \<Rightarrow> azure_service_principal_cfg \<Rightarrow> azure_marketplace_cfg \<Rightarrow>
    online_release_manifest \<Rightarrow> online_release_manifest prog" where
  "check_offer_transport_state w spn cfg release =
     bindP (liftP (azure_image (rm_published_image_metadata release))) (\<lambda>img.
     (let transport_state = azi_transport_state img in
      if transport_state = ATS_RELEASED then retP release
      else
        bindP (mk_marketplace_client w spn) (\<lambda>token.
        bindP (fetch_operation_state w token (amc_publisher_id cfg) (amc_offer_id cfg) (azi_publish_operation_id img))
          (\<lambda>operation_status.
          if operation_status = AOS_FAILED
          then if transport_state = ATS_GO_LIVE then raiseP (AttributeError ''golive_operation_id'')
            else retP (with_image \<lparr>azi_transport_state = ATS_FAILED, azi_urn = '''',
              azi_publish_operation_id = azi_publish_operation_id img, azi_golive_operation_id = ''''\<rparr> release)
          else if transport_state = ATS_PUBLISH \<and> operation_status = AOS_SUCCEEDED
          then
            bindP (go_live w token (amc_publisher_id cfg) (amc_offer_id cfg)) (\<lambda>_.
            bindP (fetch_ongoing_operation_id w token (amc_publisher_id cfg) (amc_offer_id cfg) ATD_PROD)
              (\<lambda>golive_operation_id.
                retP (with_image \<lparr>azi_transport_state = ATS_GO_LIVE, azi_urn = '''',
                  azi_publish_operation_id = azi_publish_operation_id img,
                  azi_golive_operation_id = golive_operation_id\<rparr> release)))
          else if transport_state = ATS_GO_LIVE \<and> operation_status = AOS_SUCCEEDED
          then retP (with_image \<lparr>azi_transport_state = ATS_RELEASED,
              azi_urn = generate_urn cfg (ri_version release),
              azi_publish_operation_id = azi_publish_operation_id img,
              azi_golive_operation_id = azi_golive_operation_id img\<rparr> release)
          else retP release))))"

definition get_target_blob_name :: "string \<Rightarrow> string" where
  "get_target_blob_name version = ''gardenlinux-az-'' @ version @ ''.vhd''"

definition azure_upload_and_publish_image :: "world \<Rightarrow> (string \<Rightarrow> string res) \<Rightarrow> azure_service_principal_cfg \<Rightarrow>
    azure_storage_account_cfg \<Rightarrow> azure_marketplace_cfg \<Rightarrow> online_release_manifest \<Rightarrow> string list \<Rightarrow>
    online_release_manifest prog" where
  "azure_upload_and_publish_image w semver spn storage cfg release notification_emails =
     bindP (liftP (bindR (virtual_image_artifact_for_platform ''azure'') (\<lambda>artifact.
         path_by_suffix artifact release))) (\<lambda>artifact_path.
     bindP (copy_image_from_s3_to_az_storage_account w storage (rf_s3_bucket_name artifact_path)
         (rf_s3_key artifact_path) (get_target_blob_name (ri_version release)) True) (\<lambda>image_url.
     bindP (liftP (semver (ri_version release))) (\<lambda>azure_version.
     bindP (update_and_publish_marketplace_offer w spn cfg azure_version image_url notification_emails)
       (\<lambda>publish_operation_id.
     bindP (liftP (semver (ri_version release))) (\<lambda>parsed_version.
       retP (with_image \<lparr>azi_transport_state = ATS_PUBLISH, azi_urn = generate_urn cfg parsed_version,
         azi_publish_operation_id = publish_operation_id, azi_golive_operation_id = ''''\<rparr> release))))))"

subsection \<open>Shared image gallery\<close>

definition compute_client :: "string list" where
  "compute_client = [''azure.mgmt.compute'']"

text \<open>An operation that is begun is waited for with \<open>result()\<close>.\<close>

definition run_operation :: "world \<Rightarrow> string list \<Rightarrow> string \<Rightarrow> (string \<times> pobj) list \<Rightarrow> pobj prog" where
  "run_operation w client method params =
     bindP (ask w (mk_call client method params)) (\<lambda>poller.
       ask w (mk_call client ''result'' [(''poller'', poller)]))"

definition gallery_image :: "azure_shared_gallery_cfg \<Rightarrow> string \<Rightarrow> pobj" where
  "gallery_image cfg location = PDict [(''location'', PStr location), (''description'', PStr (asg_description cfg)),
     (''eula'', PStr (asg_eula cfg)), (''release_note_uri'', PStr (asg_release_note_uri cfg)),
     (''os_type'', PStr ''Linux''), (''os_state'', PStr ''Generalized''), (''hyper_v_generation'', PStr ''V1''),
     (''identifier'', PDict [(''publisher'', PStr (asg_identifier_publisher cfg)),
        (''offer'', PStr (asg_identifier_offer cfg)), (''sku'', PStr (asg_identifier_sku cfg))])]"

definition gallery_image_version :: "azure_shared_gallery_cfg \<Rightarrow> string \<Rightarrow> pobj \<Rightarrow> pobj" where
  "gallery_image_version cfg location source_id = PDict [(''location'', PStr location),
     (''tags'', PDict [(''component'', PStr ''gardenlinux'')]),
     (''publishing_profile'', PDict [
        (''target_regions'', PList [PDict [(''name'', PStr (asg_location cfg)),
           (''storage_account_type'', PStr ''Standard_LRS''), (''regional_replica_count'', PInt 1)]]),
        (''replica_count'', PInt 1), (''exclude_from_latest'', PBool False),
        (''storage_account_type'', PStr ''Standard_LRS'')]),
     (''storage_profile'', PDict [(''source'', PDict [(''id'', source_id)])])]"

definition create_shared_image :: "world \<Rightarrow> azure_shared_gallery_cfg \<Rightarrow> string \<Rightarrow> string \<Rightarrow> string \<Rightarrow> string \<Rightarrow>
    string \<Rightarrow> pobj \<Rightarrow> pobj prog" where
  "create_shared_image w cfg resource_group_name location gallery_name image_name image_version source_id =
     bindP (run_operation w compute_client ''gallery_images.begin_create_or_update''
         [(''resource_group_name'', PStr resource_group_name), (''gallery_name'', PStr gallery_name),
          (''gallery_image_name'', PStr image_name), (''gallery_image'', gallery_image cfg location)]) (\<lambda>_.
       run_operation w compute_client ''gallery_image_versions.begin_create_or_update''
         [(''resource_group_name'', PStr resource_group_name), (''gallery_name'', PStr gallery_name),
          (''gallery_image_name'', PStr image_name), (''gallery_image_version_name'', PStr image_version),
          (''gallery_image_version'', gallery_image_version cfg location source_id)])"

definition ignoring :: "string \<Rightarrow> unit prog \<Rightarrow> unit prog" where
  "ignoring e p = catchP p (\<lambda>e'. if e' = OtherException e then retP () else raiseP e')"

definition managed_image :: "azure_shared_gallery_cfg \<Rightarrow> string \<Rightarrow> pobj" where
  "managed_image cfg image_url = PDict [(''location'', PStr (asg_location cfg)), (''hyper_v_generation'', PStr ''V1''),
     (''storage_profile'', PDict [(''os_disk'', PDict [(''os_type'', PStr ''Linux''),
        (''os_state'', PStr ''Generalized''), (''blob_uri'', PStr image_url), (''caching'', PStr ''ReadWrite'')])])]"

definition publish_azure_shared_image_gallery :: "world \<Rightarrow> (string \<Rightarrow> string res) \<Rightarrow> online_release_manifest \<Rightarrow>
    azure_storage_account_cfg \<Rightarrow> azure_shared_gallery_cfg \<Rightarrow> online_release_manifest prog" where
  "publish_azure_shared_image_gallery w semver release storage cfg =
     (let group = (''resource_group_name'', PStr (asg_resource_group_name cfg));
          published_name = get_target_blob_name (ri_version release);
          img = [group, (''image_name'', PStr published_name)] in
     bindP (liftP (bindR (virtual_image_artifact_for_platform ''azure'') (\<lambda>artifact.
         path_by_suffix artifact release))) (\<lambda>artifact_path.
     bindP (ignoring ''ResourceExistsError'' (bindP (ask w (mk_call [''azure.mgmt.storage''] ''blob_containers.create''
         [group, (''account_name'', PStr (asa_storage_account_name storage)),
          (''container_name'', PStr (asa_container_name_sig storage)),
          (''blob_container'', PDict [(''public_access'', PStr ''None'')])])) (\<lambda>_. retP ()))) (\<lambda>_.
     bindP (copy_image_from_s3_to_az_storage_account w storage (rf_s3_bucket_name artifact_path)
         (rf_s3_key artifact_path) published_name False) (\<lambda>image_url.
     bindP (liftP (semver (ri_version release))) (\<lambda>published_version.
     bindP (ignoring ''ResourceNotFoundError'' (bindP (ask w (mk_call compute_client ''images.get'' img)) (\<lambda>_.
         bindP (run_operation w compute_client ''images.begin_delete'' img) (\<lambda>_. retP ())))) (\<lambda>_.
     bindP (run_operation w compute_client ''images.begin_create_or_update''
         (img @ [(''parameters'', managed_image cfg image_url)])) (\<lambda>result.
     bindP (liftP (item ''id'' result)) (\<lambda>source_id.
     bindP (create_shared_image w cfg (asg_resource_group_name cfg) (asg_location cfg) (asg_gallery_name cfg)
         (asg_published_name cfg) published_version source_id) (\<lambda>shared_img.
     bindP (liftP (item_str ''id'' shared_img)) (\<lambda>urn.
       retP (with_image \<lparr>azi_transport_state = ATS_RELEASED, azi_urn = urn,
         azi_publish_operation_id = '''', azi_golive_operation_id = ''''\<rparr> release)))))))))))"

end
