(* ===== verification/Azure_Properties.thy ===== *)
theory Azure_Properties
  imports Azure Aws_Properties
begin

text \<open>
  What the publishing on Azure guarantees: the page-wise copy copies the file, and the states that the
  transport of an offer goes through.
\<close>

subsection \<open>The copy loop\<close>

lemma page_ranges_bounds:
  assumes "(offset, len) \<in> set (page_ranges start file_size)"
  shows "start \<le> offset \<and> 0 < len \<and> len \<le> copy_step_length \<and> offset + len \<le> file_size"
  using assms
proof (induction start file_size rule: page_ranges.induct)
  case (1 start file_size)
  then show ?case
    by (subst (asm) (2) page_ranges.simps) (auto simp: copy_step_length_def Let_def split: if_splits)
qed

lemma page_ranges_cover:
  assumes "0 \<le> start" "start \<le> int (length bs)"
  shows "concat (map (\<lambda>(offset, len). take (nat len) (drop (nat offset) bs)) (page_ranges start (int (length bs)))) =
    drop (nat start) bs"
  using assms
proof (induction "nat (int (length bs) - start)" arbitrary: start rule: less_induct)
  case less
  show ?case
  proof (cases "start < int (length bs)")
    case False
    then show ?thesis using less.prems by (subst page_ranges.simps) simp
  next
    case True
    define len where "len = min copy_step_length (int (length bs) - start)"
    have len: "0 < len" "start + len \<le> int (length bs)"
      using True by (auto simp: len_def copy_step_length_def)
    have "page_ranges start (int (length bs)) = (start, len) # page_ranges (start + len) (int (length bs))"
      using True by (subst page_ranges.simps) (simp add: len_def Let_def)
    moreover have "concat (map (\<lambda>(offset, len). take (nat len) (drop (nat offset) bs))
        (page_ranges (start + len) (int (length bs)))) = drop (nat (start + len)) bs"
      by (rule less.hyps) (use len less.prems True in auto)
    moreover have "drop (nat (start + len)) bs = drop (nat len) (drop (nat start) bs)"
      using len less.prems by (simp add: nat_add_distrib add.commute)
    ultimately show ?thesis by (simp only: list.map prod.case concat.simps append_take_drop_id)
  qed
qed


text \<open>A run on an object of three bytes.\<close>

definition sample_az :: world where
  "sample_az = \<lparr>answer = (\<lambda>h c. Inr (PDict [(''ContentLength'', PInt 3)])), clock = (\<lambda>_. 0)\<rparr>"

definition sample_store :: image_store where
  "sample_store = \<lparr>st_sa_name = ''sa'', st_sa_key = ''key'', st_container_name = ''images''\<rparr>"


subsection \<open>The transport of an offer\<close>

text \<open>
  The releases that a base release becomes, one check after the other.  Each check may run in another
  process, in another world and after any calls.
\<close>

inductive transported :: "(string \<Rightarrow> string res) \<Rightarrow> azure_marketplace_cfg \<Rightarrow> online_release_manifest \<Rightarrow>
    online_release_manifest \<Rightarrow> bool" for semver cfg base where
  published: "azure_upload_and_publish_image w semver spn storage cfg base mails h = Some (Inr rel, h') \<Longrightarrow>
    transported semver cfg base rel"
| checked: "transported semver cfg base rel \<Longrightarrow>
    check_offer_transport_state w spn cfg rel h = Some (Inr rel', h') \<Longrightarrow> transported semver cfg base rel'"

text \<open>The image data that belongs to each state.\<close>

definition transport_ok :: "(string \<Rightarrow> string res) \<Rightarrow> azure_marketplace_cfg \<Rightarrow> string \<Rightarrow> azure_published_image \<Rightarrow> bool" where
  "transport_ok semver cfg version img \<longleftrightarrow>
     (case azi_transport_state img of
        ATS_PROVISIONAL \<Rightarrow> False
      | ATS_PUBLISH \<Rightarrow> (\<exists>v. semver version = Inr v \<and> azi_urn img = generate_urn cfg v) \<and> azi_golive_operation_id img = ''''
      | ATS_GO_LIVE \<Rightarrow> azi_urn img = ''''
      | ATS_RELEASED \<Rightarrow> azi_urn img = generate_urn cfg version
      | ATS_FAILED \<Rightarrow> azi_urn img = '''' \<and> azi_golive_operation_id img = '''')"

lemma with_image_simps [simp]:
  "rm_published_image_metadata (with_image img rel) = Some (AzurePublishedImage img)"
  "ri_version (with_image img rel) = ri_version rel"
  "with_image img' (with_image img rel) = with_image img' rel"
  by (simp_all add: with_image_def)

lemma published_ok:
  assumes "azure_upload_and_publish_image w semver spn storage cfg base mails h = Some (Inr rel, h')"
  obtains img where "rel = with_image img base" "transport_ok semver cfg (ri_version base) img"
    "azi_transport_state img = ATS_PUBLISH"
  using assms
  by (auto simp: azure_upload_and_publish_image_def prog_simps transport_ok_def intro!: that)

lemma checked_ok:
  assumes "check_offer_transport_state w spn cfg (with_image img base) h = Some (Inr rel', h')"
    and "transport_ok semver cfg (ri_version base) img"
  obtains img' where "rel' = with_image img' base" "transport_ok semver cfg (ri_version base) img'"
    "azi_publish_operation_id img' = azi_publish_operation_id img"
    "(azi_transport_state img, azi_transport_state img') \<in>
       {(ATS_PUBLISH, ATS_GO_LIVE), (ATS_PUBLISH, ATS_FAILED), (ATS_GO_LIVE, ATS_RELEASED)} \<or> img' = img"
proof (cases "rel' = with_image img base")
  case True
  then show ?thesis using that assms(2) by blast
next
  case False
  note ok = assms(2)
  from False assms(1) ok show ?thesis
    unfolding check_offer_transport_state_def
    by (cases "azi_transport_state img")
      (auto simp: prog_simps Let_def transport_ok_def split: if_splits intro: that)
qed


text \<open>A marketplace in which every operation has succeeded when it is looked at.\<close>

definition sample_marketplace_json :: "string \<Rightarrow> pobj" where
  "sample_marketplace_json url =
     (if endswith url ''submissions'' then PList [
        PDict [(''slot'', PStr ''staging''), (''submissionState'', PStr ''running''), (''id'', PStr ''op-1'')],
        PDict [(''slot'', PStr ''production''), (''submissionState'', PStr ''running''), (''id'', PStr ''op-2'')]]
      else PDict [(''status'', PStr ''succeeded''), (''definition'', PDict [(''plans'', PList [PDict
        [(''planId'', PStr ''plan''), (vm_images, PDict [])]])])])"

definition sample_marketplace :: world where
  "sample_marketplace = \<lparr>answer = (\<lambda>h c. Inr (
      if c_method c = ''generate_container_sas'' then PStr ''sas''
      else case map_of (c_args c) ''url'' of
        Some (PStr url) \<Rightarrow> PDict [(''ok'', PBool True), (''json'', sample_marketplace_json url)]
      | _ \<Rightarrow> PDict [(''ContentLength'', PInt 3), (''access_token'', PStr ''token'')])),
    clock = (\<lambda>_. 0)\<rparr>"

definition sample_offer :: azure_marketplace_cfg where
  "sample_offer = \<lparr>amc_offer_id = ''gardenlinux'', amc_publisher_id = ''sap'', amc_plan_id = ''plan''\<rparr>"

definition sample_principal :: azure_service_principal_cfg where
  "sample_principal = \<lparr>asp_tenant_id = ''t'', asp_client_id = ''c'', asp_client_secret = ''s'', asp_subscription_id = ''sub''\<rparr>"

definition sample_storage :: azure_storage_account_cfg where
  "sample_storage = \<lparr>asa_storage_account_name = ''sa'', asa_container_name = ''images'',
     asa_container_name_sig = ''sig'', asa_access_key = ''key''\<rparr>"

definition az_sample_image :: "azure_transport_state \<Rightarrow> string \<Rightarrow> string \<Rightarrow> azure_published_image" where
  "az_sample_image st urn golive = \<lparr>azi_transport_state = st, azi_urn = urn,
     azi_publish_operation_id = ''op-1'', azi_golive_operation_id = golive\<rparr>"

lemma sample_transport:
  "map_option fst (azure_upload_and_publish_image sample_marketplace (\<lambda>v. Inr (v @ ''.0'')) sample_principal
     sample_storage sample_offer (sample_release ''azure'' ''rootfs.vhd'') [] []) =
   Some (Inr (with_image (az_sample_image ATS_PUBLISH ''sap:gardenlinux:plan:560.0.0'' '''')
     (sample_release ''azure'' ''rootfs.vhd'')))"
  "map_option fst (check_offer_transport_state sample_marketplace sample_principal sample_offer
     (with_image (az_sample_image ATS_PUBLISH ''sap:gardenlinux:plan:560.0.0'' '''')
       (sample_release ''azure'' ''rootfs.vhd'')) []) =
   Some (Inr (with_image (az_sample_image ATS_GO_LIVE '''' ''op-2'') (sample_release ''azure'' ''rootfs.vhd'')))"
  "map_option fst (check_offer_transport_state sample_marketplace sample_principal sample_offer
     (with_image (az_sample_image ATS_GO_LIVE '''' ''op-2'') (sample_release ''azure'' ''rootfs.vhd'')) []) =
   Some (Inr (with_image (az_sample_image ATS_RELEASED ''sap:gardenlinux:plan:560.0'' ''op-2'')
     (sample_release ''azure'' ''rootfs.vhd'')))"
  by code_simp+


text \<open>
  The check of an offer that is going live asks for the state of the publish operation, which has
  succeeded already, and for nothing else: the go-live operation is never looked at.
\<close>

lemma golive_not_checked:
  assumes "azi_transport_state img = ATS_GO_LIVE"
    and "check_offer_transport_state w spn cfg (with_image img base) h = Some (Inr rel', h')"
  shows "\<exists>token headers. h' = h @ [token, request_call ''GET''
    [amc_publisher_id cfg, ''offers'', amc_offer_id cfg, ''operations'', azi_publish_operation_id img] headers []]"
  using assms
  by (auto simp: check_offer_transport_state_def prog_simps Let_def mk_marketplace_client_def
      fetch_operation_state_def requested_def request_def split: if_splits)

text \<open>
  The default headers keep the token of the first request of the process: what a client with another
  token sends is the same.
\<close>

lemma shared_default_headers:
  assumes "''Authorization'' \<in> fst ` set (default_headers h)"
  shows "request w token method parts None kwargs h = request w token' method parts None kwargs h"
  using assms by (simp add: request_def request_headers_def set_default_def)

end
