(* ===== verification/Oci.thy ===== *)
theory Oci
  imports Aws
begin

text \<open>
  Publishing of container images: \<open>ci/glci/oci.py\<close>.  Bytes are strings.  Compression, checksums, the
  registry client and the text of a JSON document are those of libraries (\<open>gziputil\<close>, \<open>lzma\<close>, \<open>hashlib\<close>,
  \<open>zlib\<close>, \<open>oci\<close>, \<open>json\<close>) and are parameters; of a hash object the code uses that updates add up, so it
  is the data it was given.
\<close>

subsection \<open>Documents\<close>

definition DOCKER_IMAGE_MANIFEST_V2_S2_MEDIATYPE :: string where
  "DOCKER_IMAGE_MANIFEST_V2_S2_MEDIATYPE = ''application/vnd.docker.distribution.manifest.v2+json''"

definition DOCKER_IMAGE_LIST_MEDIATYPE :: string where
  "DOCKER_IMAGE_LIST_MEDIATYPE = ''application/vnd.docker.distribution.manifest.list.v2+json''"

record blob_descriptor =
  bd_size :: nat
  bd_digest :: string

record image_manifest =
  imf_config :: blob_descriptor
  imf_layers :: "blob_descriptor list"

definition image_manifest_dict :: "image_manifest \<Rightarrow> pobj" where
  "image_manifest_dict m = PDict [
     (''config'', PDict [(''size'', PInt (int (bd_size (imf_config m)))), (''digest'', PStr (bd_digest (imf_config m))),
        (''mediaType'', PStr ''application/vnd.docker.container.image.v1+json'')]),
     (''layers'', PList (map (\<lambda>l. PDict [(''size'', PInt (int (bd_size l))), (''digest'', PStr (bd_digest l)),
        (''urls'', PNone), (''mediaType'', PStr ''application/vnd.docker.image.rootfs.diff.tar.gzip'')]) (imf_layers m))),
     (''schemaVersion'', PInt 2), (''mediaType'', PStr DOCKER_IMAGE_MANIFEST_V2_S2_MEDIATYPE)]"

record image_config =
  icf_created :: string
  icf_architecture :: oci_architecture
  icf_os :: oci_operating_system
  icf_diff_ids :: "string list"

text \<open>The optional attributes of \<open>ContainerImageConfig\<close> and \<open>HistoryConfig\<close> that nobody sets are null.\<close>

definition image_config_dict :: "image_config \<Rightarrow> pobj" where
  "image_config_dict c = PDict [
     (''architecture'', PStr (oci_architecture_value (icf_architecture c))), (''author'', PStr ''Gardenlinux CI''),
     (''created'', PStr (icf_created c)),
     (''history'', PList [PDict ((''created'', PStr (icf_created c)) #
        map (\<lambda>k. (k, PNone)) [''author'', ''created_by'', ''comment'', ''empty_layer''])]),
     (''os'', PStr (oci_operating_system_value (icf_os c))),
     (''rootfs'', PDict [(''type'', PStr ''layers''), (''diff_ids'', PList (map PStr (icf_diff_ids c)))]),
     (''config'', PDict ([(''User'', PNone), (''ExposedPorts'', PNone),
        (''Env'', PList [PStr ''PATH=/usr/local/sbin:/usr/local/bin:/usr/sbin:/usr/bin:/sbin:/bin'']),
        (''Entrypoint'', PNone), (''Cmd'', PList [PStr ''/bin/sh''])] @
        map (\<lambda>k. (k, PNone)) [''Volumes'', ''WorkingDir'', ''Labels'', ''StopSignal'', ''Memory'', ''MemorySwap'',
          ''CpuShares'', ''Healthcheck'']))]"

record manifest_list_entry =
  mle_digest :: string
  mle_architecture :: oci_architecture
  mle_os :: oci_operating_system
  mle_size :: nat

definition manifest_list_dict :: "manifest_list_entry list \<Rightarrow> pobj" where
  "manifest_list_dict entries = PDict [
     (''manifests'', PList (map (\<lambda>e. PDict [(''digest'', PStr (mle_digest e)),
        (''platform'', PDict [(''architecture'', PStr (oci_architecture_value (mle_architecture e))),
           (''os'', PStr (oci_operating_system_value (mle_os e)))]),
        (''size'', PInt (int (mle_size e))), (''mediaType'', PStr DOCKER_IMAGE_MANIFEST_V2_S2_MEDIATYPE)]) entries)),
     (''mediaType'', PStr DOCKER_IMAGE_LIST_MEDIATYPE), (''schemaVersion'', PInt 2)]"

subsection \<open>The libraries\<close>

record 'z oci_libs =
  ol_lzma_decompress :: "string \<Rightarrow> string res"
  ol_gzip_header :: string
  ol_compressobj :: 'z
  ol_compress :: "'z \<Rightarrow> string \<Rightarrow> string \<times> 'z"
  ol_flush :: "'z \<Rightarrow> string"
  ol_gzip_footer :: "int \<Rightarrow> nat \<Rightarrow> string"
  ol_crc32 :: "string \<Rightarrow> int \<Rightarrow> int"
  ol_sha256 :: "string \<Rightarrow> string"
  ol_json_dumps :: "pobj \<Rightarrow> string"
  ol_normalise_image_reference :: "string \<Rightarrow> string"
  ol_isoformat :: "int \<Rightarrow> string"

definition sha256_digest :: "('z, 'x) oci_libs_scheme \<Rightarrow> string \<Rightarrow> string" where
  "sha256_digest ol data = ''sha256:'' @ ol_sha256 ol data"

subsection \<open>Compression of a layer\<close>

record 'z gzip_state =
  gz_written :: string
  gz_compressed :: string
  gz_uncompressed :: string
  gz_length :: nat
  gz_src_length :: nat
  gz_crc :: int
  gz_compressor :: 'z

text \<open>\<open>emit\<close>: the data is hashed, counted and written.\<close>

definition emit :: "string \<Rightarrow> 'z gzip_state \<Rightarrow> 'z gzip_state" where
  "emit data g = g\<lparr>gz_compressed := gz_compressed g @ data, gz_length := gz_length g + length data,
     gz_written := gz_written g @ data\<rparr>"

definition gzip_start :: "'z oci_libs \<Rightarrow> 'z gzip_state" where
  "gzip_start ol = emit (ol_gzip_header ol)
     \<lparr>gz_written = [], gz_compressed = [], gz_uncompressed = [], gz_length = 0, gz_src_length = 0, gz_crc = 0,
      gz_compressor = ol_compressobj ol\<rparr>"

definition gzip_chunk :: "'z oci_libs \<Rightarrow> string \<Rightarrow> 'z gzip_state \<Rightarrow> 'z gzip_state" where
  "gzip_chunk ol chunk g =
     (let (out, z) = ol_compress ol (gz_compressor g) chunk in
      emit out (g\<lparr>gz_uncompressed := gz_uncompressed g @ chunk, gz_crc := ol_crc32 ol chunk (gz_crc g),
        gz_src_length := gz_src_length g + length chunk, gz_compressor := z\<rparr>))"

definition gzip_layer :: "'z oci_libs \<Rightarrow> string \<Rightarrow> 'z gzip_state" where
  "gzip_layer ol tar =
     (let g = fold (gzip_chunk ol) (chunks 1024 tar) (gzip_start ol);
          g = emit (ol_flush ol (gz_compressor g)) g
      in emit (ol_gzip_footer ol (gz_crc g) (gz_src_length g)) g)"

subsection \<open>Pushing an image\<close>

definition put_blob_call :: "string \<Rightarrow> string \<Rightarrow> nat \<Rightarrow> string \<Rightarrow> call" where
  "put_blob_call image_reference digest octets_count data = mk_call [''oci''] ''put_blob''
     [(''image_reference'', PStr image_reference), (''digest'', PStr digest),
      (''octets_count'', PInt (int octets_count)), (''data'', PStr data)]"

definition put_manifest_call :: "string \<Rightarrow> string \<Rightarrow> call" where
  "put_manifest_call image_reference manifest = mk_call [''oci''] ''put_manifest''
     [(''image_reference'', PStr image_reference), (''manifest'', PStr manifest)]"

text \<open>
  Every additional reference leads to one more \<open>put_manifest\<close>, but of the first reference: the loop
  variable is not used.
\<close>

definition publish_container_image_from_tarfile :: "'z oci_libs \<Rightarrow> world \<Rightarrow> string \<Rightarrow> string \<Rightarrow>
    oci_architecture \<Rightarrow> string list \<Rightarrow> (string \<times> nat) prog" where
  "publish_container_image_from_tarfile ol w tar_file ref arch additional_tags =
     (let image_reference = ol_normalise_image_reference ol ref;
          image_name = rsplit1_head CHR '':'' image_reference;
          image_references = image_reference # map (\<lambda>tag. image_name @ '':'' @ tag) additional_tags in
     bindP (liftP (ol_lzma_decompress ol tar_file)) (\<lambda>tar.
     (let g = gzip_layer ol tar; compressed_digest = sha256_digest ol (gz_compressed g) in
     bindP (ask w (put_blob_call image_reference compressed_digest (gz_length g) (gz_written g))) (\<lambda>_.
     bindP (nowP w) (\<lambda>now.
     (let cfg = ol_json_dumps ol (image_config_dict
            \<lparr>icf_created = ol_isoformat ol (now div 1000000) @ ''Z'', icf_architecture = arch, icf_os = OS_LINUX,
             icf_diff_ids = [sha256_digest ol (gz_uncompressed g)]\<rparr>) in
     bindP (ask w (put_blob_call image_reference (sha256_digest ol cfg) (length cfg) cfg)) (\<lambda>_.
     (let manifest = ol_json_dumps ol (image_manifest_dict
            \<lparr>imf_config = \<lparr>bd_size = length cfg, bd_digest = sha256_digest ol cfg\<rparr>,
             imf_layers = [\<lparr>bd_size = gz_length g, bd_digest = compressed_digest\<rparr>]\<rparr>) in
     bindP (forP (\<lambda>tgt_ref. bindP (ask w (put_manifest_call image_reference manifest)) (\<lambda>_. retP ()))
         image_references) (\<lambda>_.
       retP (sha256_digest ol manifest, length manifest))))))))))"

subsection \<open>Images of releases\<close>

text \<open>
  The architecture attribute of a manifest: the step that uploads the results puts the value of the
  member there, a manifest that was read from the store has the member itself.
\<close>

datatype arch_attr = Arch_value string | Arch_member architecture

fun join_arch :: "arch_attr \<Rightarrow> string list \<Rightarrow> string res" where
  "join_arch (Arch_value a) features = Inr (py_join ''-'' (a # features))"
| "join_arch (Arch_member a) features = Inl (TypeError ''expected str instance, Architecture found'')"

fun oci_architecture_from :: "arch_attr \<Rightarrow> oci_architecture res" where
  "oci_architecture_from (Arch_value a) = oci_architecture_of a"
| "oci_architecture_from (Arch_member a) = Inl (ValueError (architecture_value a))"

definition oci_flavour_identifier :: "feature_descriptor list \<Rightarrow> nat \<Rightarrow> gardenlinux_flavour \<Rightarrow> arch_attr option \<Rightarrow>
    string res" where
  "oci_flavour_identifier fs n flavour include_arch =
     bindR (calculate_modifiers fs n flavour) (\<lambda>ms.
       let features = map (\<lambda>f. strip_char CHR ''_'' (fd_name f)) (filter (\<lambda>f. fd_name f \<noteq> ''oci'') ms)
       in (case include_arch of Some arch \<Rightarrow> join_arch arch features | None \<Rightarrow> Inr (py_join ''-'' features)))"

definition publish_from_release :: "'z oci_libs \<Rightarrow> world \<Rightarrow> 'a release_manifest_scheme \<Rightarrow> arch_attr \<Rightarrow> string \<Rightarrow>
    string list \<Rightarrow> (string \<times> nat) prog" where
  "publish_from_release ol w release arch image_reference additional_tags =
     bindP (liftP (path_by_suffix ''rootfs.tar.xz'' release)) (\<lambda>rootfs.
     bindP (ask w (mk_call [''s3''] ''download_fileobj''
         [(''Bucket'', PStr (rf_s3_bucket_name rootfs)), (''Key'', PStr (rf_s3_key rootfs))])) (\<lambda>content.
     bindP (liftP (as_str content)) (\<lambda>tar_file.
     bindP (liftP (oci_architecture_from arch)) (\<lambda>oci_arch.
       publish_container_image_from_tarfile ol w tar_file image_reference oci_arch additional_tags))))"

definition oci_image_tags :: "feature_descriptor list \<Rightarrow> nat \<Rightarrow> 'a release_manifest_scheme \<Rightarrow> arch_attr \<Rightarrow> bool \<Rightarrow>
    (string \<times> string list) res" where
  "oci_image_tags fs n release arch release_build =
     bindR (identifier_flavour fs n release) (\<lambda>flavour.
     bindR (oci_flavour_identifier fs n flavour (Some arch)) (\<lambda>i.
       Inr (ri_version release @ ''-'' @ str_first 6 (ri_build_committish release) @ ''-'' @ i,
         if release_build then [ri_version release @ ''-'' @ i] else [])))"

definition oci_publish_image :: "feature_descriptor list \<Rightarrow> nat \<Rightarrow> 'z oci_libs \<Rightarrow> world \<Rightarrow> oci_publish_cfg \<Rightarrow>
    arch_attr \<Rightarrow> bool \<Rightarrow> 'a release_manifest_scheme \<Rightarrow> 'a release_manifest_scheme prog" where
  "oci_publish_image fs n ol w cfg arch release_build release =
     bindP (liftP (oci_image_tags fs n release arch release_build)) (\<lambda>(image_tag, additional_image_tags).
     (let image_reference = ocp_image_prefix cfg @ '':'' @ image_tag in
     bindP (publish_from_release ol w release arch image_reference additional_image_tags) (\<lambda>_.
       retP (release\<lparr>rm_published_image_metadata := Some (OciPublishedImage image_reference)\<rparr>))))"

text \<open>The variants of one image, grouped by its tag in the order of their first appearance.\<close>

definition group_by_tag :: "(string \<times> 'm) list \<Rightarrow> (string \<times> 'm list) list" where
  "group_by_tag tagged = fold (\<lambda>(tag, m) d.
     dict_set tag ((case map_of d tag of None \<Rightarrow> [] | Some ms \<Rightarrow> ms) @ [m]) d) tagged []"

definition list_entry :: "architecture \<Rightarrow> string \<times> nat \<Rightarrow> manifest_list_entry res" where
  "list_entry arch pushed =
     bindR (oci_architecture_of (architecture_value arch)) (\<lambda>a.
       Inr \<lparr>mle_digest = fst pushed, mle_architecture = a, mle_os = OS_LINUX, mle_size = snd pushed\<rparr>)"

definition publish_from_release_set :: "feature_descriptor list \<Rightarrow> nat \<Rightarrow> 'z oci_libs \<Rightarrow> world \<Rightarrow> oci_publish_cfg \<Rightarrow>
    online_release_manifest_set \<Rightarrow> online_release_manifest_set prog" where
  "publish_from_release_set fs n ol w cfg release_set =
     bindP (liftP (case rms_manifests release_set of [] \<Rightarrow> Inl IndexError | m # _ \<Rightarrow> Inr (ri_version m))) (\<lambda>version.
     bindP (liftP (mapR (\<lambda>m. bindR (identifier_flavour fs n m) (\<lambda>flavour.
         bindR (oci_flavour_identifier fs n flavour None) (\<lambda>i. Inr (version @ ''-'' @ i, m))))
         (filter (\<lambda>m. ri_platform m = ''oci'') (rms_manifests release_set)))) (\<lambda>tagged.
     bindP (forP (\<lambda>(image_tag, ms).
         (let image_reference = ocp_image_prefix cfg @ '':'' @ version @ ''-'' @ image_tag in
         bindP (mapP (\<lambda>m.
             bindP (publish_from_release ol w m (Arch_member (ri_architecture m)) image_reference []) (\<lambda>pushed.
               liftP (list_entry (ri_architecture m) pushed))) ms) (\<lambda>image_manifests.
         bindP (ask w (put_manifest_call image_reference (ol_json_dumps ol (manifest_list_dict image_manifests))))
           (\<lambda>_. retP ())))) (group_by_tag tagged)) (\<lambda>_.
       retP release_set)))"

end
