(* ===== verification/Workspace.thy ===== *)
theory Workspace
  imports Calls
begin

text \<open>
  What the steps of a task work on: the files of the shared volume, the bucket of the release store and
  the services they call.  A step is a procedure on it; an error leaves the changes that were made.
\<close>

record 's workspace =
  ws_files :: "(string \<times> string) list"
  ws_dirs :: "string list"
  ws_store :: 's
  ws_calls :: "call list"

definition calling :: "'a prog \<Rightarrow> ('s workspace, 'a) proc" where
  "calling p ws = map_option (\<lambda>(r, h). (r, ws\<lparr>ws_calls := h\<rparr>)) (p (ws_calls ws))"

definition storing :: "('s \<Rightarrow> 's res) \<Rightarrow> ('s workspace, unit) proc" where
  "storing f ws = Some (case f (ws_store ws) of Inl e \<Rightarrow> (Inl e, ws) | Inr s \<Rightarrow> (Inr (), ws\<lparr>ws_store := s\<rparr>))"

definition reading :: "('s \<Rightarrow> 'a res) \<Rightarrow> ('s workspace, 'a) proc" where
  "reading f ws = Some (f (ws_store ws), ws)"

definition enumerating :: "('s \<Rightarrow> 'a res option) \<Rightarrow> ('s workspace, 'a) proc" where
  "enumerating f ws = map_option (\<lambda>r. (r, ws)) (f (ws_store ws))"

definition write_file :: "string \<Rightarrow> string \<Rightarrow> ('s workspace, unit) proc" where
  "write_file path content ws = Some (Inr (), ws\<lparr>ws_files := dict_set path content (ws_files ws)\<rparr>)"

definition read_file :: "string \<Rightarrow> ('s workspace, string) proc" where
  "read_file path ws = Some (case map_of (ws_files ws) path of
     None \<Rightarrow> Inl (FileNotFoundError path) | Some c \<Rightarrow> Inr c, ws)"

definition isfile :: "string \<Rightarrow> ('s workspace, bool) proc" where
  "isfile path ws = Some (Inr (path \<in> fst ` set (ws_files ws)), ws)"

definition isdir :: "string \<Rightarrow> ('s workspace, bool) proc" where
  "isdir path ws = Some (Inr (path \<in> set (ws_dirs ws)), ws)"

text \<open>\<open>sys.exit(code)\<close>\<close>

definition exit_with :: "int \<Rightarrow> ('s, 'a) proc" where
  "exit_with code = raiseP (SystemExit code)"

lemma calling_iff [prog_simps]:
  "calling p ws = Some (r, ws') \<longleftrightarrow> (\<exists>h. p (ws_calls ws) = Some (r, h) \<and> ws' = ws\<lparr>ws_calls := h\<rparr>)"
  by (auto simp: calling_def)

lemma storing_Inr [prog_simps]:
  "storing f ws = Some (Inr u, ws') \<longleftrightarrow> (\<exists>s. f (ws_store ws) = Inr s \<and> ws' = ws\<lparr>ws_store := s\<rparr>)"
  by (auto simp: storing_def split: sum.splits)

lemma storing_Inl [prog_simps]:
  "storing f ws = Some (Inl e, ws') \<longleftrightarrow> f (ws_store ws) = Inl e \<and> ws' = ws"
  by (auto simp: storing_def split: sum.splits)

lemma reading_iff [prog_simps]: "reading f ws = Some (r, ws') \<longleftrightarrow> f (ws_store ws) = r \<and> ws' = ws"
  by (auto simp: reading_def)

lemma enumerating_iff [prog_simps]:
  "enumerating f ws = Some (r, ws') \<longleftrightarrow> f (ws_store ws) = Some r \<and> ws' = ws"
  by (auto simp: enumerating_def)

lemma write_file_iff [prog_simps]:
  "write_file p c ws = Some (r, ws') \<longleftrightarrow> r = Inr () \<and> ws' = ws\<lparr>ws_files := dict_set p c (ws_files ws)\<rparr>"
  by (auto simp: write_file_def)

lemma read_file_iff [prog_simps]:
  "read_file p ws = Some (r, ws') \<longleftrightarrow>
     r = (case map_of (ws_files ws) p of None \<Rightarrow> Inl (FileNotFoundError p) | Some c \<Rightarrow> Inr c) \<and> ws' = ws"
  by (auto simp: read_file_def)

lemma isfile_iff [prog_simps]:
  "isfile p ws = Some (r, ws') \<longleftrightarrow> r = Inr (p \<in> fst ` set (ws_files ws)) \<and> ws' = ws"
  by (auto simp: isfile_def)

lemma isdir_iff [prog_simps]:
  "isdir p ws = Some (r, ws') \<longleftrightarrow> r = Inr (p \<in> set (ws_dirs ws)) \<and> ws' = ws"
  by (auto simp: isdir_def)

lemma exit_with_iff [prog_simps]:
  "exit_with code s = Some (r, s') \<longleftrightarrow> r = Inl (SystemExit code) \<and> s' = s"
  by (auto simp: exit_with_def prog_simps)

text \<open>Running a step forwards.\<close>

lemma bindP_workspace [run_simps]:
  "bindP (write_file p c) f ws = f () (ws\<lparr>ws_files := dict_set p c (ws_files ws)\<rparr>)"
  "bindP (isfile p) g ws = g (p \<in> fst ` set (ws_files ws)) ws"
  "bindP (isdir p) g ws = g (p \<in> set (ws_dirs ws)) ws"
  "bindP (calling (nowP w)) k ws = k (clock w (ws_calls ws)) (ws\<lparr>ws_calls := ws_calls ws @ [now_call]\<rparr>)"
  by (simp_all add: bindP_def write_file_def isfile_def isdir_def calling_def nowP_def)

lemma bindP_pure:
  "bindP (retP x) f s = f x s" "bindP (raiseP e) f s = Some (Inl e, s)"
  by (simp_all add: bindP_def retP_def raiseP_def)

lemma bindP_store [run_simps]:
  "r (ws_store ws) = Inr x \<Longrightarrow> bindP (reading r) f ws = f x ws"
  "r (ws_store ws) = Inl e \<Longrightarrow> bindP (reading r) f ws = Some (Inl e, ws)"
  "u (ws_store ws) = Inr s \<Longrightarrow> bindP (storing u) g ws = g () (ws\<lparr>ws_store := s\<rparr>)"
  "u (ws_store ws) = Inl e \<Longrightarrow> bindP (storing u) g ws = Some (Inl e, ws)"
  by (simp_all add: bindP_def reading_def storing_def)

lemma run_end [run_simps]:
  "exit_with n ws = Some (Inl (SystemExit n), ws)"
  "write_file p c ws = Some (Inr (), ws\<lparr>ws_files := dict_set p c (ws_files ws)\<rparr>)"
  by (simp_all add: exit_with_def raiseP_def write_file_def)

subsection \<open>A pool of threads\<close>

text \<open>
  \<open>tuple(executor.map(f, xs))\<close>: the tasks run one after the other in an order that the pool chooses (a
  task as a whole), all of them; then the results are collected in the order of \<open>xs\<close>, up to the first
  exception.
\<close>

primrec run_indexed :: "(nat \<Rightarrow> ('s, 'b) proc) \<Rightarrow> nat list \<Rightarrow> 's \<Rightarrow> ((nat \<times> 'b res) list \<times> 's) option" where
  "run_indexed f [] s = Some ([], s)"
| "run_indexed f (i # is) s =
     Option.bind (f i s) (\<lambda>(r, s'). map_option (\<lambda>(rs, s''). ((i, r) # rs, s'')) (run_indexed f is s'))"

definition poolP :: "(nat list \<Rightarrow> nat list) \<Rightarrow> ('a \<Rightarrow> ('s, 'b) proc) \<Rightarrow> 'a list \<Rightarrow> ('s, 'b list) proc" where
  "poolP sched f xs s =
     (if xs = [] then Some (Inl (ValueError ''max_workers must be greater than 0''), s)
      else map_option (\<lambda>(rs, s'). (mapR (\<lambda>i. case map_of rs i of
          Some r \<Rightarrow> r | None \<Rightarrow> Inl (RuntimeError ''not run'')) [0..<length xs], s'))
        (run_indexed (\<lambda>i. f (xs ! i)) (sched [0..<length xs]) s))"

end
