(* ===== verification/Promotion.thy ===== *)
theory Promotion
  imports Alicloud Azure Oci Workspace
begin

text \<open>
  \<open>ci/promote.py\<close>: publishing an image on the platform of its release, with the clean-up after a failure,
  and the promotion of a set of releases.  The credentials and settings that are looked up by name in
  the configuration of the CI infrastructure (\<open>ccc\<close>, \<open>ci.util\<close>) are parameters.
\<close>

record named_cfgs =
  nm_azure_service_principal :: "string \<Rightarrow> azure_service_principal_cfg res"
  nm_azure_storage_account :: "string \<Rightarrow> azure_storage_account_cfg res"
  nm_azure_shared_gallery :: "string \<Rightarrow> azure_shared_gallery_cfg res"
  nm_gcp_project :: "string \<Rightarrow> string res"
  nm_ccee_environments :: "string \<Rightarrow> openstack_environment list res"
  nm_openstack_os_image_properties :: "string \<Rightarrow> pobj res"

text \<open>What all jobs of a run have in common.\<close>

record 'z ci_env =
  ce_features :: "feature_descriptor list"
  ce_fuel :: nat
  ce_world :: world
  ce_cfgs :: named_cfgs
  ce_semver :: "string \<Rightarrow> string res"
  ce_oci :: "'z oci_libs"
  ce_sched :: "nat \<Rightarrow> nat"

definition publish_alicloud_image :: "('z, 'x) ci_env_scheme \<Rightarrow> cicd_cfg \<Rightarrow> online_release_manifest \<Rightarrow> online_release_manifest prog" where
  "publish_alicloud_image env cfg release =
     bindP (liftP (mk_image_maker (ce_features env) (ce_fuel env) release (cc_build cfg))) (\<lambda>maker.
     bindP (cp_image_from_s3 (ce_world env) maker) (\<lambda>_. make_image (ce_world env) maker))"

definition clean_alicloud_image :: "('z, 'x) ci_env_scheme \<Rightarrow> cicd_cfg \<Rightarrow> py_err \<Rightarrow> online_release_manifest \<Rightarrow> unit prog" where
  "clean_alicloud_image env cfg active release =
     bindP (liftP (mk_image_maker (ce_features env) (ce_fuel env) release (cc_build cfg))) (\<lambda>maker.
       delete_images (ce_world env) maker True (Some active))"

definition publish_aws_image :: "('z, 'x) ci_env_scheme \<Rightarrow> cicd_cfg \<Rightarrow> online_release_manifest \<Rightarrow> online_release_manifest prog" where
  "publish_aws_image env cfg release =
     upload_and_register_gardenlinux_image (ce_features env) (ce_fuel env) (ce_world env) (ce_sched env)
       (cc_build cfg) release"

definition cleanup_aws :: "('z, 'x) ci_env_scheme \<Rightarrow> cicd_cfg \<Rightarrow> online_release_manifest \<Rightarrow> unit prog" where
  "cleanup_aws env cfg release =
     bindP (liftP (target_image_name_for_release (ce_features env) (ce_fuel env) release)) (\<lambda>target_image_name.
       unregister_images_by_name (ce_world env) target_image_name (ce_sched env) [])"

definition publish_azure_image :: "('z, 'x) ci_env_scheme \<Rightarrow> cicd_cfg \<Rightarrow> online_release_manifest \<Rightarrow> online_release_manifest prog" where
  "publish_azure_image env cfg release =
     (let azure = pc_azure (cc_publish cfg) in
     bindP (liftP (nm_azure_service_principal (ce_cfgs env) (apc_service_principal_cfg_name azure))) (\<lambda>spn.
     bindP (liftP (nm_azure_storage_account (ce_cfgs env) (apc_storage_account_cfg_name azure))) (\<lambda>storage.
       azure_upload_and_publish_image (ce_world env) (ce_semver env) spn storage
         \<lparr>amc_offer_id = apc_offer_id azure, amc_publisher_id = apc_publisher_id azure, amc_plan_id = apc_plan_id azure\<rparr>
         release (apc_notification_emails azure))))"

definition publish_azure_sig :: "('z, 'x) ci_env_scheme \<Rightarrow> cicd_cfg \<Rightarrow> online_release_manifest \<Rightarrow> online_release_manifest prog" where
  "publish_azure_sig env cfg release =
     (let azure = pc_azure (cc_publish cfg) in
     bindP (liftP (nm_azure_storage_account (ce_cfgs env) (apc_storage_account_cfg_name azure))) (\<lambda>storage.
     bindP (liftP (nm_azure_service_principal (ce_cfgs env) (apc_service_principal_cfg_name azure))) (\<lambda>spn.
     bindP (liftP (nm_azure_shared_gallery (ce_cfgs env) (apc_shared_gallery_cfg_name azure))) (\<lambda>gallery.
       publish_azure_shared_image_gallery (ce_world env) (ce_semver env) release storage gallery))))"

definition publish_gcp_image :: "('z, 'x) ci_env_scheme \<Rightarrow> cicd_cfg \<Rightarrow> online_release_manifest \<Rightarrow> online_release_manifest prog" where
  "publish_gcp_image env cfg release =
     bindP (liftP (nm_gcp_project (ce_cfgs env) (bc_gcp_cfg_name (cc_build cfg)))) (\<lambda>project.
       gcp_upload_and_publish_image (ce_features env) (ce_fuel env) (ce_world env) project release (cc_build cfg))"

definition publish_oci_image :: "('z, 'x) ci_env_scheme \<Rightarrow> cicd_cfg \<Rightarrow> arch_attr \<Rightarrow> bool \<Rightarrow> 'a release_manifest_scheme \<Rightarrow>
    'a release_manifest_scheme prog" where
  "publish_oci_image env cfg arch release_build release =
     oci_publish_image (ce_features env) (ce_fuel env) (ce_oci env) (ce_world env) (pc_oci (cc_publish cfg))
       arch release_build release"

definition publish_openstack_image :: "('z, 'x) ci_env_scheme \<Rightarrow> cicd_cfg \<Rightarrow> online_release_manifest \<Rightarrow> online_release_manifest prog" where
  "publish_openstack_image env cfg release =
     (let openstack = pc_openstack (cc_publish cfg) in
     bindP (liftP (nm_ccee_environments (ce_cfgs env) (opc_environment_cfg_name openstack))) (\<lambda>environments.
     bindP (liftP (nm_openstack_os_image_properties (ce_cfgs env) (opc_image_properties_cfg_name openstack))) (\<lambda>properties.
       openstack_upload_and_publish_image (ce_world env) environments properties release)))"

text \<open>\<open>try: return publish(...)\<close>, with the clean-up of the platform, if it has one, before the exception is raised again.\<close>

definition publishing :: "'a prog \<Rightarrow> (py_err \<Rightarrow> unit prog) option \<Rightarrow> 'a prog" where
  "publishing publish cleanup = catchP publish (\<lambda>e.
     bindP (case cleanup of Some c \<Rightarrow> c e | None \<Rightarrow> retP ()) (\<lambda>_. raiseP e))"

definition publish_image :: "('z, 'x) ci_env_scheme \<Rightarrow> cicd_cfg \<Rightarrow> online_release_manifest \<Rightarrow> online_release_manifest prog" where
  "publish_image env cfg release =
     (let p = ri_platform release in
      if p = ''ali'' then publishing (publish_alicloud_image env cfg release)
        (Some (\<lambda>e. clean_alicloud_image env cfg e release))
      else if p = ''aws'' then publishing (publish_aws_image env cfg release)
        (Some (\<lambda>_. cleanup_aws env cfg release))
      else if p = ''gcp'' then publishing (publish_gcp_image env cfg release) None
      else if p = ''azure'' then publishing (publish_azure_image env cfg release) None
      else if p = ''openstack'' then publishing (publish_openstack_image env cfg release) None
      else if p = ''oci'' then
        publishing (publish_oci_image env cfg (Arch_member (ri_architecture release)) True release) None
      else retP release)"

subsection \<open>Promoting a set of releases\<close>

text \<open>\<open>build_targets\<close> is \<open>None\<close> when the option was not given; then \<open>in\<close> raises.\<close>

definition has_target :: "build_target \<Rightarrow> build_target list option \<Rightarrow> bool res" where
  "has_target t ts = (case ts of None \<Rightarrow> Inl (TypeError ''NoneType'') | Some ts \<Rightarrow> Inr (t \<in> set ts))"

definition promote :: "('z, 'x) ci_env_scheme \<Rightarrow> 's s3_client \<Rightarrow> codec \<Rightarrow> (nat list \<Rightarrow> nat list) \<Rightarrow> online_release_manifest list \<Rightarrow>
    string \<Rightarrow> string \<Rightarrow> string \<Rightarrow> string \<Rightarrow> build_target list option \<Rightarrow> cicd_cfg \<Rightarrow> string \<Rightarrow> build_type \<Rightarrow>
    ('s workspace, unit) proc" where
  "promote env s3 cd pool releases target_prefix build_committish gardenlinux_epoch version build_targets cfg
     flavour_set_name bt =
     bindP (liftP (has_target BUILD build_targets)) (\<lambda>build.
       if \<not> build then retP ()
       else
         bindP (poolP pool (\<lambda>release. calling (publish_image env cfg release)) releases) (\<lambda>published.
         bindP (liftP (has_target MANIFEST build_targets)) (\<lambda>manifest.
           if \<not> manifest then retP ()
           else storing (upload_release_manifest_set s3 cd (bc_s3_bucket_name (cc_build cfg))
             (path_join target_prefix [release_set_manifest_name build_committish gardenlinux_epoch version
                flavour_set_name bt None])
             \<lparr>rms_manifests = published, rms_flavour_set_name = flavour_set_name\<rparr> []))))"

record promote_args =
  pa_flavourset :: string
  pa_committish :: string
  pa_gardenlinux_epoch :: int
  pa_build_targets :: "build_target list option"
  pa_version :: string
  pa_target :: build_type
  pa_allow_partial :: bool
  pa_azure_sig :: bool

definition promote_main :: "('z, 'x) ci_env_scheme \<Rightarrow> 's s3_client \<Rightarrow> codec \<Rightarrow> (nat list \<Rightarrow> nat list) \<Rightarrow> cicd_cfg \<Rightarrow> flavour_set \<Rightarrow>
    promote_args \<Rightarrow> ('s workspace, unit) proc" where
  "promote_main env s3 cd pool cfg fset parsed =
     (let epoch = str_int (pa_gardenlinux_epoch parsed);
          version = (if pa_version parsed \<noteq> [] then pa_version parsed
            else epoch @ ''-'' @ str_first 6 (pa_committish parsed)) in
     bindP (liftP (flavours (ce_features env) (ce_fuel env) fset)) (\<lambda>fls.
     bindP (reading (find_releases (ce_features env) (ce_fuel env) s3 cd (bc_s3_bucket_name (cc_build cfg)) fset
         (pa_committish parsed) version (pa_gardenlinux_epoch parsed))) (\<lambda>releases.
       if length releases \<noteq> length (py_set fls) \<and> \<not> pa_allow_partial parsed then exit_with 1
       else if pa_azure_sig parsed
       then (case filter (\<lambda>r. ri_platform r = ''azure'') releases of
           [] \<Rightarrow> raiseP IndexError
         | release # _ \<Rightarrow> bindP (calling (publish_azure_sig env cfg release)) (\<lambda>_. retP ()))
       else promote env s3 cd pool releases
         (path_join release_manifest_set_prefix [build_type_value (pa_target parsed)])
         (pa_committish parsed) epoch version (pa_build_targets parsed) cfg (fs_name fset) (pa_target parsed))))"

end
