(* ===== verification/Build_Steps.thy ===== *)
theory Build_Steps
  imports Promotion Build_Targets
begin

text \<open>
  The steps around a build: \<open>ci/steps/pre_build_step.py\<close>, \<open>upload_results_step.py\<close>,
  \<open>pre_check_tests.py\<close>, \<open>upload_test_results.py\<close> and \<open>promote_step.py\<close>.  They pass information to each
  other by marker files and, from task to task, by the manifests in the store.
\<close>

record ('z, 's) step_env = "'z ci_env" +
  se_s3 :: "'s s3_client"
  se_codec :: codec
  se_cicd_cfg :: "string \<Rightarrow> cicd_cfg res"
  se_flavour_set :: "string \<Rightarrow> flavour_set res"
  se_sha1 :: "string \<Rightarrow> string"
  se_isoformat :: "int \<Rightarrow> string"
  se_load_test_result :: "string \<Rightarrow> release_test_result option res"

definition bucket_of :: "cicd_cfg \<Rightarrow> string" where
  "bucket_of cfg = bc_s3_bucket_name (cc_build cfg)"

definition step_find_release :: "('z, 's) step_env \<Rightarrow> cicd_cfg \<Rightarrow> release_identifier \<Rightarrow>
    ('s workspace, online_release_manifest option) proc" where
  "step_find_release env cfg ri = reading (find_release (ce_features env) (ce_fuel env)
     (se_s3 env) (se_codec env) (bucket_of cfg) ri)"

text \<open>The parameters that identify the flavour of a task.\<close>

record build_params =
  bp_committish :: string
  bp_version :: string
  bp_gardenlinux_epoch :: string
  bp_architecture :: string
  bp_platform :: string
  bp_modifiers :: string

definition split_modifiers :: "string \<Rightarrow> string list" where
  "split_modifiers mods = filter (\<lambda>m. m \<noteq> []) (py_split CHR '','' mods)"

definition params_identifier :: "build_params \<Rightarrow> string list \<Rightarrow> release_identifier res" where
  "params_identifier p mods =
     bindR (py_int (bp_gardenlinux_epoch p)) (\<lambda>epoch.
     bindR (architecture_of (bp_architecture p)) (\<lambda>arch.
       Inr \<lparr>ri_build_committish = bp_committish p, ri_version = bp_version p, ri_gardenlinux_epoch = epoch,
            ri_architecture = arch, ri_platform = bp_platform p, ri_modifiers = mods\<rparr>))"

definition SKIP_BUILD :: string where
  "SKIP_BUILD = ''/workspace/skip_build''"

definition SKIP_TESTS :: string where
  "SKIP_TESTS = ''/workspace/skip_tests''"

subsection \<open>Before the build and the tests\<close>

definition write_not_build_marker_file :: "('s workspace, unit) proc" where
  "write_not_build_marker_file = write_file SKIP_BUILD ''skip build (already done or build not in build_targets)''"

definition pre_build_step_body :: "('z, 's) step_env \<Rightarrow> string \<Rightarrow> build_params \<Rightarrow> string \<Rightarrow> ('s workspace, unit) proc" where
  "pre_build_step_body env cicd_cfg_name p build_targets =
     bindP (liftP (set_from_str build_targets)) (\<lambda>build_target_set.
       if BUILD \<notin> set build_target_set
       then bindP write_not_build_marker_file (\<lambda>_. exit_with 0)
       else
         bindP (liftP (se_cicd_cfg env cicd_cfg_name)) (\<lambda>cfg.
         bindP (liftP (params_identifier p (split_modifiers (bp_modifiers p)))) (\<lambda>release_identifier.
         bindP (step_find_release env cfg release_identifier) (\<lambda>found.
           if found \<noteq> None then write_not_build_marker_file else retP ()))))"

definition tests_passed :: "online_release_manifest \<Rightarrow> bool" where
  "tests_passed release = (case orm_test_result release of
     Some t \<Rightarrow> rtr_test_result t = TRC_OK | None \<Rightarrow> False)"

definition pre_check_tests :: "('z, 's) step_env \<Rightarrow> string \<Rightarrow> build_params \<Rightarrow> string \<Rightarrow> ('s workspace, unit) proc" where
  "pre_check_tests env cicd_cfg_name p build_targets =
     bindP (liftP (set_from_str build_targets)) (\<lambda>build_target_set.
       if TESTS \<notin> set build_target_set then retP ()
       else
         bindP (liftP (se_cicd_cfg env cicd_cfg_name)) (\<lambda>cfg.
         bindP (liftP (params_identifier p (split_modifiers (bp_modifiers p)))) (\<lambda>release_identifier.
         bindP (step_find_release env cfg release_identifier) (\<lambda>found.
           case found of
             Some release \<Rightarrow> if tests_passed release then write_file SKIP_TESTS ''skip tests (already done)'' else retP ()
           | None \<Rightarrow> retP ()))))"

subsection \<open>Upload of the results\<close>

definition basename :: "string \<Rightarrow> string" where
  "basename path = rev (takeWhile (\<lambda>c. c \<noteq> CHR ''/'') (rev path))"

text \<open>The files below a directory, in the order in which \<open>os.walk\<close> finds them.\<close>

definition walk :: "string \<Rightarrow> ('s workspace, (string \<times> string) list) proc" where
  "walk dir ws = Some (Inr (filter (\<lambda>(path, content). startswith path (dir @ ''/'')) (ws_files ws)), ws)"

definition upload_file :: "('z, 's) step_env \<Rightarrow> string \<Rightarrow> string \<Rightarrow> string \<times> string \<Rightarrow>
    ('s workspace, s3_release_file) proc" where
  "upload_file env version_str s3_bucket_name = (\<lambda>(full_path, content).
     (let upload_key = path_join ''objects'' [se_sha1 env content] in
     bindP (storing (s3_upload_fileobj (se_s3 env) s3_bucket_name upload_key content)) (\<lambda>_.
       retP \<lparr>rf_name = version_str @ ''-'' @ basename full_path, rf_suffix = basename full_path,
             rf_s3_key = upload_key, rf_s3_bucket_name = s3_bucket_name\<rparr>)))"

definition upload_files :: "('z, 's) step_env \<Rightarrow> string \<Rightarrow> string \<Rightarrow> string \<Rightarrow>
    ('s workspace, s3_release_file list) proc" where
  "upload_files env build_result_fname version_str s3_bucket_name =
     bindP (walk build_result_fname) (mapP (upload_file env version_str s3_bucket_name))"

definition upload_version :: "int \<Rightarrow> string \<Rightarrow> string" where
  "upload_version epoch committish = str_int epoch @ ''-'' @ str_first 6 committish"

definition new_manifest :: "('z, 's) step_env \<Rightarrow> release_identifier \<Rightarrow> s3_release_file list \<Rightarrow> string \<Rightarrow> int \<Rightarrow> release_manifest" where
  "new_manifest env ri paths build_image now =
     \<lparr>ri_build_committish = ri_build_committish ri, ri_version = ri_version ri,
      ri_gardenlinux_epoch = ri_gardenlinux_epoch ri, ri_architecture = ri_architecture ri,
      ri_platform = ri_platform ri, ri_modifiers = ri_modifiers ri,
      rm_build_timestamp = se_isoformat env now, rm_paths = paths, rm_base_image = Some build_image,
      rm_published_image_metadata = None\<rparr>"

definition store_build_manifest :: "('z, 's) step_env \<Rightarrow> cicd_cfg \<Rightarrow> bool \<Rightarrow> string \<Rightarrow> release_manifest \<Rightarrow>
    ('s workspace, unit) proc" where
  "store_build_manifest env cfg release_build build_result manifest =
     bindP (if ri_platform manifest = ''oci''
         then calling (publish_oci_image env cfg
           (Arch_value (architecture_value (ri_architecture manifest))) release_build manifest)
         else retP manifest) (\<lambda>manifest.
     bindP (liftP (canonical_release_manifest_key (ce_features env) (ce_fuel env) manifest)) (\<lambda>manifest_path.
     bindP (storing (upload_release_manifest (se_s3 env) (se_codec env) (bucket_of cfg) manifest_path
         (manifest_attrs manifest))) (\<lambda>_.
       write_file build_result manifest_path)))"

definition upload_results_step_body :: "('z, 's) step_env \<Rightarrow> string \<Rightarrow> build_params \<Rightarrow> string \<Rightarrow> string \<Rightarrow> string \<Rightarrow> string \<Rightarrow>
    ('s workspace, unit) proc" where
  "upload_results_step_body env cicd_cfg_name p outfile build_targets build_result build_image =
     bindP (liftP (set_from_str build_targets)) (\<lambda>build_target_set.
     bindP (write_file build_result '''') (\<lambda>_.
       if MANIFEST \<notin> set build_target_set then exit_with 0
       else bindP (isfile SKIP_BUILD) (\<lambda>skip. if skip then exit_with 0
       else bindP (isdir outfile) (\<lambda>has_result. if \<not> has_result then exit_with 1
       else
         bindP (liftP (se_cicd_cfg env cicd_cfg_name)) (\<lambda>cfg.
         bindP (liftP (py_int (bp_gardenlinux_epoch p))) (\<lambda>epoch.
         bindP (upload_files env outfile (upload_version epoch (bp_committish p)) (bucket_of cfg)) (\<lambda>uploaded_relpaths.
         bindP (calling (nowP (ce_world env))) (\<lambda>now.
         bindP (liftP (params_identifier p (split_modifiers (bp_modifiers p)))) (\<lambda>ri.
           store_build_manifest env cfg (FREEZE_VERSION \<in> set build_target_set) build_result
             (new_manifest env ri uploaded_relpaths build_image now))))))))))"

subsection \<open>Upload of the test results\<close>

text \<open>Here the modifiers are split without dropping empty ones.\<close>

definition upload_test_results :: "('z, 's) step_env \<Rightarrow> string \<Rightarrow> build_params \<Rightarrow> string \<Rightarrow> string \<Rightarrow>
    ('s workspace, unit) proc" where
  "upload_test_results env cicd_cfg_name p build_targets repo_dir =
     bindP (liftP (set_from_str build_targets)) (\<lambda>build_target_set.
       if TESTS \<notin> set build_target_set then exit_with 0
       else if MANIFEST \<notin> set build_target_set then exit_with 0
       else bindP (isfile SKIP_TESTS) (\<lambda>skip. if skip then exit_with 0
       else
         bindP (liftP (se_cicd_cfg env cicd_cfg_name)) (\<lambda>cfg.
         (let test_result_file_name = path_join repo_dir [''test_results.json''] in
         bindP (isfile test_result_file_name) (\<lambda>exists. if \<not> exists then exit_with 1
         else
           bindP (read_file test_result_file_name) (\<lambda>content.
           bindP (liftP (se_load_test_result env content)) (\<lambda>loaded. case loaded of None \<Rightarrow> exit_with 1 | Some test_result \<Rightarrow>
             bindP (liftP (params_identifier p (py_split CHR '','' (bp_modifiers p)))) (\<lambda>ri.
             bindP (step_find_release env cfg ri) (\<lambda>found. case found of None \<Rightarrow> exit_with 1 | Some manifest \<Rightarrow>
               (let manifest = with_test_result test_result manifest in
               bindP (liftP (canonical_release_manifest_key (ce_features env)
                   (ce_fuel env) manifest)) (\<lambda>manifest_path.
               bindP (storing (upload_release_manifest (se_s3 env) (se_codec env) (bucket_of cfg) manifest_path
                   (online_attrs manifest))) (\<lambda>_.
                 if rtr_test_result test_result \<noteq> TRC_OK then exit_with 1 else retP ()))))))))))))"

subsection \<open>Promotion\<close>

definition provisional :: "cicd_cfg \<Rightarrow> string \<Rightarrow> online_release_manifest \<Rightarrow> online_release_manifest" where
  "provisional cfg parsed_version release =
     (let azure = pc_azure (cc_publish cfg) in
      with_image \<lparr>azi_transport_state = ATS_PROVISIONAL,
        azi_urn = apc_publisher_id azure @ '':'' @ apc_offer_id azure @ '':'' @ apc_plan_id azure @ '':'' @ parsed_version,
        azi_publish_operation_id = '''', azi_golive_operation_id = ''''\<rparr> release)"

text \<open>\<open>except Exception\<close> does not catch \<open>SystemExit\<close>.\<close>

definition publish_or_provisional :: "('z, 's) step_env \<Rightarrow> cicd_cfg \<Rightarrow> online_release_manifest \<Rightarrow>
    ('s workspace, online_release_manifest) proc" where
  "publish_or_provisional env cfg release =
     catchP (calling (publish_image env cfg release)) (\<lambda>e.
       case e of
         SystemExit c \<Rightarrow> raiseP e
       | _ \<Rightarrow> if ri_platform release = ''azure'' then retP release else raiseP e)"

definition promote_single_step_body :: "('z, 's) step_env \<Rightarrow> string \<Rightarrow> build_params \<Rightarrow> string \<Rightarrow> ('s workspace, unit) proc" where
  "promote_single_step_body env cicd_cfg_name p build_targets =
     (let fs = ce_features env; n = ce_fuel env in
     bindP (liftP (se_cicd_cfg env cicd_cfg_name)) (\<lambda>cfg.
     bindP (liftP (set_from_str build_targets)) (\<lambda>build_target_set.
       if PUBLISH \<notin> set build_target_set then exit_with 0
       else if bp_platform p \<notin> set (platform_names fs) then raiseP (ValueError (bp_platform p))
       else
         bindP (liftP (normalised_modifiers fs n (bp_platform p) (py_split CHR '','' (bp_modifiers p)))) (\<lambda>mods.
         bindP (liftP (params_identifier p mods)) (\<lambda>ri.
         bindP (step_find_release env cfg ri) (\<lambda>found. case found of
           None \<Rightarrow> raiseP (ValueError ''no release-manifest found'')
         | Some release_manifest \<Rightarrow>
             if rm_published_image_metadata release_manifest \<noteq> None then exit_with 0
             else
               bindP (if ri_platform release_manifest = ''azure''
                   then liftP (bindR (ce_semver env (bp_version p))
                     (\<lambda>parsed_version. Inr (provisional cfg parsed_version release_manifest)))
                   else retP release_manifest) (\<lambda>release_manifest.
               bindP (publish_or_provisional env cfg release_manifest) (\<lambda>new_manifest.
               bindP (liftP (canonical_release_manifest_key fs n new_manifest)) (\<lambda>manifest_key.
                 storing (upload_release_manifest (se_s3 env) (se_codec env) (bucket_of cfg) manifest_key
                   (online_attrs new_manifest)))))))))))"

text \<open>\<open>timestamp\<close> is the time of the name of the set.\<close>

definition promote_step_body :: "('z, 's) step_env \<Rightarrow> string \<Rightarrow> string \<Rightarrow> string \<Rightarrow> string \<Rightarrow> string \<Rightarrow> string \<Rightarrow> string \<Rightarrow>
    string \<Rightarrow> ('s workspace, unit) proc" where
  "promote_step_body env cicd_cfg_name flavour_set_name build_targets gardenlinux_epoch committish version
     promote_target manifest_set_key_result =
     (let fs = ce_features env; n = ce_fuel env in
     bindP (liftP (se_cicd_cfg env cicd_cfg_name)) (\<lambda>cfg.
     bindP (liftP (se_flavour_set env flavour_set_name)) (\<lambda>fset.
     bindP (liftP (flavours fs n fset)) (\<lambda>fls.
     bindP (liftP (build_type_of promote_target)) (\<lambda>bt.
     bindP (liftP (set_from_str build_targets)) (\<lambda>build_target_set.
     bindP (write_file manifest_set_key_result '''') (\<lambda>_.
       if MANIFEST \<notin> set build_target_set then exit_with 0
       else
         bindP (liftP (py_int gardenlinux_epoch)) (\<lambda>epoch.
         bindP (reading (find_releases fs n (se_s3 env) (se_codec env) (bucket_of cfg) fset committish version epoch)) (\<lambda>releases.
           if length releases \<noteq> length fls then exit_with 1
           else
             bindP (calling (nowP (ce_world env))) (\<lambda>now.
             (let manifest_path = path_join release_manifest_set_prefix [build_type_value bt,
                 release_set_manifest_name committish gardenlinux_epoch version (fs_name fset) bt
                   (Some (se_isoformat env now))] in
             bindP (storing (upload_release_manifest_set (se_s3 env) (se_codec env) (bucket_of cfg) manifest_path
                 \<lparr>rms_manifests = releases, rms_flavour_set_name = fs_name fset\<rparr> [])) (\<lambda>_.
               write_file manifest_set_key_result manifest_path))))))))))))"

end
