(* ===== verification/Oci_Properties.thy ===== *)
theory Oci_Properties
  imports Oci
begin

text \<open>
  What is pushed to a container registry: the layer is the compressed file system of the release, and
  the manifest describes the blobs that were pushed before it.
\<close>

subsection \<open>The layer of a container image\<close>

text \<open>The stream that a compressor makes of chunks.\<close>

primrec compressed :: "'z oci_libs \<Rightarrow> string list \<Rightarrow> 'z \<Rightarrow> string" where
  "compressed ol [] z = ol_flush ol z"
| "compressed ol (c # cs) z = (let (out, z') = ol_compress ol z c in out @ compressed ol cs z')"

definition gzip_stream :: "'z oci_libs \<Rightarrow> string list \<Rightarrow> string" where
  "gzip_stream ol cs = ol_gzip_header ol @ compressed ol cs (ol_compressobj ol) @
     ol_gzip_footer ol (ol_crc32 ol (concat cs) 0) (length (concat cs))"

text \<open>A checksum that is computed piece by piece, and the format that a decompressor reads.\<close>

definition crc_adds :: "'z oci_libs \<Rightarrow> bool" where
  "crc_adds ol \<longleftrightarrow> (\<forall>c. ol_crc32 ol [] c = c) \<and>
     (\<forall>xs ys c. ol_crc32 ol ys (ol_crc32 ol xs c) = ol_crc32 ol (xs @ ys) c)"

definition gunzips :: "'z oci_libs \<Rightarrow> (string \<Rightarrow> string res) \<Rightarrow> bool" where
  "gunzips ol gunzip \<longleftrightarrow> (\<forall>cs. gunzip (gzip_stream ol cs) = Inr (concat cs))"

lemma emit_sel [simp]:
  "gz_written (emit d g) = gz_written g @ d" "gz_compressed (emit d g) = gz_compressed g @ d"
  "gz_uncompressed (emit d g) = gz_uncompressed g" "gz_length (emit d g) = gz_length g + length d"
  "gz_src_length (emit d g) = gz_src_length g" "gz_crc (emit d g) = gz_crc g"
  "gz_compressor (emit d g) = gz_compressor g"
  by (simp_all add: emit_def)

text \<open>What is hashed and counted is what is written.\<close>

definition gzip_ok :: "'z gzip_state \<Rightarrow> bool" where
  "gzip_ok g \<longleftrightarrow> gz_compressed g = gz_written g \<and> gz_length g = length (gz_written g)"

lemma gzip_ok_emit: "gzip_ok g \<Longrightarrow> gzip_ok (emit d g)"
  by (simp add: gzip_ok_def)

lemma gzip_chunks:
  assumes "crc_adds ol"
  shows "gzip_ok g \<Longrightarrow> gzip_ok (fold (gzip_chunk ol) cs g) \<and>
    gz_uncompressed (fold (gzip_chunk ol) cs g) = gz_uncompressed g @ concat cs \<and>
    gz_src_length (fold (gzip_chunk ol) cs g) = gz_src_length g + length (concat cs) \<and>
    gz_crc (fold (gzip_chunk ol) cs g) = ol_crc32 ol (concat cs) (gz_crc g) \<and>
    gz_written (fold (gzip_chunk ol) cs g) @ ol_flush ol (gz_compressor (fold (gzip_chunk ol) cs g)) =
      gz_written g @ compressed ol cs (gz_compressor g)"
proof (induction cs arbitrary: g)
  case Nil
  then show ?case using assms by (simp add: crc_adds_def)
next
  case (Cons c cs)
  have "gzip_ok (gzip_chunk ol c g)"
    using Cons.prems by (simp add: gzip_chunk_def gzip_ok_def split: prod.splits)
  from Cons.IH [OF this] show ?case
    using assms by (auto simp: gzip_chunk_def crc_adds_def split: prod.splits)
qed

lemma gzip_layer_stream:
  assumes "crc_adds ol"
  shows "gz_written (gzip_layer ol tar) = gzip_stream ol (chunks 1024 tar)"
    "gz_compressed (gzip_layer ol tar) = gz_written (gzip_layer ol tar)"
    "gz_length (gzip_layer ol tar) = length (gz_written (gzip_layer ol tar))"
    "gz_uncompressed (gzip_layer ol tar) = tar"
proof -
  have "gzip_ok (gzip_start ol)" by (simp add: gzip_start_def gzip_ok_def)
  note c = gzip_chunks [OF assms this, of "chunks 1024 tar"]
  have start: "gz_written (gzip_start ol) = ol_gzip_header ol" "gz_uncompressed (gzip_start ol) = []"
    "gz_src_length (gzip_start ol) = 0" "gz_crc (gzip_start ol) = 0" "gz_compressor (gzip_start ol) = ol_compressobj ol"
    by (simp_all add: gzip_start_def)
  show "gz_written (gzip_layer ol tar) = gzip_stream ol (chunks 1024 tar)"
    using c by (simp add: gzip_layer_def gzip_stream_def Let_def start chunks_concat flip: append_assoc)
  have "gzip_ok (gzip_layer ol tar)"
    using c by (simp add: gzip_layer_def Let_def gzip_ok_emit)
  then show "gz_compressed (gzip_layer ol tar) = gz_written (gzip_layer ol tar)"
    "gz_length (gzip_layer ol tar) = length (gz_written (gzip_layer ol tar))"
    by (simp_all add: gzip_ok_def)
  show "gz_uncompressed (gzip_layer ol tar) = tar"
    using c by (simp add: gzip_layer_def Let_def start chunks_concat)
qed

text \<open>
  C34: an image that is pushed describes what was pushed. The calls are the blob of the layer, the blob
  of the configuration and then the manifest, whose digests and sizes are those of the two blobs; the
  layer decompresses to the file system of the release, whose digest the configuration has; what is
  returned is the digest and size of the manifest. The manifest is pushed once for every reference, but
  always under the first one: an additional tag is never written.
\<close>

theorem oci_push_consistent:
  assumes "publish_container_image_from_tarfile ol w tar_file ref arch tags h = Some (Inr (digest, octets), h')"
    and "crc_adds ol" and "gunzips ol gunzip"
  shows "\<exists>tar layer config manifest created. ol_lzma_decompress ol tar_file = Inr tar \<and> gunzip layer = Inr tar \<and>
    config = ol_json_dumps ol (image_config_dict \<lparr>icf_created = created, icf_architecture = arch, icf_os = OS_LINUX,
      icf_diff_ids = [sha256_digest ol tar]\<rparr>) \<and>
    manifest = ol_json_dumps ol (image_manifest_dict
      \<lparr>imf_config = \<lparr>bd_size = length config, bd_digest = sha256_digest ol config\<rparr>,
       imf_layers = [\<lparr>bd_size = length layer, bd_digest = sha256_digest ol layer\<rparr>]\<rparr>) \<and>
    digest = sha256_digest ol manifest \<and> octets = length manifest \<and>
    h' = h @ [put_blob_call (ol_normalise_image_reference ol ref) (sha256_digest ol layer) (length layer) layer, now_call,
        put_blob_call (ol_normalise_image_reference ol ref) (sha256_digest ol config) (length config) config] @
      replicate (Suc (length tags)) (put_manifest_call (ol_normalise_image_reference ol ref) manifest)"
proof -
  let ?r = "ol_normalise_image_reference ol ref"
  obtain tar where tar: "ol_lzma_decompress ol tar_file = Inr tar"
    using assms(1) by (auto simp: publish_container_image_from_tarfile_def Let_def prog_simps)
  note layer = gzip_layer_stream [OF assms(2), of tar]
  define layer where "layer = gz_written (gzip_layer ol tar)"
  define created where "created = ol_isoformat ol (clock w (h @ [put_blob_call ?r (sha256_digest ol layer) (length layer) layer])
    div 1000000) @ ''Z''"
  define config where "config = ol_json_dumps ol (image_config_dict \<lparr>icf_created = created, icf_architecture = arch,
      icf_os = OS_LINUX, icf_diff_ids = [sha256_digest ol tar]\<rparr>)"
  define manifest where "manifest = ol_json_dumps ol (image_manifest_dict
      \<lparr>imf_config = \<lparr>bd_size = length config, bd_digest = sha256_digest ol config\<rparr>,
       imf_layers = [\<lparr>bd_size = length layer, bd_digest = sha256_digest ol layer\<rparr>]\<rparr>)"
  define refs where "refs = ?r # map (\<lambda>tag. rsplit1_head CHR '':'' ?r @ '':'' @ tag) tags"
  have push: "forP (\<lambda>tgt_ref. bindP (ask w (put_manifest_call ?r manifest)) (\<lambda>_. retP ())) refs
      (h @ [put_blob_call ?r (sha256_digest ol layer) (length layer) layer, now_call,
        put_blob_call ?r (sha256_digest ol config) (length config) config]) = Some (Inr (), h')"
    "length refs = Suc (length tags)" "digest = sha256_digest ol manifest" "octets = length manifest"
    using assms(1) tar layer
    by (auto simp: publish_container_image_from_tarfile_def Let_def prog_simps manifest_def config_def created_def
        refs_def simp flip: layer_def)
  have "h' = (h @ [put_blob_call ?r (sha256_digest ol layer) (length layer) layer, now_call,
        put_blob_call ?r (sha256_digest ol config) (length config) config]) @
      concat (map (\<lambda>_. [put_manifest_call ?r manifest]) refs)"
    by (rule forP_trace [OF push(1)]) (auto simp: prog_simps)
  then have calls: "h' = h @ [put_blob_call ?r (sha256_digest ol layer) (length layer) layer, now_call,
        put_blob_call ?r (sha256_digest ol config) (length config) config] @
      replicate (Suc (length tags)) (put_manifest_call ?r manifest)"
    using push(2) by (simp add: map_replicate_const)
  have "gunzip layer = Inr tar"
    using assms(3) layer(1) by (simp add: gunzips_def layer_def chunks_concat)
  with tar config_def manifest_def push(3,4) calls show ?thesis by blast
qed

subsection \<open>A concrete run\<close>

text \<open>A compressor that copies and digests that are the data.\<close>

definition sample_oci_libs :: "unit oci_libs" where
  "sample_oci_libs = \<lparr>ol_lzma_decompress = Inr, ol_gzip_header = ''gz'', ol_compressobj = (), ol_compress = (\<lambda>z s. (s, z)),
     ol_flush = (\<lambda>z. ''''), ol_gzip_footer = (\<lambda>crc n. ''''), ol_crc32 = (\<lambda>s c. c + int (length s)),
     ol_sha256 = id, ol_json_dumps = (\<lambda>d. ''document''), ol_normalise_image_reference = id, ol_isoformat = str_int\<rparr>"

definition sample_registry :: world where
  "sample_registry = \<lparr>answer = (\<lambda>h c. Inr PNone), clock = (\<lambda>h. 0)\<rparr>"

lemma sample_crc: "crc_adds sample_oci_libs"
  by (simp add: crc_adds_def sample_oci_libs_def)

lemma sample_gunzips: "gunzips sample_oci_libs (\<lambda>s. Inr (drop 2 s))"
proof -
  have "compressed sample_oci_libs cs z = concat cs" for cs z
    by (induction cs) (simp_all add: sample_oci_libs_def)
  then show ?thesis by (simp add: gunzips_def gzip_stream_def) (simp add: sample_oci_libs_def)
qed

theorem oci_push_consistent_witness:
  "\<exists>digest octets h' layer. publish_container_image_from_tarfile sample_oci_libs sample_registry ''rootfs'' ''r/i:1''
       OCI_AMD64 [''latest''] [] = Some (Inr (digest, octets), h') \<and>
     drop 2 layer = ''rootfs'' \<and>
     hd h' = put_blob_call ''r/i:1'' (''sha256:'' @ layer) (length layer) layer \<and>
     (\<exists>manifest. drop 3 h' = [put_manifest_call ''r/i:1'' manifest, put_manifest_call ''r/i:1'' manifest])"
proof -
  have "\<exists>r h'. publish_container_image_from_tarfile sample_oci_libs sample_registry ''rootfs'' ''r/i:1''
       OCI_AMD64 [''latest''] [] = Some (Inr r, h')"
    by (simp add: publish_container_image_from_tarfile_def Let_def prog_simps sample_registry_def)
      (simp add: sample_oci_libs_def)
  then obtain digest octets h' where run: "publish_container_image_from_tarfile sample_oci_libs sample_registry ''rootfs'' ''r/i:1''
       OCI_AMD64 [''latest''] [] = Some (Inr (digest, octets), h')" by fast
  have libs: "ol_normalise_image_reference sample_oci_libs s = s" "sha256_digest sample_oci_libs s = ''sha256:'' @ s"
    "ol_lzma_decompress sample_oci_libs s = Inr s" for s
    by (simp_all add: sample_oci_libs_def sha256_digest_def)
  from oci_push_consistent [OF run sample_crc sample_gunzips] run show ?thesis
    by (fastforce simp: libs)
qed

end
