(* ===== verification/Step_Properties.thy ===== *)
theory Step_Properties
  imports Build_Steps Store_Properties Pipelines Aws_Properties Oci_Properties
begin

text \<open>
  What the steps of a build guarantee to each other: a build that was uploaded is found by the steps
  that look for it, in the same run, in a later one and in the promotion; a release is promoted as a
  whole or not at all.
\<close>

subsection \<open>The modifiers of a pipeline task\<close>

text \<open>Names that survive the comma-separated parameter \<open>modifiers\<close> of a task.\<close>

definition list_names :: "feature_descriptor list \<Rightarrow> bool" where
  "list_names fs \<longleftrightarrow> (\<forall>f \<in> set fs. fd_name f \<noteq> [] \<and> CHR '','' \<notin> set (fd_name f))"

lemma split_join_modifiers:
  assumes "\<forall>x \<in> set xs. x \<noteq> [] \<and> CHR '','' \<notin> set x"
  shows "split_modifiers (py_join '','' xs) = xs"
proof (cases "xs = []")
  case False
  then have "py_split CHR '','' (py_join '','' xs) = xs" using assms by (intro py_split_join) auto
  then show ?thesis using assms by (simp add: split_modifiers_def filter_id_conv)
qed (simp add: split_modifiers_def)

lemma task_modifiers:
  assumes u: "wf_features fs" "length fs < n" "list_names fs"
    and fl: "flavours fs n fset = Inr fls" "fl \<in> set fls"
    and s: "get_modifier_names fs n fl = Inr s"
  shows "set (split_modifiers s) = set (fl_modifiers fl)"
proof -
  obtain mods where "normalised_modifiers fs n (fl_platform fl) mods = Inr (fl_modifiers fl)"
    by (rule flavours_mem [OF fl])
  from normalised_modifiers_idem [OF this u(1,2)]
  obtain ms where ms: "mapR (feature_by_name fs) (fl_modifiers fl) = Inr ms"
    and s': "s = py_join '','' (sort (map fd_name ms))"
    using s by (auto simp: get_modifier_names_def calculate_modifiers_def bindR_Inr_iff)
  have names: "map fd_name ms = fl_modifiers fl" by (rule mapR_names_sound [OF ms])
  have "\<forall>x \<in> set (sort (map fd_name ms)). x \<noteq> [] \<and> CHR '','' \<notin> set x"
    using mapR_names_mem [OF ms] u(3) by (auto simp: list_names_def)
  then show ?thesis unfolding s' using names by (simp add: split_join_modifiers)
qed

subsection \<open>What an upload leaves\<close>

text \<open>The files below the directory of the build, and the entries of the manifest for them.\<close>

definition built_files :: "string \<Rightarrow> string \<Rightarrow> 's workspace \<Rightarrow> (string \<times> string) list" where
  "built_files outfile result ws =
     filter (\<lambda>(path, content). startswith path (outfile @ ''/'')) (dict_set result '''' (ws_files ws))"

definition object_key :: "('z, 's) step_env \<Rightarrow> string \<Rightarrow> string" where
  "object_key env content = path_join ''objects'' [se_sha1 env content]"

definition uploaded_file :: "('z, 's) step_env \<Rightarrow> string \<Rightarrow> string \<Rightarrow> string \<times> string \<Rightarrow> s3_release_file" where
  "uploaded_file env version bucket f =
     \<lparr>rf_name = version @ ''-'' @ basename (fst f), rf_suffix = basename (fst f),
      rf_s3_key = object_key env (snd f), rf_s3_bucket_name = bucket\<rparr>"

text \<open>The manifest of the build of a flavour.\<close>

definition built_manifest :: "('z, 's) step_env \<Rightarrow> string \<Rightarrow> build_params \<Rightarrow> int \<Rightarrow> release_identifier \<Rightarrow> string \<Rightarrow>
    string \<Rightarrow> string \<Rightarrow> 's workspace \<Rightarrow> release_manifest" where
  "built_manifest env bucket p epoch ri outfile result img ws =
     new_manifest env ri
       (map (uploaded_file env (upload_version epoch (bp_committish p)) bucket) (built_files outfile result ws))
       img (clock (ce_world env) (ws_calls ws))"

text \<open>Whatever is uploaded under another key stays, and each content is found under its own.\<close>

lemma upload_file_run:
  "upload_file env v b f ws = Some (Inr y, ws') \<longleftrightarrow> y = uploaded_file env v b f \<and>
     (\<exists>s. s3_upload_fileobj (se_s3 env) b (object_key env (snd f)) (snd f) (ws_store ws) = Inr s \<and>
       ws' = ws\<lparr>ws_store := s\<rparr>)"
  by (cases f) (auto simp: upload_file_def Let_def prog_simps uploaded_file_def object_key_def)

lemma object_key_inj: "object_key env c = object_key env d \<longleftrightarrow> se_sha1 env c = se_sha1 env d"
  by (cases "se_sha1 env c"; cases "se_sha1 env d") (auto simp: object_key_def startswith_def split: if_splits)

lemma object_key_not_manifest: "k = manifest_key_prefix @ ''/'' @ s \<Longrightarrow> object_key env c \<noteq> k"
  by (auto simp: object_key_def manifest_key_prefix_def startswith_def)

lemma uploads_values:
  assumes "mapP (upload_file env v b) fs ws = Some (Inr ys, ws')"
  shows "ys = map (uploaded_file env v b) fs \<and> ws_calls ws' = ws_calls ws \<and> ws_files ws' = ws_files ws"
  using assms
proof (induction fs arbitrary: ys ws)
  case (Cons f fs)
  then show ?case by (fastforce simp: prog_simps upload_file_run)
qed (simp add: prog_simps)

lemma upload_keeps:
  assumes "s3_read_your_writes s3" "s3_upload_fileobj s3 b k c s = Inr s'" "k' \<noteq> k"
  shows "s3_download_fileobj s3 b k' s' = s3_download_fileobj s3 b k' s"
  using assms unfolding s3_read_your_writes_def by blast

lemma upload_reads: "s3_read_your_writes s3 \<Longrightarrow> s3_upload_fileobj s3 b k c s = Inr s' \<Longrightarrow> s3_download_fileobj s3 b k s' = Inr c"
  unfolding s3_read_your_writes_def by blast

text \<open>\<open>C\<close> are the contents that were uploaded before.\<close>

lemma uploads_stored:
  assumes "mapP (upload_file env v b) fs ws = Some (Inr ys, ws')"
    and "s3_read_your_writes (se_s3 env)" "inj_on (se_sha1 env) (snd ` set fs \<union> C)"
    and "\<forall>c \<in> C. s3_download_fileobj (se_s3 env) b (object_key env c) (ws_store ws) = Inr c"
  shows "\<forall>c \<in> snd ` set fs \<union> C. s3_download_fileobj (se_s3 env) b (object_key env c) (ws_store ws') = Inr c"
  using assms
proof (induction fs arbitrary: ys ws C)
  case Nil
  then show ?case by (simp add: prog_simps)
next
  case (Cons f fs)
  from Cons.prems(1) obtain s zs where
    s: "s3_upload_fileobj (se_s3 env) b (object_key env (snd f)) (snd f) (ws_store ws) = Inr s"
    and zs: "mapP (upload_file env v b) fs (ws\<lparr>ws_store := s\<rparr>) = Some (Inr zs, ws')"
    by (auto simp: prog_simps upload_file_run)
  have "s3_download_fileobj (se_s3 env) b (object_key env c) s = Inr c" if c: "c \<in> insert (snd f) C" for c
  proof (cases "c = snd f")
    case True
    then show ?thesis using upload_reads [OF Cons.prems(2) s] by simp
  next
    case False
    have "c \<in> snd ` set (f # fs) \<union> C" "snd f \<in> snd ` set (f # fs) \<union> C" using c by auto
    then have "se_sha1 env c \<noteq> se_sha1 env (snd f)"
      using False by (metis Cons.prems(3) inj_onD)
    then have "object_key env c \<noteq> object_key env (snd f)" by (simp add: object_key_inj)
    from upload_keeps [OF Cons.prems(2) s this] show ?thesis using Cons.prems(4) c False by simp
  qed
  moreover have "inj_on (se_sha1 env) (snd ` set fs \<union> insert (snd f) C)" using Cons.prems(3) by simp
  ultimately have "\<forall>c \<in> snd ` set fs \<union> insert (snd f) C.
      s3_download_fileobj (se_s3 env) b (object_key env c) (ws_store ws') = Inr c"
    by (intro Cons.IH [OF zs Cons.prems(2)]) simp_all
  then show ?case by simp
qed

lemma upload_results_inv:
  assumes run: "upload_results_step_body env name p outfile targets result img ws = Some (Inr (), ws')"
    and p: "bp_platform p \<noteq> ''oci''" "se_cicd_cfg env name = Inr cfg" "py_int (bp_gardenlinux_epoch p) = Inr epoch"
    and ri: "params_identifier p (split_modifiers (bp_modifiers p)) = Inr ri"
  obtains files ws1 key where
    "mapP (upload_file env (upload_version epoch (bp_committish p)) (bucket_of cfg)) (built_files outfile result ws)
       (ws\<lparr>ws_files := dict_set result '''' (ws_files ws)\<rparr>) = Some (Inr files, ws1)"
    "canonical_release_manifest_key (ce_features env) (ce_fuel env)
       (built_manifest env (bucket_of cfg) p epoch ri outfile result img ws) = Inr key"
    "upload_release_manifest (se_s3 env) (se_codec env) (bucket_of cfg) key
       (manifest_attrs (built_manifest env (bucket_of cfg) p epoch ri outfile result img ws)) (ws_store ws1) =
       Inr (ws_store ws')"
    "map_of (ws_files ws') result = Some key"
proof -
  from run obtain files ws1 release_build where
    up: "mapP (upload_file env (upload_version epoch (bp_committish p)) (bucket_of cfg)) (built_files outfile result ws)
       (ws\<lparr>ws_files := dict_set result '''' (ws_files ws)\<rparr>) = Some (Inr files, ws1)"
    and store: "store_build_manifest env cfg release_build result
       (new_manifest env ri files img (clock (ce_world env) (ws_calls ws1)))
       (ws1\<lparr>ws_calls := ws_calls ws1 @ [now_call]\<rparr>) = Some (Inr (), ws')"
    unfolding upload_results_step_body_def
    by (auto simp: prog_simps upload_files_def walk_def built_files_def p ri split: if_split_asm)
  have m: "new_manifest env ri files img (clock (ce_world env) (ws_calls ws1)) =
      built_manifest env (bucket_of cfg) p epoch ri outfile result img ws"
    using uploads_values [OF up] by (simp add: built_manifest_def)
  have "ri_platform (built_manifest env (bucket_of cfg) p epoch ri outfile result img ws) \<noteq> ''oci''"
    using ri p(1) by (auto simp: params_identifier_def bindR_Inr_iff new_manifest_def built_manifest_def)
  then show thesis
    using that [OF up] store by (auto simp: m store_build_manifest_def prog_simps map_of_dict_set)
qed

subsection \<open>Finding the upload\<close>

text \<open>The identity of the build of a flavour, as the steps that look for it give it.\<close>

lemma params_identifier_flavour:
  assumes "bp_platform p = fl_platform fl" "bp_architecture p = architecture_value (fl_architecture fl)"
    and "py_int (bp_gardenlinux_epoch p) = Inr epoch"
  shows "params_identifier p mods =
    Inr ((flavour_identifier (bp_committish p) (bp_version p) epoch fl)\<lparr>ri_modifiers := mods\<rparr>)"
  using assms by (simp add: params_identifier_def flavour_identifier_def arch.of_val_val)

text \<open>A run of the step \<open>pre_build\<close> or \<open>pre_check_tests\<close> in which a release is found.\<close>

lemma pre_build_found:
  assumes "set_from_str targets = Inr ts" "BUILD \<in> set ts" "se_cicd_cfg env name = Inr cfg"
    and "params_identifier p (split_modifiers (bp_modifiers p)) = Inr ri"
    and "find_release (ce_features env) (ce_fuel env) (se_s3 env) (se_codec env) (bucket_of cfg) ri (ws_store ws) =
      Inr (Some m)"
  shows "\<exists>content. pre_build_step_body env name p targets ws =
    Some (Inr (), ws\<lparr>ws_files := dict_set SKIP_BUILD content (ws_files ws)\<rparr>)"
  using assms
  by (simp add: pre_build_step_body_def prog_simps step_find_release_def write_not_build_marker_file_def)
    (rule exI, rule refl)

lemma pre_check_untested:
  assumes "set_from_str targets = Inr ts" "TESTS \<in> set ts" "se_cicd_cfg env name = Inr cfg"
    and "params_identifier p (split_modifiers (bp_modifiers p)) = Inr ri"
    and "find_release (ce_features env) (ce_fuel env) (se_s3 env) (se_codec env) (bucket_of cfg) ri (ws_store ws) =
      Inr (Some m)" "\<not> tests_passed m"
  shows "pre_check_tests env name p targets ws = Some (Inr (), ws)"
  using assms by (simp add: pre_check_tests_def prog_simps step_find_release_def)

lemma new_manifest_identifier:
  "manifest_identifier (new_manifest env ri files img now) = ri"
  by (cases ri) (simp add: manifest_identifier_def new_manifest_def)

lemma upload_found:
  fixes env :: "('z, 's) step_env"
  assumes u: "wf_features (ce_features env)" "length (ce_features env) < ce_fuel env" "case_distinct (ce_features env)"
    and s3: "s3_read_your_writes (se_s3 env)"
    and mods: "set ms = set (split_modifiers (bp_modifiers p))"
    and p: "fl_platform fl \<noteq> ''oci''" "bp_platform p = fl_platform fl"
    "bp_architecture p = architecture_value (fl_architecture fl)"
    "se_cicd_cfg env name = Inr cfg" "py_int (bp_gardenlinux_epoch p) = Inr epoch"
    and run: "upload_results_step_body env name p outfile targets result img ws = Some (Inr (), ws')"
    and m: "m = built_manifest env (bucket_of cfg) p epoch ((flavour_identifier (bp_committish p) (bp_version p) epoch fl)
       \<lparr>ri_modifiers := split_modifiers (bp_modifiers p)\<rparr>) outfile result img ws"
    and cd: "codec_reads (se_codec env) m"
  shows "\<exists>key. map_of (ws_files ws') result = Some key \<and>
     find_release (ce_features env) (ce_fuel env) (se_s3 env) (se_codec env) (bucket_of cfg)
       ((flavour_identifier (bp_committish p) (bp_version p) epoch fl)\<lparr>ri_modifiers := ms\<rparr>) (ws_store ws') =
     Inr (Some (as_online key (bucket_of cfg) m))"
proof -
  have "bp_platform p \<noteq> ''oci''" using p(1,2) by simp
  then obtain files key and ws1 :: "'s workspace" where
    key: "canonical_release_manifest_key (ce_features env) (ce_fuel env) m = Inr key"
    and up: "upload_release_manifest (se_s3 env) (se_codec env) (bucket_of cfg) key (manifest_attrs m) (ws_store ws1) =
       Inr (ws_store ws')"
    and res: "map_of (ws_files ws') result = Some key"
    unfolding m by (rule upload_results_inv [OF run _ p(4,5) params_identifier_flavour [OF p(2,3,5)]]) blast
  have "set ms = set (ri_modifiers m)" using mods by (simp add: m built_manifest_def new_manifest_def)
  from find_release_after_upload [OF u s3 cd key up this] res
  show ?thesis by (simp add: m built_manifest_def new_manifest_identifier)
qed

text \<open>
  C23: a build that was uploaded is found. When the upload step has ended normally for a flavour of the
  flavour set, with the parameters that the pipeline gives its task, the result names the key of the
  manifest, and the manifest stored there is returned for the flavour's identity with its modifiers in
  any order: the lookup of the promotion. A later run skips the build of the flavour and, as no test
  result is stored, not its tests.
\<close>

theorem uploaded_build_found:
  assumes "wf_features (ce_features env)" and "length (ce_features env) < ce_fuel env"
    and "case_distinct (ce_features env)" and "list_names (ce_features env)" and "s3_read_your_writes (se_s3 env)"
    and "flavours (ce_features env) (ce_fuel env) fset = Inr fls" and "fl \<in> set fls" and "fl_platform fl \<noteq> ''oci''"
    and "get_modifier_names (ce_features env) (ce_fuel env) fl = Inr (bp_modifiers p)"
    and "bp_platform p = fl_platform fl" and "bp_architecture p = architecture_value (fl_architecture fl)"
    and "se_cicd_cfg env name = Inr cfg" and "py_int (bp_gardenlinux_epoch p) = Inr epoch"
    and "upload_results_step_body env name p outfile targets result img ws = Some (Inr (), ws')"
    and "m = built_manifest env (bucket_of cfg) p epoch ((flavour_identifier (bp_committish p) (bp_version p) epoch fl)
       \<lparr>ri_modifiers := split_modifiers (bp_modifiers p)\<rparr>) outfile result img ws"
    and "codec_reads (se_codec env) m"
  shows "\<exists>key. map_of (ws_files ws') result = Some key \<and>
      (\<forall>ms. set ms = set (fl_modifiers fl) \<longrightarrow>
        find_release (ce_features env) (ce_fuel env) (se_s3 env) (se_codec env) (bucket_of cfg)
          ((flavour_identifier (bp_committish p) (bp_version p) epoch fl)\<lparr>ri_modifiers := ms\<rparr>) (ws_store ws') =
          Inr (Some (as_online key (bucket_of cfg) m))) \<and>
      (\<forall>later ts ws2. ws_store ws2 = ws_store ws' \<and> set_from_str later = Inr ts \<and> {BUILD, TESTS} \<subseteq> set ts \<longrightarrow>
        (\<exists>content. pre_build_step_body env name p later ws2 =
          Some (Inr (), ws2\<lparr>ws_files := dict_set SKIP_BUILD content (ws_files ws2)\<rparr>)) \<and>
        pre_check_tests env name p later ws2 = Some (Inr (), ws2))"
proof -
  note ri = params_identifier_flavour [OF assms(10,11,13), of "split_modifiers (bp_modifiers p)"]
  have mods: "set (split_modifiers (bp_modifiers p)) = set (fl_modifiers fl)"
    by (rule task_modifiers [OF assms(1,2,4,6,7,9)])
  note found = upload_found [OF assms(1-3,5) _ assms(8,10-16)]
  obtain key where key: "map_of (ws_files ws') result = Some key"
    and f: "find_release (ce_features env) (ce_fuel env) (se_s3 env) (se_codec env) (bucket_of cfg)
       ((flavour_identifier (bp_committish p) (bp_version p) epoch fl)
          \<lparr>ri_modifiers := split_modifiers (bp_modifiers p)\<rparr>) (ws_store ws') =
       Inr (Some (as_online key (bucket_of cfg) m))"
    using found [OF refl] by blast
  have untested: "\<not> tests_passed (as_online key (bucket_of cfg) m)"
    by (simp add: tests_passed_def as_online_def)
  have "(\<exists>content. pre_build_step_body env name p later ws2 =
        Some (Inr (), ws2\<lparr>ws_files := dict_set SKIP_BUILD content (ws_files ws2)\<rparr>)) \<and>
      pre_check_tests env name p later ws2 = Some (Inr (), ws2)"
    if l: "ws_store ws2 = ws_store ws'" "set_from_str later = Inr ts" "{BUILD, TESTS} \<subseteq> set ts" for later ts ws2
  proof -
    have b: "BUILD \<in> set ts" "TESTS \<in> set ts" using l(3) by auto
    show ?thesis
      using pre_build_found [OF l(2) b(1) assms(12) ri f [folded l(1)]]
        pre_check_untested [OF l(2) b(2) assms(12) ri f [folded l(1)] untested] by blast
  qed
  moreover have "find_release (ce_features env) (ce_fuel env) (se_s3 env) (se_codec env) (bucket_of cfg)
      ((flavour_identifier (bp_committish p) (bp_version p) epoch fl)\<lparr>ri_modifiers := ms\<rparr>) (ws_store ws') =
      Inr (Some (as_online key (bucket_of cfg) m))" if "set ms = set (fl_modifiers fl)" for ms
    using found [of ms] mods that key by auto
  ultimately show ?thesis using key by blast
qed

text \<open>
  C25: a manifest never refers to a file that is not stored. After the upload step the manifest lists
  one entry per file of the build, and the content of each file is what is downloaded from the bucket
  and key of its entry, provided that no two of the contents have the same digest.
\<close>

theorem manifest_files_stored:
  assumes "s3_read_your_writes (se_s3 env)" and "bp_platform p \<noteq> ''oci''"
    and "se_cicd_cfg env name = Inr cfg" and "py_int (bp_gardenlinux_epoch p) = Inr epoch"
    and "params_identifier p (split_modifiers (bp_modifiers p)) = Inr ri"
    and "inj_on (se_sha1 env) (snd ` set (built_files outfile result ws))"
    and "upload_results_step_body env name p outfile targets result img ws = Some (Inr (), ws')"
    and "m = built_manifest env (bucket_of cfg) p epoch ri outfile result img ws"
  shows "\<exists>key y. map_of (ws_files ws') result = Some key \<and> serialised (manifest_attrs m) = Inr y \<and>
    s3_download_fileobj (se_s3 env) (bucket_of cfg) key (ws_store ws') = Inr (cd_safe_dump (se_codec env) y) \<and>
    list_all2 (\<lambda>(path, content) f. rf_suffix f = basename path \<and>
        s3_download_fileobj (se_s3 env) (rf_s3_bucket_name f) (rf_s3_key f) (ws_store ws') = Inr content)
      (built_files outfile result ws) (rm_paths m)"
proof -
  obtain files ws1 key where
    files: "mapP (upload_file env (upload_version epoch (bp_committish p)) (bucket_of cfg)) (built_files outfile result ws)
       (ws\<lparr>ws_files := dict_set result '''' (ws_files ws)\<rparr>) = Some (Inr files, ws1)"
    and key: "canonical_release_manifest_key (ce_features env) (ce_fuel env) m = Inr key"
    and up: "upload_release_manifest (se_s3 env) (se_codec env) (bucket_of cfg) key (manifest_attrs m) (ws_store ws1) =
       Inr (ws_store ws')"
    and res: "map_of (ws_files ws') result = Some key"
    unfolding assms(8) by (rule upload_results_inv [OF assms(7,2-5)])
  obtain y where y: "serialised (manifest_attrs m) = Inr y"
    "s3_upload_fileobj (se_s3 env) (bucket_of cfg) key (cd_safe_dump (se_codec env) y) (ws_store ws1) = Inr (ws_store ws')"
    using up by (auto simp: upload_release_manifest_def bindR_Inr_iff)
  have stored: "s3_download_fileobj (se_s3 env) (bucket_of cfg) (object_key env c) (ws_store ws') = Inr c"
    if "c \<in> snd ` set (built_files outfile result ws)" for c
  proof -
    obtain s where "key = manifest_key_prefix @ ''/'' @ s"
      using key by (auto simp: canonical_release_manifest_key_def bindR_Inr_iff)
    from upload_keeps [OF assms(1) y(2) object_key_not_manifest [OF this]]
    moreover have "s3_download_fileobj (se_s3 env) (bucket_of cfg) (object_key env c) (ws_store ws1) = Inr c"
      using uploads_stored [OF files assms(1), of "{}"] assms(6) that by fastforce
    ultimately show ?thesis by metis
  qed
  have "list_all2 (\<lambda>(path, content) f. rf_suffix f = basename path \<and>
        s3_download_fileobj (se_s3 env) (rf_s3_bucket_name f) (rf_s3_key f) (ws_store ws') = Inr content)
      (built_files outfile result ws) (rm_paths m)"
    using stored by (force simp: assms(8) built_manifest_def new_manifest_def uploaded_file_def list_all2_map2
        intro: list.rel_refl_strong)
  then show ?thesis using res y upload_reads [OF assms(1) y(2)] by blast
qed

subsection \<open>A concrete run\<close>

definition sample_publish_cfg :: publish_cfg where
  "sample_publish_cfg = \<lparr>pc_azure = \<lparr>apc_offer_id = ''gardenlinux'', apc_publisher_id = ''sap'', apc_plan_id = ''plan'',
       apc_service_principal_cfg_name = ''sp'', apc_storage_account_cfg_name = ''st'', apc_shared_gallery_cfg_name = ''sig'',
       apc_notification_emails = []\<rparr>,
     pc_openstack = \<lparr>opc_environment_cfg_name = ''os'', opc_image_properties_cfg_name = ''props''\<rparr>,
     pc_oci = \<lparr>ocp_image_prefix = ''registry/gardenlinux''\<rparr>\<rparr>"

definition sample_cicd_cfg :: cicd_cfg where
  "sample_cicd_cfg = \<lparr>cc_name = ''default'', cc_build = sample_build_cfg, cc_publish = sample_publish_cfg,
     cc_notify = \<lparr>nc_email_cfg_name = ''mail'', nc_slack_cfg_name = ''slack'', nc_slack_channel = ''ci'', nc_branches = []\<rparr>,
     cc_package_build = None\<rparr>"

definition sample_named_cfgs :: named_cfgs where
  "sample_named_cfgs = \<lparr>nm_azure_service_principal = (\<lambda>n. Inl (KeyError n)), nm_azure_storage_account = (\<lambda>n. Inl (KeyError n)),
     nm_azure_shared_gallery = (\<lambda>n. Inl (KeyError n)), nm_gcp_project = (\<lambda>n. Inl (KeyError n)),
     nm_ccee_environments = (\<lambda>n. Inl (KeyError n)), nm_openstack_os_image_properties = (\<lambda>n. Inl (KeyError n))\<rparr>"

definition sample_fset :: flavour_set where
  "sample_fset = \<lparr>fs_name = ''all'', fs_combinations =
     [\<lparr>fc_architectures = [AMD64], fc_platforms = [''aws''], fc_modifiers = [[''gardener'']]\<rparr>]\<rparr>"

definition sample_built_flavour :: gardenlinux_flavour where
  "sample_built_flavour = \<lparr>fl_architecture = AMD64, fl_platform = ''aws'',
     fl_modifiers = [''base'', ''cloud'', ''gardener'', ''server'', ''_slim'']\<rparr>"

definition sample_step_env :: "codec \<Rightarrow> (unit, sample_store) step_env" where
  "sample_step_env cd = \<lparr>ce_features = shipped_features, ce_fuel = 27, ce_world = sample_aws, ce_cfgs = sample_named_cfgs,
     ce_semver = Inr, ce_oci = sample_oci_libs, ce_sched = (\<lambda>n. 0), se_s3 = sample_s3, se_codec = cd,
     se_cicd_cfg = (\<lambda>n. Inr sample_cicd_cfg), se_flavour_set = (\<lambda>n. Inr sample_fset), se_sha1 = id,
     se_isoformat = str_int, se_load_test_result = (\<lambda>s. Inr None)\<rparr>"

definition sample_build_params :: build_params where
  "sample_build_params = \<lparr>bp_committish = ''0123456789abcdef'', bp_version = ''560.0'', bp_gardenlinux_epoch = ''560'',
     bp_architecture = ''amd64'', bp_platform = ''aws'', bp_modifiers = ''_slim,base,cloud,gardener,server''\<rparr>"

definition sample_workspace :: "sample_store workspace" where
  "sample_workspace = \<lparr>ws_files = [(''/build/rootfs.raw'', ''disk''), (''/build/rootfs.log'', ''log'')],
     ws_dirs = [''/build''], ws_store = [], ws_calls = []\<rparr>"

definition sample_built :: release_manifest where
  "sample_built = built_manifest (sample_step_env (sample_codec sample_manifest)) ''bucket'' sample_build_params 560
     ((flavour_identifier ''0123456789abcdef'' ''560.0'' 560 sample_built_flavour)
       \<lparr>ri_modifiers := split_modifiers (bp_modifiers sample_build_params)\<rparr>)
     ''/build'' ''/result'' ''image'' sample_workspace"

lemma shipped_list_names: "list_names shipped_features"
proof -
  have "\<forall>s \<in> set (map fd_name shipped_features). s \<noteq> [] \<and> CHR '','' \<notin> set s"
    unfolding shipped_names by simp
  then show ?thesis by (simp add: list_names_def)
qed

lemma sample_fset_flavours: "flavours shipped_features 27 sample_fset = Inr [sample_built_flavour]"
  by code_simp

lemma sample_modifier_names:
  "get_modifier_names shipped_features 27 sample_built_flavour = Inr (bp_modifiers sample_build_params)"
  by code_simp

lemma sample_epoch: "py_int ''560'' = Inr 560"
  by code_simp

lemma sample_targets: "set_from_str ''build,manifest,tests'' = Inr [BUILD, MANIFEST, TESTS]"
  by code_simp

lemma sample_built_key:
  "canonical_release_manifest_key shipped_features 27 sample_built = Inr ''meta/singles/aws-cloud-gardener-560.0-012345''"
  by (rule key_same_set [OF shipped_wf shipped_fuel shipped_case_distinct sample_key(1)])
    (auto simp: sample_built_def built_manifest_def new_manifest_def sample_manifest_def flavour_identifier_def
      sample_built_flavour_def sample_build_params_def split_modifiers_def)

lemma sample_params_identifier:
  "params_identifier sample_build_params mods =
     Inr ((flavour_identifier ''0123456789abcdef'' ''560.0'' 560 sample_built_flavour)\<lparr>ri_modifiers := mods\<rparr>)"
  using params_identifier_flavour [of sample_build_params sample_built_flavour 560] sample_epoch
  by (simp add: sample_build_params_def sample_built_flavour_def)

lemma sample_upload_version: "upload_version 560 (bp_committish sample_build_params) = ''560-012345''"
  by code_simp

lemma sample_built_files: "built_files ''/build'' ''/result'' sample_workspace =
    [(''/build/rootfs.raw'', ''disk''), (''/build/rootfs.log'', ''log'')]"
  by (simp add: built_files_def sample_workspace_def startswith_def)

lemma sample_store_run:
  "\<exists>ws'. store_build_manifest (sample_step_env (sample_codec sample_built)) sample_cicd_cfg release_build ''/result''
     sample_built ws1 = Some (Inr (), ws')"
proof -
  have "ri_platform sample_built \<noteq> ''oci''"
    by (simp add: sample_built_def built_manifest_def new_manifest_def flavour_identifier_def sample_built_flavour_def)
  moreover obtain y where "serialised (manifest_attrs sample_built) = Inr y"
    using serialised_total [OF convertible_attrs(1) [of sample_built]] by blast
  then have "\<exists>s. upload_release_manifest sample_s3 (sample_codec sample_built) b k (manifest_attrs sample_built) (ws_store ws1) = Inr s" for b k
    by (simp add: upload_release_manifest_def sample_s3_def)
  ultimately show ?thesis
    using sample_built_key by (simp add: store_build_manifest_def prog_simps sample_step_env_def)
qed

lemma sample_upload_run:
  "\<exists>ws'. upload_results_step_body (sample_step_env (sample_codec sample_built)) ''default'' sample_build_params ''/build''
     ''build,manifest,tests'' ''/result'' ''image'' sample_workspace = Some (Inr (), ws')"
proof -
  let ?env = "sample_step_env (sample_codec sample_built)"
  have m: "new_manifest ?env ((flavour_identifier ''0123456789abcdef'' ''560.0'' 560 sample_built_flavour)
       \<lparr>ri_modifiers := split_modifiers (bp_modifiers sample_build_params)\<rparr>)
     (map (uploaded_file ?env ''560-012345'' ''bucket'') [(''/build/rootfs.raw'', ''disk''), (''/build/rootfs.log'', ''log'')])
     ''image'' 0 = sample_built"
    unfolding sample_built_def built_manifest_def sample_upload_version sample_built_files
    by (simp add: new_manifest_def uploaded_file_def object_key_def
        sample_step_env_def sample_aws_def sample_workspace_def)
  let ?ws = "sample_workspace\<lparr>ws_files := dict_set ''/result'' '''' (ws_files sample_workspace)\<rparr>"
  obtain ws1 where up: "mapP (upload_file ?env ''560-012345'' ''bucket'') (built_files ''/build'' ''/result'' sample_workspace) ?ws =
      Some (Inr (map (uploaded_file ?env ''560-012345'' ''bucket'') [(''/build/rootfs.raw'', ''disk''), (''/build/rootfs.log'', ''log'')]), ws1)"
    "ws_calls ws1 = []"
    unfolding sample_built_files
    by (auto simp: prog_simps upload_file_run sample_step_env_def sample_s3_def sample_workspace_def)
  have files: "upload_files ?env ''/build'' ''560-012345'' ''bucket'' ?ws =
      Some (Inr (map (uploaded_file ?env ''560-012345'' ''bucket'') [(''/build/rootfs.raw'', ''disk''), (''/build/rootfs.log'', ''log'')]), ws1)"
    using up(1) by (simp add: upload_files_def walk_def prog_simps built_files_def)
  have skip: "SKIP_BUILD \<notin> fst ` set (ws_files ?ws)" "''/build'' \<in> set (ws_dirs ?ws)"
    by (simp_all add: SKIP_BUILD_def sample_workspace_def)
  obtain ws' where ws': "store_build_manifest ?env sample_cicd_cfg False ''/result'' sample_built
      (ws1\<lparr>ws_calls := [now_call]\<rparr>) = Some (Inr (), ws')"
    using sample_store_run by blast
  have env: "se_cicd_cfg ?env n = Inr sample_cicd_cfg" "clock (ce_world ?env) [] = 0" for n
    by (simp_all add: sample_step_env_def sample_aws_def)
  have cfg: "bucket_of sample_cicd_cfg = ''bucket''" "bp_gardenlinux_epoch sample_build_params = ''560''"
    by (simp_all add: bucket_of_def sample_cicd_cfg_def sample_build_cfg_def sample_build_params_def)
  show ?thesis
    unfolding upload_results_step_body_def
    using skip files ws' up(2)
    by (simp add: prog_simps sample_targets env cfg sample_epoch sample_upload_version sample_params_identifier
        m [unfolded list.map] ex_bool_eq)
qed

theorem uploaded_build_found_witness:
  "\<exists>ws' key. upload_results_step_body (sample_step_env (sample_codec sample_built)) ''default'' sample_build_params ''/build''
       ''build,manifest,tests'' ''/result'' ''image'' sample_workspace = Some (Inr (), ws') \<and>
     map_of (ws_files ws') ''/result'' = Some key \<and>
     find_release shipped_features 27 sample_s3 (sample_codec sample_built) ''bucket''
       (flavour_identifier ''0123456789abcdef'' ''560.0'' 560 sample_built_flavour) (ws_store ws') =
     Inr (Some (as_online key ''bucket'' sample_built))"
proof -
  let ?env = "sample_step_env (sample_codec sample_built)"
  have env: "ce_features ?env = shipped_features" "ce_fuel ?env = 27" "se_s3 ?env = sample_s3"
    "se_codec ?env = sample_codec sample_built" "se_cicd_cfg ?env n = Inr sample_cicd_cfg"
    "bucket_of sample_cicd_cfg = ''bucket''" for n
    by (simp_all add: sample_step_env_def bucket_of_def sample_cicd_cfg_def sample_build_cfg_def)
  have p: "fl_platform sample_built_flavour \<noteq> ''oci''" "bp_platform sample_build_params = fl_platform sample_built_flavour"
    "bp_architecture sample_build_params = architecture_value (fl_architecture sample_built_flavour)"
    "py_int (bp_gardenlinux_epoch sample_build_params) = Inr 560"
    "bp_committish sample_build_params = ''0123456789abcdef''" "bp_version sample_build_params = ''560.0''"
    by (simp_all add: sample_built_flavour_def sample_build_params_def sample_epoch)
  have m: "sample_built = built_manifest ?env (bucket_of sample_cicd_cfg) sample_build_params 560
      ((flavour_identifier (bp_committish sample_build_params) (bp_version sample_build_params) 560 sample_built_flavour)
        \<lparr>ri_modifiers := split_modifiers (bp_modifiers sample_build_params)\<rparr>) ''/build'' ''/result'' ''image'' sample_workspace"
    by (simp add: sample_built_def built_manifest_def new_manifest_def uploaded_file_def object_key_def sample_step_env_def env p)
  have fl: "sample_built_flavour \<in> set [sample_built_flavour]" by simp
  obtain ws' where run: "upload_results_step_body ?env ''default'' sample_build_params ''/build''
       ''build,manifest,tests'' ''/result'' ''image'' sample_workspace = Some (Inr (), ws')"
    using sample_upload_run by blast
  from uploaded_build_found [of ?env, unfolded env, OF shipped_wf shipped_fuel shipped_case_distinct shipped_list_names
      sample_read_your_writes sample_fset_flavours fl p(1) sample_modifier_names p(2,3) refl p(4) run
      m sample_codec_reads]
  obtain key where "map_of (ws_files ws') ''/result'' = Some key"
    "find_release shipped_features 27 sample_s3 (sample_codec sample_built) ''bucket''
       ((flavour_identifier ''0123456789abcdef'' ''560.0'' 560 sample_built_flavour)
          \<lparr>ri_modifiers := fl_modifiers sample_built_flavour\<rparr>) (ws_store ws') =
     Inr (Some (as_online key ''bucket'' sample_built))"
    unfolding p env by blast
  then show ?thesis using run by (simp add: flavour_identifier_def)
qed

theorem manifest_files_stored_witness:
  "\<exists>ws'. upload_results_step_body (sample_step_env (sample_codec sample_built)) ''default'' sample_build_params ''/build''
       ''build,manifest,tests'' ''/result'' ''image'' sample_workspace = Some (Inr (), ws') \<and>
     list_all2 (\<lambda>content f. s3_download_fileobj sample_s3 (rf_s3_bucket_name f) (rf_s3_key f) (ws_store ws') = Inr content)
       [''disk'', ''log''] (rm_paths sample_built)"
proof -
  let ?env = "sample_step_env (sample_codec sample_built)"
  have env: "se_s3 ?env = sample_s3" "se_cicd_cfg ?env n = Inr sample_cicd_cfg" "se_sha1 ?env = id"
    "bucket_of sample_cicd_cfg = ''bucket''" for n
    by (simp_all add: sample_step_env_def bucket_of_def sample_cicd_cfg_def sample_build_cfg_def)
  have p: "bp_platform sample_build_params \<noteq> ''oci''" "py_int (bp_gardenlinux_epoch sample_build_params) = Inr 560"
    by (simp_all add: sample_build_params_def sample_epoch)
  have m: "sample_built = built_manifest ?env (bucket_of sample_cicd_cfg) sample_build_params 560
      ((flavour_identifier ''0123456789abcdef'' ''560.0'' 560 sample_built_flavour)
        \<lparr>ri_modifiers := split_modifiers (bp_modifiers sample_build_params)\<rparr>) ''/build'' ''/result'' ''image'' sample_workspace"
    by (simp add: sample_built_def built_manifest_def new_manifest_def uploaded_file_def object_key_def sample_step_env_def env)
  obtain ws' where run: "upload_results_step_body ?env ''default'' sample_build_params ''/build''
       ''build,manifest,tests'' ''/result'' ''image'' sample_workspace = Some (Inr (), ws')"
    using sample_upload_run by blast
  from manifest_files_stored [of ?env, unfolded env, OF sample_read_your_writes p(1) refl p(2) sample_params_identifier
      _ run m]
  show ?thesis using run by (auto simp: sample_built_files list_all2_Cons1)
qed

end
