(* ===== verification/Promote_Properties.thy ===== *)
theory Promote_Properties
  imports Step_Properties
begin

text \<open>
  The promotion: a set of releases is stored as a whole or not at all.
\<close>

subsection \<open>Completeness of a release\<close>

lemma found_releases:
  assumes "mapR f (py_set xs) = Inr ys"
  shows "length (List.map_filter id ys) = length xs \<longleftrightarrow> distinct xs \<and> (\<forall>x \<in> set xs. f x \<noteq> Inr None)"
    and "distinct xs \<Longrightarrow> \<forall>x \<in> set xs. f x \<noteq> Inr None \<Longrightarrow> list_all2 (\<lambda>x y. f x = Inr (Some y)) xs (List.map_filter id ys)"
proof -
  have ys: "length ys = length (py_set xs)" "\<And>y. y \<in> set ys \<longleftrightarrow> (\<exists>x \<in> set xs. f x = Inr y)"
    using mapR_length [OF assms] mapR_mem [OF assms] by simp_all
  have all: "length (List.map_filter id ys) \<le> length ys \<and>
      (length (List.map_filter id ys) = length ys \<longleftrightarrow> None \<notin> set ys)" for ys :: "'c option list"
  proof (induction ys)
    case (Cons y ys)
    then show ?case by (cases y) (auto simp: map_filter_simps)
  qed (simp add: map_filter_simps)
  have card: "length (py_set xs) \<le> length xs" "length (py_set xs) = length xs \<longleftrightarrow> distinct xs"
    using distinct_card [OF distinct_py_set [of xs]] card_length [of xs] card_distinct [of xs] distinct_card [of xs]
    by auto
  show "length (List.map_filter id ys) = length xs \<longleftrightarrow> distinct xs \<and> (\<forall>x \<in> set xs. f x \<noteq> Inr None)"
    using all [of ys] card ys by (metis le_antisym le_trans)
  show "list_all2 (\<lambda>x y. f x = Inr (Some y)) xs (List.map_filter id ys)"
    if d: "distinct xs" and s: "\<forall>x \<in> set xs. f x \<noteq> Inr None"
  proof -
    have "list_all2 (\<lambda>x y. f x = Inr y) xs ys"
      using assms py_set_distinct [OF d] by (simp add: mapR_Inr_iff)
    then show ?thesis using s
    proof (induction xs ys rule: list_all2_induct)
      case (Cons x xs y ys)
      then show ?case by (cases y) (auto simp: map_filter_simps)
    qed (simp add: map_filter_simps)
  qed
qed

definition promoted_key :: "('z, 's) step_env \<Rightarrow> flavour_set \<Rightarrow> build_type \<Rightarrow> string \<Rightarrow> string \<Rightarrow> string \<Rightarrow> int \<Rightarrow> string" where
  "promoted_key env fset bt committish epoch version now =
     path_join release_manifest_set_prefix [build_type_value bt,
       release_set_manifest_name committish epoch version (fs_name fset) bt (Some (se_isoformat env now))]"



end
