(* ===== verification/Templates.thy ===== *)
theory Templates
  imports Calls
begin

text \<open>
  \<open>string.Template\<close>: the texts with \<open>$name\<close> and \<open>${name}\<close> that the mails, the release notes and the
  arguments of the tests are made from, and \<open>str.lower\<close> for ASCII letters.
\<close>

definition lower_char :: "char \<Rightarrow> char" where
  "lower_char c = (if CHR ''A'' \<le> c \<and> c \<le> CHR ''Z'' then char_of (of_char c + 32 :: nat) else c)"

definition ascii_alpha :: "char \<Rightarrow> bool" where
  "ascii_alpha c \<longleftrightarrow> (of_char (lower_char c) :: nat) \<in> {97..122}"

definition ident_start :: "char \<Rightarrow> bool" where
  "ident_start c \<longleftrightarrow> c = CHR ''_'' \<or> ascii_alpha c"

definition ident_part :: "char \<Rightarrow> bool" where
  "ident_part c \<longleftrightarrow> ident_start c \<or> is_digit c"

text \<open>What follows a dollar sign: an escaped dollar, a name with the text after it, or neither.\<close>

datatype placeholder = Escaped string | Named string string | Invalid

definition plain_placeholder :: "string \<Rightarrow> placeholder" where
  "plain_placeholder s =
     (if s \<noteq> [] \<and> ident_start (hd s) then Named (takeWhile ident_part s) (dropWhile ident_part s) else Invalid)"

definition placeholder :: "string \<Rightarrow> placeholder" where
  "placeholder s =
     (if s = [] then Invalid
      else if hd s = CHR ''$'' then Escaped (tl s)
      else if hd s = CHR ''{''
      then (case plain_placeholder (tl s) of
          Named name (CHR ''}'' # rest) \<Rightarrow> Named name rest
        | _ \<Rightarrow> Invalid)
      else plain_placeholder s)"

lemma plain_placeholder_length: "plain_placeholder s = Named name rest \<Longrightarrow> length rest \<le> length s"
  by (auto simp: plain_placeholder_def length_dropWhile_le split: if_splits)

lemma placeholder_length:
  "placeholder s = Escaped rest \<Longrightarrow> length rest < length s"
  "placeholder s = Named name rest \<Longrightarrow> length rest \<le> length s"
proof -
  show "placeholder s = Escaped rest \<Longrightarrow> length rest < length s"
    by (cases s) (auto simp: placeholder_def plain_placeholder_def split: if_splits placeholder.splits list.splits char.splits bool.splits)
  show "placeholder s = Named name rest \<Longrightarrow> length rest \<le> length s"
    by (cases s) (auto simp: placeholder_def dest!: plain_placeholder_length split: if_splits placeholder.splits list.splits char.splits bool.splits)
qed

text \<open>
  \<open>substitute\<close> raises for a name without value and for a lone dollar sign, \<open>safe_substitute\<close> leaves both
  as they are.
\<close>

fun unresolved :: "string \<Rightarrow> string \<Rightarrow> string" where
  "unresolved (CHR ''{'' # s) name = ''${'' @ name @ ''}''"
| "unresolved s name = CHR ''$'' # name"

function safe_substitute :: "(string \<times> string) list \<Rightarrow> string \<Rightarrow> string" where
  "safe_substitute values [] = []"
| "c \<noteq> CHR ''$'' \<Longrightarrow> safe_substitute values (c # s) = c # safe_substitute values s"
| "safe_substitute values (CHR ''$'' # s) = (case placeholder s of
     Escaped rest \<Rightarrow> CHR ''$'' # safe_substitute values rest
   | Named name rest \<Rightarrow> (case map_of values name of Some v \<Rightarrow> v | None \<Rightarrow> unresolved s name) @
       safe_substitute values rest
   | Invalid \<Rightarrow> CHR ''$'' # safe_substitute values s)"
  by (auto, metis neq_Nil_conv prod.exhaust_sel)
termination
  by (relation "measure (length \<circ> snd)") (auto dest: placeholder_length)

function substitute :: "(string \<times> string) list \<Rightarrow> string \<Rightarrow> string res" where
  "substitute values [] = Inr []"
| "c \<noteq> CHR ''$'' \<Longrightarrow> substitute values (c # s) = bindR (substitute values s) (\<lambda>t. Inr (c # t))"
| "substitute values (CHR ''$'' # s) = (case placeholder s of
     Escaped rest \<Rightarrow> bindR (substitute values rest) (\<lambda>t. Inr (CHR ''$'' # t))
   | Named name rest \<Rightarrow> (case map_of values name of
         None \<Rightarrow> Inl (KeyError name)
       | Some v \<Rightarrow> bindR (substitute values rest) (\<lambda>t. Inr (v @ t)))
   | Invalid \<Rightarrow> Inl (ValueError ''Invalid placeholder in string''))"
  by (auto, metis neq_Nil_conv prod.exhaust_sel)
termination
  by (relation "measure (length \<circ> snd)") (auto dest: placeholder_length)

text \<open>Where everything has a value the two agree.\<close>

lemma safe_substitute_agrees: "substitute values s = Inr t \<Longrightarrow> safe_substitute values s = t"
proof (induction "values" s arbitrary: t rule: safe_substitute.induct)
  case (3 "values" s)
  then show ?case by (cases "placeholder s") (auto simp: bindR_Inr_iff split: option.splits)
qed (auto simp: bindR_Inr_iff)

lemma safe_substitute_plain: "CHR ''$'' \<notin> set s \<Longrightarrow> safe_substitute values s = s"
  by (induction s) auto

text \<open>\<open>k in v\<close> and \<open>v.values()\<close> for a parsed document.\<close>

fun has_item :: "string \<Rightarrow> pobj \<Rightarrow> bool res" where
  "has_item k (PDict d) = Inr (k \<in> fst ` set d)"
| "has_item k (PList xs) = Inr (PStr k \<in> set xs)"
| "has_item k (PStr s) = Inr (contains k s)"
| "has_item k v = Inl (TypeError ''not iterable'')"

fun values_of :: "pobj \<Rightarrow> pobj list res" where
  "values_of (PDict d) = Inr (map snd d)"
| "values_of v = Inl (AttributeError ''values'')"

end
