(* ===== verification/Github.thy ===== *)
theory Github
  imports Build_Steps Version_File Templates
begin

text \<open>
  GitHub: \<open>ci/glci/github.py\<close>, \<open>ci/release.py\<close>, \<open>ci/github_release.py\<close> and the steps
  \<open>ci/steps/update_status.py\<close> and \<open>ci/steps/release_step.py\<close>.  The GitHub API, the git library and the module
  \<open>github\<close> that \<open>release.py\<close> imports (which is not part of the repository) are services; the files are
  those of the workspace, the VERSION file under \<open>version_path\<close>.
\<close>

subsection \<open>The parts of a URL\<close>

text \<open>
  \<open>urllib.parse.urlparse\<close>, as far as the code reads its result: the host name and the path.  URLs with
  brackets, white space or control characters are not modelled.
\<close>

definition up_to :: "string \<Rightarrow> string \<Rightarrow> string" where
  "up_to stops s = takeWhile (\<lambda>c. c \<notin> set stops) s"

definition from_first :: "string \<Rightarrow> string \<Rightarrow> string" where
  "from_first stops s = dropWhile (\<lambda>c. c \<notin> set stops) s"

definition scheme_char :: "char \<Rightarrow> bool" where
  "scheme_char c \<longleftrightarrow> ascii_alpha c \<or> is_digit c \<or> c \<in> set ''+-.''"

definition url_scheme :: "string \<Rightarrow> string \<times> string" where
  "url_scheme url =
     (let s = up_to '':'' url in
      if CHR '':'' \<in> set url \<and> s \<noteq> [] \<and> ascii_alpha (hd s) \<and> list_all scheme_char s
      then (map lower_char s, tl (from_first '':'' url)) else ('''', url))"

definition url_netloc :: "string \<Rightarrow> string \<times> string" where
  "url_netloc rest =
     (if startswith rest ''//'' then (up_to ''/?#'' (drop 2 rest), from_first ''/?#'' (drop 2 rest)) else ('''', rest))"

text \<open>The last part of the path loses its parameters where the scheme has some.\<close>

definition uses_params :: "string list" where
  "uses_params = ['''', ''ftp'', ''hdl'', ''prospero'', ''http'', ''https'', ''shttp'', ''rtsp'', ''rtsps'', ''sip'', ''sips'',
     ''mms'', ''sftp'', ''tel'']"

definition without_params :: "string \<Rightarrow> string" where
  "without_params path =
     (let last_part = rev (takeWhile (\<lambda>c. c \<noteq> CHR ''/'') (rev path)) in
      take (length path - length last_part) path @ up_to '';'' last_part)"

definition url_path :: "string \<Rightarrow> string" where
  "url_path url =
     (let (scheme, rest) = url_scheme url; path = up_to ''?'' (up_to ''#'' (snd (url_netloc rest))) in
      if scheme \<in> set uses_params then without_params path else path)"

definition url_hostname :: "string \<Rightarrow> string option" where
  "url_hostname url =
     (let hostinfo = rev (takeWhile (\<lambda>c. c \<noteq> CHR ''@'') (rev (fst (url_netloc (snd (url_scheme url))))));
          host = up_to '':'' hostinfo in
      if host = [] then None else Some (map lower_char (up_to ''%'' host) @ from_first ''%'' host))"

subsection \<open>\<open>glci/github.py\<close>\<close>

definition hostname_arg :: "string \<Rightarrow> pobj" where
  "hostname_arg giturl = (case url_hostname giturl of None \<Rightarrow> PNone | Some host \<Rightarrow> PStr host)"

definition github_cfg_call :: "string \<Rightarrow> call" where
  "github_cfg_call giturl = mk_call [''ccc.github''] ''github_cfg_for_hostname'' [(''hostname'', hostname_arg giturl)]"

definition github_cfg :: "world \<Rightarrow> string \<Rightarrow> pobj prog" where
  "github_cfg w giturl = ask w (github_cfg_call giturl)"

definition git_helper :: "world \<Rightarrow> string \<Rightarrow> pobj prog" where
  "git_helper w giturl =
     bindP (github_cfg w giturl) (\<lambda>cfg.
       ask w (mk_call [''gitutil''] ''GitHelper'' [(''github_cfg'', cfg), (''github_repo_path'', PStr (url_path giturl))]))"

definition removesuffix :: "string \<Rightarrow> string \<Rightarrow> string" where
  "removesuffix s sfx = (if sfx \<noteq> [] \<and> endswith s sfx then take (length s - length sfx) s else s)"

definition org_and_repo :: "string \<Rightarrow> (string \<times> string) res" where
  "org_and_repo giturl = (case py_split CHR ''/'' (strip_char CHR ''/'' (url_path giturl)) of
     [org, repo] \<Rightarrow> Inr (org, removesuffix repo ''.git'')
   | _ \<Rightarrow> Inl (ValueError ''unpack''))"

definition github_repo :: "world \<Rightarrow> string \<Rightarrow> pobj prog" where
  "github_repo w giturl =
     bindP (github_cfg w giturl) (\<lambda>cfg.
     bindP (liftP (org_and_repo giturl)) (\<lambda>(org, repo).
     bindP (ask w (mk_call [''ccc.github''] ''github_api'' [(''github_cfg'', cfg)])) (\<lambda>github_api.
       ask w (mk_call [''github_api''] ''repository'' [(''owner'', PStr org), (''repository'', PStr repo)]))))"

record status_args =
  sta_git_url :: string
  sta_committish :: string
  sta_state :: github_status
  sta_target_url :: "string option"
  sta_description :: "string option"
  sta_context :: string

definition create_status_call :: "status_args \<Rightarrow> call" where
  "create_status_call a = mk_call [''gh_repo'', sta_git_url a] ''create_status''
     [(''sha'', PStr (sta_committish a)), (''state'', PStr (github_status_value (sta_state a))),
      (''target_url'', opt_str (sta_target_url a)), (''description'', opt_str (sta_description a)),
      (''context'', PStr (sta_context a))]"

definition post_github_status :: "world \<Rightarrow> status_args \<Rightarrow> unit prog" where
  "post_github_status w a =
     bindP (github_repo w (sta_git_url a)) (\<lambda>repo.
     bindP (ask w (create_status_call a)) (\<lambda>_. retP ()))"

definition update_status :: "world \<Rightarrow> string \<Rightarrow> string \<Rightarrow> string \<Rightarrow> string \<Rightarrow> unit prog" where
  "update_status w giturl committish namespace pipeline_run_name =
     post_github_status w
       \<lparr>sta_git_url = giturl, sta_committish = committish, sta_state = GHS_PENDING,
        sta_target_url = Some (''https://tekton-dashboard.gardenlinux.io/#/namespaces/'' @ namespace @
          ''/pipelineruns/'' @ pipeline_run_name),
        sta_description = Some ''Pipeline run started'', sta_context = ''tekton-pipelines''\<rparr>"

subsection \<open>\<open>release.py\<close>\<close>

text \<open>The lines of a file of the workspace, as \<open>readlines\<close> gives them.\<close>

definition newline :: char where
  "newline = char_of (10 :: nat)"

definition file_lines :: "string \<Rightarrow> string list" where
  "file_lines content =
     (let parts = py_split newline content in
      map (\<lambda>l. l @ [newline]) (butlast parts) @ (if last parts = [] then [] else [last parts]))"

definition ws_reader :: "'s workspace \<Rightarrow> file_reader" where
  "ws_reader ws path = (case map_of (ws_files ws) path of
     None \<Rightarrow> Inl (FileNotFoundError path) | Some content \<Rightarrow> Inr (file_lines content))"

definition working_tree :: "(file_reader \<Rightarrow> 'a res) \<Rightarrow> ('s workspace, 'a) proc" where
  "working_tree f ws = Some (f (ws_reader ws), ws)"

definition release_branch_name :: "string \<Rightarrow> string" where
  "release_branch_name epoch_str = ''rel-'' @ epoch_str"

text \<open>The calls; \<open>github_repo\<close> here is that of the module \<open>github\<close>.\<close>

definition foreign_repo_call :: "string \<Rightarrow> call" where
  "foreign_repo_call giturl = mk_call [''github''] ''github_repo'' [(''giturl'', PStr giturl)]"

definition branches_call :: "string \<Rightarrow> call" where
  "branches_call giturl = mk_call [''gh_repo'', giturl] ''branches'' []"

definition rev_parse_call :: "string \<Rightarrow> call" where
  "rev_parse_call committish = mk_call [''git_helper'', ''repo''] ''rev_parse'' [(''rev'', PStr committish)]"

definition create_branch_call :: "string \<Rightarrow> string \<Rightarrow> pobj \<Rightarrow> call" where
  "create_branch_call giturl branch sha =
     mk_call [''gh_repo'', giturl] ''create_branch_ref'' [(''name'', PStr branch), (''sha'', sha)]"

definition bump_call :: "string \<Rightarrow> pobj \<Rightarrow> call" where
  "bump_call next_version release_commit = mk_call [''git_helper''] ''index_to_commit''
     [(''message'', PStr (''prepare release of gardenlinux-'' @ next_version)), (''parent_commits'', PList [release_commit])]"

definition push_call :: "pobj \<Rightarrow> string \<Rightarrow> call" where
  "push_call from_ref to_ref = mk_call [''git_helper''] ''push'' [(''from_ref'', from_ref), (''to_ref'', PStr to_ref)]"

definition major_minor :: "string \<Rightarrow> (int \<times> int) res" where
  "major_minor version = bindR (mapR py_int (py_split CHR ''.'' version)) (\<lambda>parts.
     case parts of [major, minor] \<Rightarrow> Inr (major, minor) | _ \<Rightarrow> Inl (ValueError ''unpack''))"

definition branch_name :: "pobj \<Rightarrow> string res" where
  "branch_name b = item_str ''name'' b"

definition ensure_target_branch_exists :: "world \<Rightarrow> string \<Rightarrow> string \<Rightarrow> string \<Rightarrow> string \<Rightarrow> ('s workspace, unit) proc" where
  "ensure_target_branch_exists w release_branch release_committish version giturl =
     bindP (liftP (major_minor version)) (\<lambda>(major, minor).
     (let is_first_release = minor = 0 in
     bindP (calling (ask w (foreign_repo_call giturl))) (\<lambda>gh_repo.
     bindP (calling (ask w (branches_call giturl))) (\<lambda>branches.
     bindP (liftP (bindR (as_list branches) (mapR branch_name))) (\<lambda>names.
     bindP (calling (ask w (rev_parse_call release_committish))) (\<lambda>release_commit.
     bindP (if is_first_release
         then if release_branch \<in> set names then exit_with 1
           else bindP (liftP (item ''hexsha'' release_commit)) (\<lambda>sha.
                bindP (calling (ask w (create_branch_call giturl release_branch sha))) (\<lambda>_. retP ()))
         else if release_branch \<notin> set names then exit_with 1 else retP ()) (\<lambda>_.
     (let next_release_version = release_version major (minor + 1) in
     bindP (write_file version_path next_release_version) (\<lambda>_.
     bindP (calling (ask w (bump_call next_release_version release_commit))) (\<lambda>bump_commit.
     bindP (liftP (item ''hexsha'' bump_commit)) (\<lambda>sha.
     bindP (calling (ask w (push_call sha release_branch))) (\<lambda>_. retP ()))))))))))))"

definition create_release_call :: "string \<Rightarrow> string \<Rightarrow> string \<Rightarrow> string \<Rightarrow> bool \<Rightarrow> bool \<Rightarrow> call" where
  "create_release_call giturl tag_name target_commitish body draft prerelease =
     mk_call [''gh_repo'', giturl] ''create_release''
       [(''target_commitish'', PStr target_commitish), (''tag_name'', PStr tag_name), (''body'', PStr body),
        (''draft'', PBool draft), (''prerelease'', PBool prerelease)]"

definition create_release :: "world \<Rightarrow> string \<Rightarrow> string \<Rightarrow> string \<Rightarrow> string \<Rightarrow> bool \<Rightarrow> bool \<Rightarrow> pobj prog" where
  "create_release w giturl tag_name target_commitish body draft prerelease =
     bindP (ask w (foreign_repo_call giturl)) (\<lambda>_.
       ask w (create_release_call giturl tag_name target_commitish body draft prerelease))"

text \<open>
  The default of \<open>--release-version\<close> is read from the VERSION file whether the argument is given or
  not; \<open>epoch\<close> is the epoch of the day of the import.
\<close>

definition release_parse_args :: "int \<Rightarrow> string option \<Rightarrow> ('s workspace, string) proc" where
  "release_parse_args epoch version_arg =
     bindP (working_tree (\<lambda>read. next_release_version_from_workingtree read version_path epoch)) (\<lambda>default.
       retP (case version_arg of None \<Rightarrow> default | Some v \<Rightarrow> v))"

definition foreign_git_helper_call :: "string \<Rightarrow> call" where
  "foreign_git_helper_call giturl = mk_call [''github''] ''git_helper'' [(''giturl'', PStr giturl)]"

definition release_main :: "world \<Rightarrow> int \<Rightarrow> string \<Rightarrow> string option \<Rightarrow> string \<Rightarrow> ('s workspace, unit) proc" where
  "release_main w epoch giturl version_arg release_committish =
     bindP (release_parse_args epoch version_arg) (\<lambda>version.
     bindP (liftP (py_int (hd (py_split CHR ''.'' version)))) (\<lambda>gardenlinux_epoch.
     bindP (calling (ask w (foreign_git_helper_call giturl))) (\<lambda>_.
       ensure_target_branch_exists w (release_branch_name (str_int gardenlinux_epoch)) release_committish
         version giturl)))"

subsection \<open>\<open>github_release.py\<close>\<close>

definition find_path_in_manifest :: "string \<Rightarrow> 'a release_manifest_scheme \<Rightarrow> s3_release_file res" where
  "find_path_in_manifest sfx manifest = nextR (\<lambda>path. rf_suffix path = sfx) (rm_paths manifest)"

definition find_manifest_in_set :: "string \<Rightarrow> 'a release_manifest_set_scheme \<Rightarrow> online_release_manifest res" where
  "find_manifest_in_set platform manifest_set = nextR (\<lambda>m. ri_platform m = platform) (rms_manifests manifest_set)"

text \<open>The attributes of the metadata of published images, for \<open>getattr\<close>.\<close>

datatype image_attr =
    Text_attr string
  | State_attr azure_transport_state
  | Alicloud_attr "alicloud_published_image list"
  | Aws_attr "aws_published_image list"
  | Openstack_attr "openstack_published_image list"

fun image_attrs :: "published_images \<Rightarrow> (string \<times> image_attr) list" where
  "image_attrs (AlicloudPublishedImageSet images) = [(''published_alicloud_images'', Alicloud_attr images)]"
| "image_attrs (AwsPublishedImageSet images) = [(''published_aws_images'', Aws_attr images)]"
| "image_attrs (AzurePublishedImage i) =
     [(''transport_state'', State_attr (azi_transport_state i)), (''urn'', Text_attr (azi_urn i)),
      (''publish_operation_id'', Text_attr (azi_publish_operation_id i)),
      (''golive_operation_id'', Text_attr (azi_golive_operation_id i))]"
| "image_attrs (GcpPublishedImage i) =
     [(''gcp_image_name'', Text_attr (gci_gcp_image_name i)), (''gcp_project_name'', Text_attr (gci_gcp_project_name i))]"
| "image_attrs (OciPublishedImage reference) = [(''image_reference'', Text_attr reference)]"
| "image_attrs (OpenstackPublishedImageSet images) = [(''published_openstack_images'', Openstack_attr images)]"

definition getattr_images :: "published_images option \<Rightarrow> string \<Rightarrow> image_attr res" where
  "getattr_images metadata tag =
     (case Option.bind metadata (\<lambda>m. map_of (image_attrs m) tag) of
        None \<Rightarrow> Inl (AttributeError tag) | Some a \<Rightarrow> Inr a)"

text \<open>\<open>next\<close> without a default raises, so the two tests for \<open>None\<close> never succeed.\<close>

definition get_download_url :: "string \<Rightarrow> string \<Rightarrow> string \<Rightarrow> 'a release_manifest_set_scheme \<Rightarrow>
    (string \<times> string \<times> image_attr) res" where
  "get_download_url sfx platform image_metadata_tag manifest_set =
     bindR (find_manifest_in_set platform manifest_set) (\<lambda>manifest.
     bindR (find_path_in_manifest sfx manifest) (\<lambda>path.
     bindR (getattr_images (rm_published_image_metadata manifest) image_metadata_tag) (\<lambda>ids.
       Inr (rf_name path, ''https://gardenlinux.s3.eu-central-1.amazonaws.com/'' @ rf_s3_key path, ids))))"

text \<open>Name, link and image ids of the image of a platform.\<close>

definition platform_download :: "string \<Rightarrow> string \<Rightarrow> 'a release_manifest_set_scheme \<Rightarrow>
    (string \<times> string \<times> image_attr) res" where
  "platform_download platform tag manifest_set =
     bindR (virtual_image_artifact_for_platform platform) (\<lambda>sfx. get_download_url sfx platform tag manifest_set)"

fun region_lines :: "image_attr \<Rightarrow> string list res" where
  "region_lines (Alicloud_attr images) =
     Inr (map (\<lambda>i. ''- Region: '' @ ali_region_id i @ '', Image-Id: '' @ ali_image_id i) images)"
| "region_lines (Aws_attr images) =
     Inr (map (\<lambda>i. ''- Region: '' @ awi_aws_region_id i @ '', Image-Id: '' @ awi_ami_id i) images)"
| "region_lines a = Inl (AttributeError ''region_id'')"

text \<open>An id in an f-string or as the value of a placeholder.\<close>

fun attr_text :: "image_attr \<Rightarrow> string res" where
  "attr_text (Text_attr s) = Inr s"
| "attr_text a = Inl (TypeError ''str'')"

text \<open>The values of the release notes; the first platform that lacks something decides the exception.\<close>

definition release_values :: "string \<Rightarrow> 'a release_manifest_set_scheme \<Rightarrow> (string \<times> string) list res" where
  "release_values version manifest_set =
     bindR (platform_download ''ali'' ''published_alicloud_images'' manifest_set) (\<lambda>(name_ali, link_ali, ids_ali).
     bindR (region_lines ids_ali) (\<lambda>lines_ali.
     bindR (platform_download ''aws'' ''published_aws_images'' manifest_set) (\<lambda>(name_aws, link_aws, ids_aws).
     bindR (region_lines ids_aws) (\<lambda>lines_aws.
     bindR (platform_download ''azure'' ''urn'' manifest_set) (\<lambda>(name_azure, link_azure, id_azure).
     bindR (attr_text id_azure) (\<lambda>urn.
     bindR (platform_download ''gcp'' ''gcp_image_name'' manifest_set) (\<lambda>(name_gcp, link_gcp, id_gcp).
     bindR (attr_text id_gcp) (\<lambda>gcp_image.
     bindR (platform_download ''openstack'' ''published_openstack_images'' manifest_set)
       (\<lambda>(name_openstack, link_openstack, _).
       Inr [(''features'', ''* n/a''), (''version'', version),
            (''ali_name'', name_ali), (''ali_url'', link_ali), (''ali_ids'', py_join [newline] lines_ali),
            (''aws_name'', name_aws), (''aws_url'', link_aws), (''aws_ids'', py_join [newline] lines_aws),
            (''azure_name'', name_azure), (''azure_url'', link_azure), (''azure_id'', urn),
            (''gcp_name'', name_gcp), (''gcp_url'', link_gcp), (''gcp_id'', gcp_image),
            (''openstack_name'', name_openstack), (''openstack_url'', link_openstack)])))))))))"

definition get_manifest :: "('z, 's) step_env \<Rightarrow> string \<Rightarrow> string \<Rightarrow> string \<Rightarrow> string \<Rightarrow> string \<Rightarrow>
    ('s workspace, online_release_manifest_set option) proc" where
  "get_manifest env cicd_cfg_name committish flavour_set_name epoch_str version =
     bindP (liftP (se_cicd_cfg env cicd_cfg_name)) (\<lambda>cfg.
     case cc_package_build cfg of
       None \<Rightarrow> raiseP (RuntimeError ''No package-build config found'')
     | Some _ \<Rightarrow> reading (find_release_set (se_s3 env) (se_codec env) (bucket_of cfg) flavour_set_name committish
         epoch_str version BT_RELEASE release_manifest_set_prefix True))"

definition upload_asset_call :: "string \<Rightarrow> string \<Rightarrow> call" where
  "upload_asset_call release_tag asset = mk_call [''gh_release'', release_tag] ''upload_asset''
     [(''content_type'', PStr ''text/plain;charset=UTF-8''), (''name'', PStr ''component-descriptor''), (''asset'', PStr asset)]"

definition ctx_repository_call :: "string \<Rightarrow> call" where
  "ctx_repository_call cfg_name = mk_call [''ctx''] ''ctx_repository'' [(''cfg_name'', PStr cfg_name)]"

definition download_descriptor_call :: "string \<Rightarrow> pobj \<Rightarrow> call" where
  "download_descriptor_call version base_url = mk_call [''product.v2''] ''download_component_descriptor_v2''
     [(''component_name'', PStr ''github.com/gardenlinux/gardenlinux''), (''component_version'', PStr version),
      (''ctx_repo_base_url'', base_url), (''cache_dir'', PNone)]"

record release_params =
  rp_cicd_cfg_name :: string
  rp_ctx_repository_config_name :: string
  rp_committish :: string
  rp_flavour_set_name :: string
  rp_gardenlinux_epoch :: string
  rp_giturl :: string
  rp_version :: string
  rp_repo_dir :: string

text \<open>The component descriptor is downloaded and dropped; the asset of that name holds the release notes.\<close>

definition make_release :: "('z, 's) step_env \<Rightarrow> release_params \<Rightarrow> ('s workspace, bool) proc" where
  "make_release env p =
     (let w = ce_world env; version = rp_version p in
     bindP (get_manifest env (rp_cicd_cfg_name p) (rp_committish p) (rp_flavour_set_name p)
       (rp_gardenlinux_epoch p) version) (\<lambda>found.
     case found of
       None \<Rightarrow> retP False
     | Some manifest_set \<Rightarrow>
         bindP (liftP (release_values version manifest_set)) (\<lambda>values.
         bindP (read_file (path_join (rp_repo_dir p) [''ci/templates/github_release.md''])) (\<lambda>md_release_template.
         (let release_descr = safe_substitute values md_release_template;
              descriptor_path = path_join (rp_repo_dir p) [''component-descriptor''] in
         bindP (calling (create_release w (rp_giturl p) version (rp_committish p) release_descr True False)) (\<lambda>_.
         bindP (calling (ask w (ctx_repository_call (rp_ctx_repository_config_name p)))) (\<lambda>base_url.
         bindP (calling (ask w (download_descriptor_call version base_url))) (\<lambda>_.
         bindP (write_file descriptor_path release_descr) (\<lambda>_.
         bindP (read_file descriptor_path) (\<lambda>asset.
         bindP (calling (ask w (upload_asset_call version asset))) (\<lambda>_. retP True)))))))))))"

subsection \<open>The release step\<close>

text \<open>
  The epoch is a parameter of the step, hence a string here, which \<open>next_release_version_from_workingtree\<close>
  hands through to the result.  The module \<open>release\<close> has no \<open>_git_helper\<close>: its look-up raises, and nothing
  after it is reached.
\<close>

definition step_release_version :: "string \<Rightarrow> file_reader \<Rightarrow> string res" where
  "step_release_version epoch_str read =
     bindR (parse_version_from_workingtree read version_path) (\<lambda>version_str.
       if version_str = version_today
       then bindR (gardenlinux_epoch_from_workingtree read version_path 0) (\<lambda>_. Inr (epoch_str @ ''.0''))
       else next_release_version_from_workingtree read version_path 0)"

definition module_release_git_helper :: "('s workspace, unit) proc" where
  "module_release_git_helper = raiseP (AttributeError ''_git_helper'')"

definition release_step_body :: "('z, 's) step_env \<Rightarrow> release_params \<Rightarrow> string \<Rightarrow> ('s workspace, unit) proc" where
  "release_step_body env p build_targets =
     bindP (liftP (set_from_str build_targets)) (\<lambda>build_target_set.
       if GITHUB_RELEASE \<notin> set build_target_set then retP ()
       else
         bindP (working_tree (step_release_version (rp_gardenlinux_epoch p))) (\<lambda>version.
         bindP module_release_git_helper (\<lambda>_.
         bindP (ensure_target_branch_exists (ce_world env) (release_branch_name (rp_gardenlinux_epoch p))
           (rp_committish p) version (rp_giturl p)) (\<lambda>_.
         bindP (make_release env p) (\<lambda>release_created. exit_with (if release_created then 0 else 1))))))"

end
