(* ===== verification/Github_Properties.thy ===== *)
theory Github_Properties
  imports Github Step_Properties
begin

text \<open>
  What the release branch, the VERSION file and the GitHub release are after \<open>ci/release.py\<close> and
  \<open>ci/github_release.py\<close>.
\<close>

subsection \<open>The VERSION file of a workspace\<close>

lemma major_minor_release: "major_minor (release_version x y) = Inr (x, y)"
  by (simp add: major_minor_def release_version_split py_int_str_int)

lemma file_lines_release: "file_lines (release_version x y) = [release_version x y]"
proof -
  have "newline \<notin> set (release_version x y)"
    using release_version_chars(1) [of newline] by (auto simp: newline_def py_isspace_def)
  then show ?thesis by (simp add: file_lines_def py_split_id)
qed

lemma version_line_self: "version_line (release_version x y) (release_version x y)"
  unfolding version_line_def by (intro exI [of _ "[]"]) simp

lemma stamped_version:
  assumes "map_of (ws_files ws) version_path = Some (release_version x y)"
  shows "next_release_version_from_workingtree (ws_reader ws) version_path epoch = Inr (release_version x y)"
proof -
  have "parse_version_from_workingtree (ws_reader ws) version_path = Inr (release_version x y)"
    using assms first_version_line_stamped [OF version_line_self]
    by (simp add: parse_version_from_workingtree_def ws_reader_def file_lines_release del: first_version_line.simps)
  moreover have "release_version x y \<noteq> version_today"
    using release_version_split [of x y] version_today_parts by auto
  ultimately show ?thesis
    by (simp add: next_release_version_from_workingtree_def release_version_split py_int_str_int)
qed

subsection \<open>The git service\<close>

text \<open>The branches that were created by the calls of a history.\<close>

definition created_by :: "string \<Rightarrow> call \<Rightarrow> string list" where
  "created_by giturl c =
     (if c_client c = [''gh_repo'', giturl] \<and> c_method c = ''create_branch_ref''
      then (case map_of (c_args c) ''name'' of Some (PStr n) \<Rightarrow> [n] | _ \<Rightarrow> []) else [])"

definition created_branches :: "string \<Rightarrow> call list \<Rightarrow> string list" where
  "created_branches giturl h = concat (map (created_by giturl) h)"

definition branch_answer :: "string list \<Rightarrow> pobj" where
  "branch_answer names = PList (map (\<lambda>n. PDict [(''name'', PStr n)]) names)"

text \<open>
  The service answers every call; \<open>branches\<close> are those of the start and those created since, \<open>sha\<close> and
  \<open>bump\<close> the commits that a revision stands for and that a commit call makes.
\<close>

definition git_service :: "world \<Rightarrow> string \<Rightarrow> string list \<Rightarrow> (string \<Rightarrow> string) \<Rightarrow> (call list \<Rightarrow> string) \<Rightarrow> bool" where
  "git_service w giturl initial sha bump \<longleftrightarrow>
     (\<forall>h. (\<exists>x. answer w h (foreign_repo_call giturl) = Inr x) \<and>
       (\<exists>x. answer w h (foreign_git_helper_call giturl) = Inr x) \<and>
       answer w h (branches_call giturl) = Inr (branch_answer (initial @ created_branches giturl h)) \<and>
       (\<forall>c. answer w h (rev_parse_call c) = Inr (PDict [(''hexsha'', PStr (sha c))])) \<and>
       (\<forall>b s. \<exists>x. answer w h (create_branch_call giturl b s) = Inr x) \<and>
       (\<forall>v c. answer w h (bump_call v c) = Inr (PDict [(''hexsha'', PStr (bump h))])) \<and>
       (\<forall>s b. \<exists>x. answer w h (push_call s b) = Inr x))"

lemma created_branches_append [simp]:
  "created_branches giturl (h @ h') = created_branches giturl h @ created_branches giturl h'"
  by (simp add: created_branches_def)

lemma created_branches_calls [simp]:
  "created_branches giturl [] = []"
  "created_branches giturl (foreign_repo_call u # h) = created_branches giturl h"
  "created_branches giturl (foreign_git_helper_call u # h) = created_branches giturl h"
  "created_branches giturl (branches_call u # h) = created_branches giturl h"
  "created_branches giturl (rev_parse_call c # h) = created_branches giturl h"
  "created_branches giturl (bump_call v r # h) = created_branches giturl h"
  "created_branches giturl (push_call s b # h) = created_branches giturl h"
  "created_branches giturl (create_branch_call giturl b s # h) = b # created_branches giturl h"
  by (simp_all add: created_branches_def created_by_def foreign_repo_call_def foreign_git_helper_call_def
      branches_call_def rev_parse_call_def bump_call_def push_call_def create_branch_call_def)

lemma branch_names: "bindR (as_list (branch_answer names)) (mapR branch_name) = Inr names"
  unfolding branch_answer_def
  by (induction names) (simp_all add: branch_name_def item_str_def pget_def)

lemma bindP_calling_ask:
  "answer w (ws_calls ws) c = Inr x \<Longrightarrow> bindP (calling (ask w c)) f ws = f x (ws\<lparr>ws_calls := ws_calls ws @ [c]\<rparr>)"
  by (simp add: bindP_def calling_def ask_def)

subsection \<open>One release\<close>

definition release_reads :: "string \<Rightarrow> string \<Rightarrow> call list" where
  "release_reads giturl committish = [foreign_repo_call giturl, branches_call giturl, rev_parse_call committish]"

text \<open>The calls of a release that is carried out.\<close>

definition release_writes :: "string \<Rightarrow> string \<Rightarrow> int \<Rightarrow> int \<Rightarrow> string \<Rightarrow> string \<Rightarrow> call list" where
  "release_writes giturl branch major minor sha bump =
     (if minor = 0 then [create_branch_call giturl branch (PStr sha)] else []) @
     [bump_call (release_version major (minor + 1)) (PDict [(''hexsha'', PStr sha)]), push_call (PStr bump) branch]"

definition branch_known :: "string list \<Rightarrow> string \<Rightarrow> string \<Rightarrow> 's workspace \<Rightarrow> bool" where
  "branch_known initial giturl branch ws \<longleftrightarrow> branch \<in> set (initial @ created_branches giturl (ws_calls ws))"

lemma ensure_outcome:
  assumes "git_service w giturl initial sha bump"
  shows "\<exists>b. ensure_target_branch_exists w branch committish (release_version major minor) giturl ws =
    Some (if (minor = 0) = branch_known initial giturl branch ws
      then (Inl (SystemExit 1), ws\<lparr>ws_calls := ws_calls ws @ release_reads giturl committish\<rparr>)
      else (Inr (), ws\<lparr>ws_files := dict_set version_path (release_version major (minor + 1)) (ws_files ws),
        ws_calls := ws_calls ws @ release_reads giturl committish @
          release_writes giturl branch major minor (sha committish) b\<rparr>))"
proof -
  let ?hs = "PDict [(''hexsha'', PStr (sha committish))]"
  let ?h = "ws_calls ws @ release_reads giturl committish @
      (if minor = 0 then [create_branch_call giturl branch (PStr (sha committish))] else [])"
  have a: "\<exists>x. answer w h (foreign_repo_call giturl) = Inr x"
    "answer w h (branches_call giturl) = Inr (branch_answer (initial @ created_branches giturl h))"
    "answer w h (rev_parse_call committish) = Inr ?hs"
    "\<exists>x. answer w h (create_branch_call giturl branch s) = Inr x"
    "answer w h (bump_call v c) = Inr (PDict [(''hexsha'', PStr (bump h))])"
    "\<exists>x. answer w h (push_call s branch) = Inr x" for h v c s
    using assms by (simp_all add: git_service_def)
  obtain x1 x2 x3 where x: "answer w (ws_calls ws) (foreign_repo_call giturl) = Inr x1"
      "answer w (ws_calls ws @ release_reads giturl committish)
        (create_branch_call giturl branch (PStr (sha committish))) = Inr x2"
      "answer w (?h @ [bump_call (release_version major (minor + 1)) ?hs]) (push_call (PStr (bump ?h)) branch) = Inr x3"
    using a by metis
  note run = ensure_target_branch_exists_def major_minor_release run_simps bindP_calling_ask bindP_pure
    a(2,3,5) branch_names branch_known_def release_reads_def release_writes_def bindP_assoc pget_def exit_with_def
  let ?claim = "\<lambda>b. ensure_target_branch_exists w branch committish (release_version major minor) giturl ws =
    Some (if (minor = 0) = branch_known initial giturl branch ws
      then (Inl (SystemExit 1), ws\<lparr>ws_calls := ws_calls ws @ release_reads giturl committish\<rparr>)
      else (Inr (), ws\<lparr>ws_files := dict_set version_path (release_version major (minor + 1)) (ws_files ws),
        ws_calls := ws_calls ws @ release_reads giturl committish @
          release_writes giturl branch major minor (sha committish) b\<rparr>))"
  have "?claim (bump ?h)"
  proof (cases "minor = 0")
    case True
    show ?thesis using x True by (simp add: run Let_def) (simp add: retP_def)
  next
    case False
    show ?thesis using x False by (simp add: run Let_def) (simp add: retP_def)
  qed
  then show ?thesis by (rule exI [of ?claim])
qed

text \<open>The branches that were pushed to.\<close>

definition pushed_by :: "call \<Rightarrow> string list" where
  "pushed_by c =
     (if c_client c = [''git_helper''] \<and> c_method c = ''push''
      then (case map_of (c_args c) ''to_ref'' of Some (PStr n) \<Rightarrow> [n] | _ \<Rightarrow> []) else [])"

definition pushed_branches :: "call list \<Rightarrow> string list" where
  "pushed_branches h = concat (map pushed_by h)"

lemma pushed_branches_append [simp]: "pushed_branches (h @ h') = pushed_branches h @ pushed_branches h'"
  by (simp add: pushed_branches_def)

lemma pushed_branches_calls [simp]:
  "pushed_branches [] = []"
  "pushed_branches (foreign_repo_call u # h) = pushed_branches h"
  "pushed_branches (foreign_git_helper_call u # h) = pushed_branches h"
  "pushed_branches (branches_call u # h) = pushed_branches h"
  "pushed_branches (rev_parse_call c # h) = pushed_branches h"
  "pushed_branches (bump_call v r # h) = pushed_branches h"
  "pushed_branches (push_call s b # h) = b # pushed_branches h"
  "pushed_branches (create_branch_call u b s # h) = pushed_branches h"
  by (simp_all add: pushed_branches_def pushed_by_def foreign_repo_call_def foreign_git_helper_call_def
      branches_call_def rev_parse_call_def bump_call_def push_call_def create_branch_call_def)

text \<open>What a run of the release script leaves behind: VERSION, the branches created and those pushed to.\<close>

definition release_state :: "string \<Rightarrow> 's workspace \<Rightarrow> string option \<times> string list \<times> string list" where
  "release_state giturl ws =
     (map_of (ws_files ws) version_path, created_branches giturl (ws_calls ws), pushed_branches (ws_calls ws))"

lemma release_main_outcome:
  assumes "git_service w giturl initial sha bump"
    and "release_state giturl ws = (Some (release_version major minor), cs, ps)"
  defines "branch \<equiv> release_branch_name (str_int major)"
  defines "refused \<equiv> (minor = 0) = (branch \<in> set (initial @ cs))"
  shows "\<exists>ws'. release_main w epoch giturl None committish ws =
      Some (if refused then Inl (SystemExit 1) else Inr (), ws') \<and>
    release_state giturl ws' = (if refused then release_state giturl ws
      else (Some (release_version major (minor + 1)), cs @ (if minor = 0 then [branch] else []), ps @ [branch]))"
proof -
  let ?ws = "ws\<lparr>ws_calls := ws_calls ws @ [foreign_git_helper_call giturl]\<rparr>"
  have version: "map_of (ws_files ws) version_path = Some (release_version major minor)"
    and cs: "created_branches giturl (ws_calls ws) = cs" and ps: "pushed_branches (ws_calls ws) = ps"
    using assms(2) by (simp_all add: release_state_def)
  have known: "branch_known initial giturl branch ?ws = (branch \<in> set (initial @ cs))"
    by (simp add: branch_known_def cs)
  obtain x where x: "answer w (ws_calls ws) (foreign_git_helper_call giturl) = Inr x"
    using assms(1) unfolding git_service_def by blast
  have main: "release_main w epoch giturl None committish ws =
      ensure_target_branch_exists w branch committish (release_version major minor) giturl ?ws"
    using x by (simp add: release_main_def release_parse_args_def working_tree_def bindP_assoc bindP_pure
        bindP_def [of "\<lambda>ws. Some (_ ws, ws)"] stamped_version [OF version] release_version_split py_int_str_int run_simps bindP_calling_ask branch_def)
  from ensure_outcome [OF assms(1), of branch committish major minor ?ws] obtain b where
    b: "ensure_target_branch_exists w branch committish (release_version major minor) giturl ?ws =
      Some (if refused
        then (Inl (SystemExit 1), ?ws\<lparr>ws_calls := ws_calls ?ws @ release_reads giturl committish\<rparr>)
        else (Inr (), ?ws\<lparr>ws_files := dict_set version_path (release_version major (minor + 1)) (ws_files ?ws),
          ws_calls := ws_calls ?ws @ release_reads giturl committish @
            release_writes giturl branch major minor (sha committish) b\<rparr>))"
    unfolding known refused_def by blast
  show ?thesis
    unfolding main b
    using version cs ps
    by (cases refused) (simp_all add: release_state_def release_reads_def release_writes_def map_of_dict_set)
qed

subsection \<open>A series of releases\<close>

lemma release_series:
  assumes "git_service w giturl initial sha bump" "0 \<le> minor"
    and "release_state giturl ws = (Some (release_version major minor), cs, ps)"
    and "(minor = 0) \<noteq> (release_branch_name (str_int major) \<in> set (initial @ cs))"
  shows "\<exists>ws'. forP (release_main w epoch giturl None) committishes ws = Some (Inr (), ws') \<and>
    release_state giturl ws' = (Some (release_version major (minor + int (length committishes))),
      cs @ (if minor = 0 \<and> committishes \<noteq> [] then [release_branch_name (str_int major)] else []),
      ps @ replicate (length committishes) (release_branch_name (str_int major)))"
  using assms(2-4)
proof (induction committishes arbitrary: minor ws cs ps)
  case Nil
  then show ?case by (simp add: retP_def)
next
  case (Cons c committishes)
  let ?branch = "release_branch_name (str_int major)" and ?new = "if minor = 0 then [release_branch_name (str_int major)] else []"
  have go: "((minor = 0) = (?branch \<in> set (initial @ cs))) = False" using Cons.prems(3) by blast
  from release_main_outcome [OF assms(1) Cons.prems(2), of epoch c]
  obtain ws1 where run: "release_main w epoch giturl None c ws = Some (Inr (), ws1)"
    and st: "release_state giturl ws1 = (Some (release_version major (minor + 1)), cs @ ?new, ps @ [?branch])"
    unfolding go if_False by blast
  have ok: "(minor + 1 = 0) \<noteq> (?branch \<in> set (initial @ cs @ ?new))" "0 \<le> minor + 1"
    using Cons.prems(1,3) by auto
  obtain ws2 where "forP (release_main w epoch giturl None) committishes ws1 = Some (Inr (), ws2)"
    "release_state giturl ws2 = (Some (release_version major (minor + 1 + int (length committishes))),
      (cs @ ?new) @ (if minor + 1 = 0 \<and> committishes \<noteq> [] then [?branch] else []),
      (ps @ [?branch]) @ replicate (length committishes) ?branch)"
    using Cons.IH [OF ok(2) st ok(1)] by blast
  then show ?case
    using run Cons.prems(1) by (intro exI [of _ ws2]) (simp add: bindP_run(1) algebra_simps)
qed


text \<open>A service with the branches \<open>main\<close> and those created since.\<close>

definition sample_git :: "string \<Rightarrow> world" where
  "sample_git giturl =
     \<lparr>answer = (\<lambda>h c. Inr (
        if c_method c = ''branches'' then branch_answer ([''main''] @ created_branches giturl h)
        else PDict [(''hexsha'', PStr ''c0ffee'')])),
      clock = (\<lambda>h. int (length h))\<rparr>"

lemma sample_git_service: "git_service (sample_git giturl) giturl [''main''] (\<lambda>_. ''c0ffee'') (\<lambda>_. ''c0ffee'')"
  by (simp add: git_service_def sample_git_def foreign_repo_call_def foreign_git_helper_call_def branches_call_def
      rev_parse_call_def create_branch_call_def bump_call_def push_call_def)

definition tagged_workspace :: "unit workspace" where
  "tagged_workspace =
     \<lparr>ws_files = [(version_path, release_version 576 0)], ws_dirs = [], ws_store = (), ws_calls = []\<rparr>"


subsection \<open>The GitHub release\<close>

text \<open>
  A release is only made from a complete set: every platform of the release notes has a manifest with
  its artifact and published images.
\<close>

definition release_platforms :: "(string \<times> string) list" where
  "release_platforms =
     [(''ali'', ''published_alicloud_images''), (''aws'', ''published_aws_images''), (''azure'', ''urn''),
      (''gcp'', ''gcp_image_name''), (''openstack'', ''published_openstack_images'')]"

lemma release_values_complete:
  assumes "release_values version ms = Inr values" "(platform, tag) \<in> set release_platforms"
  shows "\<exists>d. platform_download platform tag ms = Inr d"
  using assms by (auto simp: release_values_def release_platforms_def bindR_Inr_iff split: prod.splits)

lemma platform_download_found:
  assumes "platform_download platform tag ms = Inr (name, link, ids)"
  shows "\<exists>m \<in> set (rms_manifests ms). \<exists>f \<in> set (rm_paths m). ri_platform m = platform \<and>
     virtual_image_artifact_for_platform platform = Inr (rf_suffix f) \<and> name = rf_name f \<and>
     getattr_images (rm_published_image_metadata m) tag = Inr ids"
  using assms
  by (auto simp: platform_download_def get_download_url_def find_manifest_in_set_def find_path_in_manifest_def
      bindR_Inr_iff nextR_def find_Some_iff split: option.splits) (metis nth_mem)

text \<open>The asset with the name of the component descriptor has the text of the release notes.\<close>

lemma make_release_asset:
  assumes "make_release env p ws = Some (Inr True, ws')"
  shows "\<exists>notes. create_release_call (rp_giturl p) (rp_version p) (rp_committish p) notes True False \<in> set (ws_calls ws') \<and>
    last (ws_calls ws') = upload_asset_call (rp_version p) notes"
  using assms
  by (auto simp: make_release_def Let_def prog_simps create_release_def get_manifest_def map_of_dict_set
      split: option.splits)

text \<open>The release step fails before anything is released.\<close>

lemma release_step_fails:
  assumes "set_from_str build_targets = Inr targets" "GITHUB_RELEASE \<in> set targets"
  shows "\<exists>e. release_step_body env p build_targets ws = Some (Inl e, ws)"
  using assms
  by (cases "step_release_version (rp_gardenlinux_epoch p) (ws_reader ws)")
    (simp_all add: release_step_body_def working_tree_def module_release_git_helper_def bindP_def liftP_def raiseP_def)

text \<open>
  With the shipped VERSION file, which holds \<open>dev\<close>, \<open>release.py\<close> fails even if a version is given on the
  command line.
\<close>

lemma release_main_dev:
  assumes "ws_reader ws version_path = Inr shipped_version_lines"
  shows "release_main w epoch giturl (Some v) committish ws = Some (Inl (ValueError ''dev''), ws)"
proof -
  have "next_release_version_from_workingtree (ws_reader ws) version_path epoch = Inl (ValueError ''dev'')"
    using assms by (simp add: next_release_version_from_workingtree_def parse_version_from_workingtree_def
        shipped_version_parse version_today_def)
  then show ?thesis
    by (simp add: release_main_def release_parse_args_def working_tree_def bindP_def)
qed

end
