(* ===== verification/Logs.thy ===== *)
theory Logs
  imports Build_Steps Templates Epoch
begin

text \<open>
  The logs of a pipeline run: \<open>ci/logs.py\<close>, \<open>ci/steps/get_logs.py\<close> and \<open>ci/steps/attach_logs.py\<close>.  Kubernetes
  is a service; its client raises an \<open>ApiException\<close> as \<open>OtherException\<close> with the text of the exception
  after a mark.  The bytes of an archive with given members are a parameter.
\<close>

definition item_list :: "string \<Rightarrow> pobj \<Rightarrow> pobj list res" where
  "item_list k v = bindR (item k v) as_list"

subsection \<open>The tasks and steps of a run\<close>

record task_run_info =
  tri_name :: string
  tri_pod_name :: string
  tri_steps :: "(string \<times> string) list"

definition load_kube_config :: "world \<Rightarrow> unit prog" where
  "load_kube_config w =
     bindP (ask w (mk_call [''os'', ''environ''] ''contains'' [(''key'', PStr ''CC_CONFIG_DIR'')])) (\<lambda>local.
     bindP (ask w (mk_call [''kubernetes.config''] (if truthy local then ''load_kube_config'' else ''load_incluster_config'') []))
       (\<lambda>_. retP ()))"

definition get_pipeline_run :: "world \<Rightarrow> string \<Rightarrow> string \<Rightarrow> pobj prog" where
  "get_pipeline_run w pipeline_run_name namespace =
     ask w (mk_call [''CustomObjectsApi''] ''get_namespaced_custom_object''
       [(''group'', PStr ''tekton.dev''), (''namespace'', PStr namespace), (''name'', PStr pipeline_run_name),
        (''plural'', PStr ''pipelineruns''), (''version'', PStr ''v1alpha1'')])"

text \<open>The names of the tasks are only logged, but a run without them raises.\<close>

definition task_names :: "pobj \<Rightarrow> pobj list res" where
  "task_names pipeline_run =
     bindR (item ''status'' pipeline_run) (\<lambda>st.
     bindR (item ''pipelineSpec'' st) (\<lambda>spec.
     bindR (item_list ''tasks'' spec) (\<lambda>tasks.
     bindR (mapR (item ''name'') tasks) (\<lambda>names.
     bindR (has_item ''finally'' spec) (\<lambda>has_finally.
       if has_finally
       then bindR (item_list ''finally'' spec) (\<lambda>fin. bindR (mapR (item ''name'') fin) (\<lambda>more. Inr (names @ more)))
       else Inr names)))))"

definition step_failed :: "pobj \<Rightarrow> bool res" where
  "step_failed step =
     bindR (has_item ''terminated'' step) (\<lambda>over.
       if over then bindR (item ''terminated'' step) (\<lambda>t. bindR (item ''exitCode'' t) (\<lambda>code. Inr (code \<noteq> PInt 0)))
       else Inr False)"

definition add_step :: "bool \<Rightarrow> pobj \<Rightarrow> (string \<times> string) list \<Rightarrow> (string \<times> string) list res" where
  "add_step only_failed step steps =
     bindR (if only_failed then step_failed step else Inr True) (\<lambda>wanted.
       if wanted then bindR (item_str ''name'' step) (\<lambda>name. bindR (item_str ''container'' step) (\<lambda>container.
         Inr (dict_set name container steps)))
       else Inr steps)"

definition run_failed :: "pobj \<Rightarrow> bool res" where
  "run_failed st =
     bindR (item ''conditions'' st) (\<lambda>cs. bindR (elem 0 cs) (\<lambda>c. bindR (item ''reason'' c) (\<lambda>r.
       Inr (r \<noteq> PStr ''Succeeded''))))"

definition task_run_info_of :: "bool \<Rightarrow> pobj \<Rightarrow> task_run_info option res" where
  "task_run_info_of only_failed tr =
     bindR (item ''status'' tr) (\<lambda>st.
     bindR (item_list ''steps'' st) (\<lambda>steps.
     bindR (foldR (add_step only_failed) steps []) (\<lambda>task_steps.
     bindR (if only_failed then run_failed st else Inr True) (\<lambda>do_append.
       if do_append
       then bindR (item_str ''pipelineTaskName'' tr) (\<lambda>name. bindR (item_str ''podName'' st) (\<lambda>pod.
         Inr (Some \<lparr>tri_name = name, tri_pod_name = pod, tri_steps = task_steps\<rparr>)))
       else Inr None))))"

definition get_task_run_infos :: "pobj \<Rightarrow> bool \<Rightarrow> task_run_info list res" where
  "get_task_run_infos pipeline_run only_failed =
     bindR (task_names pipeline_run) (\<lambda>_.
     bindR (item ''status'' pipeline_run) (\<lambda>st.
     bindR (item ''taskRuns'' st) (\<lambda>trs.
     bindR (values_of trs) (\<lambda>task_runs.
     bindR (mapR (task_run_info_of only_failed) task_runs) (\<lambda>infos. Inr (List.map_filter id infos))))))"

text \<open>The result of a task, read from the run.\<close>

definition task_result_in :: "string \<Rightarrow> string \<Rightarrow> pobj \<Rightarrow> pobj option res" where
  "task_result_in task_ref_name result_name tr =
     bindR (item ''pipelineTaskName'' tr) (\<lambda>name.
       if name \<noteq> PStr task_ref_name then Inr None
       else bindR (item ''status'' tr) (\<lambda>st. bindR (has_item ''taskResults'' st) (\<lambda>has.
         if \<not> has then Inr None
         else bindR (item_list ''taskResults'' st) (\<lambda>rs.
           foldR (\<lambda>r found. case found of Some v \<Rightarrow> Inr (Some v) | None \<Rightarrow>
             bindR (item ''name'' r) (\<lambda>n. if n = PStr result_name then bindR (item ''value'' r) (\<lambda>v. Inr (Some v)) else Inr None))
             rs None))))"

definition get_task_result :: "pobj \<Rightarrow> string \<Rightarrow> string \<Rightarrow> pobj res" where
  "get_task_result run task_ref_name result_name =
     bindR (item ''status'' run) (\<lambda>st.
     bindR (item ''taskRuns'' st) (\<lambda>trs.
     bindR (values_of trs) (\<lambda>task_runs.
     bindR (foldR (\<lambda>tr found. case found of Some v \<Rightarrow> Inr (Some v) | None \<Rightarrow> task_result_in task_ref_name result_name tr)
       task_runs None) (\<lambda>found. Inr (case found of Some v \<Rightarrow> v | None \<Rightarrow> PNone)))))"

subsection \<open>The log of a step\<close>

definition api_mark :: string where
  "api_mark = ''ApiException: ''"

text \<open>The text of an \<open>ApiException\<close>, which starts with the status in parentheses.\<close>

fun api_exception :: "py_err \<Rightarrow> string option" where
  "api_exception (OtherException s) = (if startswith s api_mark then Some (drop (length api_mark) s) else None)"
| "api_exception e = None"

definition pod_log_call :: "string \<Rightarrow> string \<Rightarrow> string \<Rightarrow> (string \<times> pobj) list \<Rightarrow> call" where
  "pod_log_call pod container namespace extra = mk_call [''CoreV1Api''] ''read_namespaced_pod_log_with_http_info''
     ([(''name'', PStr pod), (''container'', PStr container), (''namespace'', PStr namespace)] @ extra)"

text \<open>\<open>data, status_code, headers = response\<close>\<close>

fun unpack_response :: "pobj \<Rightarrow> (pobj \<times> int) res" where
  "unpack_response (PList [data, code, headers]) = bindR (as_int code) (\<lambda>status_code. Inr (data, status_code))"
| "unpack_response (PList xs) = Inl (ValueError ''unpack'')"
| "unpack_response v = Inl (TypeError ''unpack'')"

definition read_pod_log :: "world \<Rightarrow> call \<Rightarrow> (pobj \<times> int) prog" where
  "read_pod_log w c = bindP (ask w c) (\<lambda>r. liftP (unpack_response r))"

subsection \<open>Excerpts of the failed steps\<close>

definition append_file :: "string \<Rightarrow> string \<Rightarrow> ('s workspace, unit) proc" where
  "append_file path text = bindP (read_file path) (\<lambda>old. write_file path (old @ text))"

definition write_excerpt :: "world \<Rightarrow> string \<Rightarrow> string \<Rightarrow> int \<Rightarrow> string \<times> string \<times> string \<Rightarrow> ('s workspace, unit) proc" where
  "write_excerpt w file_path namespace lines = (\<lambda>(pod, step, container).
     bindP (append_file file_path (''### Pod: '' @ pod @ '', step: '' @ step @ '', container: '' @ container)) (\<lambda>_.
     catchP
       (bindP (calling (read_pod_log w (pod_log_call pod container namespace [(''tail_lines'', PInt lines)]))) (\<lambda>(data, status_code).
          if status_code \<ge> 400 then retP ()
          else bindP (liftP (as_str data)) (append_file file_path)))
       (\<lambda>e. case api_exception e of
          None \<Rightarrow> raiseP e
        | Some text \<Rightarrow> append_file file_path
            (if startswith text ''(404)'' then ''Log for pod '' @ pod @ '' is already gone '' @ text
             else ''Getting logs for pod '' @ pod @ '' failed '' @ text))))"

definition all_steps :: "task_run_info list \<Rightarrow> (string \<times> string \<times> string) list" where
  "all_steps infos = concat (map (\<lambda>i. map (\<lambda>(step, container). (tri_pod_name i, step, container)) (tri_steps i)) infos)"

definition get_failed_excerpts :: "world \<Rightarrow> string \<Rightarrow> pobj \<Rightarrow> bool \<Rightarrow> string \<Rightarrow> int \<Rightarrow> ('s workspace, unit) proc" where
  "get_failed_excerpts w namespace pipeline_run only_failed repo_dir lines =
     bindP (liftP (get_task_run_infos pipeline_run only_failed)) (\<lambda>infos.
     (let file_path = path_join repo_dir [''failed_summary.txt''] in
     bindP (write_file file_path '''') (\<lambda>_. forP (write_excerpt w file_path namespace lines) (all_steps infos))))"

subsection \<open>The archive of the logs\<close>

text \<open>
  The members that were written and the last response, which the code keeps in a variable that a failed
  request leaves as it was.  The archive has its members when it is closed, which an exception does too.
\<close>

record zip_state =
  zs_members :: "(string \<times> string) list"
  zs_response :: "(pobj \<times> int) option"

definition two_digits :: "nat \<Rightarrow> string" where
  "two_digits n = (if n < 100 then pad_num 2 n else str_nat n)"

definition member_name :: "string \<Rightarrow> nat \<Rightarrow> string \<Rightarrow> string" where
  "member_name task idx step = task @ ''/'' @ two_digits idx @ ''_'' @ step @ ''.log''"

definition dirname :: "string \<Rightarrow> string" where
  "dirname path = (if CHR ''/'' \<in> set path then rsplit1_head CHR ''/'' path else '''')"

text \<open>\<open>open(path, 'w')\<close> for a path below the working directory.\<close>

definition write_relative :: "string \<Rightarrow> string \<Rightarrow> ('s workspace, unit) proc" where
  "write_relative path content =
     bindP (isdir (dirname path)) (\<lambda>ok. if ok \<or> dirname path = '''' then write_file path content else raiseP (FileNotFoundError path))"

definition put_member :: "((string \<times> string) list \<Rightarrow> string) \<Rightarrow> string \<Rightarrow> string \<Rightarrow> string \<Rightarrow> zip_state \<Rightarrow>
    ('s workspace, zip_state) proc" where
  "put_member arch zip_path name content st =
     (let st = st\<lparr>zs_members := zs_members st @ [(name, content)]\<rparr> in
      bindP (write_file zip_path (arch (zs_members st))) (\<lambda>_. retP st))"

definition stream_call :: "pobj \<Rightarrow> call" where
  "stream_call data = mk_call [''urllib3''] ''stream'' [(''response'', data), (''amt'', PInt 4096)]"

text \<open>A member is there as soon as it is opened; a stream that breaks off leaves it empty.\<close>

definition zip_response :: "world \<Rightarrow> ((string \<times> string) list \<Rightarrow> string) \<Rightarrow> string \<Rightarrow> string \<Rightarrow> zip_state \<Rightarrow>
    ('s workspace, zip_state) proc" where
  "zip_response w arch zip_path name st =
     (case zs_response st of
        None \<Rightarrow> bindP (put_member arch zip_path name '''' st) (\<lambda>_. raiseP (UnboundLocalError ''log_response''))
      | Some (data, _) \<Rightarrow>
          bindP (catchP
              (bindP (calling (ask w (stream_call data))) (\<lambda>r. liftP (bindR (as_list r) (mapR as_str))))
              (\<lambda>e. bindP (put_member arch zip_path name [] st) (\<lambda>_. raiseP e)))
            (\<lambda>chunks. put_member arch zip_path name (concat chunks) st))"

text \<open>
  After an \<open>ApiException\<close> the code goes on with the response of the step before, if there was one; the
  text of the error file has the names of the variables where their values were meant.
\<close>

definition zip_step :: "world \<Rightarrow> ((string \<times> string) list \<Rightarrow> string) \<Rightarrow> string \<Rightarrow> string \<Rightarrow> int option \<Rightarrow>
    task_run_info \<times> nat \<times> string \<times> string \<Rightarrow> zip_state \<Rightarrow> ('s workspace, zip_state) proc" where
  "zip_step w arch zip_path namespace tail_lines = (\<lambda>(info, idx, step, container) st.
     (let name = member_name (tri_name info) idx step;
          tail = (case tail_lines of Some n \<Rightarrow> if n \<noteq> 0 then [(''tail_lines'', PInt n)] else [] | None \<Rightarrow> []);
          request = pod_log_call (tri_pod_name info) container namespace ((''_preload_content'', PBool False) # tail) in
      bindP
        (catchP
          (bindP (calling (read_pod_log w request)) (\<lambda>(data, status_code).
             retP (st\<lparr>zs_response := Some (data, status_code)\<rparr>, status_code \<ge> 400)))
          (\<lambda>e. case api_exception e of
             None \<Rightarrow> raiseP e
           | Some text \<Rightarrow> bindP
               (write_relative name ''Log file for {pod_name} could not be retrieved: {str(ex)}'') (\<lambda>_. retP (st, False))))
        (\<lambda>(st, skip). if skip then retP st else zip_response w arch zip_path name st)))"

definition numbered_steps :: "task_run_info list \<Rightarrow> (task_run_info \<times> nat \<times> string \<times> string) list" where
  "numbered_steps infos = concat (map (\<lambda>i. map (\<lambda>(idx, step). (i, idx, step)) (enumerate 0 (tri_steps i))) infos)"

definition get_and_zip_logs :: "world \<Rightarrow> ((string \<times> string) list \<Rightarrow> string) \<Rightarrow> pobj \<Rightarrow> string \<Rightarrow> string \<Rightarrow> string option \<Rightarrow>
    int option \<Rightarrow> bool \<Rightarrow> ('s workspace, string) proc" where
  "get_and_zip_logs w arch pipeline_run repo_dir namespace zip_file_path tail_lines only_failed =
     bindP (liftP (get_task_run_infos pipeline_run only_failed)) (\<lambda>infos.
     (let zip_path = (case zip_file_path of
            Some p \<Rightarrow> if p \<noteq> [] then p else path_join repo_dir [''build_log.zip'']
          | None \<Rightarrow> path_join repo_dir [''build_log.zip'']) in
     bindP (write_file zip_path (arch [])) (\<lambda>_.
     bindP (foldP (zip_step w arch zip_path namespace tail_lines) (numbered_steps infos)
         \<lparr>zs_members = [], zs_response = None\<rparr>) (\<lambda>_. retP zip_path))))"

text \<open>The step \<open>getlogs\<close>.\<close>

definition getlogs :: "world \<Rightarrow> ((string \<times> string) list \<Rightarrow> string) \<Rightarrow> string \<Rightarrow> string \<Rightarrow> string \<Rightarrow> string option \<Rightarrow>
    int option \<Rightarrow> bool \<Rightarrow> ('s workspace, string) proc" where
  "getlogs w arch repo_dir namespace pipeline_run_name zip_file_path tail_lines only_failed =
     bindP (calling (load_kube_config w)) (\<lambda>_.
     bindP (calling (get_pipeline_run w pipeline_run_name namespace)) (\<lambda>pipeline_run.
       get_and_zip_logs w arch pipeline_run repo_dir namespace zip_file_path tail_lines only_failed))"

text \<open>
  A log that is not available ends the whole collection: the handler of the exception fails itself,
  either because the directory of the error file does not exist or because there is no response yet.
\<close>

definition log_request :: "string \<Rightarrow> task_run_info \<Rightarrow> string \<Rightarrow> call" where
  "log_request namespace info container =
     pod_log_call (tri_pod_name info) container namespace [(''_preload_content'', PBool False)]"

lemma unavailable_log_fails:
  assumes "answer w (ws_calls ws) (log_request namespace info container) = Inl e" "api_exception e = Some text"
    and "zs_response st = None"
  shows "\<exists>e' ws'. zip_step w arch zip_path namespace None (info, idx, step, container) st ws = Some (Inl e', ws') \<and>
    e' \<in> {FileNotFoundError (member_name (tri_name info) idx step), UnboundLocalError ''log_response''}"
  using assms
  by (simp add: zip_step_def log_request_def Let_def bindP_def catchP_def calling_def read_pod_log_def ask_def
      write_relative_def isdir_def write_file_def raiseP_def retP_def zip_response_def put_member_def)

end
