(* ===== verification/Attach_Logs.thy ===== *)
theory Attach_Logs
  imports Logs Clean
begin

text \<open>
  \<open>ci/steps/attach_logs.py\<close>: the archive of the logs goes to the store and is referenced by the manifests
  of the run and by the manifest set.  \<open>strftime\<close> formats the time for the key of the archive.
\<close>

record ('z, 's) log_env = "('z, 's) step_env" +
  le_strftime :: "int \<Rightarrow> string"
  le_archive :: "(string \<times> string) list \<Rightarrow> string"

definition log_file :: "string \<Rightarrow> string \<Rightarrow> s3_release_file" where
  "log_file s3_key s3_bucket_name =
     \<lparr>rf_name = basename s3_key, rf_suffix = basename s3_key, rf_s3_key = s3_key, rf_s3_bucket_name = s3_bucket_name\<rparr>"

definition upload_log_file :: "'s s3_client \<Rightarrow> string \<Rightarrow> string \<Rightarrow> string \<Rightarrow> ('s workspace, s3_release_file) proc" where
  "upload_log_file s3 log_file_path s3_key s3_bucket_name =
     bindP (read_file log_file_path) (\<lambda>content.
     bindP (storing (s3_upload_fileobj s3 s3_bucket_name s3_key content)) (\<lambda>_. retP (log_file s3_key s3_bucket_name)))"

text \<open>The result of a task is the key of its manifest, if the task has built something.\<close>

fun result_key :: "pobj \<Rightarrow> string option res" where
  "result_key PNone = Inr None"
| "result_key (PStr s) = Inr (if s \<noteq> [] \<and> py_strip s \<noteq> [] then Some s else None)"
| "result_key v = (if truthy v then Inl (AttributeError ''strip'') else Inr None)"

definition attach_log_to_manifest :: "('z, 's, 'x) log_env_scheme \<Rightarrow> string \<Rightarrow> string \<Rightarrow> string \<Rightarrow> ('s workspace, unit) proc" where
  "attach_log_to_manifest env s3_bucket_name s3_log_key key =
     bindP (reading (\<lambda>s. present (fetch_release_manifest (se_s3 env) (se_codec env) s3_bucket_name key False s))) (\<lambda>manifest.
     bindP (liftP (canonical_release_manifest_key_suffix (ce_features env) (ce_fuel env) (manifest_identifier manifest))) (\<lambda>sfx.
       storing (upload_release_manifest (se_s3 env) (se_codec env) s3_bucket_name (manifest_key_prefix @ ''/'' @ sfx)
         (online_attrs (with_logfile (log_file s3_log_key s3_bucket_name) manifest)))))"

definition attach_logs_to_single_manifest :: "('z, 's, 'x) log_env_scheme \<Rightarrow> (string \<times> pobj) list \<Rightarrow> string \<Rightarrow> string \<Rightarrow>
    ('s workspace, unit) proc" where
  "attach_logs_to_single_manifest env build_dict s3_bucket_name s3_log_key =
     forP (\<lambda>(task, result). bindP (liftP (result_key result)) (\<lambda>key. case key of
         None \<Rightarrow> retP ()
       | Some k \<Rightarrow> attach_log_to_manifest env s3_bucket_name s3_log_key k)) build_dict"

text \<open>
  The logs of the manifests of a platform; a manifest may have a text in place of a file, which is
  collected like a file.
\<close>

definition log_truthy :: "manifest_log option \<Rightarrow> bool" where
  "log_truthy l = (case l of None \<Rightarrow> False | Some (Log_file f) \<Rightarrow> True | Some (Log_str s) \<Rightarrow> s \<noteq> [])"

record log_params =
  lgp_architecture :: string
  lgp_committish :: string
  lgp_version :: string
  lgp_gardenlinux_epoch :: string
  lgp_platform_set :: string

definition log_identifier :: "('z, 's, 'x) log_env_scheme \<Rightarrow> log_params \<Rightarrow> string \<Rightarrow> gardenlinux_flavour \<Rightarrow> release_identifier res" where
  "log_identifier env p platform fl =
     bindR (calculate_modifiers (ce_features env) (ce_fuel env) fl) (\<lambda>ms.
     bindR (py_int (lgp_gardenlinux_epoch p)) (\<lambda>epoch.
     bindR (architecture_of (lgp_architecture p)) (\<lambda>arch.
       Inr \<lparr>ri_build_committish = lgp_committish p, ri_version = lgp_version p, ri_gardenlinux_epoch = epoch,
            ri_architecture = arch, ri_platform = platform, ri_modifiers = sort (map fd_name ms)\<rparr>)))"

definition add_log :: "online_release_manifest option \<Rightarrow> manifest_log list \<Rightarrow> manifest_log list" where
  "add_log found log_files = (case Option.bind found orm_logs of
     None \<Rightarrow> log_files
   | Some l \<Rightarrow> if log_truthy (Some l) then py_set (log_files @ [l]) else log_files)"

definition collect_log :: "('z, 's, 'x) log_env_scheme \<Rightarrow> cicd_cfg \<Rightarrow> log_params \<Rightarrow> string \<Rightarrow> gardenlinux_flavour \<Rightarrow>
    manifest_log list \<Rightarrow> ('s workspace, manifest_log list) proc" where
  "collect_log env cfg p platform fl log_files =
     (if fl_platform fl \<noteq> platform then retP log_files
      else bindP (liftP (log_identifier env p platform fl)) (\<lambda>ri.
        bindP (reading (find_release (ce_features env) (ce_fuel env) (se_s3 env) (se_codec env) (bucket_of cfg) ri)) (\<lambda>found.
          retP (add_log found log_files))))"

text \<open>A set with the logs: the ones it had before, then the collected ones.\<close>

definition set_logs :: "online_release_manifest_set \<Rightarrow> manifest_log list \<Rightarrow> manifest_log list" where
  "set_logs ms log_files = (case oms_logs ms of Some ls \<Rightarrow> map Log_file ls | None \<Rightarrow> []) @ log_files"

definition logged_set_attrs :: "online_release_manifest_set \<Rightarrow> manifest_log list \<Rightarrow> (string \<times> pyval) list" where
  "logged_set_attrs ms log_files = [(''s3_key'', Py_str (oms_s3_key ms)), (''s3_bucket'', Py_str (oms_s3_bucket ms)),
     (''logs'', Py_seq (map py_log (set_logs ms log_files)))]"

text \<open>\<open>if manifest_set_key\<close>, and the look-up of the set.\<close>

definition find_logged_set :: "('z, 's, 'x) log_env_scheme \<Rightarrow> string \<Rightarrow> pobj \<Rightarrow> 's \<Rightarrow> (string \<times> online_release_manifest_set) option res" where
  "find_logged_set env s3_bucket_name manifest_set_key s =
     (if \<not> truthy manifest_set_key then Inr None
      else bindR (as_str manifest_set_key) (\<lambda>key.
        bindR (fetch_release_manifest_set (se_s3 env) (se_codec env) s3_bucket_name key True s) (\<lambda>found.
          Inr (map_option (\<lambda>ms. (key, ms)) found))))"

definition attach_to_set :: "('z, 's, 'x) log_env_scheme \<Rightarrow> cicd_cfg \<Rightarrow> log_params \<Rightarrow> gardenlinux_flavour list \<Rightarrow> s3_release_file \<Rightarrow>
    string \<Rightarrow> online_release_manifest_set \<Rightarrow> ('s workspace, unit) proc" where
  "attach_to_set env cfg p fls uploaded_file key manifest_set =
     bindP (foldP (\<lambda>platform. foldP (collect_log env cfg p platform) fls)
         (py_set (py_split CHR '','' (lgp_platform_set p))) [Log_file uploaded_file]) (\<lambda>log_files.
       storing (upload_release_manifest_set (se_s3 env) (se_codec env) (bucket_of cfg) key manifest_set
         (logged_set_attrs manifest_set log_files)))"

definition log_key :: "('z, 's, 'x) log_env_scheme \<Rightarrow> int \<Rightarrow> string \<Rightarrow> bool \<Rightarrow> string" where
  "log_key env now committish is_package_build =
     (let prefx = le_strftime env now @ ''-'' @ str_first 6 committish @ ''-'' in
      if is_package_build then ''logs/'' @ prefx @ ''package_build_log.zip'' else ''objects/'' @ prefx @ ''build_log.zip'')"

definition log_bucket :: "cicd_cfg \<Rightarrow> bool \<Rightarrow> string res" where
  "log_bucket cfg is_package_build =
     (if is_package_build
      then (case cc_package_build cfg of Some c \<Rightarrow> Inr (pbc_s3_bucket_name c) | None \<Rightarrow> Inl (AttributeError ''s3_bucket_name''))
      else Inr (bucket_of cfg))"

text \<open>
  The manifests of the run and the set.  The last test of the code asks for a member of \<open>BuildType\<close> in a set of
  members of \<open>BuildTarget\<close>, which never holds: without a set the step succeeds.
\<close>

definition attach_logs :: "('z, 's, 'x) log_env_scheme \<Rightarrow> cicd_cfg \<Rightarrow> (string \<times> pobj) list \<Rightarrow> string \<Rightarrow> log_params \<Rightarrow> string \<Rightarrow>
    s3_release_file \<Rightarrow> pobj \<Rightarrow> ('s workspace, bool) proc" where
  "attach_logs env cfg build_dict build_targets p flavour_set_name uploaded_file manifest_set_key =
     bindP (liftP (set_from_str build_targets)) (\<lambda>build_target_set.
       if MANIFEST \<notin> set build_target_set then retP True
       else
         bindP (attach_logs_to_single_manifest env build_dict (bucket_of cfg) (rf_s3_key uploaded_file)) (\<lambda>_.
         bindP (liftP (se_flavour_set env flavour_set_name)) (\<lambda>fset.
         bindP (reading (find_logged_set env (bucket_of cfg) manifest_set_key)) (\<lambda>found.
           case found of
             None \<Rightarrow> retP True
           | Some (key, manifest_set) \<Rightarrow>
               bindP (liftP (flavours (ce_features env) (ce_fuel env) fset)) (\<lambda>fls.
               bindP (attach_to_set env cfg p fls uploaded_file key manifest_set) (\<lambda>_. retP True))))))"

definition exists_path :: "string \<Rightarrow> ('s workspace, bool) proc" where
  "exists_path path = bindP (isfile path) (\<lambda>f. bindP (isdir path) (\<lambda>d. retP (f \<or> d)))"

definition attach_and_upload_logs :: "('z, 's, 'x) log_env_scheme \<Rightarrow> (string \<times> pobj) list \<Rightarrow> string \<Rightarrow> string \<Rightarrow> log_params \<Rightarrow> string \<Rightarrow>
    bool \<Rightarrow> pobj \<Rightarrow> string \<Rightarrow> ('s workspace, bool) proc" where
  "attach_and_upload_logs env build_dict build_targets cicd_cfg_name p flavour_set_name is_package_build
     manifest_set_key repo_dir =
     bindP (liftP (se_cicd_cfg env cicd_cfg_name)) (\<lambda>cfg.
     (let log_path = path_join repo_dir [''build_log_full.zip''] in
     bindP (exists_path log_path) (\<lambda>found. if \<not> found then retP False
     else
       bindP (calling (nowP (ce_world env))) (\<lambda>now.
       (let s3_key = log_key env now (lgp_committish p) is_package_build in
       bindP (liftP (log_bucket cfg is_package_build)) (\<lambda>s3_bucket_name.
       bindP (upload_log_file (se_s3 env) log_path s3_key s3_bucket_name) (\<lambda>uploaded_file.
       bindP (write_file (path_join repo_dir [''log_url.txt''])
           (''https://'' @ bucket_of cfg @ ''.s3.'' @ bc_aws_region (cc_build cfg) @ ''.amazonaws.com/'' @ s3_key)) (\<lambda>_.
         if is_package_build then retP True
         else attach_logs env cfg build_dict build_targets p flavour_set_name uploaded_file manifest_set_key))))))))"

definition promote_task_name :: string where
  "promote_task_name = ''promote-gardenlinux-task''"

text \<open>The step.  \<open>ok\<close> is first the path of the archive, which is never empty.\<close>

definition upload_logs :: "('z, 's, 'x) log_env_scheme \<Rightarrow> string \<Rightarrow> string \<Rightarrow> string \<Rightarrow> log_params \<Rightarrow> string \<Rightarrow> string \<Rightarrow> string \<Rightarrow> string \<Rightarrow>
    ('s workspace, unit) proc" where
  "upload_logs env build_tasks build_targets cicd_cfg_name p flavour_set_name namespace pipeline_run_name repo_dir =
     (let w = ce_world env in
     bindP (calling (load_kube_config w)) (\<lambda>_.
     bindP (calling (get_pipeline_run w pipeline_run_name namespace)) (\<lambda>pipeline_run.
     bindP (get_and_zip_logs w (le_archive env) pipeline_run repo_dir namespace
         (Some (path_join repo_dir [''build_log_full.zip''])) None False) (\<lambda>_.
     bindP (liftP (mapR (\<lambda>task. bindR (get_task_result pipeline_run task ''build_result'') (\<lambda>v. Inr (task, v)))
         (py_split CHR '','' build_tasks))) (\<lambda>results.
     bindP (liftP (get_task_result pipeline_run promote_task_name ''manifest_set_key_result'')) (\<lambda>manifest_set_key.
     bindP (attach_and_upload_logs env (dict_of results) build_targets cicd_cfg_name p flavour_set_name
         (contains ''gl-packages'' pipeline_run_name) manifest_set_key repo_dir) (\<lambda>ok.
     bindP (get_failed_excerpts w namespace pipeline_run True repo_dir 15) (\<lambda>_.
       if ok then retP ()
       else write_file (path_join repo_dir [''status.txt'']) ''Uploading logs to S3 failed''))))))))"

end
