(* ===== verification/Log_Properties.thy ===== *)
theory Log_Properties
  imports Attach_Logs Step_Properties "HOL-Library.Countable"
begin

text \<open>
  The logging concept of \<open>upload_logs\<close>: the archive of a run is referenced from the manifest set, and with
  it the logs of the earlier runs that built parts of the set, so that the clean-up keeps them all.
\<close>

subsection \<open>Loops that keep a fact\<close>

lemma foldP_invariant:
  assumes "foldP f xs s h = Some (Inr s', h')" "I s h"
    and "\<And>x s h s' h'. x \<in> set xs \<Longrightarrow> I s h \<Longrightarrow> f x s h = Some (Inr s', h') \<Longrightarrow> I s' h'"
  shows "I s' h'"
  using assms
proof (induction xs arbitrary: s h)
  case (Cons x xs)
  from Cons.prems(1) obtain t g where "f x s h = Some (Inr t, g)" "foldP f xs t g = Some (Inr s', h')"
    by (auto simp: prog_simps)
  then show ?case using Cons.IH [of t g] Cons.prems(2,3) by (meson list.set_intros)
qed (simp add: prog_simps)

subsection \<open>Collecting the logs\<close>

text \<open>No manifest has a text in place of a log file.\<close>

definition no_text_logs :: "codec \<Rightarrow> bool" where
  "no_text_logs cd \<longleftrightarrow> (\<forall>d m s. cd_manifest_from_dict cd d = Inr m \<longrightarrow> orm_logs m \<noteq> Some (Log_str s))"

lemma load_object_decoded:
  assumes "load_object cd decode absent_ok download = Inr (Some m)"
  shows "\<exists>parsed. decode parsed = Inr m"
proof (cases download)
  case (Inl e)
  then show ?thesis using assms by (cases e) (simp_all add: load_object_def split: if_splits)
next
  case (Inr content)
  then show ?thesis using assms by (auto simp: load_object_def bindR_Inr_iff)
qed

lemma found_log_is_file:
  assumes "no_text_logs cd" "find_release fs n s3 cd b ri s = Inr (Some m)" "orm_logs m = Some l"
  shows "\<exists>f. l = Log_file f"
proof -
  have "\<exists>key. fetch_release_manifest s3 cd b key True s = Inr (Some m)"
    using assms(2) by (auto simp: find_release_def bindR_Inr_iff split: option.splits if_splits)
  then have "\<exists>d. cd_manifest_from_dict cd d = Inr m"
    by (auto simp: fetch_release_manifest_def dest!: load_object_decoded)
  then show ?thesis using assms(1,3) by (cases l) (auto simp: no_text_logs_def)
qed

text \<open>What holds of the logs while they are collected from a store \<open>s\<close>.\<close>

definition collected :: "s3_release_file \<Rightarrow> 's \<Rightarrow> manifest_log list \<Rightarrow> 's workspace \<Rightarrow> bool" where
  "collected f s logs ws \<longleftrightarrow> Log_file f \<in> set logs \<and> (\<forall>l \<in> set logs. \<exists>g. l = Log_file g) \<and> ws_store ws = s"

lemma add_log_files:
  assumes "\<And>m l. found = Some m \<Longrightarrow> orm_logs m = Some l \<Longrightarrow> \<exists>f. l = Log_file f" "\<forall>l \<in> set logs. \<exists>g. l = Log_file g"
  shows "set logs \<subseteq> set (add_log found logs)" "\<forall>l \<in> set (add_log found logs). \<exists>g. l = Log_file g"
  using assms by (auto simp: add_log_def split: option.splits bind_splits)

lemma collect_log_keeps:
  assumes "no_text_logs (se_codec env)" "collected f s logs ws"
    and "collect_log env cfg p platform fl logs ws = Some (Inr logs', ws')"
  shows "collected f s logs' ws'"
proof (cases "fl_platform fl = platform")
  case False
  then show ?thesis using assms(2,3) by (simp add: collect_log_def prog_simps)
next
  case True
  with assms(3) obtain ri found where
    found: "find_release (ce_features env) (ce_fuel env) (se_s3 env) (se_codec env) (bucket_of cfg) ri (ws_store ws) = Inr found"
    and logs': "logs' = add_log found logs" "ws' = ws"
    by (auto simp: collect_log_def prog_simps)
  have files: "\<exists>f. l = Log_file f" if "found = Some m" "orm_logs m = Some l" for m l
    using found_log_is_file [OF assms(1) found [unfolded that(1)] that(2)] .
  have old: "Log_file f \<in> set logs" "\<forall>l \<in> set logs. \<exists>g. l = Log_file g" "ws_store ws = s"
    using assms(2) unfolding collected_def by blast+
  have "Log_file f \<in> set (add_log found logs)"
    by (rule subsetD [OF add_log_files(1) old(1)]) (rule files old(2) | assumption)+
  moreover have "\<forall>l \<in> set (add_log found logs). \<exists>g. l = Log_file g"
    by (rule add_log_files(2)) (rule files old(2) | assumption)+
  ultimately show ?thesis using old(3) by (simp only: collected_def logs')
qed

lemma collect_logs_keeps:
  assumes "no_text_logs (se_codec env)"
    and "foldP (\<lambda>platform. foldP (collect_log env cfg p platform) fls) names [Log_file f] ws = Some (Inr logs, ws')"
  shows "collected f (ws_store ws) logs ws'"
  using assms(2)
proof (rule foldP_invariant)
  show "collected f (ws_store ws) [Log_file f] ws" by (simp add: collected_def)
  fix platform logs ws1 logs' ws2
  assume i: "collected f (ws_store ws) logs ws1"
    and "foldP (collect_log env cfg p platform) fls logs ws1 = Some (Inr logs', ws2)"
  from this(2) show "collected f (ws_store ws) logs' ws2"
    by (rule foldP_invariant [where I = "collected f (ws_store ws)", OF _ i]) (rule collect_log_keeps [OF assms(1)])
qed

subsection \<open>Writing the set\<close>

definition codec_reads_logs :: "codec \<Rightarrow> online_release_manifest_set \<Rightarrow> bool" where
  "codec_reads_logs cd ms \<longleftrightarrow> (\<forall>files d. serialised_set ms (online_set_attrs (ms\<lparr>oms_logs := Some files\<rparr>)) = Inr (PDict d) \<longrightarrow>
     cd_safe_load cd (cd_safe_dump cd (PDict d)) = Inr d \<and>
     (\<forall>k b. cd_set_from_dict cd (dict_set ''s3_key'' (PStr k) (dict_set ''s3_bucket'' (PStr b) d)) =
       Inr (ms\<lparr>oms_s3_key := k, oms_s3_bucket := b, oms_logs := Some files\<rparr>)))"

lemma file_logs:
  assumes "\<forall>l \<in> set logs. \<exists>g. l = Log_file g"
  shows "\<exists>files. logs = map Log_file files"
  using assms
proof (induction logs)
  case (Cons l logs)
  then obtain files g where "logs = map Log_file files" "l = Log_file g" by auto
  then show ?case by (intro exI [of _ "g # files"]) simp
qed simp

lemma logged_set_attrs_files:
  "logged_set_attrs ms (map Log_file files) = online_set_attrs (with_logfiles files ms)"
  by (simp add: logged_set_attrs_def online_set_attrs_def with_logfiles_def set_logs_def py_opt_def py_log_def
      split: option.splits)

lemma serialised_set_dict: "serialised_set ms extra = Inr y \<Longrightarrow> \<exists>d. y = PDict d"
  by (auto simp: serialised_set_def bindR_Inr_iff)

text \<open>A set that was uploaded with log files is read back with them.\<close>

lemma logged_set_read:
  assumes "s3_read_your_writes s3" "codec_reads_logs cd ms"
    and "upload_release_manifest_set s3 cd b key ms (logged_set_attrs ms (map Log_file files)) s = Inr s'"
  shows "fetch_release_manifest_set s3 cd b key absent_ok s' =
    Inr (Some ((with_logfiles files ms)\<lparr>oms_s3_key := key, oms_s3_bucket := b\<rparr>))"
proof -
  obtain fs where fs: "with_logfiles files ms = ms\<lparr>oms_logs := Some fs\<rparr>" by (simp add: with_logfiles_def)
  from assms(3) obtain d where d: "serialised_set ms (online_set_attrs (ms\<lparr>oms_logs := Some fs\<rparr>)) = Inr (PDict d)"
    and up: "s3_upload_fileobj s3 b key (cd_safe_dump cd (PDict d)) s = Inr s'"
    by (auto simp: upload_release_manifest_set_def bindR_Inr_iff logged_set_attrs_files fs dest: serialised_set_dict)
  have "s3_download_fileobj s3 b key s' = Inr (cd_safe_dump cd (PDict d))" by (rule upload_reads [OF assms(1) up])
  moreover have "cd_safe_load cd (cd_safe_dump cd (PDict d)) = Inr d"
    "cd_set_from_dict cd (dict_set ''s3_key'' (PStr key) (dict_set ''s3_bucket'' (PStr b) d)) =
      Inr (ms\<lparr>oms_s3_key := key, oms_s3_bucket := b, oms_logs := Some fs\<rparr>)"
    using assms(2) d unfolding codec_reads_logs_def by blast+
  ultimately show ?thesis by (simp add: fetch_release_manifest_set_def load_object_def fs)
qed

subsection \<open>What the uploads leave alone\<close>

lemma attach_log_keeps:
  assumes "s3_read_your_writes (se_s3 env)" "attach_log_to_manifest env b lk key ws = Some (Inr u, ws')"
    and "\<not> startswith k (manifest_key_prefix @ ''/'')"
  shows "s3_download_fileobj (se_s3 env) b k (ws_store ws') = s3_download_fileobj (se_s3 env) b k (ws_store ws)"
proof -
  from assms(2) obtain attrs sfx where
    "upload_release_manifest (se_s3 env) (se_codec env) b (manifest_key_prefix @ ''/'' @ sfx) attrs (ws_store ws) = Inr (ws_store ws')"
    by (auto simp: attach_log_to_manifest_def prog_simps)
  then obtain y where "s3_upload_fileobj (se_s3 env) b (manifest_key_prefix @ ''/'' @ sfx) y (ws_store ws) = Inr (ws_store ws')"
    by (auto simp: upload_release_manifest_def bindR_Inr_iff)
  moreover have "k \<noteq> manifest_key_prefix @ ''/'' @ sfx"
    using assms(3) by (auto simp: startswith_def)
  ultimately show ?thesis using upload_keeps [OF assms(1)] by metis
qed

lemma attach_logs_keeps:
  assumes "s3_read_your_writes (se_s3 env)"
    and "attach_logs_to_single_manifest env build_dict b lk ws = Some (Inr u, ws')"
    and "\<not> startswith k (manifest_key_prefix @ ''/'')"
  shows "s3_download_fileobj (se_s3 env) b k (ws_store ws') = s3_download_fileobj (se_s3 env) b k (ws_store ws)"
  using assms(2) unfolding attach_logs_to_single_manifest_def forP_def
proof (rule foldP_invariant [where I = "\<lambda>_ w. s3_download_fileobj (se_s3 env) b k (ws_store w) =
    s3_download_fileobj (se_s3 env) b k (ws_store ws)"])
  fix x u ws1 u' ws2
  assume "s3_download_fileobj (se_s3 env) b k (ws_store ws1) = s3_download_fileobj (se_s3 env) b k (ws_store ws)"
    and "(case x of (task, result) \<Rightarrow> bindP (liftP (result_key result)) (\<lambda>key. case key of
         None \<Rightarrow> retP () | Some k \<Rightarrow> attach_log_to_manifest env b lk k)) ws1 = Some (Inr u', ws2)"
  then show "s3_download_fileobj (se_s3 env) b k (ws_store ws2) = s3_download_fileobj (se_s3 env) b k (ws_store ws)"
    using attach_log_keeps [OF assms(1) _ assms(3)] by (auto simp: prog_simps split: prod.splits option.splits)
qed simp

lemma fetch_set_cong:
  "s3_download_fileobj s3 b key s' = s3_download_fileobj s3 b key s \<Longrightarrow>
   fetch_release_manifest_set s3 cd b key absent_ok s' = fetch_release_manifest_set s3 cd b key absent_ok s"
  by (simp add: fetch_release_manifest_set_def)

lemma prefixes_differ:
  assumes "startswith k ''objects/'' \<or> startswith k release_manifest_set_prefix"
  shows "\<not> startswith k (manifest_key_prefix @ ''/'')"
proof
  assume "startswith k (manifest_key_prefix @ ''/'')"
  then have "\<exists>r. k = manifest_key_prefix @ ''/'' @ r" by (metis append.assoc append_take_drop_id startswith_def)
  moreover have "\<exists>r. k = ''objects/'' @ r \<or> k = release_manifest_set_prefix @ r"
    using assms by (metis append_take_drop_id startswith_def)
  ultimately show False by (auto simp: manifest_key_prefix_def release_manifest_set_prefix_def)
qed

subsection \<open>The logs of a manifest set\<close>

lemma log_file_sel [simp]: "rf_s3_key (log_file k b) = k" "rf_s3_bucket_name (log_file k b) = b"
  by (simp_all add: log_file_def)

lemma attach_to_set_referenced:
  fixes env :: "('z, 's, 'x) log_env_scheme"
  assumes "s3_read_your_writes (se_s3 env)" "no_text_logs (se_codec env)" "codec_reads_logs (se_codec env) ms"
    and "attach_to_set env cfg p fls f key ms ws = Some (Inr u, ws')"
  obtains files where "f \<in> set files"
    "fetch_release_manifest_set (se_s3 env) (se_codec env) (bucket_of cfg) key False (ws_store ws') =
      Inr (Some ((with_logfiles files ms)\<lparr>oms_s3_key := key, oms_s3_bucket := bucket_of cfg\<rparr>))"
    "\<And>k. k \<noteq> key \<Longrightarrow> s3_download_fileobj (se_s3 env) (bucket_of cfg) k (ws_store ws') =
      s3_download_fileobj (se_s3 env) (bucket_of cfg) k (ws_store ws)"
proof -
  from assms(4) obtain logs and ws1 :: "'s workspace" where
    c: "foldP (\<lambda>platform. foldP (collect_log env cfg p platform) fls) (py_set (py_split CHR '','' (lgp_platform_set p)))
      [Log_file f] ws = Some (Inr logs, ws1)"
    and up: "upload_release_manifest_set (se_s3 env) (se_codec env) (bucket_of cfg) key ms (logged_set_attrs ms logs) (ws_store ws1) =
      Inr (ws_store ws')"
    by (auto simp: attach_to_set_def prog_simps)
  have i: "Log_file f \<in> set logs" "\<forall>l \<in> set logs. \<exists>g. l = Log_file g" "ws_store ws1 = ws_store ws"
    using collect_logs_keeps [OF assms(2) c] unfolding collected_def by blast+
  obtain files where files: "logs = map Log_file files" using file_logs [OF i(2)] by blast
  obtain y where y: "s3_upload_fileobj (se_s3 env) (bucket_of cfg) key y (ws_store ws) = Inr (ws_store ws')"
    using up i(3) by (auto simp: upload_release_manifest_set_def bindR_Inr_iff)
  show thesis
  proof (rule that)
    show "f \<in> set files" using i(1) files by auto
    show "fetch_release_manifest_set (se_s3 env) (se_codec env) (bucket_of cfg) key False (ws_store ws') =
      Inr (Some ((with_logfiles files ms)\<lparr>oms_s3_key := key, oms_s3_bucket := bucket_of cfg\<rparr>))"
      by (rule logged_set_read [OF assms(1,3) up [unfolded files]])
    show "s3_download_fileobj (se_s3 env) (bucket_of cfg) k (ws_store ws') =
      s3_download_fileobj (se_s3 env) (bucket_of cfg) k (ws_store ws)" if "k \<noteq> key" for k
      by (rule upload_keeps [OF assms(1) y that])
  qed
qed

lemma attach_and_upload_parts:
  fixes env :: "('z, 's, 'x) log_env_scheme"
  assumes "se_cicd_cfg env name = Inr cfg"
    and "map_of (ws_files ws) (path_join repo [''build_log_full.zip'']) = Some content"
    and "attach_and_upload_logs env build_dict targets name p fset False key repo ws = Some (Inr r, ws')"
  defines "k \<equiv> log_key env (clock (ce_world env) (ws_calls ws)) (lgp_committish p) False"
  obtains ws1 :: "'s workspace"
    where "s3_upload_fileobj (se_s3 env) (bucket_of cfg) k content (ws_store ws) = Inr (ws_store ws1)"
      and "attach_logs env cfg build_dict targets p fset (log_file k (bucket_of cfg)) key ws1 = Some (Inr r, ws')"
proof -
  have here: "path_join repo [''build_log_full.zip''] \<in> fst ` set (ws_files ws)"
    using assms(2) by (force dest: map_of_SomeD)
  from assms(3) obtain s files' where
    "s3_upload_fileobj (se_s3 env) (bucket_of cfg) k content (ws_store ws) = Inr s"
    "attach_logs env cfg build_dict targets p fset (log_file k (bucket_of cfg)) key
      (ws\<lparr>ws_calls := ws_calls ws @ [now_call], ws_store := s, ws_files := files'\<rparr>) = Some (Inr r, ws')"
    using here assms(2)
    by (auto simp: attach_and_upload_logs_def Let_def prog_simps assms(1) exists_path_def log_bucket_def
        upload_log_file_def k_def simp del: path_join.simps)
  then show ?thesis
    by (intro that [of "ws\<lparr>ws_calls := ws_calls ws @ [now_call], ws_store := s, ws_files := files'\<rparr>"]) simp_all
qed

lemma attach_logs_referenced:
  fixes env :: "('z, 's, 'x) log_env_scheme"
  assumes laws: "s3_read_your_writes (se_s3 env)" "no_text_logs (se_codec env)" "codec_reads_logs (se_codec env) ms"
    and targets: "set_from_str targets = Inr ts" "MANIFEST \<in> set ts"
    and key: "startswith key release_manifest_set_prefix" "startswith k ''objects/''" "k \<noteq> key"
    and stored: "fetch_release_manifest_set (se_s3 env) (se_codec env) (bucket_of cfg) key True (ws_store ws1) = Inr (Some ms)"
    and run: "attach_logs env cfg build_dict targets p fset (log_file k (bucket_of cfg)) (PStr key) ws1 = Some (Inr r, ws')"
  obtains files where "r" "log_file k (bucket_of cfg) \<in> set files"
    "fetch_release_manifest_set (se_s3 env) (se_codec env) (bucket_of cfg) key False (ws_store ws') =
       Inr (Some ((with_logfiles files ms)\<lparr>oms_s3_key := key, oms_s3_bucket := bucket_of cfg\<rparr>))"
    "s3_download_fileobj (se_s3 env) (bucket_of cfg) k (ws_store ws') =
       s3_download_fileobj (se_s3 env) (bucket_of cfg) k (ws_store ws1)"
proof -
  let ?b = "bucket_of cfg" and ?get = "s3_download_fileobj (se_s3 env) (bucket_of cfg)"
  from run obtain u fls fs and ws2 :: "'s workspace" where
    single: "attach_logs_to_single_manifest env build_dict ?b k ws1 = Some (Inr u, ws2)"
    and found: "find_logged_set env ?b (PStr key) (ws_store ws2) = Inr fs"
    and rest: "(case fs of None \<Rightarrow> retP True | Some (key, manifest_set) \<Rightarrow>
        bindP (liftP (flavours (ce_features env) (ce_fuel env) fls)) (\<lambda>fls.
        bindP (attach_to_set env cfg p fls (log_file k ?b) key manifest_set) (\<lambda>_. retP True))) ws2 = Some (Inr r, ws')"
    by (auto simp: attach_logs_def prog_simps targets log_file_sel)
  have keep: "?get k' (ws_store ws2) = ?get k' (ws_store ws1)"
    if "startswith k' ''objects/'' \<or> startswith k' release_manifest_set_prefix" for k'
    using attach_logs_keeps [OF laws(1) single prefixes_differ [OF that]] by simp
  have "fetch_release_manifest_set (se_s3 env) (se_codec env) ?b key True (ws_store ws2) = Inr (Some ms)"
    using fetch_set_cong [of "se_s3 env" ?b key "ws_store ws2" "ws_store ws1"] keep [of key] key(1) stored by simp
  moreover have "key \<noteq> []" using key(1) by (auto simp: startswith_def release_manifest_set_prefix_def)
  ultimately have "fs = Some (key, ms)"
    using found by (auto simp: find_logged_set_def startswith_def release_manifest_set_prefix_def)
  with rest obtain flavs v where r: "r" and set: "attach_to_set env cfg p flavs (log_file k ?b) key ms ws2 = Some (Inr v, ws')"
    by (auto simp: prog_simps)
  from attach_to_set_referenced [OF laws set] obtain files where
    files: "log_file k ?b \<in> set files"
      "fetch_release_manifest_set (se_s3 env) (se_codec env) ?b key False (ws_store ws') =
        Inr (Some ((with_logfiles files ms)\<lparr>oms_s3_key := key, oms_s3_bucket := ?b\<rparr>))"
      "\<And>k. k \<noteq> key \<Longrightarrow> ?get k (ws_store ws') = ?get k (ws_store ws2)" by blast
  show ?thesis using that [OF r files(1,2)] files(3) [OF key(3)] keep [of k] key(2) by simp
qed


text \<open>
  A codec for manifest sets that differ in their logs only: the logs are numbered, and a set is stored as
  the number of its logs.
\<close>

type_synonym file_tuple = "string \<times> string \<times> string \<times> string"

definition tuple_file :: "file_tuple \<Rightarrow> s3_release_file" where
  "tuple_file = (\<lambda>(n, x, k, b). \<lparr>rf_name = n, rf_suffix = x, rf_s3_key = k, rf_s3_bucket_name = b\<rparr>)"

definition file_tuple :: "s3_release_file \<Rightarrow> file_tuple" where
  "file_tuple f = (rf_name f, rf_suffix f, rf_s3_key f, rf_s3_bucket_name f)"

lemma tuple_file_tuple [simp]: "tuple_file (file_tuple f) = f"
  by (simp add: tuple_file_def file_tuple_def)

definition tuple_dict :: "file_tuple \<Rightarrow> pobj" where
  "tuple_dict = (\<lambda>(n, x, k, b). PDict [(''name'', PStr n), (''suffix'', PStr x), (''s3_key'', PStr k), (''s3_bucket_name'', PStr b)])"

fun dict_tuple :: "pobj \<Rightarrow> file_tuple" where
  "dict_tuple (PDict [(_, PStr n), (_, PStr x), (_, PStr k), (_, PStr b)]) = (n, x, k, b)"
| "dict_tuple v = ([], [], [], [])"

lemma dict_tuple_dict [simp]: "dict_tuple (tuple_dict t) = t"
  by (cases t) (simp add: tuple_dict_def)

lemma yaml_file: "yaml_value (py_file f) = Inr (tuple_dict (file_tuple f))"
  by (simp add: py_file_def tuple_dict_def file_tuple_def)

lemma yaml_files: "mapR yaml_value (map py_file fs) = Inr (map (\<lambda>f. tuple_dict (file_tuple f)) fs)"
  by (induction fs) (simp_all add: yaml_file)

definition logs_in :: "(string \<times> pobj) list \<Rightarrow> file_tuple list" where
  "logs_in d = (case map_of d ''logs'' of Some (PList ls) \<Rightarrow> map dict_tuple ls | _ \<Rightarrow> [])"

definition logged_key :: string where
  "logged_key = ''meta/sets/snapshots/560-012345-all''"

definition logged_set :: "s3_release_file list \<Rightarrow> online_release_manifest_set" where
  "logged_set files = \<lparr>rms_manifests = [], rms_flavour_set_name = ''all'', oms_s3_key = logged_key,
     oms_s3_bucket = ''bucket'', oms_logs = Some files\<rparr>"

definition logged_dict :: "file_tuple list \<Rightarrow> (string \<times> pobj) list" where
  "logged_dict ts = [(''manifests'', PList []), (''flavour_set_name'', PStr ''all''), (''s3_key'', PStr logged_key),
     (''s3_bucket'', PStr ''bucket''), (''logs'', PList (map tuple_dict ts))]"

fun numbered_dump :: "pobj \<Rightarrow> string" where
  "numbered_dump (PDict d) = str_int (int (to_nat (logs_in d)))"
| "numbered_dump v = ''''"

definition numbered_codec :: codec where
  "numbered_codec =
     \<lparr>cd_safe_load = (\<lambda>s. bindR (py_int s) (\<lambda>i. Inr (logged_dict (from_nat (nat i))))),
      cd_safe_dump = numbered_dump,
      cd_manifest_from_dict = (\<lambda>d. Inl (KeyError ''paths'')),
      cd_set_from_dict = (\<lambda>d. case (map_of d ''s3_key'', map_of d ''s3_bucket'') of
           (Some (PStr k), Some (PStr b)) \<Rightarrow> Inr ((logged_set (map tuple_file (logs_in d)))\<lparr>oms_s3_key := k, oms_s3_bucket := b\<rparr>)
         | _ \<Rightarrow> Inl (KeyError ''s3_key''))\<rparr>"

lemma logs_in_logged_dict [simp]: "logs_in (logged_dict ts) = ts"
  by (simp add: logs_in_def logged_dict_def comp_def)

lemma numbered_load: "cd_safe_load numbered_codec (numbered_dump (PDict (logged_dict ts))) = Inr (logged_dict ts)"
  by (simp add: numbered_codec_def py_int_str_int)

lemma logged_serialised:
  "serialised_set (logged_set fs) (online_set_attrs ((logged_set fs)\<lparr>oms_logs := Some files\<rparr>)) = Inr (PDict (logged_dict (map file_tuple files)))"
  by (simp add: serialised_set_def logged_set_def online_set_attrs_def set_attrs_def py_opt_def yaml_files logged_dict_def)

lemma numbered_codec_reads: "codec_reads_logs numbered_codec (logged_set fs)"
proof -
  have "cd_safe_load numbered_codec (cd_safe_dump numbered_codec (PDict (logged_dict ts))) = Inr (logged_dict ts)" for ts
    using numbered_load by (simp add: numbered_codec_def)
  moreover have "cd_set_from_dict numbered_codec (dict_set ''s3_key'' (PStr k) (dict_set ''s3_bucket'' (PStr b)
      (logged_dict (map file_tuple files)))) = Inr ((logged_set fs)\<lparr>oms_s3_key := k, oms_s3_bucket := b, oms_logs := Some files\<rparr>)"
    for k b files
    by (simp add: numbered_codec_def logged_dict_def logs_in_def logged_set_def comp_def)
  ultimately show ?thesis by (auto simp: codec_reads_logs_def logged_serialised)
qed

definition sample_log_env :: "(unit, sample_store) log_env" where
  "sample_log_env = step_env.extend (sample_step_env numbered_codec)
     (log_env.fields (\<lambda>now. ''20211201-063143'') (\<lambda>members. ''zip''))"

definition sample_log_params :: log_params where
  "sample_log_params = \<lparr>lgp_architecture = ''amd64'', lgp_committish = ''0123456789abcdef'', lgp_version = ''560.0'',
     lgp_gardenlinux_epoch = ''560'', lgp_platform_set = ''''\<rparr>"

definition logged_workspace :: "sample_store workspace" where
  "logged_workspace = \<lparr>ws_files = [(''/repo/build_log_full.zip'', ''zip'')], ws_dirs = [],
     ws_store = [((''bucket'', logged_key), numbered_dump (PDict (logged_dict [])))], ws_calls = []\<rparr>"

lemma sample_log_env_sel:
  "se_s3 sample_log_env = sample_s3" "se_codec sample_log_env = numbered_codec"
  "se_cicd_cfg sample_log_env n = Inr sample_cicd_cfg" "se_flavour_set sample_log_env n = Inr sample_fset"
  "ce_features sample_log_env = shipped_features" "ce_fuel sample_log_env = 27"
  "bucket_of sample_cicd_cfg = ''bucket''"
  by (simp_all add: sample_log_env_def log_env.defs step_env.defs sample_step_env_def bucket_of_def sample_cicd_cfg_def sample_build_cfg_def)

lemma logged_fetch:
  assumes "map_of s (''bucket'', logged_key) = Some (numbered_dump (PDict (logged_dict [])))"
  shows "fetch_release_manifest_set sample_s3 numbered_codec ''bucket'' logged_key absent_ok s = Inr (Some (logged_set []))"
  using assms numbered_load [of "[]"]
  by (simp add: fetch_release_manifest_set_def load_object_def sample_s3_def)
    (simp add: numbered_codec_def logged_dict_def logged_set_def logs_in_def)

lemma sample_log_run:
  "\<exists>ws'. attach_and_upload_logs sample_log_env [] ''build,manifest,tests'' ''default'' sample_log_params ''all'' False
     (PStr logged_key) ''/repo'' logged_workspace = Some (Inr True, ws')"
proof -
  let ?f = "log_file (log_key sample_log_env (clock (ce_world sample_log_env) []) (lgp_committish sample_log_params) False) ''bucket''"
  have path: "path_join ''/repo'' [''build_log_full.zip''] = ''/repo/build_log_full.zip''"
    by (simp add: startswith_def)
  have key: "log_key sample_log_env t c False \<noteq> logged_key" for t c
    by (simp add: log_key_def Let_def logged_key_def)
  have coll: "foldP (\<lambda>platform. foldP (collect_log sample_log_env sample_cicd_cfg sample_log_params platform) [sample_built_flavour])
      (py_set (py_split CHR '','' (lgp_platform_set sample_log_params))) [Log_file ?f] ws = Some (Inr [Log_file ?f], ws)" for ws
    by (simp add: sample_log_params_def py_set_def collect_log_def sample_built_flavour_def bindP_def retP_def)
  have att: "\<exists>ws'. attach_to_set sample_log_env sample_cicd_cfg sample_log_params [sample_built_flavour] ?f logged_key (logged_set []) ws =
      Some (Inr (), ws')" for ws
    using logged_serialised [of "[]" "[?f]"] logged_set_attrs_files [of "logged_set []" "[?f]"]
    by (simp add: attach_to_set_def bindP_run(1) [OF coll] storing_def upload_release_manifest_set_def sample_log_env_sel
        with_logfiles_def logged_set_def sample_s3_def)
  have logs: "\<exists>ws'. attach_logs sample_log_env sample_cicd_cfg [] ''build,manifest,tests'' sample_log_params ''all'' ?f (PStr logged_key) ws =
      Some (Inr True, ws')" if "map_of (ws_store ws) (''bucket'', logged_key) = Some (numbered_dump (PDict (logged_dict [])))" for ws
  proof -
    have found: "find_logged_set sample_log_env ''bucket'' (PStr logged_key) (ws_store ws) = Inr (Some (logged_key, logged_set []))"
      using logged_fetch [OF that] by (simp add: find_logged_set_def sample_log_env_sel logged_key_def)
    obtain ws' where "attach_to_set sample_log_env sample_cicd_cfg sample_log_params [sample_built_flavour] ?f logged_key (logged_set []) ws =
      Some (Inr (), ws')" using att by blast
    then show ?thesis
      by (simp add: attach_logs_def sample_targets bindP_lift attach_logs_to_single_manifest_def bindP_def [of "retP ()"] retP_def
          sample_log_env_sel sample_fset_flavours bindP_store(1) [where r = "find_logged_set _ _ _", OF found] bindP_run(1))
  qed
  let ?k = "log_key sample_log_env (clock (ce_world sample_log_env) []) (lgp_committish sample_log_params) False"
  let ?s = "dict_set (''bucket'', ?k) ''zip'' (ws_store logged_workspace)"
  have "map_of ?s (''bucket'', logged_key) = Some (numbered_dump (PDict (logged_dict [])))"
    using key [symmetric] by (simp add: map_of_dict_set logged_workspace_def)
  then have "\<exists>ws'. attach_logs sample_log_env sample_cicd_cfg [] ''build,manifest,tests'' sample_log_params ''all'' ?f (PStr logged_key)
      (logged_workspace\<lparr>ws_calls := [now_call], ws_store := ?s, ws_files := files\<rparr>) = Some (Inr True, ws')" for files
    by (intro logs) simp
  moreover have "map_of (ws_files logged_workspace) ''/repo/build_log_full.zip'' = Some ''zip''"
    "''/repo/build_log_full.zip'' \<in> fst ` set (ws_files logged_workspace)" "ws_calls logged_workspace = []"
    by (simp_all add: logged_workspace_def)
  moreover have "s3_upload_fileobj sample_s3 ''bucket'' ?k ''zip'' (ws_store logged_workspace) = Inr ?s"
    by (simp add: sample_s3_def)
  ultimately show ?thesis
    by (simp add: attach_and_upload_logs_def Let_def prog_simps sample_log_env_sel path exists_path_def log_bucket_def
        upload_log_file_def del: path_join.simps)
qed



end
