(* ===== verification/Tekton_Status.thy ===== *)
theory Tekton_Status
  imports Timed_Waits Templates
begin

text \<open>
  \<open>ci/tkn/util.py\<close>: the state of a pipeline run as the command \<open>tkn\<close> reports it, and the loop that
  waits for the end of a run.  The conversions of the libraries (JSON, dacite, dateutil) are parameters.
\<close>

record tkn_condition =
  tc_lastTransitionTime :: string
  tc_message :: string
  tc_reason :: status_reason
  tc_status :: string
  tc_type :: string

record tkn_libs =
  tl_loads :: "string \<Rightarrow> pobj res"
  tl_condition :: "pobj \<Rightarrow> tkn_condition res"
  tl_isoparse :: "string \<Rightarrow> int res"

subsection \<open>Describing a run\<close>

definition which_call :: call where
  "which_call = mk_call [''shutil''] ''which'' [(''cmd'', PStr ''tkn'')]"

definition tkn_executable :: "world \<Rightarrow> pobj prog" where
  "tkn_executable w = bindP (ask w which_call) (\<lambda>tkn.
     if truthy tkn then retP tkn else raiseP (ValueError ''did not find `tkn` in PATH''))"

definition tkn_call :: "pobj \<Rightarrow> string list \<Rightarrow> string \<Rightarrow> call" where
  "tkn_call tkn args namespace = mk_call [''subprocess''] ''run''
     [(''args'', PList ([tkn, PStr ''--namespace'', PStr namespace] @ map PStr args @ [PStr ''-o'', PStr ''json'']))]"

definition run_tkn :: "world \<Rightarrow> string list \<Rightarrow> string \<Rightarrow> pobj prog" where
  "run_tkn w args namespace = bindP (tkn_executable w) (\<lambda>tkn. ask w (tkn_call tkn args namespace))"

definition describe_args :: "string \<Rightarrow> string list" where
  "describe_args name = [''pipelinerun'', ''describe'', name]"

definition parsed_run :: "tkn_libs \<Rightarrow> pobj \<Rightarrow> pobj res" where
  "parsed_run libs res =
     bindR (item ''returncode'' res) (\<lambda>returncode.
       if returncode \<noteq> PInt 0 then Inl (RuntimeError ''pipelinerun cmd'')
       else bindR (item_str ''stdout'' res) (tl_loads libs))"

definition pipelinerun :: "tkn_libs \<Rightarrow> world \<Rightarrow> string \<Rightarrow> string \<Rightarrow> pobj prog" where
  "pipelinerun libs w name namespace =
     bindP (run_tkn w (describe_args name) namespace) (\<lambda>res. liftP (parsed_run libs res))"

subsection \<open>The latest condition\<close>

definition conditions_of :: "tkn_libs \<Rightarrow> pobj \<Rightarrow> tkn_condition list res" where
  "conditions_of libs v =
     bindR (item ''status'' v) (\<lambda>st.
     bindR (item ''conditions'' st) (\<lambda>cs.
     bindR (as_list cs) (mapR (tl_condition libs))))"

definition keyed :: "tkn_libs \<Rightarrow> tkn_condition \<Rightarrow> (int \<times> tkn_condition) res" where
  "keyed libs c = bindR (tl_isoparse libs (tc_lastTransitionTime c)) (\<lambda>t. Inr (t, c))"

definition latest :: "(int \<times> tkn_condition) list \<Rightarrow> tkn_condition res" where
  "latest cs = (if cs = [] then Inl IndexError else Inr (snd (last (sort_key fst cs))))"

text \<open>\<open>None\<close>: the run has no status yet.\<close>

definition run_status :: "tkn_libs \<Rightarrow> pobj \<Rightarrow> tkn_condition option res" where
  "run_status libs v =
     bindR (has_item ''status'' v) (\<lambda>has.
       if \<not> has then Inr None
       else bindR (conditions_of libs v) (\<lambda>cs. bindR (mapR (keyed libs) cs) (\<lambda>ks.
            bindR (latest ks) (\<lambda>c. Inr (Some c)))))"

definition pipelinerun_status :: "tkn_libs \<Rightarrow> world \<Rightarrow> string \<Rightarrow> string \<Rightarrow> tkn_condition option prog" where
  "pipelinerun_status libs w name namespace =
     bindP (pipelinerun libs w name namespace) (\<lambda>d. liftP (run_status libs d))"

subsection \<open>Waiting for the end of a run\<close>

definition pending_reason :: "status_reason option \<Rightarrow> bool" where
  "pending_reason r \<longleftrightarrow> r \<in> {None, Some SR_RUNNING, Some SR_PIPELINE_RUN_STOPPING}"

text \<open>What a round of the loop does with the status, before the time is looked at.\<close>

definition judged :: "status_reason \<Rightarrow> tkn_condition option \<Rightarrow> unit option res" where
  "judged target status =
     (let reason = map_option tc_reason status in
      if reason = Some target then Inr (Some ())
      else if reason \<in> {Some SR_FAILED, Some SR_PIPELINE_RUN_CANCELLED} then Inl (RuntimeError ''pipelinerun failed'')
      else if pending_reason reason then Inr None
      else Inl (NotImplementedError ''reason''))"

definition status_look :: "tkn_libs \<Rightarrow> world \<Rightarrow> string \<Rightarrow> string \<Rightarrow> status_reason \<Rightarrow> int \<Rightarrow> int \<Rightarrow> int \<Rightarrow> unit option prog" where
  "status_look libs w name namespace target start_time timeout interval =
     bindP (pipelinerun_status libs w name namespace) (\<lambda>status.
     bindP (liftP (judged target status)) (\<lambda>decision. case decision of
         Some _ \<Rightarrow> retP (Some ())
       | None \<Rightarrow>
           bindP (nowP w) (\<lambda>now.
             if now - start_time > timeout * 1000000 then raiseP (RuntimeError ''timeout exceeded'')
             else bindP (sleepP interval) (\<lambda>_. retP None))))"

definition wait_for_pipelinerun_status :: "tkn_libs \<Rightarrow> world \<Rightarrow> string \<Rightarrow> string \<Rightarrow> status_reason \<Rightarrow> int \<Rightarrow> int \<Rightarrow> unit prog" where
  "wait_for_pipelinerun_status libs w name namespace target timeout interval =
     bindP (nowP w) (\<lambda>start_time. pollP (status_look libs w name namespace target start_time timeout interval))"

subsection \<open>The tasks of a run\<close>

record task_status_summary =
  tss_succeeded_names :: "string list"
  tss_pending_names :: "string list"
  tss_failed_details :: "(string \<times> string) list"

definition classify_taskrun :: "tkn_libs \<Rightarrow> pobj \<Rightarrow> task_status_summary \<Rightarrow> task_status_summary res" where
  "classify_taskrun libs tr s =
     bindR (run_status libs tr) (\<lambda>st.
     bindR (item_str ''pipelineTaskName'' tr) (\<lambda>tr_name.
       case st of
         None \<Rightarrow> Inl (AttributeError ''status'')
       | Some c \<Rightarrow>
           if map lower_char (tc_status c) = ''true''
           then Inr (s\<lparr>tss_succeeded_names := tss_succeeded_names s @ [tr_name]\<rparr>)
           else if map lower_char (tc_status c) = ''unknown''
           then Inr (s\<lparr>tss_pending_names := tss_pending_names s @ [tr_name]\<rparr>)
           else Inr (s\<lparr>tss_failed_details := tss_failed_details s @ [(tr_name, tc_message c)]\<rparr>)))"

definition pipeline_taskrun_status :: "tkn_libs \<Rightarrow> world \<Rightarrow> string \<Rightarrow> string \<Rightarrow> task_status_summary prog" where
  "pipeline_taskrun_status libs w name namespace =
     bindP (pipelinerun libs w name namespace) (\<lambda>d.
       liftP (bindR (item ''status'' d) (\<lambda>st. bindR (item ''taskRuns'' st) (\<lambda>trs. bindR (values_of trs) (\<lambda>taskruns.
         foldR (classify_taskrun libs) taskruns
           \<lparr>tss_succeeded_names = [], tss_pending_names = [], tss_failed_details = []\<rparr>)))))"

subsection \<open>The wait as a poller\<close>

text \<open>
  A world in which \<open>tkn\<close> is always found at the same place, and the clock as it stands when the loop
  compares times: after the two calls of the round.
\<close>

definition finding_tkn :: "world \<Rightarrow> pobj \<Rightarrow> world" where
  "finding_tkn w tkn = w\<lparr>answer := (\<lambda>h c. if c = which_call then Inr tkn else answer w h c)\<rparr>"

definition round_clock :: "world \<Rightarrow> call list \<Rightarrow> world" where
  "round_clock w calls = w\<lparr>clock := (\<lambda>h. clock w (h @ calls))\<rparr>"

definition describe_calls :: "pobj \<Rightarrow> string \<Rightarrow> string \<Rightarrow> call list" where
  "describe_calls tkn name namespace = [which_call, tkn_call tkn (describe_args name) namespace]"

text \<open>The status that a round after \<open>h\<close> reads.\<close>

definition status_at :: "tkn_libs \<Rightarrow> world \<Rightarrow> pobj \<Rightarrow> string \<Rightarrow> string \<Rightarrow> call list \<Rightarrow> tkn_condition option res" where
  "status_at libs w tkn name namespace h =
     bindR (answer w (h @ [which_call]) (tkn_call tkn (describe_args name) namespace)) (\<lambda>res.
     bindR (parsed_run libs res) (run_status libs))"

definition status_verdict :: "tkn_libs \<Rightarrow> world \<Rightarrow> pobj \<Rightarrow> string \<Rightarrow> string \<Rightarrow> status_reason \<Rightarrow> int \<Rightarrow> int \<Rightarrow> call list \<Rightarrow> unit option res" where
  "status_verdict libs w tkn name namespace target start_time timeout h =
     bindR (status_at libs w tkn name namespace h) (\<lambda>status. bindR (judged target status) (\<lambda>decision. case decision of
       Some _ \<Rightarrow> Inr (Some ())
     | None \<Rightarrow> if clock w (h @ describe_calls tkn name namespace) - start_time > timeout * 1000000
         then Inl (RuntimeError ''timeout exceeded'') else Inr None))"

lemma tkn_call_neq [simp]: "tkn_call tkn args namespace \<noteq> which_call"
  by (simp add: tkn_call_def which_call_def)

lemma bindP_ask_run:
  "answer w h c = Inr x \<Longrightarrow> bindP (ask w c) f h = f x (h @ [c])"
  "answer w h c = Inl e \<Longrightarrow> bindP (ask w c) f h = Some (Inl e, h @ [c])"
  by (simp_all add: bindP_ask)

lemma status_look_verdict:
  assumes "truthy tkn"
  shows "\<exists>h'. status_look libs (finding_tkn w tkn) name namespace target start_time timeout interval h =
      Some (status_verdict libs w tkn name namespace target start_time timeout h, h') \<and>
    (status_verdict libs w tkn name namespace target start_time timeout h = Inr None \<longrightarrow>
      h' = h @ describe_calls tkn name namespace @ [now_call, sleep_call interval])"
proof -
  let ?w = "finding_tkn w tkn" and ?c = "tkn_call tkn (describe_args name) namespace"
  have wh: "answer ?w h which_call = Inr tkn" by (simp add: finding_tkn_def)
  have look: "status_look libs ?w name namespace target start_time timeout interval h =
      bindP (ask ?w ?c) (\<lambda>res. bindP (liftP (parsed_run libs res)) (\<lambda>d. bindP (liftP (run_status libs d)) (\<lambda>status.
      bindP (liftP (judged target status)) (\<lambda>decision. case decision of
         Some _ \<Rightarrow> retP (Some ())
       | None \<Rightarrow> bindP (nowP ?w) (\<lambda>now.
             if now - start_time > timeout * 1000000 then raiseP (RuntimeError ''timeout exceeded'')
             else bindP (sleepP interval) (\<lambda>_. retP None)))))) (h @ [which_call])"
    using assms by (simp add: status_look_def pipelinerun_status_def pipelinerun_def run_tkn_def tkn_executable_def
        bindP_assoc bindP_ask_run(1) [OF wh] bindP_basic)
  have clk: "clock ?w = clock w" "answer ?w (h @ [which_call]) ?c = answer w (h @ [which_call]) ?c"
    by (simp_all add: finding_tkn_def)
  show ?thesis
  proof (cases "answer w (h @ [which_call]) ?c")
    case (Inl e)
    then show ?thesis by (simp add: look bindP_ask clk status_verdict_def status_at_def)
  next
    case (Inr res)
    show ?thesis
    proof (cases "bindR (parsed_run libs res) (run_status libs)")
      case (Inl e)
      then show ?thesis using Inr
        by (auto simp: look bindP_ask clk status_verdict_def status_at_def bindR_Inl_iff run_simps)
    next
      case (Inr st)
      then show ?thesis using \<open>answer _ _ _ = Inr res\<close>
        by (cases "judged target st")
          (auto simp: look bindP_ask clk status_verdict_def status_at_def bindR_Inr_iff run_simps retP_def raiseP_def
            describe_calls_def split: option.splits)
    qed
  qed
qed

interpretation run_wait: timed_poller
  "status_look libs (finding_tkn w (PStr (c # cs))) name namespace target start_time timeout interval"
  "describe_calls (PStr (c # cs)) name namespace @ [now_call, sleep_call interval]"
  "status_verdict libs w (PStr (c # cs)) name namespace target start_time timeout"
  "round_clock w (describe_calls (PStr (c # cs)) name namespace)" start_time "timeout * 1000000" horizon
  for libs w c cs name namespace target start_time timeout interval horizon
proof
  fix h
  let ?v = "status_verdict libs w (PStr (c # cs)) name namespace target start_time timeout h"
  have t: "truthy (PStr (c # cs))" by simp
  show "?v = Inr None \<Longrightarrow>
      status_look libs (finding_tkn w (PStr (c # cs))) name namespace target start_time timeout interval h =
      Some (Inr None, h @ describe_calls (PStr (c # cs)) name namespace @ [now_call, sleep_call interval])"
    using status_look_verdict [OF t, of libs w name namespace target start_time timeout interval h] by auto
  show "?v \<noteq> Inr None \<Longrightarrow> \<exists>h'. status_look libs (finding_tkn w (PStr (c # cs))) name namespace target start_time timeout interval h =
      Some (?v, h')"
    using status_look_verdict [OF t, of libs w name namespace target start_time timeout interval h] by blast
  show "timeout * 1000000 < clock (round_clock w (describe_calls (PStr (c # cs)) name namespace)) h - start_time \<Longrightarrow> ?v \<noteq> Inr None"
    by (auto simp: status_verdict_def round_clock_def bindR_Inr_iff split: option.splits)
qed

subsection \<open>Waiting ends, and with the target\<close>

text \<open>The calls before the round number \<open>n\<close> of a wait that starts after \<open>h\<close>.\<close>

definition before_round :: "string \<Rightarrow> string \<Rightarrow> string \<Rightarrow> int \<Rightarrow> call list \<Rightarrow> nat \<Rightarrow> call list" where
  "before_round tkn name namespace interval h n =
     h @ now_call # rounds (describe_calls (PStr tkn) name namespace @ [now_call, sleep_call interval]) n"

lemma wait_as_poll:
  "wait_for_pipelinerun_status libs (finding_tkn w tkn) name namespace target timeout interval h =
     pollP (status_look libs (finding_tkn w tkn) name namespace target (clock w h) timeout interval) (h @ [now_call])"
  by (simp add: wait_for_pipelinerun_status_def bindP_basic finding_tkn_def)

lemma verdict_reached:
  "status_verdict libs w tkn name namespace target start_time timeout h = Inr (Some ()) \<longleftrightarrow>
     (\<exists>c. status_at libs w tkn name namespace h = Inr (Some c) \<and> tc_reason c = target)"
  by (cases "status_at libs w tkn name namespace h")
    (auto simp: status_verdict_def judged_def Let_def split: option.splits if_splits)

text \<open>
  C36: the wait for a pipeline run always returns if the clock runs, whatever \<open>tkn\<close> reports, and it only
  returns without an exception after a round in which the latest condition of the run was the target.
\<close>

theorem pipelinerun_wait_ends:
  assumes "tkn \<noteq> []" "0 < lo" "0 \<le> timeout"
    and "clock_runs (round_clock w (describe_calls (PStr tkn) name namespace))
      (describe_calls (PStr tkn) name namespace @ [now_call, sleep_call interval]) lo hi"
    and "clock w (h @ now_call # describe_calls (PStr tkn) name namespace) \<le> clock w h + hi"
  shows "\<exists>r h'. wait_for_pipelinerun_status libs (finding_tkn w (PStr tkn)) name namespace target timeout interval h = Some (r, h') \<and>
    (r = Inr () \<longrightarrow> (\<exists>n c. status_at libs w (PStr tkn) name namespace (before_round tkn name namespace interval h n) = Inr (Some c) \<and>
       tc_reason c = target))"
proof -
  obtain c cs where tkn: "tkn = c # cs" using assms(1) by (cases tkn) auto
  have "\<exists>r. pollP (status_look libs (finding_tkn w (PStr (c # cs))) name namespace target (clock w h) timeout interval)
      (h @ [now_call]) = Some r"
    by (rule run_wait.ends [OF assms(4) [unfolded tkn] assms(2), where horizon = "timeout * 1000000 + hi + 1"])
      (use assms(3,5) tkn in \<open>simp_all add: round_clock_def\<close>)
  then obtain r h' where
    run: "pollP (status_look libs (finding_tkn w (PStr (c # cs))) name namespace target (clock w h) timeout interval)
      (h @ [now_call]) = Some (r, h')" by auto
  from run_wait.returned [OF run] obtain n where
    "status_verdict libs w (PStr tkn) name namespace target (clock w h) timeout
      (before_round tkn name namespace interval h n) = map_sum id Some r"
    by (auto simp: before_round_def tkn)
  then have "r = Inr () \<Longrightarrow> \<exists>c. status_at libs w (PStr tkn) name namespace (before_round tkn name namespace interval h n) = Inr (Some c) \<and>
      tc_reason c = target"
    by (simp add: verdict_reached [symmetric, of libs w "PStr tkn" name namespace _ target "clock w h" timeout])
  then show ?thesis using run unfolding wait_as_poll tkn by blast
qed

theorem pipelinerun_wait_ends_witness:
  "\<exists>w. \<forall>libs. \<exists>r h'. wait_for_pipelinerun_status libs (finding_tkn w (PStr ''/tkn'')) ''run'' ''ns'' SR_SUCCEEDED 2700 15 [] = Some (r, h')"
proof -
  define w :: world where
    "w = \<lparr>answer = (\<lambda>_ _. Inl (OtherException ''down'')), clock = (\<lambda>h. int (length h) * 10000000)\<rparr>"
  have "\<exists>r h'. wait_for_pipelinerun_status libs (finding_tkn w (PStr ''/tkn'')) ''run'' ''ns'' SR_SUCCEEDED 2700 15 [] = Some (r, h')"
    for libs
    using pipelinerun_wait_ends [of "''/tkn''" 40000000 2700 w "''run''" "''ns''" 15 40000000 "[]" libs SR_SUCCEEDED]
    by (auto simp: clock_runs_def w_def round_clock_def describe_calls_def)
  then show ?thesis by blast
qed

text \<open>
  C37: if a pipeline run is pending for some rounds, each within the time limit, and then reports the
  target, the wait returns successfully.
\<close>

theorem pipelinerun_wait_reaches:
  assumes "tkn \<noteq> []" "\<not> pending_reason (Some target)"
    and "\<And>m. m < n \<Longrightarrow> \<exists>st. status_at libs w (PStr tkn) name namespace (before_round tkn name namespace interval h m) = Inr st \<and>
      pending_reason (map_option tc_reason st) \<and>
      clock w (before_round tkn name namespace interval h m @ describe_calls (PStr tkn) name namespace) - clock w h
        \<le> timeout * 1000000"
    and "status_at libs w (PStr tkn) name namespace (before_round tkn name namespace interval h n) = Inr (Some c)"
    and "tc_reason c = target"
  shows "\<exists>h'. wait_for_pipelinerun_status libs (finding_tkn w (PStr tkn)) name namespace target timeout interval h = Some (Inr (), h')"
proof -
  obtain d ds where tkn: "tkn = d # ds" using assms(1) by (cases tkn) auto
  have pending: "status_verdict libs w (PStr tkn) name namespace target (clock w h) timeout
      (before_round tkn name namespace interval h m) = Inr None" if m: "m < n" for m
  proof -
    obtain st where "status_at libs w (PStr tkn) name namespace (before_round tkn name namespace interval h m) = Inr st"
      "pending_reason (map_option tc_reason st)" using assms(3) [OF m] by blast
    moreover from this(2) have "judged target st = Inr None"
      using assms(2) by (auto simp: judged_def pending_reason_def)
    ultimately show ?thesis using assms(3) [OF m] by (simp add: status_verdict_def)
  qed
  have "status_verdict libs w (PStr tkn) name namespace target (clock w h) timeout
      (before_round tkn name namespace interval h n) = Inr (Some ())"
    using assms(4,5) verdict_reached by blast
  then show ?thesis
    using run_wait.first_verdict [of n libs w d ds name namespace target "clock w h" timeout "h @ [now_call]" interval] pending
    unfolding wait_as_poll by (simp add: before_round_def tkn)
qed

text \<open>A run that is pending in two rounds and then has succeeded.\<close>

definition sample_tkn_libs :: tkn_libs where
  "sample_tkn_libs =
     \<lparr>tl_loads = (\<lambda>s. Inr (PDict [(''status'', PDict [(''conditions'', PList [PStr s])])])),
      tl_condition = (\<lambda>v. bindR (as_str v) (\<lambda>s. bindR (status_reason_of s) (\<lambda>r. Inr
        \<lparr>tc_lastTransitionTime = '''', tc_message = '''', tc_reason = r, tc_status = '''', tc_type = ''''\<rparr>))),
      tl_isoparse = (\<lambda>_. Inr 0)\<rparr>"

definition sample_run_world :: world where
  "sample_run_world =
     \<lparr>answer = (\<lambda>h c. Inr (PDict [(''returncode'', PInt 0),
        (''stdout'', PStr (if length h < 10 then ''Running'' else ''Succeeded''))])),
      clock = (\<lambda>h. int (length h) * 1000000)\<rparr>"

theorem pipelinerun_wait_reaches_witness:
  "\<exists>h'. wait_for_pipelinerun_status sample_tkn_libs (finding_tkn sample_run_world (PStr ''/tkn'')) ''run'' ''ns''
     SR_SUCCEEDED 2700 15 [] = Some (Inr (), h')"
proof -
  have len: "length (before_round ''/tkn'' ''run'' ''ns'' 15 [] m) = 4 * m + 1" for m
    by (induction m) (simp_all add: before_round_def rounds_Suc describe_calls_def)
  have st: "status_at sample_tkn_libs sample_run_world (PStr ''/tkn'') ''run'' ''ns'' (before_round ''/tkn'' ''run'' ''ns'' 15 [] m) =
      Inr (Some \<lparr>tc_lastTransitionTime = '''', tc_message = '''',
        tc_reason = (if m < 2 then SR_RUNNING else SR_SUCCEEDED), tc_status = '''', tc_type = ''''\<rparr>)" for m
    by (simp add: status_at_def sample_run_world_def sample_tkn_libs_def len parsed_run_def pget_def item_str_def run_status_def
        conditions_of_def keyed_def latest_def status_reason_of_def enum_of_def status_reason_members_def)
  have clk: "clock sample_run_world h = int (length h) * 1000000" for h
    by (simp add: sample_run_world_def)
  show ?thesis
    by (rule pipelinerun_wait_reaches [where n = 2 and c = "\<lparr>tc_lastTransitionTime = '''', tc_message = '''',
        tc_reason = SR_SUCCEEDED, tc_status = '''', tc_type = ''''\<rparr>"])
      (simp_all add: st pending_reason_def clk len describe_calls_def)
qed

end
