(* ===== verification/Notify.thy ===== *)
theory Notify
  imports Github Attach_Logs Tekton_Status
begin

text \<open>
  The mails and messages about a run: \<open>ci/glci/notify.py\<close>, \<open>ci/steps/notify.py\<close> and
  \<open>ci/wait_for_pipelinerun.py\<close>.  The mail server, Slack, git and the code owners are services; the
  conversion of HTML to text is a parameter.
\<close>

record email_cfg =
  em_smtp_host :: string
  em_username :: string
  em_passwd :: string
  em_sender_name :: string

record ('z, 's) notify_env = "('z, 's) step_env" +
  ne_loads :: "string \<Rightarrow> pobj res"
  ne_html2text :: "string \<Rightarrow> string"
  ne_email_cfg :: "string \<Rightarrow> email_cfg res"
  ne_tkn :: tkn_libs

subsection \<open>Mails\<close>

text \<open>A part of a mail: its kind, the name of an attached file, and the content.\<close>

record mail =
  ml_subject :: string
  ml_from :: string
  ml_to :: string
  ml_parts :: "(string \<times> string option \<times> string) list"

definition mail_obj :: "mail \<Rightarrow> pobj" where
  "mail_obj m = PDict [(''Subject'', PStr (ml_subject m)), (''From'', PStr (ml_from m)), (''To'', PStr (ml_to m)),
     (''parts'', PList (map (\<lambda>(kind, name, content). PList [PStr kind, opt_str name, PStr content]) (ml_parts m)))]"

definition mk_html_mail_body :: "(string \<Rightarrow> string) \<Rightarrow> string \<Rightarrow> string list \<Rightarrow> string \<Rightarrow> string \<Rightarrow> mail" where
  "mk_html_mail_body html2text txt recipients subject sender =
     \<lparr>ml_subject = subject, ml_from = sender, ml_to = py_join '', '' recipients,
      ml_parts = [(''html'', None, txt), (''text'', None, html2text txt)]\<rparr>"

definition mk_plain_text_body :: "string \<Rightarrow> string list \<Rightarrow> string \<Rightarrow> string \<Rightarrow> mail" where
  "mk_plain_text_body txt recipients subject sender =
     \<lparr>ml_subject = subject, ml_from = sender, ml_to = py_join '', '' recipients, ml_parts = [(''plain'', None, txt)]\<rparr>"

definition smtp_client :: "world \<Rightarrow> string \<Rightarrow> string \<Rightarrow> string \<Rightarrow> unit prog" where
  "smtp_client w host user passwd =
     bindP (ask w (mk_call [''smtplib''] ''SMTP_SSL'' [(''host'', PStr host)])) (\<lambda>_.
     bindP (ask w (mk_call [''smtp'', host] ''login'' [(''user'', PStr user), (''password'', PStr passwd)])) (\<lambda>_. retP ()))"

definition send_message_call :: "string \<Rightarrow> mail \<Rightarrow> string option \<Rightarrow> call" where
  "send_message_call host msg from_addr = mk_call [''smtp'', host] ''send_message''
     ((case from_addr of None \<Rightarrow> [] | Some a \<Rightarrow> [(''from_addr'', PStr a)]) @ [(''msg'', mail_obj msg)])"

definition send_mail :: "world \<Rightarrow> string \<Rightarrow> string \<Rightarrow> mail \<Rightarrow> unit prog" where
  "send_mail w host sender msg = bindP (ask w (send_message_call host msg (Some sender))) (\<lambda>_. retP ())"

definition email_smtp_client :: "world \<Rightarrow> email_cfg \<Rightarrow> unit prog" where
  "email_smtp_client w cfg = smtp_client w (em_smtp_host cfg) (em_username cfg) (em_passwd cfg)"

definition head_commit_call :: call where
  "head_commit_call = mk_call [''git.Repo''] ''head.commit'' []"

definition determine_email_notification_recipients :: "world \<Rightarrow> string list prog" where
  "determine_email_notification_recipients w =
     bindP (ask w head_commit_call) (\<lambda>c.
       liftP (bindR (item_str ''author_email'' c) (\<lambda>a. bindR (item_str ''committer_email'' c) (\<lambda>b. Inr (py_set [a, b])))))"

subsection \<open>Waiting for a run, and the mail after a failure\<close>

definition nl :: string where
  "nl = [newline]"

definition error_mail_html :: "string \<Rightarrow> string \<Rightarrow> string list \<Rightarrow> string" where
  "error_mail_html committish commit_msg failed_task_names =
     nl @ ''        <em>This is to inform you about a build error</em>'' @ nl @ ''        <ul>'' @ nl @
     ''            <li>committish: '' @ committish @ ''</li>'' @ nl @
     ''            <li>commit-msg: '' @ commit_msg @ ''</li>'' @ nl @ ''        </ul>'' @ nl @
     ''        The following pipeline tasks failed:'' @ nl @ ''        <ul>'' @ nl @
     ''            '' @ py_join nl (map (\<lambda>name. ''<li>'' @ name @ ''</li>'') failed_task_names) @ nl @
     ''        </ul>'' @ nl @ ''    ''"

text \<open>
  \<open>send_mail\<close> has no parameter \<open>recipients\<close>: the call raises after its arguments were evaluated, the
  connection to the mail server included.
\<close>

definition notify_failure :: "('z, 's, 'x) notify_env_scheme \<Rightarrow> string \<Rightarrow> string \<Rightarrow> cicd_cfg \<Rightarrow> unit prog" where
  "notify_failure env pipelinerun_name namespace cfg =
     (let w = ce_world env in
     bindP (liftP (ne_email_cfg env (nc_email_cfg_name (cc_notify cfg)))) (\<lambda>email.
     bindP (pipeline_taskrun_status (ne_tkn env) w pipelinerun_name namespace) (\<lambda>task_status.
     bindP (determine_email_notification_recipients w) (\<lambda>recipients.
     bindP (ask w head_commit_call) (\<lambda>c.
     bindP (liftP (item_str ''hexsha'' c)) (\<lambda>committish.
     bindP (liftP (item_str ''message'' c)) (\<lambda>commit_msg.
     (let mail_msg = mk_html_mail_body (ne_html2text env)
            (error_mail_html committish commit_msg (map fst (tss_failed_details task_status))) recipients
            ''[Action Required] - gardenlinux build failed'' (em_sender_name email) in
     bindP (email_smtp_client w email) (\<lambda>_.
       raiseP (TypeError ''recipients''))))))))))"

record wait_args =
  wa_pipelinerun_name :: "string option"
  wa_pipelinerun_file :: "string option"
  wa_namespace :: string
  wa_cicd_cfg :: string
  wa_send_notification :: bool

definition given :: "string option \<Rightarrow> bool" where
  "given a \<longleftrightarrow> a \<noteq> None \<and> a \<noteq> Some []"

definition pipelinerun_to_wait_for :: "('z, 's, 'x) notify_env_scheme \<Rightarrow> wait_args \<Rightarrow> ('s workspace, string) proc" where
  "pipelinerun_to_wait_for env a =
     (if given (wa_pipelinerun_file a) = given (wa_pipelinerun_name a)
      then raiseP (ValueError ''exactly ony of pipelinerun-name or -file must be given'')
      else case (if given (wa_pipelinerun_file a) then wa_pipelinerun_file a else None) of
          Some path \<Rightarrow>
            bindP (read_file path) (\<lambda>content.
              liftP (bindR (cd_safe_load (se_codec env) content) (\<lambda>parsed.
                bindR (pget ''metadata'' parsed) (item_str ''name''))))
        | None \<Rightarrow> retP (case wa_pipelinerun_name a of Some n \<Rightarrow> n | None \<Rightarrow> []))"

definition wait_for_pipelinerun_main :: "('z, 's, 'x) notify_env_scheme \<Rightarrow> wait_args \<Rightarrow> ('s workspace, unit) proc" where
  "wait_for_pipelinerun_main env a =
     bindP (liftP (se_cicd_cfg env (wa_cicd_cfg a))) (\<lambda>cfg.
     bindP (pipelinerun_to_wait_for env a) (\<lambda>name.
       catchP
         (calling (wait_for_pipelinerun_status (ne_tkn env) (ce_world env) name (wa_namespace a) SR_SUCCEEDED (60 * 45) 15))
         (\<lambda>e. case e of
            RuntimeError msg \<Rightarrow>
              bindP (if wa_send_notification a then calling (notify_failure env name (wa_namespace a) cfg) else retP ())
                (\<lambda>_. raiseP e)
          | _ \<Rightarrow> raiseP e)))"

subsection \<open>The notification step\<close>

record notify_params =
  np_branch :: string
  np_cicd_cfg_name :: string
  np_committish :: string
  np_disable_notifications :: string
  np_namespace :: string
  np_giturl :: string
  np_pipeline_name :: string
  np_pipeline_run_name :: string
  np_repo_dir :: string
  np_status_dict_str :: string
  np_pr_id :: "string option"
  np_additional_recipients :: "string option"
  np_only_recipients :: "string option"
  np_recipients_plaintext :: "string list"

text \<open>\<open>distutils.util.strtobool\<close>\<close>

definition strtobool :: "string \<Rightarrow> bool res" where
  "strtobool s =
     (let v = map lower_char s in
      if v \<in> {''y'', ''yes'', ''t'', ''true'', ''on'', ''1''} then Inr True
      else if v \<in> {''n'', ''no'', ''f'', ''false'', ''off'', ''0''} then Inr False
      else Inl (ValueError ''invalid truth value''))"

fun items_of :: "pobj \<Rightarrow> (string \<times> pobj) list res" where
  "items_of (PDict d) = Inr d"
| "items_of v = Inl (AttributeError ''values'')"

definition succeeded :: "pobj \<Rightarrow> bool" where
  "succeeded status \<longleftrightarrow> status = PStr ''Succeeded''"

definition run_failed_tasks :: "(string \<times> pobj) list \<Rightarrow> bool" where
  "run_failed_tasks statuses \<longleftrightarrow> \<not> list_all (succeeded \<circ> snd) statuses"

definition status_symbol :: "pobj \<Rightarrow> string" where
  "status_symbol status =
     (if succeeded status then ''&#9989;'' else if status = PStr ''Failed'' then ''&#10060;'' else ''?'')"

definition html_result_table :: "(string \<times> pobj) list \<Rightarrow> string" where
  "html_result_table statuses = concat (map (\<lambda>(task, status).
     ''<tr><td class=\"align_left\">'' @ task @ ''</td><td>'' @ status_symbol status @ ''</td></tr>'') statuses)"

definition txt_result_table :: "(string \<times> pobj) list \<Rightarrow> string res" where
  "txt_result_table statuses = bindR (mapR (\<lambda>(task, status). bindR (as_str status) (\<lambda>t.
     Inr (''Task: '' @ task @ nl @ ''Status: '' @ t @ nl))) statuses) (\<lambda>ls. Inr (concat ls))"

definition recipient_set :: "string option \<Rightarrow> string list res" where
  "recipient_set s = (case s of
     None \<Rightarrow> Inl (AttributeError ''strip'')
   | Some t \<Rightarrow> Inr (py_set (filter (\<lambda>e. e \<noteq> []) (py_split CHR '';'' (py_strip t)))))"

definition read_or :: "string \<Rightarrow> (string \<Rightarrow> 'a) \<Rightarrow> 'a \<Rightarrow> ('s workspace, 'a) proc" where
  "read_or path f other =
     bindP (exists_path path) (\<lambda>found. if found then bindP (read_file path) (\<lambda>c. retP (f c)) else retP other)"

definition first_line :: "string \<Rightarrow> string" where
  "first_line content = (case file_lines content of [] \<Rightarrow> [] | l # _ \<Rightarrow> l)"

definition dashboard_url :: "string \<Rightarrow> string \<Rightarrow> string" where
  "dashboard_url namespace run = ''https://tekton-dashboard.gardenlinux.io/#/namespaces/'' @ namespace @ ''/pipelineruns/'' @ run"

definition gl_logo :: "string \<Rightarrow> string" where
  "gl_logo svg = py_replace svg ''<svg data-name=\"Layer 1\"'' ''<svg data-name=\"gl_logo\" width=\"100px\"''"

text \<open>The values of the templates, the table of the states apart.\<close>

definition mail_values :: "notify_params \<Rightarrow> ('s workspace, (string \<times> string) list) proc" where
  "mail_values p =
     (let repo = np_repo_dir p in
     bindP (read_file (path_join repo [''logo/gardenlinux_minified.svg''])) (\<lambda>logo_svg.
     bindP (read_or (path_join repo [''log_url.txt'']) (\<lambda>c. (py_strip (first_line c), ''here'')) (''#'', ''<not available>''))
       (\<lambda>(log_url_href, log_url_descr).
     bindP (read_or (path_join repo [''failed_summary.txt'']) id ''<Logs not available.>'') (\<lambda>log_text.
       retP [(''branch'', np_branch p), (''commit'', np_committish p), (''pipeline'', np_pipeline_name p),
         (''dashboard_url'', dashboard_url (np_namespace p) (np_pipeline_run_name p)), (''namespace'', np_namespace p),
         (''logo_src'', gl_logo logo_svg), (''log_url_href'', log_url_href), (''log_url_descr'', log_url_descr),
         (''pipeline_run'', np_pipeline_run_name p), (''log_excerpt'', log_text)]))))"

definition attach_and_send :: "world \<Rightarrow> string \<Rightarrow> mail \<Rightarrow> email_cfg \<Rightarrow> ('s workspace, unit) proc" where
  "attach_and_send w repo_dir msg email =
     bindP (read_or (path_join repo_dir [''build_log.zip''])
       (\<lambda>zip_data. msg\<lparr>ml_parts := ml_parts msg @ [(''zip'', Some ''build_log.zip'', zip_data)]\<rparr>) msg) (\<lambda>msg.
     bindP (calling (email_smtp_client w email)) (\<lambda>_.
     bindP (calling (ask w (send_message_call (em_smtp_host email) msg None))) (\<lambda>_. retP ())))"

definition codeowners_call :: "pobj \<Rightarrow> string \<Rightarrow> call" where
  "codeowners_call github_api repo_dir = mk_call [''mailutil''] ''determine_local_repository_codeowners_recipients''
     [(''github_api'', github_api), (''src_dirs'', PList [PStr repo_dir])]"

definition default_recipients :: "world \<Rightarrow> pobj \<Rightarrow> string \<Rightarrow> string list prog" where
  "default_recipients w cfg repo_dir =
     bindP (ask w (mk_call [''ccc.github''] ''github_api'' [(''github_cfg'', cfg)])) (\<lambda>github_api.
     bindP (ask w (codeowners_call github_api repo_dir)) (\<lambda>r.
       liftP (bindR (as_list r) (\<lambda>rs. bindR (mapR as_str rs) (\<lambda>owners. Inr (py_set owners))))))"

definition post_to_slack :: "world \<Rightarrow> string \<Rightarrow> string \<Rightarrow> string \<Rightarrow> string \<Rightarrow> string \<Rightarrow> string \<Rightarrow> ('s workspace, unit) proc" where
  "post_to_slack w repo_dir branch dashboard slack_cfg_name channel title =
     bindP (calling (ask w (mk_call [''ccc.slack''] ''client'' [(''slack_cfg_name'', PStr slack_cfg_name)]))) (\<lambda>_.
     (let log_zip = path_join repo_dir [''build_log.zip''];
          intro = ''Tekton Pipeline for branch `'' @ branch @
            ''` failed. To see the job in the dashboard, use the following link: '' @ dashboard in
     bindP (exists_path log_zip) (\<lambda>found.
     bindP (calling (ask w
         (if found
          then mk_call [''slack''] ''files_upload'' [(''file'', PStr log_zip), (''channels'', PStr channel),
            (''initial_comment'', PStr intro), (''title'', PStr title), (''filetype'', PStr ''zip'')]
          else mk_call [''slack''] ''chat_postMessage'' [(''channel'', PStr channel),
            (''text'', PStr (intro @ ''.'' @ nl @ '' No build log available''))]))) (\<lambda>response.
     bindP (liftP (item ''ok'' response)) (\<lambda>ok.
       if truthy ok then retP ()
       else bindP (liftP (item ''error'' response)) (\<lambda>_. raiseP (RuntimeError ''failed to post to slack channel'')))))))"

text \<open>
  The end of the step: a file of a step that failed before is meant to end it with the exit code 1, but
  it is opened without its name.
\<close>

definition check_status_file :: "string \<Rightarrow> ('s workspace, unit) proc" where
  "check_status_file repo_dir =
     bindP (exists_path (path_join repo_dir [''status.txt''])) (\<lambda>found.
       if found then raiseP (TypeError ''open'') else retP ())"

definition send_mails :: "('z, 's, 'x) notify_env_scheme \<Rightarrow> notify_params \<Rightarrow> email_cfg \<Rightarrow> string list \<Rightarrow> string \<Rightarrow> string \<Rightarrow>
    ('s workspace, unit) proc" where
  "send_mails env p email recipients html_mail_body txt_mail_body =
     (let w = ce_world env; subject = ''Garden Linux build failure in '' @ np_pipeline_name p @ '' in branch '' @ np_namespace p;
          html_recipients = filter (\<lambda>r. r \<notin> set (np_recipients_plaintext p)) recipients in
     bindP (if html_recipients \<noteq> []
         then attach_and_send w (np_repo_dir p) (mk_html_mail_body (ne_html2text env) html_mail_body html_recipients subject
           (em_sender_name email)) email
         else retP ()) (\<lambda>_.
       if np_recipients_plaintext p \<noteq> []
       then attach_and_send w (np_repo_dir p) (mk_plain_text_body txt_mail_body (np_recipients_plaintext p) subject
         (em_sender_name email)) email
       else retP ()))"

text \<open>What follows once a mail must be sent.\<close>

definition notify_recipients :: "('z, 's, 'x) notify_env_scheme \<Rightarrow> notify_params \<Rightarrow> (string \<times> pobj) list \<Rightarrow> pobj \<Rightarrow>
    string list \<Rightarrow> string list \<Rightarrow> ('s workspace, unit) proc" where
  "notify_recipients env p statuses gh_cfg additional only =
     (let w = ce_world env; repo = np_repo_dir p in
     bindP (liftP (txt_result_table statuses)) (\<lambda>txt_table.
     bindP (liftP (se_cicd_cfg env (np_cicd_cfg_name p))) (\<lambda>cfg.
     bindP (liftP (ne_email_cfg env (nc_email_cfg_name (cc_notify cfg)))) (\<lambda>email.
     bindP (read_file (path_join repo [''ci/templates/email_notification.html''])) (\<lambda>html_mail_template.
     bindP (read_file (path_join repo [''ci/templates/email_notification.txt''])) (\<lambda>txt_mail_template.
     bindP (mail_values p) (\<lambda>vals.
     (let html_mail_body = safe_substitute ((''status_table'', html_result_table statuses) # vals) html_mail_template;
          txt_mail_body = safe_substitute ((''status_table'', txt_table) # vals) txt_mail_template in
     bindP (if only \<noteq> [] then retP only else calling (default_recipients w gh_cfg repo)) (\<lambda>base.
     (let recipients = py_set (base @ additional) in
       if recipients = [] then retP ()
       else
         bindP (send_mails env p email recipients html_mail_body txt_mail_body) (\<lambda>_.
         bindP (if np_branch p \<in> set (nc_branches (cc_notify cfg)) \<and> np_namespace p = np_branch p
             then post_to_slack w repo (np_branch p) (dashboard_url (np_namespace p) (np_pipeline_run_name p))
               (nc_slack_cfg_name (cc_notify cfg)) (nc_slack_channel (cc_notify cfg)) ''Build Logs''
             else retP ()) (\<lambda>_. check_status_file repo))))))))))))"

definition pull_request :: "string option \<Rightarrow> bool res" where
  "pull_request pr_id = (case pr_id of
     None \<Rightarrow> Inr False
   | Some s \<Rightarrow> if s = [] then Inr False else bindR (py_int s) (\<lambda>i. Inr (0 < i)))"

definition send_notification :: "('z, 's, 'x) notify_env_scheme \<Rightarrow> notify_params \<Rightarrow> ('s workspace, unit) proc" where
  "send_notification env p =
     (let w = ce_world env in
     bindP (liftP (bindR (ne_loads env (np_status_dict_str p)) items_of)) (\<lambda>statuses.
     bindP (calling (github_cfg w (np_giturl p))) (\<lambda>cfg.
     bindP (calling (post_github_status w
         \<lparr>sta_git_url = np_giturl p, sta_committish = np_committish p,
          sta_state = (if run_failed_tasks statuses then GHS_FAILURE else GHS_SUCCESS),
          sta_target_url = Some (dashboard_url (np_namespace p) (np_pipeline_run_name p)),
          sta_description = Some ''Pipeline run finished'', sta_context = ''tekton-pipelines''\<rparr>)) (\<lambda>_.
     bindP (liftP (strtobool (np_disable_notifications p))) (\<lambda>disabled.
       if disabled then retP ()
       else bindP (liftP (pull_request (np_pr_id p))) (\<lambda>pr.
         if pr then retP ()
         else
           bindP (liftP (recipient_set (np_additional_recipients p))) (\<lambda>additional.
           bindP (liftP (recipient_set (np_only_recipients p))) (\<lambda>only.
             if \<not> run_failed_tasks statuses then retP ()
             else notify_recipients env p statuses cfg additional only))))))))"

end
