(* ===== verification/Notify_Properties.thy ===== *)
theory Notify_Properties
  imports Notify
begin

text \<open>When nobody is notified, and where the notification of a failure fails itself.\<close>

subsection \<open>Runs without a mail\<close>

text \<open>The calls of the GitHub status.\<close>

definition status_call :: "notify_params \<Rightarrow> bool \<Rightarrow> call" where
  "status_call p failed = create_status_call
     \<lparr>sta_git_url = np_giturl p, sta_committish = np_committish p, sta_state = (if failed then GHS_FAILURE else GHS_SUCCESS),
      sta_target_url = Some (dashboard_url (np_namespace p) (np_pipeline_run_name p)),
      sta_description = Some ''Pipeline run finished'', sta_context = ''tekton-pipelines''\<rparr>"

definition github_read :: "call \<Rightarrow> bool" where
  "github_read c \<longleftrightarrow> c_client c \<in> {[''ccc.github''], [''github_api'']}"

lemma github_repo_reads: "guarded (\<lambda>_. github_read) (github_repo w giturl) h"
  by (auto simp: github_repo_def github_cfg_def github_read_def github_cfg_call_def split: prod.splits
      intro!: guarded_intros)

lemma post_github_status_run:
  assumes "post_github_status w a h = Some (r, h')"
  shows "\<exists>cs. list_all github_read cs \<and> (h' = h @ cs \<and> r \<noteq> Inr () \<or> h' = h @ cs @ [create_status_call a])"
proof -
  obtain q g where q: "github_repo w (sta_git_url a) h = Some (q, g)"
    using assms by (cases "github_repo w (sta_git_url a) h") (auto simp: post_github_status_def bindP_def)
  obtain cs where cs: "g = h @ cs" "list_all github_read cs"
    using guardedD [OF github_repo_reads q] by (auto simp: ok_calls_plain)
  have "h' = h @ cs \<and> r \<noteq> Inr () \<or> h' = h @ cs @ [create_status_call a]"
    using assms q cs(1)
    by (cases q) (auto simp: post_github_status_def bindP_def ask_def retP_def split: sum.splits)
  then show ?thesis using cs(2) by blast
qed

text \<open>
  C29: nobody is bothered without need. If all tasks of a run have succeeded, notifications are disabled
  or the run is that of a pull request, the notification step makes no call but those that set the
  status of the commit (to failure exactly if a task has not succeeded), and leaves the files alone;
  if it ends normally the status was set.
\<close>

theorem notification_quiet:
  assumes "ne_loads env (np_status_dict_str p) = Inr (PDict statuses)"
    and "strtobool (np_disable_notifications p) = Inr disabled" and "pull_request (np_pr_id p) = Inr pr"
    and "disabled \<or> pr \<or> list_all (succeeded \<circ> snd) statuses"
    and "send_notification env p ws = Some (r, ws')"
  shows "\<exists>cs. list_all github_read cs \<and> ws_files ws' = ws_files ws \<and> ws_store ws' = ws_store ws \<and>
    (ws_calls ws' = ws_calls ws @ cs \<and> r \<noteq> Inr () \<or>
     ws_calls ws' = ws_calls ws @ cs @ [status_call p (run_failed_tasks statuses)])"
proof -
  let ?w = "ce_world env"
  let ?a = "\<lparr>sta_git_url = np_giturl p, sta_committish = np_committish p,
      sta_state = (if run_failed_tasks statuses then GHS_FAILURE else GHS_SUCCESS),
      sta_target_url = Some (dashboard_url (np_namespace p) (np_pipeline_run_name p)),
      sta_description = Some ''Pipeline run finished'', sta_context = ''tekton-pipelines''\<rparr>"
  let ?c = "github_cfg_call (np_giturl p)"
  have read: "github_read ?c" by (simp add: github_read_def github_cfg_call_def)
  have quiet: "disabled \<or> pr \<or> \<not> run_failed_tasks statuses" using assms(4) by (simp add: run_failed_tasks_def)
  show ?thesis
  proof (cases "answer ?w (ws_calls ws) ?c")
    case (Inl e)
    then have "r = Inl e" "ws' = ws\<lparr>ws_calls := ws_calls ws @ [?c]\<rparr>"
      using assms(5) by (simp_all add: send_notification_def Let_def assms(1) bindP_def liftP_def calling_def github_cfg_def ask_def)
    then show ?thesis using read by (intro exI [of _ "[?c]"]) simp
  next
    case (Inr cfg)
    let ?h = "ws_calls ws @ [?c]"
    obtain q h where q: "post_github_status ?w ?a ?h = Some (q, h)"
      using assms(5) Inr
      by (cases "post_github_status ?w ?a ?h")
        (auto simp: send_notification_def Let_def assms(1) bindP_def liftP_def calling_def github_cfg_def ask_def)
    from post_github_status_run [OF q] obtain cs where
      cs: "list_all github_read cs" "h = ?h @ cs \<and> q \<noteq> Inr () \<or> h = ?h @ cs @ [create_status_call ?a]" by blast
    have end_state: "ws' = ws\<lparr>ws_calls := h\<rparr>" "q \<noteq> Inr () \<longrightarrow> r \<noteq> Inr ()"
      using assms(5) Inr q quiet assms(2,3)
      by (auto simp: send_notification_def Let_def assms(1) bindP_def liftP_def calling_def github_cfg_def ask_def retP_def
          split: sum.splits if_splits)
    show ?thesis
      using cs end_state read by (intro exI [of _ "?c # cs"]) (auto simp: status_call_def)
  qed
qed

text \<open>The default URL of the pipelines; a run whose tasks have all succeeded.\<close>

lemma default_giturl:
  "url_hostname ''ssh://git@github.com/gardenlinux/gardenlinux'' = Some ''github.com''"
  "org_and_repo ''ssh://git@github.com/gardenlinux/gardenlinux'' = Inr (''gardenlinux'', ''gardenlinux'')"
  by code_simp+

definition quiet_params :: notify_params where
  "quiet_params = \<lparr>np_branch = ''main'', np_cicd_cfg_name = ''default'', np_committish = ''0123'', np_disable_notifications = ''false'',
     np_namespace = ''main'', np_giturl = ''ssh://git@github.com/gardenlinux/gardenlinux'', np_pipeline_name = ''gl'',
     np_pipeline_run_name = ''gl-1'', np_repo_dir = ''/repo'', np_status_dict_str = ''json'', np_pr_id = None,
     np_additional_recipients = Some '''', np_only_recipients = Some '''', np_recipients_plaintext = []\<rparr>"

definition silent_world :: world where
  "silent_world = \<lparr>answer = (\<lambda>_ _. Inr PNone), clock = (\<lambda>h. int (length h))\<rparr>"

theorem notification_quiet_witness:
  "\<forall>env ws. \<exists>r ws' cs. send_notification (env\<lparr>ne_loads := (\<lambda>s. Inr (PDict [(''build'', PStr ''Succeeded'')])), ce_world := silent_world\<rparr>)
      quiet_params ws = Some (r, ws') \<and> list_all github_read cs \<and>
    (ws_calls ws' = ws_calls ws @ cs \<and> r \<noteq> Inr () \<or> ws_calls ws' = ws_calls ws @ cs @ [status_call quiet_params False])"
proof (intro allI)
  fix env :: "('a, 'b, 'c) notify_env_scheme" and ws :: "'b workspace"
  let ?env = "env\<lparr>ne_loads := (\<lambda>s. Inr (PDict [(''build'', PStr ''Succeeded'')])), ce_world := silent_world\<rparr>"
  have bools: "strtobool ''false'' = Inr False" by code_simp
  have "\<exists>r ws'. send_notification ?env quiet_params ws = Some (r, ws')"
    by (simp add: send_notification_def quiet_params_def Let_def bindP_def liftP_def calling_def github_cfg_def ask_def
        silent_world_def post_github_status_def github_repo_def default_giturl(2) bools pull_request_def recipient_set_def
        run_failed_tasks_def succeeded_def retP_def)
  then obtain r ws' where run: "send_notification ?env quiet_params ws = Some (r, ws')" by blast
  have "\<exists>cs. list_all github_read cs \<and> ws_files ws' = ws_files ws \<and> ws_store ws' = ws_store ws \<and>
    (ws_calls ws' = ws_calls ws @ cs \<and> r \<noteq> Inr () \<or>
     ws_calls ws' = ws_calls ws @ cs @ [status_call quiet_params (run_failed_tasks [(''build'', PStr ''Succeeded'')])])"
    by (rule notification_quiet [OF _ _ _ _ run, where disabled = False and pr = False]) (simp_all add: quiet_params_def bools pull_request_def succeeded_def)
  then show "\<exists>r ws' cs. send_notification ?env quiet_params ws = Some (r, ws') \<and> list_all github_read cs \<and>
    (ws_calls ws' = ws_calls ws @ cs \<and> r \<noteq> Inr () \<or> ws_calls ws' = ws_calls ws @ cs @ [status_call quiet_params False])"
    using run by (auto simp: run_failed_tasks_def succeeded_def)
qed

subsection \<open>Failures of the notification\<close>

text \<open>The script that waits for a run cannot send its mail.\<close>

lemma notify_failure_fails:
  assumes "notify_failure env name namespace cfg h = Some (r, h')"
  shows "\<exists>e. r = Inl e"
  using assms by (cases r) (auto simp: notify_failure_def Let_def prog_simps)

text \<open>The file that reports a failed upload of the logs ends the step with an exception, not with the exit code 1.\<close>

lemma status_file_fails:
  assumes "path_join repo [''status.txt''] \<in> fst ` set (ws_files ws)"
  shows "check_status_file repo ws = Some (Inl (TypeError ''open''), ws)"
  using assms by (simp add: check_status_file_def exists_path_def bindP_def isfile_def isdir_def retP_def raiseP_def
      del: path_join.simps)

end
