(* ===== verification/Run_Tests.thy ===== *)
theory Run_Tests
  imports Attach_Logs
begin

text \<open>
  \<open>ci/steps/run_tests.py\<close>: the integration tests of an image.  pytest is a service; \<open>re_dump\<close> writes a test
  result to the file from which the upload step loads it.
\<close>

record ('z, 's) run_env = "('z, 's) step_env" +
  re_dump :: "release_test_result \<Rightarrow> string"

record test_run_parameters =
  trp_architecture :: string
  trp_cicd_cfg_name :: string
  trp_gardenlinux_epoch :: string
  trp_modifiers :: "string list"
  trp_platform :: string
  trp_repo_dir :: string
  trp_suite :: string
  trp_snapshot_timestamp :: string
  trp_version :: string
  trp_committish :: string

record test_args =
  ta_architecture :: string
  ta_cicd_cfg_name :: string
  ta_gardenlinux_epoch :: string
  ta_modifiers :: string
  ta_platform :: string
  ta_build_targets :: string
  ta_repo_dir :: string
  ta_suite :: string
  ta_snapshot_timestamp :: string
  ta_version :: string
  ta_committish :: string
  ta_pytest_cfg :: "string option"

definition get_test_suite_from_platform :: "string \<Rightarrow> string \<Rightarrow> string option" where
  "get_test_suite_from_platform arch platform =
     (if arch = ''amd64'' \<and> platform \<in> {''ali'', ''aws'', ''azure'', ''gcp'', ''openstack''} then Some platform else None)"

text \<open>
  \<open>TESTS in build_targets\<close>, where \<open>build_targets\<close> is a generator: the actions are converted one after the
  other until the target is met, so an unknown action after it is not noticed.
\<close>

fun tests_requested :: "string list \<Rightarrow> bool res" where
  "tests_requested [] = Inr False"
| "tests_requested (action # actions) =
     bindR (build_target_of (py_strip action)) (\<lambda>t. if t = TESTS then Inr True else tests_requested actions)"

text \<open>\<open>s.split()\<close>: the words of a text.\<close>

fun words_from :: "string \<Rightarrow> string \<Rightarrow> string list" where
  "words_from word [] = (if word = [] then [] else [word])"
| "words_from word (c # cs) =
     (if py_isspace c then (if word = [] then words_from [] cs else word # words_from [] cs)
      else words_from (word @ [c]) cs)"

text \<open>The arguments of pytest for an architecture and a platform, from the profile of the configuration.\<close>

definition profile_arg :: "pobj \<Rightarrow> string \<Rightarrow> string \<Rightarrow> pobj res" where
  "profile_arg test_profile arch platform =
     bindR (item ''architecture'' test_profile) (\<lambda>archs.
     bindR (has_item arch archs) (\<lambda>known.
       if \<not> known then Inr PNone
       else bindR (item arch archs) (\<lambda>sub_cfg.
            bindR (item ''platform'' sub_cfg) (\<lambda>platforms.
            bindR (has_item platform platforms) (\<lambda>has.
              if has then item platform platforms else Inr PNone)))))"

text \<open>\<open>None\<close>: the profile does not exist.\<close>

definition find_profile :: "(string \<times> pobj) list \<Rightarrow> string \<Rightarrow> pobj option res" where
  "find_profile test_cfgs cfg_name =
     (let cfgs = (case map_of test_cfgs ''test_cfgs'' of None \<Rightarrow> PNone | Some v \<Rightarrow> v) in
      if \<not> truthy cfgs then Inr None
      else bindR (has_item cfg_name cfgs) (\<lambda>has.
        if has then bindR (item cfg_name cfgs) (\<lambda>v. Inr (Some v)) else Inr None))"

definition params_obj :: "test_run_parameters \<Rightarrow> pobj" where
  "params_obj p = PDict [(''architecture'', PStr (trp_architecture p)), (''cicd_cfg_name'', PStr (trp_cicd_cfg_name p)),
     (''gardenlinux_epoch'', PStr (trp_gardenlinux_epoch p)), (''modifiers'', PList (map PStr (trp_modifiers p))),
     (''platform'', PStr (trp_platform p)), (''repo_dir'', PStr (trp_repo_dir p)), (''suite'', PStr (trp_suite p)),
     (''snapshot_timestamp'', PStr (trp_snapshot_timestamp p)), (''version'', PStr (trp_version p)),
     (''committish'', PStr (trp_committish p))]"

definition test_params :: "test_args \<Rightarrow> test_run_parameters" where
  "test_params a = \<lparr>trp_architecture = ta_architecture a, trp_cicd_cfg_name = ta_cicd_cfg_name a,
     trp_gardenlinux_epoch = ta_gardenlinux_epoch a, trp_modifiers = py_split CHR '','' (ta_modifiers a),
     trp_platform = ta_platform a, trp_repo_dir = ta_repo_dir a, trp_suite = ta_suite a,
     trp_snapshot_timestamp = ta_snapshot_timestamp a, trp_version = ta_version a, trp_committish = ta_committish a\<rparr>"

definition pytest_call :: "test_args \<Rightarrow> string list \<Rightarrow> call" where
  "pytest_call a pytest_arg_list = mk_call [''pytest''] ''main''
     [(''cwd'', PStr (ta_repo_dir a)), (''args'', PList (map PStr pytest_arg_list)), (''test_params'', params_obj (test_params a))]"

definition exit_ok :: pobj where
  "exit_ok = PInt 0"

definition run_pytest :: "world \<Rightarrow> test_args \<Rightarrow> pobj \<Rightarrow> pobj prog" where
  "run_pytest w a final_arg =
     (if truthy final_arg
      then bindP (liftP (bindR (as_str final_arg)
          (substitute [(''platform'', ta_platform a), (''architecture'', ta_architecture a)]))) (\<lambda>pytest_args.
        ask w (pytest_call a (words_from [] pytest_args)))
      else retP exit_ok)"

definition test_verdict :: "('z, 's, 'x) run_env_scheme \<Rightarrow> test_args \<Rightarrow> string \<Rightarrow> string \<Rightarrow> ('s workspace, pobj) proc" where
  "test_verdict env a pytest_cfg test_cfg_path =
     (if pytest_cfg = [] then retP exit_ok
      else
        bindP (read_file test_cfg_path) (\<lambda>content.
        bindP (liftP (bindR (cd_safe_load (se_codec env) content) (\<lambda>cfgs. find_profile cfgs (py_strip pytest_cfg)))) (\<lambda>found.
          case found of
            None \<Rightarrow> exit_with 1
          | Some test_profile \<Rightarrow>
              bindP (liftP (profile_arg test_profile (ta_architecture a) (ta_platform a))) (\<lambda>final_arg.
                calling (run_pytest (ce_world env) a final_arg)))))"

definition test_result_of :: "string \<Rightarrow> pobj \<Rightarrow> string \<Rightarrow> release_test_result" where
  "test_result_of pytest_cfg result timestamp = \<lparr>rtr_test_suite_cfg_name = pytest_cfg,
     rtr_test_result = (if result = exit_ok then TRC_OK else TRC_FAILED), rtr_test_timestamp = timestamp\<rparr>"

definition test_result_file :: "string \<Rightarrow> string" where
  "test_result_file repo_dir = path_join repo_dir [''test_results.json'']"

text \<open>\<open>True\<close> where no tests are requested, the exit code of pytest otherwise.\<close>

definition run_tests :: "('z, 's, 'x) run_env_scheme \<Rightarrow> test_args \<Rightarrow> ('s workspace, pobj) proc" where
  "run_tests env a =
     bindP (liftP (tests_requested (py_split CHR '','' (ta_build_targets a)))) (\<lambda>requested.
       if \<not> requested then retP (PBool True)
       else bindP (exists_path SKIP_TESTS) (\<lambda>skip. if skip then exit_with 0
       else case ta_pytest_cfg a of
           None \<Rightarrow> raiseP (AttributeError ''strip'')
         | Some pytest_cfg \<Rightarrow>
             (let test_cfg_path = path_join (ta_repo_dir a) [''ci'', ''test_cfg.yaml''] in
             bindP (exists_path test_cfg_path) (\<lambda>has_cfg. if \<not> has_cfg then exit_with 1
             else
               bindP (test_verdict env a pytest_cfg test_cfg_path) (\<lambda>result.
               bindP (calling (nowP (ce_world env))) (\<lambda>now.
               bindP (write_file (test_result_file (ta_repo_dir a))
                   (re_dump env (test_result_of pytest_cfg result (se_isoformat env now)))) (\<lambda>_.
                 retP result)))))))"

end
