(* ===== verification/Test_Properties.thy ===== *)
theory Test_Properties
  imports Run_Tests Step_Properties "HOL-Library.Countable"
begin

text \<open>
  The results of the tests of an image: what the test step, the upload of the result and the check before
  the tests of a later run have to do with each other.
\<close>

lemma upload_online_then_fetch:
  assumes "s3_read_your_writes s3" "codec_reads_online cd m"
    and "upload_release_manifest s3 cd b key (online_attrs m) s = Inr s'"
  shows "fetch_release_manifest s3 cd b key absent_ok s' = Inr (Some (m\<lparr>orm_s3_key := key, orm_s3_bucket := b\<rparr>))"
proof -
  from assms(3) obtain d where d: "serialised (online_attrs m) = Inr (PDict d)"
    "s3_upload_fileobj s3 b key (cd_safe_dump cd (PDict d)) s = Inr s'"
    by (auto simp: upload_release_manifest_def bindR_Inr_iff dest: serialised_dict)
  then show ?thesis
    using assms(2) upload_reads [OF assms(1) d(2)] by (simp add: fetch_release_manifest_def load_object_def codec_reads_online_def)
qed

lemma exists_path_run: "bindP (exists_path q) f ws = f (q \<in> fst ` set (ws_files ws) \<or> q \<in> set (ws_dirs ws)) ws"
  by (simp add: exists_path_def bindP_def isfile_def isdir_def retP_def)

subsection \<open>The result of the tests\<close>

text \<open>What the test step leaves behind when it ends with a result of pytest.\<close>

lemma run_tests_result:
  assumes "run_tests env a ws = Some (Inr result, ws')" "result \<noteq> PBool True"
  obtains cfg timestamp where "ta_pytest_cfg a = Some cfg"
    "map_of (ws_files ws') (test_result_file (ta_repo_dir a)) = Some (re_dump env (test_result_of cfg result timestamp))"
    "ws_store ws' = ws_store ws"
proof -
  have store: "ws_store w' = ws_store w" if "test_verdict env a cfg path w = Some (q, w')" for cfg path q w w'
    using that by (cases q) (auto simp: test_verdict_def prog_simps split: if_splits option.splits)
  from assms obtain cfg ws1 where cfg: "ta_pytest_cfg a = Some cfg"
    and v: "test_verdict env a cfg (path_join (ta_repo_dir a) [''ci'', ''test_cfg.yaml'']) ws = Some (Inr result, ws1)"
    and ws': "ws' = ws1\<lparr>ws_calls := ws_calls ws1 @ [now_call],
      ws_files := dict_set (test_result_file (ta_repo_dir a))
        (re_dump env (test_result_of cfg result (se_isoformat env (clock (ce_world env) (ws_calls ws1))))) (ws_files ws1)\<rparr>"
    by (auto simp: run_tests_def prog_simps exists_path_def Let_def split: option.splits if_splits simp del: path_join.simps)
  show thesis
    by (rule that [OF cfg]) (simp_all add: ws' map_of_dict_set store [OF v])
qed

text \<open>What the upload of the result leaves behind when it ends normally.\<close>

lemma upload_test_results_inv:
  fixes env :: "('z, 's) step_env"
  assumes "upload_test_results env name p targets repo ws = Some (Inr (), ws')"
    and "se_cicd_cfg env name = Inr cfg" "params_identifier p (py_split CHR '','' (bp_modifiers p)) = Inr ri"
    and "step_find_release env cfg ri ws = Some (Inr (Some m), ws)"
    and "map_of (ws_files ws) (path_join repo [''test_results.json'']) = Some content"
    and "se_load_test_result env content = Inr (Some t)"
  shows "\<exists>key. rtr_test_result t = TRC_OK \<and>
    canonical_release_manifest_key (ce_features env) (ce_fuel env) (with_test_result t m) = Inr key \<and>
    upload_release_manifest (se_s3 env) (se_codec env) (bucket_of cfg) key (online_attrs (with_test_result t m)) (ws_store ws) =
      Inr (ws_store ws')"
  using assms
  by (auto simp: upload_test_results_def prog_simps Let_def step_find_release_def simp del: path_join.simps split: if_split_asm)

lemma pre_check_tested:
  assumes "set_from_str targets = Inr ts" "TESTS \<in> set ts" "se_cicd_cfg env name = Inr cfg"
    and "params_identifier p (split_modifiers (bp_modifiers p)) = Inr ri"
    and "find_release (ce_features env) (ce_fuel env) (se_s3 env) (se_codec env) (bucket_of cfg) ri (ws_store ws) =
      Inr (Some m)" "tests_passed m"
  shows "\<exists>content. pre_check_tests env name p targets ws =
    Some (Inr (), ws\<lparr>ws_files := dict_set SKIP_TESTS content (ws_files ws)\<rparr>)"
  using assms by (simp add: pre_check_tests_def prog_simps step_find_release_def) (rule exI, rule refl)

lemma with_test_result_sel [simp]:
  "manifest_identifier (with_test_result t m) = manifest_identifier m" "ri_modifiers (with_test_result t m) = ri_modifiers m"
  "orm_test_result (with_test_result t m) = Some t"
  by (simp_all add: with_test_result_def manifest_identifier_def)

text \<open>The identity is found again where the manifest has been stored with its result.\<close>

lemma found_with_result:
  fixes env :: "('z, 's) step_env"
  assumes wf: "wf_features (ce_features env)" "length (ce_features env) < ce_fuel env" "case_distinct (ce_features env)"
    and s3: "s3_read_your_writes (se_s3 env)"
    and m: "find_release (ce_features env) (ce_fuel env) (se_s3 env) (se_codec env) b ri s = Inr (Some m)"
    and mods: "set (ri_modifiers m) = set (ri_modifiers ri)"
    and cd: "codec_reads_online (se_codec env) (with_test_result t m)"
    and key: "canonical_release_manifest_key (ce_features env) (ce_fuel env) (with_test_result t m) = Inr key"
    and up: "upload_release_manifest (se_s3 env) (se_codec env) b key (online_attrs (with_test_result t m)) s = Inr s'"
  shows "\<exists>m'. find_release (ce_features env) (ce_fuel env) (se_s3 env) (se_codec env) b ri s' = Inr (Some m') \<and>
    orm_test_result m' = Some t"
proof -
  let ?m = "(with_test_result t m)\<lparr>orm_s3_key := key, orm_s3_bucket := b\<rparr>"
  have ident: "(manifest_identifier (with_test_result t m))\<lparr>ri_modifiers := ri_modifiers ri\<rparr> = ri"
    using find_release_sound [OF m] by (cases ri) (simp add: manifest_identifier_def with_test_result_def)
  have "manifest_identifier ?m = manifest_identifier (with_test_result t m)" by (simp add: manifest_identifier_def)
  moreover have "set (ri_modifiers ri) = set (ri_modifiers (with_test_result t m))" using mods by simp
  ultimately have "find_release (ce_features env) (ce_fuel env) (se_s3 env) (se_codec env) b ri s' = Inr (Some ?m)"
    using find_release_stored [OF wf key upload_online_then_fetch [OF s3 cd up], of "ri_modifiers ri"] unfolding ident by blast
  then show ?thesis by (intro exI [of _ ?m]) simp
qed

text \<open>
  C27: tests are not run twice. When the test step has run pytest and the upload of the result has ended
  normally, the tests have passed; the check before the tests of a later run for the same image then
  marks them as done, and the test step of that run ends at once.
\<close>

theorem tests_run_once:
  fixes env :: "('z, 's) run_env"
  defines "step \<equiv> step_env.truncate env"
  assumes "wf_features (ce_features env)" and "length (ce_features env) < ce_fuel env" and "case_distinct (ce_features env)"
    and "s3_read_your_writes (se_s3 env)" and "\<forall>t. se_load_test_result env (re_dump env t) = Inr (Some t)"
    and "se_cicd_cfg env name = Inr cfg" and "split_modifiers (bp_modifiers p) = py_split CHR '','' (bp_modifiers p)"
    and "params_identifier p (split_modifiers (bp_modifiers p)) = Inr ri"
    and "find_release (ce_features env) (ce_fuel env) (se_s3 env) (se_codec env) (bucket_of cfg) ri (ws_store ws) = Inr (Some m)"
    and "set (ri_modifiers m) = set (ri_modifiers ri)" and "\<forall>t. codec_reads_online (se_codec env) (with_test_result t m)"
    and "run_tests env a ws = Some (Inr result, ws1)" and "result \<noteq> PBool True"
    and "upload_test_results step name p targets (ta_repo_dir a) ws1 = Some (Inr (), ws2)"
    and "set_from_str later = Inr ts" and "TESTS \<in> set ts" and "ws_store ws3 = ws_store ws2"
  shows "result = exit_ok \<and> (\<exists>ws4. pre_check_tests step name p later ws3 = Some (Inr (), ws4) \<and>
    run_tests env a ws4 = Some (Inl (SystemExit 0), ws4))"
proof -
  have sel: "se_s3 step = se_s3 env" "se_codec step = se_codec env" "ce_features step = ce_features env" "ce_fuel step = ce_fuel env"
    "se_cicd_cfg step = se_cicd_cfg env" "se_load_test_result step = se_load_test_result env"
    by (simp_all add: step_def step_env.defs)
  obtain cfg_name timestamp where cfg: "ta_pytest_cfg a = Some cfg_name"
    and written: "map_of (ws_files ws1) (test_result_file (ta_repo_dir a)) = Some (re_dump env (test_result_of cfg_name result timestamp))"
    and store: "ws_store ws1 = ws_store ws"
    using run_tests_result [OF assms(13,14)] .
  let ?t = "test_result_of cfg_name result timestamp"
  have found: "step_find_release step cfg ri ws1 = Some (Inr (Some m), ws1)"
    using assms(10) by (simp add: step_find_release_def reading_def sel store)
  have ri: "params_identifier p (py_split CHR '','' (bp_modifiers p)) = Inr ri" using assms(8,9) by simp
  have step_cfg: "se_cicd_cfg step name = Inr cfg" using assms(7) by (simp add: sel)
  have load: "se_load_test_result step (re_dump env ?t) = Inr (Some ?t)" using assms(6) by (simp add: sel)
  from upload_test_results_inv [OF assms(15) step_cfg ri found written [unfolded test_result_file_def] load] obtain key where
    ok: "rtr_test_result ?t = TRC_OK"
    and key: "canonical_release_manifest_key (ce_features step) (ce_fuel step) (with_test_result ?t m) = Inr key"
    and up: "upload_release_manifest (se_s3 step) (se_codec step) (bucket_of cfg) key (online_attrs (with_test_result ?t m))
      (ws_store ws1) = Inr (ws_store ws2)" by blast
  have cd: "codec_reads_online (se_codec step) (with_test_result ?t m)" using assms(12) by (simp add: sel)
  obtain m' where
    m': "find_release (ce_features step) (ce_fuel step) (se_s3 step) (se_codec step) (bucket_of cfg) ri (ws_store ws3) = Inr (Some m')"
    and t': "orm_test_result m' = Some ?t"
    using found_with_result [OF assms(2-5) [folded sel] assms(10) [folded store sel] assms(11) cd key up] assms(18) by auto
  have passed: "tests_passed m'" using t' ok by (simp add: tests_passed_def)
  obtain content where pre: "pre_check_tests step name p later ws3 =
      Some (Inr (), ws3\<lparr>ws_files := dict_set SKIP_TESTS content (ws_files ws3)\<rparr>)"
    using pre_check_tested [OF assms(16,17) step_cfg assms(9) m' passed] by blast
  let ?ws4 = "ws3\<lparr>ws_files := dict_set SKIP_TESTS content (ws_files ws3)\<rparr>"
  have "tests_requested (py_split CHR '','' (ta_build_targets a)) = Inr True"
    using assms(13,14) by (auto simp: run_tests_def prog_simps split: if_split_asm)
  moreover have "SKIP_TESTS \<in> fst ` set (ws_files ?ws4)"
    using map_of_SomeD [of "ws_files ?ws4" SKIP_TESTS content] by (force simp: map_of_dict_set)
  ultimately have "run_tests env a ?ws4 = Some (Inl (SystemExit 0), ?ws4)"
    by (simp add: run_tests_def bindP_lift exists_path_def bindP_assoc bindP_workspace) (simp add: bindP_def retP_def run_end)
  moreover have "result = exit_ok" using ok by (simp add: test_result_of_def split: if_splits)
  ultimately show ?thesis using pre by blast
qed

subsection \<open>A release with and without a test result\<close>

text \<open>The result as three texts, numbered; the codec stores a manifest as the number of its result.\<close>

definition result_texts :: "release_test_result \<Rightarrow> string \<times> string \<times> string" where
  "result_texts t = (rtr_test_suite_cfg_name t, test_result_code_value (rtr_test_result t), rtr_test_timestamp t)"

definition texts_result :: "string \<times> string \<times> string \<Rightarrow> release_test_result res" where
  "texts_result = (\<lambda>(n, c, ts). bindR (test_result_code_of c) (\<lambda>code. Inr
     \<lparr>rtr_test_suite_cfg_name = n, rtr_test_result = code, rtr_test_timestamp = ts\<rparr>))"

lemma texts_result_texts [simp]: "texts_result (result_texts t) = Inr t"
  by (simp add: texts_result_def result_texts_def trc.of_val_val)

definition tested_manifest :: "release_test_result option \<Rightarrow> online_release_manifest" where
  "tested_manifest t = (as_online ''meta/singles/aws-cloud-gardener-560.0-012345'' ''bucket'' sample_manifest)\<lparr>orm_test_result := t\<rparr>"

definition result_obj :: "release_test_result option \<Rightarrow> pobj" where
  "result_obj t = (case t of None \<Rightarrow> PNone | Some r \<Rightarrow> PDict [(''test_suite_cfg_name'', PStr (rtr_test_suite_cfg_name r)),
     (''test_result'', PStr (test_result_code_value (rtr_test_result r))), (''test_timestamp'', PStr (rtr_test_timestamp r))])"

fun obj_texts :: "pobj \<Rightarrow> (string \<times> string \<times> string) option" where
  "obj_texts (PDict [(_, PStr a), (_, PStr b), (_, PStr c)]) = Some (a, b, c)"
| "obj_texts v = None"

lemma obj_texts_result [simp]: "obj_texts (result_obj t) = map_option result_texts t"
  by (cases t) (simp_all add: result_obj_def result_texts_def)

definition tested_dict :: "release_test_result option \<Rightarrow> (string \<times> pobj) list" where
  "tested_dict t = [(''build_committish'', PStr ''0123456789abcdef''), (''version'', PStr ''560.0''), (''gardenlinux_epoch'', PInt 560),
     (''architecture'', PStr (architecture_value AMD64)), (''platform'', PStr ''aws''),
     (''modifiers'', PList (map PStr [''base'', ''cloud'', ''gardener'', ''server'', ''_slim''])),
     (''build_timestamp'', PStr ''2021-10-12T06:00:00''), (''paths'', PList []), (''base_image'', PNone),
     (''published_image_metadata'', PNone), (''s3_key'', PStr ''meta/singles/aws-cloud-gardener-560.0-012345''),
     (''s3_bucket'', PStr ''bucket''), (''test_result'', result_obj t), (''logs'', PNone)]"

lemma tested_serialised: "serialised (online_attrs (tested_manifest t)) = Inr (PDict (tested_dict t))"
  by (cases t) (simp_all add: serialised_def online_attrs_def manifest_attrs_def tested_manifest_def as_online_def sample_manifest_def
      tested_dict_def py_opt_def py_test_result_def result_obj_def)

definition result_in :: "(string \<times> pobj) list \<Rightarrow> (string \<times> string \<times> string) option" where
  "result_in d = (case map_of d ''test_result'' of Some v \<Rightarrow> obj_texts v | None \<Rightarrow> None)"

fun tested_dump :: "pobj \<Rightarrow> string" where
  "tested_dump (PDict d) = str_int (int (to_nat (result_in d)))"
| "tested_dump v = ''''"

definition texts_option :: "(string \<times> string \<times> string) option \<Rightarrow> release_test_result option" where
  "texts_option x = (case x of None \<Rightarrow> None | Some ts \<Rightarrow> (case texts_result ts of Inr t \<Rightarrow> Some t | Inl e \<Rightarrow> None))"

lemma texts_option_texts [simp]: "texts_option (map_option result_texts t) = t"
  by (cases t) (simp_all add: texts_option_def)

definition tested_codec :: codec where
  "tested_codec =
     \<lparr>cd_safe_load = (\<lambda>s. bindR (py_int s) (\<lambda>i. Inr (tested_dict (texts_option (from_nat (nat i)))))),
      cd_safe_dump = tested_dump,
      cd_manifest_from_dict = (\<lambda>d. case (map_of d ''s3_key'', map_of d ''s3_bucket'') of
           (Some (PStr k), Some (PStr b)) \<Rightarrow> Inr ((tested_manifest (texts_option (result_in d)))\<lparr>orm_s3_key := k, orm_s3_bucket := b\<rparr>)
         | _ \<Rightarrow> Inl (KeyError ''s3_key'')),
      cd_set_from_dict = (\<lambda>_. Inl (KeyError ''manifests''))\<rparr>"

lemma result_in_tested [simp]: "result_in (tested_dict t) = map_option result_texts t"
  by (simp add: result_in_def tested_dict_def)

lemma result_in_patched: "result_in (patch_transient k b (tested_dict t)) = map_option result_texts t"
  by (simp add: patch_transient_def Let_def result_in_def tested_dict_def)

lemma tested_codec_load: "cd_safe_load tested_codec (tested_dump (PDict (tested_dict t))) = Inr (tested_dict t)"
  by (simp add: tested_codec_def py_int_str_int)

lemma tested_codec_from_dict:
  "cd_manifest_from_dict tested_codec (patch_transient k b (tested_dict t)) =
     Inr ((tested_manifest t)\<lparr>orm_s3_key := k, orm_s3_bucket := b\<rparr>)"
proof -
  have "map_of (patch_transient k b (tested_dict t)) ''s3_key'' = Some (PStr k)"
    "map_of (patch_transient k b (tested_dict t)) ''s3_bucket'' = Some (PStr b)"
    by (simp_all add: patch_transient_def Let_def tested_dict_def)
  then show ?thesis by (simp add: tested_codec_def result_in_patched)
qed

lemma tested_codec_reads: "codec_reads_online tested_codec (tested_manifest t)"
proof -
  have "cd_safe_load tested_codec (cd_safe_dump tested_codec (PDict (tested_dict t))) = Inr (tested_dict t)"
    using tested_codec_load [of t] by (simp add: tested_codec_def)
  then show ?thesis by (simp add: codec_reads_online_def tested_serialised tested_codec_from_dict)
qed

lemma tested_with_result: "with_test_result t (tested_manifest u) = tested_manifest (Some t)"
  by (simp add: with_test_result_def tested_manifest_def)

subsection \<open>A run with tests\<close>

definition dump_result :: "release_test_result \<Rightarrow> string" where
  "dump_result t = str_int (int (to_nat (result_texts t)))"

definition load_result :: "string \<Rightarrow> release_test_result option res" where
  "load_result s = bindR (py_int s) (\<lambda>i. bindR (texts_result (from_nat (nat i))) (\<lambda>t. Inr (Some t)))"

definition sample_run_env :: "(unit, sample_store) run_env" where
  "sample_run_env = step_env.extend ((sample_step_env tested_codec)\<lparr>se_load_test_result := load_result\<rparr>) (run_env.fields dump_result)"

definition sample_test_args :: test_args where
  "sample_test_args = \<lparr>ta_architecture = ''amd64'', ta_cicd_cfg_name = ''default'', ta_gardenlinux_epoch = ''560'',
     ta_modifiers = bp_modifiers sample_build_params, ta_platform = ''aws'', ta_build_targets = ''build,manifest,tests'',
     ta_repo_dir = ''/repo'', ta_suite = ''bookworm'', ta_snapshot_timestamp = ''20211012'', ta_version = ''560.0'',
     ta_committish = ''0123456789abcdef'', ta_pytest_cfg = Some ''''\<rparr>"

definition tested_workspace :: "sample_store workspace" where
  "tested_workspace = \<lparr>ws_files = [(''/repo/ci/test_cfg.yaml'', ''test_cfgs: {}'')], ws_dirs = [],
     ws_store = [((''bucket'', ''meta/singles/aws-cloud-gardener-560.0-012345''), tested_dump (PDict (tested_dict None)))],
     ws_calls = []\<rparr>"

definition tested_ri :: release_identifier where
  "tested_ri = (flavour_identifier ''0123456789abcdef'' ''560.0'' 560 sample_built_flavour)
     \<lparr>ri_modifiers := split_modifiers (bp_modifiers sample_build_params)\<rparr>"

lemma run_env_sel:
  "se_s3 sample_run_env = sample_s3" "se_codec sample_run_env = tested_codec" "se_cicd_cfg sample_run_env n = Inr sample_cicd_cfg"
  "ce_features sample_run_env = shipped_features" "ce_fuel sample_run_env = 27" "se_load_test_result sample_run_env = load_result"
  "re_dump sample_run_env = dump_result" "bucket_of sample_cicd_cfg = ''bucket''"
  by (simp_all add: sample_run_env_def step_env.defs run_env.defs sample_step_env_def bucket_of_def sample_cicd_cfg_def sample_build_cfg_def)

lemma truncated_sel:
  "se_s3 (step_env.truncate e) = se_s3 e" "se_codec (step_env.truncate e) = se_codec e"
  "ce_features (step_env.truncate e) = ce_features e" "ce_fuel (step_env.truncate e) = ce_fuel e"
  "se_cicd_cfg (step_env.truncate e) = se_cicd_cfg e" "se_load_test_result (step_env.truncate e) = se_load_test_result e"
  by (simp_all add: step_env.defs)

lemma load_dump: "load_result (dump_result t) = Inr (Some t)"
  by (simp add: load_result_def dump_result_def py_int_str_int)

lemma sample_mods:
  "split_modifiers (bp_modifiers sample_build_params) = [''_slim'', ''base'', ''cloud'', ''gardener'', ''server'']"
  "py_split CHR '','' (bp_modifiers sample_build_params) = [''_slim'', ''base'', ''cloud'', ''gardener'', ''server'']"
  by code_simp+

lemma tested_params: "params_identifier sample_build_params (split_modifiers (bp_modifiers sample_build_params)) = Inr tested_ri"
  by (simp add: sample_params_identifier tested_ri_def)

lemma tested_found:
  assumes "s3_download_fileobj sample_s3 ''bucket'' ''meta/singles/aws-cloud-gardener-560.0-012345'' s = Inr (tested_dump (PDict (tested_dict t)))"
  shows "find_release shipped_features 27 sample_s3 tested_codec ''bucket'' tested_ri s = Inr (Some (tested_manifest t))"
proof -
  have fetch: "fetch_release_manifest sample_s3 tested_codec ''bucket'' ''meta/singles/aws-cloud-gardener-560.0-012345'' True s =
      Inr (Some (tested_manifest t))"
    using tested_codec_load [of t] tested_codec_from_dict [of _ _ t]
    by (simp add: fetch_release_manifest_def load_object_def assms) (simp add: tested_manifest_def as_online_def)
  have ri: "tested_ri = (manifest_identifier sample_manifest)\<lparr>ri_modifiers := ri_modifiers tested_ri\<rparr>"
    by (simp add: tested_ri_def manifest_identifier_def flavour_identifier_def sample_manifest_def sample_built_flavour_def)
  show ?thesis
    by (subst ri, rule find_release_stored [OF shipped_wf shipped_fuel shipped_case_distinct sample_key(1) fetch])
      (auto simp: manifest_identifier_def tested_manifest_def as_online_def tested_ri_def sample_mods sample_manifest_def)
qed

lemma tested_key: "canonical_release_manifest_key shipped_features 27 (tested_manifest t) = Inr ''meta/singles/aws-cloud-gardener-560.0-012345''"
  by (rule key_same_set [OF shipped_wf shipped_fuel shipped_case_distinct sample_key(1)])
    (simp_all add: tested_manifest_def as_online_def sample_manifest_def)

lemma tested_run:
  "\<exists>ts. run_tests sample_run_env sample_test_args tested_workspace = Some (Inr exit_ok,
     tested_workspace\<lparr>ws_calls := ws_calls tested_workspace @ [now_call], ws_files := dict_set (test_result_file ''/repo'')
       (dump_result (test_result_of [] exit_ok ts)) (ws_files tested_workspace)\<rparr>)"
proof -
  have req: "tests_requested (py_split CHR '','' (ta_build_targets sample_test_args)) = Inr True" by code_simp
  have path: "path_join (ta_repo_dir sample_test_args) [''ci'', ''test_cfg.yaml''] = ''/repo/ci/test_cfg.yaml''" by code_simp
  have skip: "SKIP_TESTS \<notin> fst ` set (ws_files tested_workspace)" "SKIP_TESTS \<notin> set (ws_dirs tested_workspace)"
    by (simp_all add: tested_workspace_def SKIP_TESTS_def)
  have cfg: "''/repo/ci/test_cfg.yaml'' \<in> fst ` set (ws_files tested_workspace)" "ta_pytest_cfg sample_test_args = Some []"
    by (simp_all add: tested_workspace_def sample_test_args_def)
  have verdict: "test_verdict sample_run_env sample_test_args [] q = retP exit_ok" for q
    by (rule ext) (simp add: test_verdict_def)
  show ?thesis
    by (simp add: run_tests_def req path bindP_lift exists_path_run skip cfg Let_def verdict bindP_pure bindP_workspace
        del: tests_requested.simps path_join.simps)
      (rule exI [of _ "se_isoformat sample_run_env (clock (ce_world sample_run_env) (ws_calls tested_workspace))"],
        simp add: retP_def run_env_sel sample_test_args_def)
qed

lemma tested_upload:
  assumes "map_of (ws_files ws) (test_result_file ''/repo'') = Some (dump_result t)" "rtr_test_result t = TRC_OK"
    and "ws_store ws = ws_store tested_workspace" "SKIP_TESTS \<notin> fst ` set (ws_files ws)"
  shows "\<exists>ws2. upload_test_results (step_env.truncate sample_run_env) ''default'' sample_build_params ''build,manifest,tests''
    ''/repo'' ws = Some (Inr (), ws2)"
proof -
  let ?env = "step_env.truncate sample_run_env"
  have isf: "test_result_file ''/repo'' \<in> fst ` set (ws_files ws)" using assms(1) by (force dest: map_of_SomeD)
  have found: "step_find_release ?env sample_cicd_cfg tested_ri ws = Some (Inr (Some (tested_manifest None)), ws)"
    using tested_found [of "ws_store tested_workspace" None] assms(3)
    by (simp add: step_find_release_def reading_def truncated_sel run_env_sel) (simp add: tested_workspace_def sample_s3_def)
  obtain s' where up: "upload_release_manifest sample_s3 tested_codec ''bucket'' ''meta/singles/aws-cloud-gardener-560.0-012345''
      (online_attrs (tested_manifest (Some t))) (ws_store ws) = Inr s'"
    by (simp add: upload_release_manifest_def tested_serialised sample_s3_def)
  have "params_identifier sample_build_params (py_split CHR '','' (bp_modifiers sample_build_params)) = Inr tested_ri"
    using tested_params by (simp only: sample_mods)
  then show ?thesis
    using assms(2,4) isf up
    by (simp add: upload_test_results_def bindP_lift sample_targets bindP_workspace Let_def test_result_file_def [symmetric]
        truncated_sel run_env_sel bindP_run(1) [where m = "step_find_release ?env sample_cicd_cfg tested_ri", OF found] bindP_run(1) [of "read_file _"] read_file_def assms(1) load_dump
        tested_with_result tested_key bindP_store(3) del: path_join.simps) (simp add: retP_def)
qed

theorem tests_run_once_witness:
  "\<exists>result ws1 ws2 ws4. run_tests sample_run_env sample_test_args tested_workspace = Some (Inr result, ws1) \<and>
     upload_test_results (step_env.truncate sample_run_env) ''default'' sample_build_params ''build,manifest,tests'' ''/repo'' ws1 =
       Some (Inr (), ws2) \<and>
     pre_check_tests (step_env.truncate sample_run_env) ''default'' sample_build_params ''build,manifest,tests'' ws2 = Some (Inr (), ws4) \<and>
     run_tests sample_run_env sample_test_args ws4 = Some (Inl (SystemExit 0), ws4)"
proof -
  let ?env = sample_run_env
  from tested_run obtain ts where run: "run_tests ?env sample_test_args tested_workspace = Some (Inr exit_ok,
     tested_workspace\<lparr>ws_calls := ws_calls tested_workspace @ [now_call], ws_files := dict_set (test_result_file ''/repo'')
       (dump_result (test_result_of [] exit_ok ts)) (ws_files tested_workspace)\<rparr>)" by (rule exE)
  let ?ws1 = "tested_workspace\<lparr>ws_calls := ws_calls tested_workspace @ [now_call], ws_files := dict_set (test_result_file ''/repo'')
       (dump_result (test_result_of [] exit_ok ts)) (ws_files tested_workspace)\<rparr>"
  have path: "test_result_file ''/repo'' = ''/repo/test_results.json''" by code_simp
  obtain ws2 where up: "upload_test_results (step_env.truncate ?env) ''default'' sample_build_params ''build,manifest,tests'' ''/repo''
      ?ws1 = Some (Inr (), ws2)"
    using tested_upload [of ?ws1 "test_result_of [] exit_ok ts"]
    by (auto simp: map_of_dict_set test_result_of_def path SKIP_TESTS_def tested_workspace_def)
  have load: "\<forall>t. se_load_test_result ?env (re_dump ?env t) = Inr (Some t)"
    by (intro allI) (simp only: run_env_sel load_dump)
  have sel: "wf_features (ce_features ?env)" "length (ce_features ?env) < ce_fuel ?env" "case_distinct (ce_features ?env)"
    "s3_read_your_writes (se_s3 ?env)"
    "se_cicd_cfg ?env ''default'' = Inr sample_cicd_cfg"
    "split_modifiers (bp_modifiers sample_build_params) = py_split CHR '','' (bp_modifiers sample_build_params)"
    by (simp_all only: run_env_sel shipped_wf shipped_fuel shipped_case_distinct sample_read_your_writes sample_mods)
  have found: "find_release (ce_features ?env) (ce_fuel ?env) (se_s3 ?env) (se_codec ?env) (bucket_of sample_cicd_cfg) tested_ri
      (ws_store tested_workspace) = Inr (Some (tested_manifest None))"
    unfolding run_env_sel by (rule tested_found) (simp add: tested_workspace_def sample_s3_def)
  have mods: "set (ri_modifiers (tested_manifest None)) = set (ri_modifiers tested_ri)"
    by (auto simp: tested_manifest_def as_online_def sample_manifest_def tested_ri_def sample_mods)
  have reads: "\<forall>t. codec_reads_online (se_codec ?env) (with_test_result t (tested_manifest None))"
    by (intro allI) (simp only: run_env_sel tested_with_result tested_codec_reads)
  have "exit_ok \<noteq> PBool True" "TESTS \<in> set [BUILD, MANIFEST, TESTS]" by (simp_all add: exit_ok_def)
  moreover have "ta_repo_dir sample_test_args = ''/repo''" by (simp add: sample_test_args_def)
  ultimately show ?thesis
    using tests_run_once [OF sel(1-4) load sel(5,6) tested_params found mods reads run _ _ sample_targets _ refl] run up by metis
qed

end
