(* ===== verification/Component_Descriptor.thy ===== *)
theory Component_Descriptor
  imports Build_Steps Step_Script
begin

text \<open>
  \<open>ci/steps/component_descriptor.py\<close>: the component descriptor of a build and its upload.  The classes of
  the component model become records; how a descriptor is written to the registry and how a version is
  parsed and finalised is up to other packages, which are parameters.
\<close>

subsection \<open>The data model\<close>

record build_metadata =
  bmd_modifiers :: "string list"
  bmd_build_timestamp :: "string option"
  bmd_debian_packages :: "string list option"

datatype label_value = Build_metadata build_metadata | Published_metadata published_images

datatype resource_access = S3_access string string | Oci_access string

record extra_identity =
  ei_feature_flags :: string
  ei_architecture :: architecture
  ei_platform :: string

record cd_resource =
  res_name :: string
  res_version :: string
  res_type :: string
  res_relation :: "string option"
  res_extra_identity :: "extra_identity option"
  res_labels :: "(string \<times> label_value) list"
  res_access :: resource_access

record cd_source =
  src_name :: string
  src_repo_url :: string
  src_ref :: string
  src_commit :: string
  src_version :: string

record component_descriptor =
  cd_name :: string
  cd_version :: string
  cd_repository_contexts :: "string list"
  cd_sources :: "cd_source list"
  cd_resources :: "cd_resource list"

record cd_libs =
  cl_finalized :: "string \<Rightarrow> pobj res"
  cl_encode :: "component_descriptor \<Rightarrow> pobj"

subsection \<open>Resources\<close>

text \<open>The lines of the bytes of an object, as \<open>iter_lines\<close> gives them.\<close>

fun byte_lines :: "string \<Rightarrow> string \<Rightarrow> string list" where
  "byte_lines line [] = (if line = [] then [] else [line])"
| "byte_lines line (c # cs) =
     (if c = char_of (10 :: nat) then line # byte_lines [] cs
      else if c = char_of (13 :: nat)
      then (case cs of
          [] \<Rightarrow> [line]
        | d # ds \<Rightarrow> if d = char_of (10 :: nat) then line # byte_lines [] ds else line # byte_lines [] cs)
      else byte_lines (line @ [c]) cs)"

definition virtual_image_packages :: "'s s3_client \<Rightarrow> 'a release_manifest_scheme \<Rightarrow> 's \<Rightarrow> string list res" where
  "virtual_image_packages s3 manifest s =
     bindR (path_by_suffix ''rootfs.manifest'' manifest) (\<lambda>f.
     bindR (s3_download_fileobj s3 (rf_s3_bucket_name f) (rf_s3_key f) s) (\<lambda>body.
       mapR (\<lambda>line. utf8_decode (map of_char line)) (byte_lines [] body)))"

definition build_metadata_label :: string where
  "build_metadata_label = ''gardener.cloud/gardenlinux/ci/build-metadata''"

definition published_metadata_label :: string where
  "published_metadata_label = ''gardener.cloud/gardenlinux/ci/published-image-metadata''"

definition build_label :: "'a release_manifest_scheme \<Rightarrow> string list \<Rightarrow> string \<times> label_value" where
  "build_label manifest packages = (build_metadata_label, Build_metadata
     \<lparr>bmd_modifiers = ri_modifiers manifest, bmd_build_timestamp = Some (rm_build_timestamp manifest),
      bmd_debian_packages = Some packages\<rparr>)"

definition identity_of :: "'a release_manifest_scheme \<Rightarrow> extra_identity" where
  "identity_of manifest = \<lparr>ei_feature_flags = py_join '','' (ri_modifiers manifest),
     ei_architecture = ri_architecture manifest, ei_platform = ri_platform manifest\<rparr>"

definition virtual_machine_image_resource :: "'s s3_client \<Rightarrow> cicd_cfg \<Rightarrow> string \<Rightarrow> 'a release_manifest_scheme \<Rightarrow> 's \<Rightarrow> cd_resource res" where
  "virtual_machine_image_resource s3 cfg effective_version manifest s =
     bindR (virtual_image_artifact_for_platform (ri_platform manifest)) (\<lambda>image_file_suffix.
     bindR (path_by_suffix image_file_suffix manifest) (\<lambda>image_file_path.
     bindR (virtual_image_packages s3 manifest s) (\<lambda>packages.
       Inr \<lparr>res_name = ''gardenlinux'', res_version = effective_version, res_type = ''virtual_machine_image'',
         res_relation = None, res_extra_identity = Some (identity_of manifest),
         res_labels = build_label manifest packages # (case rm_published_image_metadata manifest of
             None \<Rightarrow> [] | Some metadata \<Rightarrow> [(published_metadata_label, Published_metadata metadata)]),
         res_access = S3_access (bucket_of cfg) (rf_s3_key image_file_path)\<rparr>)))"

definition image_rootfs_resource :: "'s s3_client \<Rightarrow> cicd_cfg \<Rightarrow> string \<Rightarrow> 'a release_manifest_scheme \<Rightarrow> 's \<Rightarrow> cd_resource res" where
  "image_rootfs_resource s3 cfg effective_version manifest s =
     bindR (virtual_image_packages s3 manifest s) (\<lambda>packages.
     bindR (path_by_suffix ''rootfs.tar.xz'' manifest) (\<lambda>rootfs_file_path.
       Inr \<lparr>res_name = ''rootfs'', res_version = effective_version, res_type = ''application/tar+vm-image-rootfs'',
         res_relation = None, res_extra_identity = Some (identity_of manifest),
         res_labels = [build_label manifest packages],
         res_access = S3_access (bucket_of cfg) (rf_s3_key rootfs_file_path)\<rparr>))"

text \<open>Metadata of another platform has no image reference.\<close>

definition oci_image_resource :: "string \<Rightarrow> 'a release_manifest_scheme \<Rightarrow> cd_resource option res" where
  "oci_image_resource effective_version manifest =
     (if ri_platform manifest \<noteq> ''oci'' then Inr None
      else case rm_published_image_metadata manifest of
          None \<Rightarrow> Inr None
        | Some (OciPublishedImage reference) \<Rightarrow>
            Inr (Some \<lparr>res_name = ''gardenlinux'', res_version = effective_version, res_type = ''ociImage'', res_relation = Some ''local'',
              res_extra_identity = None, res_labels = [(build_metadata_label, Build_metadata
                \<lparr>bmd_modifiers = ri_modifiers manifest, bmd_build_timestamp = None, bmd_debian_packages = None\<rparr>)],
              res_access = Oci_access reference\<rparr>)
        | Some _ \<Rightarrow> Inl (AttributeError ''image_reference''))"

definition release_manifest_set_resource :: "cicd_cfg \<Rightarrow> string \<Rightarrow> string \<Rightarrow> cd_resource" where
  "release_manifest_set_resource cfg effective_version manifest_set_s3_key =
     \<lparr>res_name = ''release_manifest_set'', res_version = effective_version, res_type = ''release_manifest_set'',
      res_relation = None, res_extra_identity = None, res_labels = [],
      res_access = S3_access (bucket_of cfg) manifest_set_s3_key\<rparr>"

subsection \<open>The descriptor\<close>

definition effective_version_of :: "string \<Rightarrow> build_target list \<Rightarrow> string \<Rightarrow> string" where
  "effective_version_of version build_targets committish =
     (if FREEZE_VERSION \<in> set build_targets then version else version @ ''-'' @ committish)"

text \<open>
  \<open>finalize_version()\<close> is not a test: it returns the version without its suffix, and the code looks at
  the truth of that value.
\<close>

definition is_finalized_version :: "cd_libs \<Rightarrow> string \<Rightarrow> bool res" where
  "is_finalized_version libs version = bindR (cl_finalized libs version) (\<lambda>v. Inr (truthy v))"

definition component_name :: string where
  "component_name = ''github.com/gardenlinux/gardenlinux''"

definition logical_name :: "string \<Rightarrow> string" where
  "logical_name name = py_replace (py_replace name ''/'' ''_'') ''.'' ''_''"

definition base_component_descriptor :: "cd_libs \<Rightarrow> string \<Rightarrow> string \<Rightarrow> string \<Rightarrow> string \<Rightarrow> component_descriptor res" where
  "base_component_descriptor libs version base_url commit branch =
     bindR (is_finalized_version libs version) (\<lambda>final.
       Inr \<lparr>cd_name = component_name, cd_version = version, cd_repository_contexts = [base_url],
         cd_sources = [\<lparr>src_name = logical_name component_name, src_repo_url = component_name,
           src_ref = (if final then ''refs/tags/'' @ version else ''refs/heads/'' @ branch),
           src_commit = commit, src_version = version\<rparr>],
         cd_resources = []\<rparr>)"

definition release_resources :: "'s s3_client \<Rightarrow> cicd_cfg \<Rightarrow> string \<Rightarrow> online_release_manifest list \<Rightarrow> 's \<Rightarrow> cd_resource list res" where
  "release_resources s3 cfg effective_version releases s =
     bindR (mapR (\<lambda>m. virtual_machine_image_resource s3 cfg effective_version m s) releases) (\<lambda>images.
     bindR (mapR (oci_image_resource effective_version) releases) (\<lambda>oci.
     bindR (mapR (\<lambda>m. image_rootfs_resource s3 cfg effective_version m s) releases) (\<lambda>rootfs.
       Inr (images @ List.map_filter id oci @ rootfs))))"

definition ctx_repository_url_call :: "string \<Rightarrow> call" where
  "ctx_repository_url_call cfg_name = mk_call [''ctx''] ''ctx_repository'' [(''cfg_name'', PStr cfg_name)]"

definition resolve_ctx_repository_config :: "world \<Rightarrow> string \<Rightarrow> string prog" where
  "resolve_ctx_repository_config w cfg_name = bindP (ask w (ctx_repository_url_call cfg_name)) (\<lambda>url. liftP (as_str url))"

definition upload_descriptor_call :: "cd_libs \<Rightarrow> component_descriptor \<Rightarrow> call" where
  "upload_descriptor_call libs descriptor = mk_call [''product.v2''] ''upload_component_descriptor_v2_to_oci_registry''
     [(''component_descriptor_v2'', cl_encode libs descriptor), (''on_exist'', PStr ''overwrite'')]"

record descriptor_params =
  dp_version :: string
  dp_committish :: string
  dp_cicd_cfg_name :: string
  dp_gardenlinux_epoch :: string
  dp_build_targets :: string
  dp_flavour_set_name :: string
  dp_ctx_repository_config_name :: string
  dp_branch :: string
  dp_snapshot_ctx_repository_config_name :: "string option"

text \<open>The resource of the release set, where there is one of the build type.\<close>

definition set_resources :: "('z, 's) step_env \<Rightarrow> cd_libs \<Rightarrow> cicd_cfg \<Rightarrow> descriptor_params \<Rightarrow> string \<Rightarrow> 's \<Rightarrow> cd_resource list res" where
  "set_resources env libs cfg p effective_version s =
     bindR (is_finalized_version libs effective_version) (\<lambda>final.
     (let bt = (if final then BT_RELEASE else BT_SNAPSHOT) in
     bindR (find_release_set (se_s3 env) (se_codec env) (bucket_of cfg) (dp_flavour_set_name p) (dp_committish p)
         (dp_gardenlinux_epoch p) (dp_version p) bt release_manifest_set_prefix True s) (\<lambda>release_set.
       case release_set of
         None \<Rightarrow> Inr []
       | Some _ \<Rightarrow> Inr [release_manifest_set_resource cfg effective_version
           (release_set_key release_manifest_set_prefix bt (release_set_manifest_name (dp_committish p)
              (dp_gardenlinux_epoch p) (dp_version p) (dp_flavour_set_name p) bt None))])))"

definition upload_descriptors :: "world \<Rightarrow> cd_libs \<Rightarrow> string \<Rightarrow> string option \<Rightarrow> component_descriptor \<Rightarrow> unit prog" where
  "upload_descriptors w libs base_url snapshot_url descriptor =
     bindP (ask w (upload_descriptor_call libs descriptor)) (\<lambda>_.
       case snapshot_url of
         None \<Rightarrow> retP ()
       | Some url \<Rightarrow>
           if url = [] then retP ()
           else bindP (ask w (upload_descriptor_call libs
               (if base_url \<noteq> url
                then descriptor\<lparr>cd_repository_contexts := cd_repository_contexts descriptor @ [url]\<rparr> else descriptor)))
             (\<lambda>_. retP ()))"

definition build_component_descriptor :: "('z, 's) step_env \<Rightarrow> cd_libs \<Rightarrow> descriptor_params \<Rightarrow> ('s workspace, unit) proc" where
  "build_component_descriptor env libs p =
     (let w = ce_world env; fs = ce_features env; n = ce_fuel env in
     bindP (liftP (set_from_str (dp_build_targets p))) (\<lambda>build_target_set.
       if COMPONENT_DESCRIPTOR \<notin> set build_target_set then exit_with 0
       else
         bindP (liftP (se_cicd_cfg env (dp_cicd_cfg_name p))) (\<lambda>cfg.
         bindP (liftP (se_flavour_set env (dp_flavour_set_name p))) (\<lambda>fset.
         (let effective_version = effective_version_of (dp_version p) build_target_set (dp_committish p) in
         bindP (liftP (py_int (dp_gardenlinux_epoch p))) (\<lambda>epoch.
         bindP (reading (find_releases fs n (se_s3 env) (se_codec env) (bucket_of cfg) fset (dp_committish p)
             (dp_version p) epoch)) (\<lambda>releases.
         bindP (calling (resolve_ctx_repository_config w (dp_ctx_repository_config_name p))) (\<lambda>base_url.
         bindP (case dp_snapshot_ctx_repository_config_name p of
             None \<Rightarrow> retP None
           | Some name \<Rightarrow> if name = [] then retP None
               else bindP (calling (resolve_ctx_repository_config w name)) (\<lambda>url. retP (Some url))) (\<lambda>snapshot_url.
         bindP (liftP (base_component_descriptor libs effective_version base_url (dp_committish p) (dp_branch p))) (\<lambda>descriptor.
         bindP (reading (release_resources (se_s3 env) cfg effective_version releases)) (\<lambda>resources.
         bindP (reading (set_resources env libs cfg p effective_version)) (\<lambda>more.
           calling (upload_descriptors w libs base_url snapshot_url
             (descriptor\<lparr>cd_resources := resources @ more\<rparr>))))))))))))))"

end
