(* ===== verification/Container_Builds.thy ===== *)
theory Container_Builds
  imports Build_Steps
begin

text \<open>
  The images the pipelines run in: \<open>ci/build_kaniko.py\<close> and \<open>ci/steps/build_base_image.py\<close>.  Kaniko purges the
  file system of its container while it builds, so parts of it are saved before and restored after.
  The file system, the registry and kaniko are services; what the code reads of the interpreter is a
  parameter.
\<close>

record interpreter =
  py_major :: int
  py_minor :: int
  py_prefix :: string
  py_platlibdir :: string
  py_certifi_where :: string

record kaniko_save_fs_state =
  ks_certifi_certs_path :: string
  ks_certifi_bak :: string
  ks_ca_certs_path :: string
  ks_ca_certs_bak :: string
  ks_python_lib_dir :: string
  ks_python_bak_dir :: string
  ks_bin_dir :: string
  ks_bin_bak_dir :: string

subsection \<open>Calls to the file system\<close>

definition fs_call :: "string \<Rightarrow> string list \<Rightarrow> call" where
  "fs_call operation paths = mk_call [''os''] operation [(''args'', PList (map PStr paths))]"

definition fs_test :: "world \<Rightarrow> string \<Rightarrow> string \<Rightarrow> bool prog" where
  "fs_test w operation path = bindP (ask w (fs_call operation [path])) (\<lambda>r. retP (truthy r))"

definition fs_do :: "world \<Rightarrow> string \<Rightarrow> string list \<Rightarrow> unit prog" where
  "fs_do w operation paths = bindP (ask w (fs_call operation paths)) (\<lambda>_. retP ())"

text \<open>\<open>if not os.path.exists(test): operation(paths)\<close>\<close>

definition unless_exists :: "world \<Rightarrow> string \<Rightarrow> string \<Rightarrow> string list \<Rightarrow> unit prog" where
  "unless_exists w test operation paths =
     bindP (fs_test w ''exists'' test) (\<lambda>found. if found then retP () else fs_do w operation paths)"

subsection \<open>Saving and restoring\<close>

definition python_lib_dir :: "interpreter \<Rightarrow> string" where
  "python_lib_dir py =
     (let lib_dir = (if py_minor py \<ge> 9 \<or> py_major py > 3 then path_join (py_prefix py) [py_platlibdir py]
            else path_join (py_prefix py) [''lib'']) in
      path_join lib_dir [''python'' @ str_int (py_major py) @ ''.'' @ str_int (py_minor py)])"

definition saved_state :: "interpreter \<Rightarrow> kaniko_save_fs_state" where
  "saved_state py =
     \<lparr>ks_certifi_certs_path = py_certifi_where py, ks_certifi_bak = ''/kaniko/cacert.pem'',
      ks_ca_certs_path = ''/etc/ssl/certs/ca-certificates.crt'', ks_ca_certs_bak = ''/kaniko/ca-certificates.crt'',
      ks_python_lib_dir = python_lib_dir py, ks_python_bak_dir = ''/kaniko/python.bak'',
      ks_bin_dir = ''/bin'', ks_bin_bak_dir = ''/kaniko/bin.bak''\<rparr>"

definition prepare_for_kaniko_purgefs :: "world \<Rightarrow> interpreter \<Rightarrow> kaniko_save_fs_state prog" where
  "prepare_for_kaniko_purgefs w py =
     (let st = saved_state py in
     bindP (unless_exists w (ks_certifi_bak st) ''link'' [ks_certifi_certs_path st, ks_certifi_bak st]) (\<lambda>_.
     bindP (unless_exists w (ks_ca_certs_bak st) ''link'' [ks_ca_certs_path st, ks_ca_certs_bak st]) (\<lambda>_.
     bindP (fs_test w ''exists'' (ks_python_bak_dir st)) (\<lambda>has_bak.
     bindP (if has_bak then retP ()
         else bindP (fs_test w ''isdir'' (ks_python_lib_dir st)) (\<lambda>has_lib.
           if has_lib then fs_do w ''copytree'' [ks_python_lib_dir st, ks_python_bak_dir st] else retP ())) (\<lambda>_.
     bindP (unless_exists w (ks_bin_bak_dir st) ''copytree'' [ks_bin_dir st, ks_bin_bak_dir st]) (\<lambda>_.
     bindP (fs_do w ''rmtree'' [''/usr/lib'']) (\<lambda>_.
     bindP (fs_do w ''rmtree'' [''/cc/utils'']) (\<lambda>_. retP st))))))))"

definition dir_of :: "string \<Rightarrow> string" where
  "dir_of path = (if CHR ''/'' \<in> set path then rsplit1_head CHR ''/'' path else [])"

definition restore_after_kaniko_purgefs :: "world \<Rightarrow> kaniko_save_fs_state \<Rightarrow> unit prog" where
  "restore_after_kaniko_purgefs w st =
     bindP (fs_do w ''makedirs'' [dir_of (ks_certifi_certs_path st)]) (\<lambda>_.
     bindP (unless_exists w (ks_certifi_certs_path st) ''link'' [ks_certifi_bak st, ks_certifi_certs_path st]) (\<lambda>_.
     bindP (fs_do w ''makedirs'' [dir_of (ks_ca_certs_path st)]) (\<lambda>_.
     bindP (unless_exists w (ks_ca_certs_path st) ''link'' [ks_ca_certs_bak st, ks_ca_certs_path st]) (\<lambda>_.
     bindP (unless_exists w (ks_python_lib_dir st) ''symlink'' [ks_python_bak_dir st, ks_python_lib_dir st]) (\<lambda>_.
       fs_do w ''copytree'' [ks_bin_bak_dir st, ks_bin_dir st])))))"

subsection \<open>Building and pushing an image\<close>

record kaniko_args =
  ka_dockerfile_path :: string
  ka_context_dir :: string
  ka_image_push_path :: string
  ka_image_tag :: string
  ka_additional_tags :: "string list"
  ka_build_args :: "string list option"
  ka_home_dir :: string
  ka_force :: bool

definition image_ref_of :: "kaniko_args \<Rightarrow> string" where
  "image_ref_of a = ka_image_push_path a @ '':'' @ ka_image_tag a"

definition manifest_raw_call :: "string \<Rightarrow> call" where
  "manifest_raw_call image_ref = mk_call [''oci_client''] ''manifest_raw''
     [(''image_reference'', PStr image_ref), (''absent_ok'', PBool True)]"

definition is_image_available :: "world \<Rightarrow> string \<Rightarrow> bool prog" where
  "is_image_available w image_ref = bindP (ask w (manifest_raw_call image_ref)) (\<lambda>manifest. retP (manifest \<noteq> PNone))"

text \<open>The reference of an image is never just its tag: \<open>image_ref != 'latest'\<close> always holds.\<close>

definition skip_build :: "world \<Rightarrow> kaniko_args \<Rightarrow> bool prog" where
  "skip_build w a =
     (if ka_force a then retP False
      else bindP (is_image_available w (image_ref_of a)) (\<lambda>available. retP (available \<and> image_ref_of a \<noteq> ''latest'')))"

definition outfile_of :: "kaniko_args \<Rightarrow> string" where
  "outfile_of a = basename (ka_image_push_path a) @ ''.tar''"

definition kaniko_argv :: "kaniko_args \<Rightarrow> string \<Rightarrow> string list res" where
  "kaniko_argv a executor = (case ka_build_args a of
     None \<Rightarrow> Inl (TypeError ''not iterable'')
   | Some args \<Rightarrow> Inr ([executor, ''--no-push'', ''--dockerfile'', ''Dockerfile'', ''--context'', ka_context_dir a,
       ''--tarPath'', outfile_of a, ''--destination'', image_ref_of a] @ concat (map (\<lambda>arg. [''--build-arg'', arg]) args)))"

definition docker_cfg_path :: "kaniko_args \<Rightarrow> string" where
  "docker_cfg_path a = path_join (path_join (ka_home_dir a) [''.docker'']) [''config.json'']"

definition kaniko_run_call :: "kaniko_args \<Rightarrow> string list \<Rightarrow> call" where
  "kaniko_run_call a argv = mk_call [''subprocess''] ''run''
     [(''args'', PList (map PStr argv)), (''HOME'', PStr (ka_home_dir a)),
      (''GOOGLE_APPLICATION_CREDENTIALS'', PStr (docker_cfg_path a)), (''PATH'', PStr ''/kaniko/bin''), (''check'', PBool True)]"

definition publish_tarfile_call :: "kaniko_args \<Rightarrow> call" where
  "publish_tarfile_call a = mk_call [''oci''] ''publish_container_image_from_kaniko_tarfile''
     [(''image_tarfile_path'', PStr (outfile_of a)), (''image_reference'', PStr (image_ref_of a)),
      (''additional_tags'', PList (map PStr (ka_additional_tags a)))]"

definition build_and_push_kaniko :: "world \<Rightarrow> interpreter \<Rightarrow> kaniko_args \<Rightarrow> unit prog" where
  "build_and_push_kaniko w py a =
     bindP (fs_do w ''makedirs'' [path_join (ka_home_dir a) [''.docker'']]) (\<lambda>_.
     bindP (ask w (mk_call [''conf_writer''] ''write_docker_cfg''
         [(''dockerfile_path'', PStr (ka_dockerfile_path a)), (''docker_cfg_path'', PStr (docker_cfg_path a))])) (\<lambda>_.
     bindP (prepare_for_kaniko_purgefs w py) (\<lambda>purge_state.
     bindP (ask w (mk_call [''ccc.oci''] ''oci_client'' [])) (\<lambda>_.
     bindP (skip_build w a) (\<lambda>skip.
       if skip then retP ()
       else
         bindP (fs_test w ''exists'' ''/kaniko/executor'') (\<lambda>has_executor.
         bindP (liftP (kaniko_argv a (if has_executor then ''/kaniko/executor'' else ''/bin/kaniko''))) (\<lambda>argv.
         bindP (ask w (kaniko_run_call a argv)) (\<lambda>_.
         bindP (restore_after_kaniko_purgefs w purge_state) (\<lambda>_.
         bindP (ask w (publish_tarfile_call a)) (\<lambda>_. retP ()))))))))))"

subsection \<open>The base images\<close>

definition docker_dirs :: "string list" where
  "docker_dirs = [''build'', ''build-deb'', ''build-image'']"

definition base_image_args :: "string \<Rightarrow> string \<Rightarrow> string \<Rightarrow> string list \<Rightarrow> string \<Rightarrow> kaniko_args" where
  "base_image_args repo_dir oci_path version_label additional_tags docker_dir =
     (let base = (if docker_dir = ''build-deb'' then oci_path @ ''/gardenlinux-build:'' @ version_label else ''debian:testing-slim'') in
      \<lparr>ka_dockerfile_path = path_join repo_dir [''docker'', docker_dir, ''Dockerfile''],
       ka_context_dir = path_join repo_dir [''docker'', docker_dir],
       ka_image_push_path = oci_path @ ''/gardenlinux-'' @ docker_dir, ka_image_tag = version_label,
       ka_additional_tags = additional_tags, ka_build_args = Some [''build_base_image='' @ base],
       ka_home_dir = ''/kaniko'', ka_force = False\<rparr>)"

definition link_go_file :: "world \<Rightarrow> string \<Rightarrow> string \<Rightarrow> unit prog" where
  "link_go_file w repo_dir f = fs_do w ''symlink'' [f, path_join repo_dir [''docker'', ''build-image'', basename f]]"

definition additional_tags_of :: "build_target list \<Rightarrow> int \<Rightarrow> int \<Rightarrow> string list" where
  "additional_tags_of build_target_set major minor =
     [''latest''] @ (if FREEZE_VERSION \<in> set build_target_set \<and> minor = 0 then [''rel-'' @ str_int major] else [])"

text \<open>
  \<open>parse\<close> is \<open>parse_to_semver\<close>, of which the code reads the major and minor number.  A version with a
  positive minor number is announced to be skipped and then built like any other.
\<close>

definition build_base_image :: "world \<Rightarrow> interpreter \<Rightarrow> (string \<Rightarrow> (int \<times> int) res) \<Rightarrow> string \<Rightarrow> string \<Rightarrow> string \<Rightarrow> string \<Rightarrow> unit prog" where
  "build_base_image w py parse repo_dir oci_path version_label build_targets =
     bindP (liftP (set_from_str build_targets)) (\<lambda>build_target_set.
       if BASE_BUILD \<notin> set build_target_set then retP ()
       else
         bindP (liftP (parse version_label)) (\<lambda>(major, minor).
         bindP (ask w (fs_call ''glob'' [path_join repo_dir [''bin'', ''*.go'']])) (\<lambda>found.
         bindP (liftP (bindR (as_list found) (mapR as_str))) (\<lambda>go_files.
         bindP (forP (link_go_file w repo_dir) go_files) (\<lambda>_.
           forP (\<lambda>docker_dir. build_and_push_kaniko w py
             (base_image_args repo_dir oci_path version_label (additional_tags_of build_target_set major minor) docker_dir))
             docker_dirs)))))"

subsection \<open>What is built\<close>

text \<open>An image that is in the registry already is not built again, but the purge is not undone either.\<close>

definition restoring :: "interpreter \<Rightarrow> call \<Rightarrow> bool" where
  "restoring py c \<longleftrightarrow> c = fs_call ''copytree'' [ks_bin_bak_dir (saved_state py), ks_bin_dir (saved_state py)]"

lemma fs_call_inject [simp]: "fs_call f ps = fs_call g qs \<longleftrightarrow> f = g \<and> ps = qs"
  by (auto simp: fs_call_def inj_map_eq_map inj_def)

lemma image_ref_not_latest: "image_ref_of a \<noteq> ''latest''"
proof
  assume "image_ref_of a = ''latest''"
  moreover have "CHR '':'' \<in> set (image_ref_of a)" by (simp add: image_ref_of_def)
  ultimately show False by simp
qed

lemma fs_guarded [guarded_intros]:
  assumes "Q h (fs_call operation paths)"
  shows "guarded Q (fs_do w operation paths) h"
  using assms by (auto simp: fs_do_def intro!: guarded_intros)

lemma unless_exists_guarded [guarded_intros]:
  assumes "\<And>g. Q g (fs_call ''exists'' [test])" "\<And>g. Q g (fs_call operation paths)"
  shows "guarded Q (unless_exists w test operation paths) h"
  using assms by (auto simp: unless_exists_def fs_test_def intro!: guarded_intros)

lemma prepare_guarded: "guarded (\<lambda>_ c. \<not> restoring py c) (prepare_for_kaniko_purgefs w py) h"
  by (auto simp: prepare_for_kaniko_purgefs_def Let_def fs_test_def restoring_def saved_state_def intro!: guarded_intros)

lemma skip_build_guarded: "guarded (\<lambda>_ c. \<not> restoring py c) (skip_build w a) h"
  by (auto simp: skip_build_def is_image_available_def restoring_def manifest_raw_call_def fs_call_def intro!: guarded_intros)

lemma skip_build_available:
  assumes "\<not> ka_force a" "\<And>g. \<exists>m. answer w g (manifest_raw_call (image_ref_of a)) = Inr m \<and> m \<noteq> PNone"
  shows "skip_build w a g = Some (Inr True, g @ [manifest_raw_call (image_ref_of a)])"
  using assms(2) [of g] assms(1) image_ref_not_latest
  by (auto simp: skip_build_def is_image_available_def bindP_def ask_def retP_def)

lemma existing_image_not_restored:
  assumes "build_and_push_kaniko w py a h = Some (r, h')" "\<not> ka_force a"
    and "\<And>g. \<exists>m. answer w g (manifest_raw_call (image_ref_of a)) = Inr m \<and> m \<noteq> PNone"
  shows "\<exists>cs. h' = h @ cs \<and> list_all (\<lambda>c. \<not> restoring py c) cs"
proof -
  note skip = skip_build_available [OF assms(2,3)]
  have "guarded (\<lambda>_ c. \<not> restoring py c) (build_and_push_kaniko w py a) h"
    unfolding build_and_push_kaniko_def
    by (intro guarded_bind prepare_guarded skip_build_guarded)
      (auto simp: skip restoring_def fs_call_def intro!: guarded_intros)
  with assms(1) show ?thesis by (auto dest!: guardedD simp: ok_calls_plain)
qed

end
