(* ===== verification/Clone_Steps.thy ===== *)
theory Clone_Steps
  imports Github Step_Script
begin

text \<open>
  The steps that clone the repository: \<open>ci/steps/clone_repo_step.py\<close>, \<open>clone_simple_step.py\<close> and
  \<open>write_key.py\<close>, and the functions of \<open>os.path\<close> that steps use.  Git and the GitHub configurations are
  services.  A workspace has no symbolic links, so \<open>realpath\<close> is \<open>abspath\<close>.
\<close>

subsection \<open>Paths\<close>

definition slash :: char where
  "slash = CHR ''/''"

definition leading_slashes :: "string \<Rightarrow> string" where
  "leading_slashes path =
     (if startswith path ''//'' \<and> \<not> startswith path ''///'' then ''//''
      else if startswith path ''/'' then ''/'' else '''')"

fun norm_comps :: "bool \<Rightarrow> string list \<Rightarrow> string list \<Rightarrow> string list" where
  "norm_comps rooted acc [] = rev acc"
| "norm_comps rooted acc (c # cs) =
     (if c = [] \<or> c = ''.'' then norm_comps rooted acc cs
      else if c \<noteq> ''..'' \<or> (\<not> rooted \<and> acc = []) \<or> (acc \<noteq> [] \<and> hd acc = ''..'') then norm_comps rooted (c # acc) cs
      else norm_comps rooted (if acc = [] then [] else tl acc) cs)"

definition normpath :: "string \<Rightarrow> string" where
  "normpath path =
     (let lead = leading_slashes path;
          p = lead @ py_join ''/'' (norm_comps (lead \<noteq> []) [] (py_split slash path)) in
      if p = [] then ''.'' else p)"

definition abspath :: "string \<Rightarrow> string \<Rightarrow> string" where
  "abspath cwd path = normpath (path_join cwd [path])"

definition path_parts :: "string \<Rightarrow> string list" where
  "path_parts path = filter (\<lambda>c. c \<noteq> []) (py_split slash path)"

fun common_prefix :: "string list \<Rightarrow> string list \<Rightarrow> nat" where
  "common_prefix (x # xs) (y # ys) = (if x = y then Suc (common_prefix xs ys) else 0)"
| "common_prefix _ _ = 0"

definition relpath :: "string \<Rightarrow> string \<Rightarrow> string \<Rightarrow> string" where
  "relpath cwd path start =
     (let start_list = path_parts (abspath cwd start); path_list = path_parts (abspath cwd path);
          i = common_prefix start_list path_list;
          rel_list = replicate (length start_list - i) ''..'' @ drop i path_list in
      if rel_list = [] then ''.'' else path_join (hd rel_list) (tl rel_list))"

text \<open>The extension of a file name: the last dot counts unless only dots come before it.\<close>

definition splitext_ext :: "string \<Rightarrow> string" where
  "splitext_ext filename =
     (let ext = rev (takeWhile (\<lambda>c. c \<noteq> CHR ''.'') (rev filename));
          stem = take (length filename - length ext - 1) filename in
      if CHR ''.'' \<in> set filename \<and> (\<exists>c \<in> set stem. c \<noteq> CHR ''.'') then ''.'' @ ext else '''')"

definition path_split :: "string \<Rightarrow> string \<times> string" where
  "path_split p =
     (let tail = basename p; head = take (length p - length tail) p in
      if list_all (\<lambda>c. c = slash) head then (head, tail)
      else (rev (dropWhile (\<lambda>c. c = slash) (rev head)), tail))"

definition unlink :: "string \<Rightarrow> ('s workspace, unit) proc" where
  "unlink path ws =
     (if path \<in> fst ` set (ws_files ws)
      then Some (Inr (), ws\<lparr>ws_files := filter (\<lambda>(p, c). p \<noteq> path) (ws_files ws)\<rparr>)
      else Some (Inl (FileNotFoundError path), ws))"

subsection \<open>Git\<close>

definition clone_into_call :: "pobj \<Rightarrow> string \<Rightarrow> string \<Rightarrow> call" where
  "clone_into_call cfg repo_dir repo_path = mk_call [''gitutil'', ''GitHelper''] ''clone_into''
     [(''target_directory'', PStr repo_dir), (''github_cfg'', cfg), (''github_repo_path'', PStr repo_path)]"

definition fetch_head_call :: "string \<Rightarrow> int \<Rightarrow> call" where
  "fetch_head_call repo_dir pr_int =
     mk_call [''git_helper'', repo_dir] ''fetch_head'' [(''ref'', PStr (''refs/pull/'' @ str_int pr_int @ ''/head''))]"

definition clone_from_call :: "string \<Rightarrow> string \<Rightarrow> call" where
  "clone_from_call url to_path = mk_call [''git'', ''Repo''] ''clone_from'' [(''url'', PStr url), (''to_path'', PStr to_path)]"

definition fetch_call :: "string \<Rightarrow> int \<Rightarrow> call" where
  "fetch_call repo_dir pr_int = mk_call [''git'', repo_dir] ''fetch''
     [(''remote'', PStr ''origin''),
      (''refspec'', PStr (''refs/pull/'' @ str_int pr_int @ ''/head:refs/remotes/origin/pr/'' @ str_int pr_int))]"

definition checkout_call :: "string \<Rightarrow> string \<Rightarrow> call" where
  "checkout_call repo_dir committish = mk_call [''git'', repo_dir] ''checkout'' [(''ref'', PStr committish)]"

definition head_call :: "string \<Rightarrow> call" where
  "head_call repo_dir = mk_call [''git'', repo_dir] ''head.commit'' []"

definition apply_call :: "string \<Rightarrow> string \<Rightarrow> call" where
  "apply_call repo_dir patch_path =
     mk_call [''git'', repo_dir] ''apply'' [(''patch'', PStr patch_path), (''option'', PStr ''--whitespace=nowarn'')]"

text \<open>\<open>if pr_id and (pr_int := int(pr_id)) > 0\<close>\<close>

definition pull_request_number :: "string option \<Rightarrow> int option res" where
  "pull_request_number pr_id = (case pr_id of
     None \<Rightarrow> Inr None
   | Some s \<Rightarrow> if s = [] then Inr None else bindR (py_int s) (\<lambda>pr_int. Inr (if 0 < pr_int then Some pr_int else None)))"

definition head_of :: "world \<Rightarrow> string \<Rightarrow> (pobj \<times> pobj) prog" where
  "head_of w repo_dir =
     bindP (ask w (head_call repo_dir)) (\<lambda>commit.
     bindP (liftP (item ''message'' commit)) (\<lambda>message.
     bindP (liftP (item ''hexsha'' commit)) (\<lambda>hexsha. retP (message, hexsha))))"

definition git_clone :: "world \<Rightarrow> string \<Rightarrow> string \<Rightarrow> string \<Rightarrow> (pobj \<times> pobj) prog" where
  "git_clone w git_url committish working_dir =
     bindP (ask w (clone_from_call git_url working_dir)) (\<lambda>_.
     bindP (ask w (checkout_call working_dir committish)) (\<lambda>_. head_of w working_dir))"

subsection \<open>Cloning in the cluster\<close>

definition clone_and_checkout_with_technical_user :: "world \<Rightarrow> pobj \<Rightarrow> string \<Rightarrow> string \<Rightarrow> string \<Rightarrow> string option \<Rightarrow>
    (pobj \<times> pobj) prog" where
  "clone_and_checkout_with_technical_user w cfg committish repo_dir repo_path pr_id =
     bindP (ask w (clone_into_call cfg repo_dir repo_path)) (\<lambda>_.
     bindP (liftP (pull_request_number pr_id)) (\<lambda>pr.
     bindP (case pr of None \<Rightarrow> retP PNone | Some pr_int \<Rightarrow> ask w (fetch_head_call repo_dir pr_int)) (\<lambda>_.
     bindP (ask w (checkout_call repo_dir committish)) (\<lambda>_. head_of w repo_dir))))"

definition anonymous_url :: "string \<Rightarrow> string" where
  "anonymous_url git_url =
     (let url = (if contains ''://'' git_url then git_url else ''x://'' @ git_url) in
      ''https://'' @ fst (url_netloc (snd (url_scheme url))) @ url_path url)"

definition clone_and_checkout_anonymously :: "world \<Rightarrow> string \<Rightarrow> string \<Rightarrow> string \<Rightarrow> string option \<Rightarrow> (pobj \<times> pobj) prog" where
  "clone_and_checkout_anonymously w git_url committish repo_dir pr_id =
     bindP (ask w (clone_from_call (anonymous_url git_url) repo_dir)) (\<lambda>_.
     bindP (liftP (pull_request_number pr_id)) (\<lambda>pr.
     bindP (case pr of None \<Rightarrow> retP PNone | Some pr_int \<Rightarrow> ask w (fetch_call repo_dir pr_int)) (\<lambda>_.
     bindP (ask w (checkout_call repo_dir committish)) (\<lambda>_. head_of w repo_dir))))"

definition clone_repo :: "world \<Rightarrow> string \<Rightarrow> string \<Rightarrow> string \<Rightarrow> string option \<Rightarrow> (pobj \<times> pobj) prog" where
  "clone_repo w giturl committish repo_dir pr_id =
     catchP (bindP (github_cfg w giturl) (\<lambda>cfg.
         clone_and_checkout_with_technical_user w cfg committish repo_dir (url_path giturl) pr_id))
       (\<lambda>e. case e of
          ValueError _ \<Rightarrow>
            if url_hostname giturl = Some ''github.com''
            then clone_and_checkout_anonymously w giturl committish repo_dir pr_id
            else raiseP (RuntimeError giturl)
        | _ \<Rightarrow> raiseP e)"

definition apply_patch :: "world \<Rightarrow> string \<Rightarrow> string \<Rightarrow> ('s workspace, unit) proc" where
  "apply_patch w patch_content repo_dir =
     bindP (liftP (decoded_patch patch_content)) (\<lambda>patch_decoded.
     (let patch_path = path_join repo_dir [''gardenlinux.patch''] in
     bindP (write_file patch_path patch_decoded) (\<lambda>_.
     bindP (calling (ask w (apply_call repo_dir patch_path))) (\<lambda>_. unlink patch_path))))"

definition makedirs :: "string \<Rightarrow> ('s workspace, unit) proc" where
  "makedirs path ws = Some (Inr (), ws\<lparr>ws_dirs := (if path \<in> set (ws_dirs ws) then ws_dirs ws else ws_dirs ws @ [path])\<rparr>)"

definition prepare_home_dir :: "string \<Rightarrow> string option \<Rightarrow> ('s workspace, unit) proc" where
  "prepare_home_dir cwd home = (case home of
     None \<Rightarrow> retP () | Some d \<Rightarrow> if d = [] then retP () else makedirs (abspath cwd d))"

text \<open>\<open>patch_content\<close> is the global \<open>PATCH_CONTENT\<close> that the rendered script sets; the files the clone creates are not followed.\<close>

definition clone_and_copy :: "world \<Rightarrow> string \<Rightarrow> string option \<Rightarrow> string \<Rightarrow> string \<Rightarrow> string \<Rightarrow> string \<Rightarrow> string option \<Rightarrow>
    ('s workspace, unit) proc" where
  "clone_and_copy w cwd home patch_content giturl committish repo_dir0 pr_id =
     (let repo_dir = abspath cwd repo_dir0 in
     bindP (calling (clone_repo w giturl committish repo_dir pr_id)) (\<lambda>_.
     bindP (prepare_home_dir cwd home) (\<lambda>_.
       if patch_content \<noteq> [] then apply_patch w patch_content repo_dir else retP ())))"

subsection \<open>The signing key\<close>

definition key_config_call :: "string \<Rightarrow> call" where
  "key_config_call key_config_name = mk_call [''ctx'', ''cfg_factory''] ''_cfg_element''
     [(''cfg_type_name'', PStr ''gpg_key''), (''cfg_name'', PStr key_config_name)]"

definition write_key_to_file :: "world \<Rightarrow> string \<Rightarrow> string \<Rightarrow> ('s workspace, unit) proc" where
  "write_key_to_file w target_file_path key_config_name =
     bindP (calling (ask w (key_config_call key_config_name))) (\<lambda>key_config.
     bindP (write_file target_file_path '''') (\<lambda>_.
     bindP (liftP (bindR (item ''raw'' key_config) (item_str ''private''))) (\<lambda>key.
       write_file target_file_path key)))"

definition write_key :: "world \<Rightarrow> string \<Rightarrow> string \<Rightarrow> ('s workspace, unit) proc" where
  "write_key w repo_dir key_config_name =
     write_key_to_file w (path_join repo_dir [''cert'', ''private.key'']) key_config_name"

subsection \<open>What is cloned\<close>

text \<open>Only a repository of github.com is ever cloned without the technical user, and then with https.\<close>

definition anonymous_clone :: "call \<Rightarrow> bool" where
  "anonymous_clone c \<longleftrightarrow> (\<exists>url dir. c = clone_from_call url dir)"

lemma technical_user_guarded:
  "guarded (\<lambda>_ c. \<not> anonymous_clone c) (clone_and_checkout_with_technical_user w cfg committish repo_dir repo_path pr_id) h"
  by (auto simp: clone_and_checkout_with_technical_user_def head_of_def anonymous_clone_def clone_from_call_def
      clone_into_call_def fetch_head_call_def checkout_call_def head_call_def intro!: guarded_intros)

lemma only_github_anonymous:
  assumes "clone_repo w giturl committish repo_dir pr_id h = Some (r, h')" "url_hostname giturl \<noteq> Some ''github.com''"
  shows "\<exists>cs. h' = h @ cs \<and> list_all (\<lambda>c. \<not> anonymous_clone c) cs"
proof -
  have "guarded (\<lambda>_ c. \<not> anonymous_clone c) (clone_repo w giturl committish repo_dir pr_id) h"
    using assms(2) technical_user_guarded
    by (auto simp: clone_repo_def github_cfg_def anonymous_clone_def github_cfg_call_def clone_from_call_def
        intro!: guarded_intros split: py_err.split)
  with assms(1) show ?thesis by (auto dest!: guardedD simp: ok_calls_plain)
qed

text \<open>The patch file that the step applies does not stay in the repository.\<close>

lemma patch_file_removed:
  assumes "apply_patch w patch_content repo_dir ws = Some (Inr (), ws')"
  shows "path_join repo_dir [''gardenlinux.patch''] \<notin> fst ` set (ws_files ws')"
  using assms by (auto simp: apply_patch_def Let_def prog_simps unlink_def split: if_splits simp del: path_join.simps)

end
