(* ===== verification/Package_Steps.thy ===== *)
theory Package_Steps
  imports Clone_Steps
begin

text \<open>
  Packages in S3: \<open>ci/glci/s3.py\<close>, \<open>ci/steps/upload_packages.py\<close> and
  \<open>ci/steps/publish_package_repository.py\<close>.  The resource of boto3 is a parameter with the three
  methods of a bucket that the code uses.
\<close>

record 's s3_resource =
  rs_upload_file :: "string \<Rightarrow> string \<Rightarrow> string \<Rightarrow> 's \<Rightarrow> 's res"
  rs_objects_filter :: "string \<Rightarrow> string \<Rightarrow> 's \<Rightarrow> string list res"
  rs_download_file :: "string \<Rightarrow> string \<Rightarrow> 's \<Rightarrow> string res"

definition session_call :: "string \<Rightarrow> string \<Rightarrow> call" where
  "session_call aws_cfg_name kind =
     mk_call [''ccc.aws'', ''session''] kind [(''aws_cfg'', PStr aws_cfg_name), (''service'', PStr ''s3'')]"

definition s3_resource_for_aws_cfg_name :: "world \<Rightarrow> string \<Rightarrow> pobj prog" where
  "s3_resource_for_aws_cfg_name w aws_cfg_name = ask w (session_call aws_cfg_name ''resource'')"

definition s3_client_for_aws_cfg_name :: "world \<Rightarrow> string \<Rightarrow> pobj prog" where
  "s3_client_for_aws_cfg_name w aws_cfg_name = ask w (session_call aws_cfg_name ''client'')"

definition s3_resource_of :: "world \<Rightarrow> cicd_cfg \<Rightarrow> pobj prog" where
  "s3_resource_of w cfg = s3_resource_for_aws_cfg_name w (bc_aws_cfg_name (cc_build cfg))"

definition s3_client_of :: "world \<Rightarrow> cicd_cfg \<Rightarrow> pobj prog" where
  "s3_client_of w cfg = s3_client_for_aws_cfg_name w (bc_aws_cfg_name (cc_build cfg))"

subsection \<open>Directories\<close>

definition upload_key_of :: "string \<Rightarrow> string \<Rightarrow> string \<Rightarrow> string \<Rightarrow> string" where
  "upload_key_of cwd src_dir_path dest_dir_path src_file_path =
     (let processed_filename = py_replace (basename src_file_path) ''+'' '''' in
      path_join dest_dir_path
        [relpath cwd (path_join (fst (path_split src_file_path)) [processed_filename]) src_dir_path])"

definition upload_one :: "'s s3_resource \<Rightarrow> string \<Rightarrow> string \<Rightarrow> string \<Rightarrow> string \<Rightarrow> string \<times> string \<Rightarrow> ('s workspace, unit) proc" where
  "upload_one s3 cwd bucket_name src_dir_path dest_dir_path = (\<lambda>(src_file_path, content).
     bindP (isfile src_file_path) (\<lambda>found.
       if found then storing (rs_upload_file s3 bucket_name (upload_key_of cwd src_dir_path dest_dir_path src_file_path) content)
       else retP ()))"

definition upload_dir :: "'s s3_resource \<Rightarrow> string \<Rightarrow> string \<Rightarrow> string \<Rightarrow> string \<Rightarrow> ('s workspace, unit) proc" where
  "upload_dir s3 cwd bucket_name src_dir_path dest_dir_path =
     bindP (walk src_dir_path) (forP (upload_one s3 cwd bucket_name src_dir_path dest_dir_path))"

definition local_path :: "string \<Rightarrow> string \<Rightarrow> string" where
  "local_path local_dir key =
     (let (s3_dirname, s3_filename) = path_split key in path_join (path_join local_dir [s3_dirname]) [s3_filename])"

definition download_one :: "'s s3_resource \<Rightarrow> string \<Rightarrow> string \<Rightarrow> string \<Rightarrow> ('s workspace, unit) proc" where
  "download_one s3 bucket_name local_dir key =
     bindP (makedirs (path_join local_dir [fst (path_split key)])) (\<lambda>_.
     bindP (reading (rs_download_file s3 bucket_name key)) (\<lambda>content.
       write_file (local_path local_dir key) content))"

definition download_dir :: "'s s3_resource \<Rightarrow> string \<Rightarrow> string \<Rightarrow> string \<Rightarrow> string \<Rightarrow> ('s workspace, unit) proc" where
  "download_dir s3 cwd bucket_name s3_dir local_dir =
     bindP (reading (rs_objects_filter s3 bucket_name s3_dir)) (\<lambda>keys.
       forP (download_one s3 bucket_name (abspath cwd local_dir)) keys)"

subsection \<open>Upload of the packages\<close>

definition PACKAGE_BUILD_DIR :: string where
  "PACKAGE_BUILD_DIR = ''main''"

definition upload_packages :: "('z, 's) step_env \<Rightarrow> 's s3_resource \<Rightarrow> string \<Rightarrow> string \<Rightarrow> string \<Rightarrow> string \<Rightarrow> ('s workspace, unit) proc" where
  "upload_packages env s3 cwd cicd_cfg_name package_path_s3_prefix src_dir_path =
     bindP (liftP (se_cicd_cfg env cicd_cfg_name)) (\<lambda>cfg.
       case cc_package_build cfg of
         None \<Rightarrow> raiseP (RuntimeError cicd_cfg_name)
       | Some package_build_cfg \<Rightarrow>
           bindP (calling (s3_resource_for_aws_cfg_name (ce_world env) (pbc_aws_cfg_name package_build_cfg))) (\<lambda>_.
             upload_dir s3 cwd (pbc_s3_bucket_name package_build_cfg)
               (path_join src_dir_path [PACKAGE_BUILD_DIR]) (path_join package_path_s3_prefix [PACKAGE_BUILD_DIR])))"

subsection \<open>The package repository\<close>

definition GARDENLINUX_DISTRIBUTION :: string where
  "GARDENLINUX_DISTRIBUTION = ''bookworm''"

definition distributions_file :: string where
  "distributions_file = concat (map (\<lambda>l. l @ [newline])
     [''Origin: Gardenlinux-bookworm'', ''Label: Gardenlinux-bookworm'', ''Codename: '' @ GARDENLINUX_DISTRIBUTION,
      ''Architectures: amd64'', ''Components: gardenlinux'', ''Description: Apt repository for Gardenlinux'',
      ''Update: s3-remote''])"

definition updates_file :: string where
  "updates_file = concat (map (\<lambda>l. l @ [newline])
     [''Name: s3-remote'', ''Method: https://gardenlinux-pkgs.s3.eu-central-1.amazonaws.com/'', ''Components: gardenlinux''])"

definition setup_reprepro :: "string \<Rightarrow> ('s workspace, unit) proc" where
  "setup_reprepro reprepro_base_dir =
     (let config_dir = path_join reprepro_base_dir [''conf''] in
     bindP (isdir config_dir) (\<lambda>found.
       if found then raiseP (OtherException ''FileExistsError'')
       else
         bindP (makedirs config_dir) (\<lambda>_.
         bindP (write_file (path_join config_dir [''distributions'']) distributions_file) (\<lambda>_.
           write_file (path_join config_dir [''updates'']) updates_file))))"

text \<open>A temporary directory is removed with everything in it, whether the block ends normally or not.\<close>

definition below :: "string \<Rightarrow> string \<Rightarrow> bool" where
  "below dir path \<longleftrightarrow> path = dir \<or> startswith path (dir @ ''/'')"

definition without_dir :: "string \<Rightarrow> 's workspace \<Rightarrow> 's workspace" where
  "without_dir dir ws = ws\<lparr>ws_files := filter (\<lambda>(p, c). \<not> below dir p) (ws_files ws),
     ws_dirs := filter (\<lambda>p. \<not> below dir p) (ws_dirs ws)\<rparr>"

definition with_temporary_directory :: "string \<Rightarrow> ('s workspace, 'a) proc \<Rightarrow> ('s workspace, 'a) proc" where
  "with_temporary_directory dir body ws =
     map_option (\<lambda>(r, ws'). (r, without_dir dir ws')) (body (ws\<lparr>ws_dirs := ws_dirs ws @ [dir]\<rparr>))"

text \<open>
  The module \<open>glci.s3\<close> has no function \<open>download_dir_from_s3\<close> (and no \<open>upload_dir_to_s3\<close>): looking it up raises, and
  nothing after it runs.  The temporary directories are those that \<open>tempfile\<close> creates.
\<close>

definition build_package_repository :: "('z, 's) step_env \<Rightarrow> string \<Rightarrow> string \<Rightarrow> string \<Rightarrow> ('s workspace, unit) proc" where
  "build_package_repository env cicd_cfg_name reprepro_base_dir tmp_dir =
     bindP (liftP (se_cicd_cfg env cicd_cfg_name)) (\<lambda>cfg.
     bindP (calling (s3_resource_of (ce_world env) cfg)) (\<lambda>_.
       with_temporary_directory reprepro_base_dir
         (bindP (setup_reprepro reprepro_base_dir) (\<lambda>_.
            with_temporary_directory tmp_dir (raiseP (AttributeError ''download_dir_from_s3''))))))"

subsection \<open>What is uploaded\<close>

text \<open>Two files whose names differ in plus signs only are stored under the same key: the one found last stays.\<close>

lemma plus_signs_collide:
  "upload_key_of cwd src dest (dir @ ''/libc++.deb'') = upload_key_of cwd src dest (dir @ ''/libc.deb'')"
proof -
  have b: "basename (dir @ ''/libc++.deb'') = ''libc++.deb''" "basename (dir @ ''/libc.deb'') = ''libc.deb''"
    by (simp_all add: basename_def)
  have r: "py_replace ''libc++.deb'' ''+'' '''' = py_replace ''libc.deb'' ''+'' ''''"
    by code_simp
  have "fst (path_split (dir @ ''/libc++.deb'')) = fst (path_split (dir @ ''/libc.deb''))"
    by (simp add: path_split_def b Let_def)
  then show ?thesis by (simp only: upload_key_of_def b r)
qed

text \<open>The package repository is never built; what the step wrote is gone again.\<close>

lemma setup_reprepro_store:
  "setup_reprepro dir ws = Some (r, ws') \<Longrightarrow> ws_store ws' = ws_store ws"
  by (auto simp: setup_reprepro_def Let_def bindP_def isdir_def raiseP_def makedirs_def write_file_def split: if_splits
      simp del: path_join.simps)

lemma package_repository_fails:
  assumes "build_package_repository env cicd_cfg_name base tmp ws = Some (r, ws')"
  shows "\<exists>e. r = Inl e \<and> ws_store ws' = ws_store ws"
  using assms
  by (cases r) (auto simp: build_package_repository_def with_temporary_directory_def without_dir_def prog_simps
      s3_resource_of_def s3_resource_for_aws_cfg_name_def dest!: setup_reprepro_store)

end
