(* ===== verification/Cli.thy ===== *)
theory Cli
  imports Build_Steps Clean Pipeline_Run
begin

text \<open>
  The front ends: the commands of \<open>bin/.cicd-cli.py\<close>, \<open>ci/render_all.py\<close> and
  \<open>ci/render_credentials.py\<close>.  A command line is the list of its options, which the parser takes in their
  order; git, the files of the working tree and the texts of the YAML library are parameters.  What a
  command prints on the standard output is the content of \<open>/dev/stdout\<close>, progress and warnings apart.
\<close>

record ('z, 's) cli_env = "('z, 's) step_env" +
  cl_read :: file_reader
  cl_epoch :: int
  cl_today :: datetime
  cl_isoparse :: "string \<Rightarrow> datetime res"
  cl_head_sha :: string
  cl_rev_parse :: "string \<Rightarrow> string res"
  cl_dump :: "online_release_manifest \<Rightarrow> string"
  cl_dump_set :: "online_release_manifest_set \<Rightarrow> string"

subsection \<open>Options\<close>

datatype cli_opt =
    Opt_committish string
  | Opt_cicd_cfg string
  | Opt_version string
  | Opt_gardenlinux_epoch string
  | Opt_outfile string
  | Opt_architecture string
  | Opt_platform string
  | Opt_modifier string
  | Opt_download string
  | Opt_flavourset_name string
  | Opt_build_type string

record namespace =
  ns_committish :: "string option"
  ns_cicd_cfg :: string
  ns_version :: string
  ns_gardenlinux_epoch :: int
  ns_outfile :: "string option"
  ns_architecture :: architecture
  ns_platform :: "string option"
  ns_modifiers :: "string list"
  ns_download :: "string option"
  ns_flavourset_name :: string
  ns_build_type :: build_type

definition parser_error :: "('s, 'a) proc" where
  "parser_error = exit_with 2"

text \<open>\<open>EnumAction\<close>: the values of the enumeration are the choices of the option.\<close>

definition enum_action :: "(string \<Rightarrow> 'e res) \<Rightarrow> string \<Rightarrow> ('s, 'e) proc" where
  "enum_action of_value v = (case of_value v of Inl _ \<Rightarrow> parser_error | Inr e \<Rightarrow> retP e)"

text \<open>
  \<open>AddModifierAction\<close>: the platform is that of the options before.  An error of an action is not one of the
  parser, it ends the command.
\<close>

definition add_modifier_action :: "feature_descriptor list \<Rightarrow> nat \<Rightarrow> string option \<Rightarrow> string \<Rightarrow> string list res" where
  "add_modifier_action fs n platform v =
     (let choices = map fd_name (modifiers fs) in
     bindR (mapR (\<lambda>m. let m = py_strip m in if m \<in> set choices then Inr m else Inl (ValueError m)) (py_split CHR '','' v)) (\<lambda>raw_modifiers.
       case platform of
         None \<Rightarrow> Inl (ValueError ''None'')
       | Some p \<Rightarrow> normalised_modifiers fs n p raw_modifiers))"

definition common_option :: "('z, 's) cli_env \<Rightarrow> cli_opt \<Rightarrow> namespace \<Rightarrow> ('s workspace, namespace option) proc" where
  "common_option env opt ns = (case opt of
     Opt_committish c \<Rightarrow> bindP (liftP (cl_rev_parse env c)) (\<lambda>sha. retP (Some (ns\<lparr>ns_committish := Some sha\<rparr>)))
   | Opt_cicd_cfg c \<Rightarrow> retP (Some (ns\<lparr>ns_cicd_cfg := c\<rparr>))
   | Opt_version v \<Rightarrow> retP (Some (ns\<lparr>ns_version := v\<rparr>))
   | Opt_gardenlinux_epoch s \<Rightarrow> (case py_int s of Inl _ \<Rightarrow> parser_error | Inr e \<Rightarrow> retP (Some (ns\<lparr>ns_gardenlinux_epoch := e\<rparr>)))
   | Opt_outfile f \<Rightarrow> bindP (write_file f '''') (\<lambda>_. retP (Some (ns\<lparr>ns_outfile := Some f\<rparr>)))
   | _ \<Rightarrow> retP None)"

definition single_option :: "('z, 's) cli_env \<Rightarrow> cli_opt \<Rightarrow> namespace \<Rightarrow> ('s workspace, namespace) proc" where
  "single_option env opt ns =
     bindP (common_option env opt ns) (\<lambda>common. case common of
       Some ns' \<Rightarrow> retP ns'
     | None \<Rightarrow> (case opt of
         Opt_architecture a \<Rightarrow> bindP (enum_action architecture_of a) (\<lambda>e. retP (ns\<lparr>ns_architecture := e\<rparr>))
       | Opt_platform p \<Rightarrow> if p \<in> fd_name ` set (platforms (ce_features env)) then retP (ns\<lparr>ns_platform := Some p\<rparr>) else parser_error
       | Opt_modifier m \<Rightarrow> bindP (liftP (add_modifier_action (ce_features env) (ce_fuel env) (ns_platform ns) m))
           (\<lambda>mods. retP (ns\<lparr>ns_modifiers := mods\<rparr>))
       | Opt_download d \<Rightarrow> retP (ns\<lparr>ns_download := Some d\<rparr>)
       | _ \<Rightarrow> parser_error))"

definition set_option :: "('z, 's) cli_env \<Rightarrow> cli_opt \<Rightarrow> namespace \<Rightarrow> ('s workspace, namespace) proc" where
  "set_option env opt ns =
     bindP (common_option env opt ns) (\<lambda>common. case common of
       Some ns' \<Rightarrow> retP ns'
     | None \<Rightarrow> (case opt of
         Opt_flavourset_name f \<Rightarrow> retP (ns\<lparr>ns_flavourset_name := f\<rparr>)
       | Opt_build_type b \<Rightarrow> bindP (enum_action build_type_of b) (\<lambda>e. retP (ns\<lparr>ns_build_type := e\<rparr>))
       | _ \<Rightarrow> parser_error))"

text \<open>
  \<open>_retrieve_argparse\<close>: the defaults of the version and the epoch are read from the working tree before any
  option is looked at, whether they are needed or not.
\<close>

definition default_modifiers :: "string list" where
  "default_modifiers = [''base'', ''cloud'', ''gardener'', ''server'', ''_nopkg'', ''_prod'', ''_readonly'', ''_slim'']"

definition retrieve_defaults :: "('z, 's) cli_env \<Rightarrow> namespace res" where
  "retrieve_defaults env =
     bindR (parse_version_from_workingtree (cl_read env) version_path) (\<lambda>version.
     bindR (gardenlinux_epoch_from_workingtree (cl_read env) version_path (cl_epoch env)) (\<lambda>epoch.
       Inr \<lparr>ns_committish = None, ns_cicd_cfg = ''default'', ns_version = version, ns_gardenlinux_epoch = epoch,
            ns_outfile = None, ns_architecture = AMD64, ns_platform = None, ns_modifiers = default_modifiers,
            ns_download = None, ns_flavourset_name = ''all'', ns_build_type = BT_RELEASE\<rparr>))"

definition retrieve_args :: "('z, 's) cli_env \<Rightarrow> (cli_opt \<Rightarrow> namespace \<Rightarrow> ('s workspace, namespace) proc) \<Rightarrow> cli_opt list \<Rightarrow>
    ('s workspace, namespace \<times> string) proc" where
  "retrieve_args env handle opts =
     bindP (liftP (retrieve_defaults env)) (\<lambda>ns0.
     bindP (foldP handle opts ns0) (\<lambda>ns.
     bindP (case ns_committish ns of Some c \<Rightarrow> retP c | None \<Rightarrow> liftP (cl_rev_parse env (cl_head_sha env))) (\<lambda>committish.
       retP (ns, committish))))"

definition emit_yaml :: "string option \<Rightarrow> string \<Rightarrow> ('s workspace, unit) proc" where
  "emit_yaml outfile content = write_file (case outfile of None \<Rightarrow> ''/dev/stdout'' | Some f \<Rightarrow> f) content"

subsection \<open>Retrieval of a manifest\<close>

definition download_obj_to_file :: "('z, 's) cli_env \<Rightarrow> string \<Rightarrow> string \<Rightarrow> string \<Rightarrow> ('s workspace, int) proc" where
  "download_obj_to_file env bucket_name s3_key file_name =
     bindP (reading (s3_download_fileobj (se_s3 env) bucket_name s3_key)) (\<lambda>content.
     bindP (write_file file_name content) (\<lambda>_. retP 0))"

definition is_log :: "string \<Rightarrow> bool" where
  "is_log name \<longleftrightarrow> name = ''log'' \<or> name = ''logs''"

text \<open>The bucket and the key of an artifact; \<open>None\<close> if the manifest has none of that name.\<close>

definition artifact_location :: "cicd_cfg \<Rightarrow> string \<Rightarrow> online_release_manifest \<Rightarrow> (string \<times> string) option" where
  "artifact_location cfg name manifest =
     (if is_log name then
        (case orm_logs manifest of
           None \<Rightarrow> None
         | Some (Log_file f) \<Rightarrow> Some (rf_s3_bucket_name f, rf_s3_key f)
         | Some (Log_str s) \<Rightarrow> if s = [] then None else Some (bucket_of cfg, s))
      else (case filter (\<lambda>f. rf_name f = name) (rm_paths manifest) of
           [] \<Rightarrow> None
         | f # _ \<Rightarrow> Some (rf_s3_bucket_name f, rf_s3_key f)))"

definition download_release_artifact :: "('z, 's) cli_env \<Rightarrow> cicd_cfg \<Rightarrow> string \<Rightarrow> string \<Rightarrow> online_release_manifest \<Rightarrow>
    ('s workspace, int) proc" where
  "download_release_artifact env cfg name outfile manifest = (case artifact_location cfg name manifest of
     None \<Rightarrow> retP 1
   | Some (s3_bucket, s3_key) \<Rightarrow> download_obj_to_file env s3_bucket s3_key outfile)"

definition download_name :: "string option \<Rightarrow> string \<Rightarrow> string" where
  "download_name outfile download = (case outfile of
     None \<Rightarrow> if is_log download then ''build_log.zip'' else download
   | Some f \<Rightarrow> f)"

text \<open>The file that the parser has opened is closed and removed before the download.\<close>

definition remove_outfile :: "string option \<Rightarrow> ('s workspace, unit) proc" where
  "remove_outfile outfile ws = (case outfile of
     None \<Rightarrow> Some (Inr (), ws)
   | Some f \<Rightarrow> Some (Inr (), ws\<lparr>ws_files := filter (\<lambda>(p, c). p \<noteq> f) (ws_files ws)\<rparr>))"

definition requested_release :: "namespace \<Rightarrow> string \<Rightarrow> string \<Rightarrow> string \<Rightarrow> release_identifier" where
  "requested_release ns platform committish version =
     \<lparr>ri_build_committish = committish, ri_version = version, ri_gardenlinux_epoch = ns_gardenlinux_epoch ns,
      ri_architecture = ns_architecture ns, ri_platform = platform, ri_modifiers = ns_modifiers ns\<rparr>"

definition deliver :: "('z, 's) cli_env \<Rightarrow> namespace \<Rightarrow> cicd_cfg \<Rightarrow> online_release_manifest \<Rightarrow> ('s workspace, int option) proc" where
  "deliver env ns cfg release = (case ns_download ns of
     Some download \<Rightarrow>
       if download = [] then bindP (emit_yaml (ns_outfile ns) (cl_dump env release)) (\<lambda>_. retP None)
       else
         bindP (remove_outfile (ns_outfile ns)) (\<lambda>_.
         bindP (download_release_artifact env cfg download (download_name (ns_outfile ns) download) release) (\<lambda>res_code.
           retP (Some res_code)))
   | None \<Rightarrow> bindP (emit_yaml (ns_outfile ns) (cl_dump env release)) (\<lambda>_. retP None))"

definition retrieve_single_manifest :: "('z, 's) cli_env \<Rightarrow> cli_opt list \<Rightarrow> ('s workspace, int option) proc" where
  "retrieve_single_manifest env opts =
     bindP (retrieve_args env (single_option env) opts) (\<lambda>(ns, committish).
       case ns_platform ns of
         None \<Rightarrow> parser_error
       | Some platform \<Rightarrow>
           bindP (liftP (fix_version (cl_read env) (ns_version ns) (ns_gardenlinux_epoch ns))) (\<lambda>version.
           bindP (liftP (se_cicd_cfg env (ns_cicd_cfg ns))) (\<lambda>cfg.
           bindP (reading (find_release (ce_features env) (ce_fuel env) (se_s3 env) (se_codec env) (bucket_of cfg)
               (requested_release ns platform committish version))) (\<lambda>release.
             case release of
               None \<Rightarrow> exit_with 1
             | Some m \<Rightarrow> deliver env ns cfg m))))"

definition retrieve_release_set :: "('z, 's) cli_env \<Rightarrow> cli_opt list \<Rightarrow> ('s workspace, int option) proc" where
  "retrieve_release_set env opts =
     bindP (retrieve_args env (set_option env) opts) (\<lambda>(ns, committish).
     bindP (liftP (fix_version (cl_read env) (ns_version ns) (ns_gardenlinux_epoch ns))) (\<lambda>version.
     bindP (liftP (se_cicd_cfg env (ns_cicd_cfg ns))) (\<lambda>cfg.
     bindP (reading (find_release_set (se_s3 env) (se_codec env) (bucket_of cfg) (ns_flavourset_name ns) committish
         (str_int (ns_gardenlinux_epoch ns)) version (ns_build_type ns) release_manifest_set_prefix True)) (\<lambda>release_set.
       case release_set of
         None \<Rightarrow> exit_with 1
       | Some ms \<Rightarrow> bindP (emit_yaml (ns_outfile ns) (cl_dump_set env ms)) (\<lambda>_. retP None)))))"

subsection \<open>The other commands\<close>

definition print_epoch :: "('z, 's) cli_env \<Rightarrow> ('s workspace, unit) proc" where
  "print_epoch env =
     bindP (liftP (gardenlinux_epoch_from_workingtree (cl_read env) version_path (cl_epoch env))) (\<lambda>epoch.
       emit_yaml None (str_int epoch))"

definition print_timestamp :: "('z, 's) cli_env \<Rightarrow> ('s workspace, unit) proc" where
  "print_timestamp env =
     bindP (liftP (gardenlinux_epoch_from_workingtree (cl_read env) version_path (cl_epoch env))) (\<lambda>epoch.
     bindP (liftP (snapshot_date (cl_today env) (cl_isoparse env) (Epoch_int epoch))) (\<lambda>date. emit_yaml None date))"

text \<open>
  The three clean-up jobs one after the other; an error ends the command.  The schedules are those of the
  thread pools; negative ages are not modelled.
\<close>

definition clean_build_result_repository :: "'s s3_client \<Rightarrow> codec \<Rightarrow> clean_env \<Rightarrow>
    (online_release_manifest list \<Rightarrow> online_release_manifest list) \<Rightarrow>
    (online_release_manifest_set list \<Rightarrow> online_release_manifest_set list) \<Rightarrow>
    cicd_cfg \<Rightarrow> nat \<Rightarrow> bool \<Rightarrow> ('s, unit) proc" where
  "clean_build_result_repository s3 cd env sched sched_sets cfg snapshot_max_age_days dry_run =
     bindP (clean_single_release_manifests s3 cd env sched (bucket_of cfg) snapshot_max_age_days dry_run) (\<lambda>_.
     bindP (clean_release_manifest_sets s3 cd env sched_sets (bucket_of cfg) snapshot_max_age_days snapshot_sets_prefix dry_run) (\<lambda>_.
       clean_orphaned_objects s3 cd (bucket_of cfg) ''objects'' dry_run))"

text \<open>
  \<open>main\<close>: the command is the name the program was called by, which any function of the module matches; here those
  that are commands.  What the command returns is dropped.
\<close>

definition command_name :: "string \<Rightarrow> string" where
  "command_name argv0 = py_replace (basename argv0) ''-'' ''_''"

definition run_command :: "('z, 's) cli_env \<Rightarrow> ('s workspace, unit) proc \<Rightarrow> string \<Rightarrow> cli_opt list \<Rightarrow> ('s workspace, unit) proc" where
  "run_command env clean_job argv0 opts =
     (let cmd_name = command_name argv0 in
      if cmd_name = ''retrieve_single_manifest'' then bindP (retrieve_single_manifest env opts) (\<lambda>_. retP ())
      else if cmd_name = ''retrieve_release_set'' then bindP (retrieve_release_set env opts) (\<lambda>_. retP ())
      else if cmd_name = ''gardenlinux_epoch'' then print_epoch env
      else if cmd_name = ''gardenlinux_timestamp'' then print_timestamp env
      else if cmd_name = ''clean_build_result_repository'' then clean_job
      else exit_with 1)"

subsection \<open>Rendering\<close>

definition render_all :: "render_env \<Rightarrow> bool \<Rightarrow> (string \<Rightarrow> string option) \<Rightarrow> feature_descriptor list \<Rightarrow> nat \<Rightarrow> flavour_set list \<Rightarrow> string \<Rightarrow>
    (task list \<times> pipeline \<times> pipeline) res" where
  "render_all re use_secrets_server getenv fs n fsets flavour_set_name =
     bindR (render_task re use_secrets_server getenv) (\<lambda>all_tasks.
     bindR (find_flavour_set fsets flavour_set_name) (\<lambda>fset.
     bindR (render_pipelines fs n fset all_tasks) (\<lambda>(packages, main). Inr (all_tasks, packages, main))))"

text \<open>\<open>render_credentials.py\<close>: \<open>load\<close> parses a YAML file of the directory \<open>cfg\<close>.\<close>

fun dict_items :: "pobj \<Rightarrow> (string \<times> pobj) list res" where
  "dict_items (PDict kvs) = Inr kvs"
| "dict_items _ = Inl (TypeError ''not a mapping'')"

fun has_file :: "pobj \<Rightarrow> bool res" where
  "has_file (PDict kvs) = Inr (''file'' \<in> fst ` set kvs)"
| "has_file (PStr s) = Inr (contains ''file'' s)"
| "has_file (PList xs) = Inr (PStr ''file'' \<in> set xs)"
| "has_file _ = Inl (TypeError ''argument is not iterable'')"

definition load_src :: "(string \<Rightarrow> pobj res) \<Rightarrow> pobj \<Rightarrow> (string \<times> pobj) list \<Rightarrow> (string \<times> pobj) list res" where
  "load_src load src_file cfgs =
     bindR (item_str ''file'' src_file) (\<lambda>file_name.
     bindR (load file_name) (\<lambda>loaded.
     bindR (dict_items loaded) (\<lambda>kvs. Inr (dict_merge cfgs kvs))))"

definition render_cfg_type :: "(string \<Rightarrow> pobj res) \<Rightarrow> string \<times> pobj \<Rightarrow> (string \<times> pobj) list \<Rightarrow> (string \<times> pobj) list res" where
  "render_cfg_type load = (\<lambda>(cfg_type, type_cfg) rendered.
     bindR (bindR (item ''src'' type_cfg) as_list) (\<lambda>src_files.
     bindR (mapR (\<lambda>f. bindR (has_file f) (\<lambda>b. Inr (if b then [f] else []))) src_files) (\<lambda>with_file.
     bindR (foldR (load_src load) (concat with_file) []) (\<lambda>cfgs.
       Inr (dict_set cfg_type (PDict cfgs) rendered)))))"

definition render_credentials :: "(string \<Rightarrow> pobj res) \<Rightarrow> (string \<times> pobj) list res" where
  "render_credentials load =
     bindR (load ''cfg_types.yaml'') (\<lambda>types_config.
     bindR (dict_items types_config) (\<lambda>types.
       foldR (render_cfg_type load) types [(''cfg_types'', types_config)]))"

subsection \<open>What the commands do\<close>

text \<open>With the VERSION file of the repository no retrieval gets past the defaults, whatever its options.\<close>

lemma shipped_defaults_fail:
  assumes "cl_read env version_path = Inr shipped_version_lines"
  shows "retrieve_single_manifest env opts ws = Some (Inl (ValueError ''dev''), ws)"
    and "retrieve_release_set env opts ws = Some (Inl (ValueError ''dev''), ws)"
proof -
  have "retrieve_defaults env = Inl (ValueError ''dev'')"
    using assms by (simp add: retrieve_defaults_def gardenlinux_epoch_from_workingtree_def
        parse_version_from_workingtree_def shipped_version_parse py_int_dev version_today_def)
  then show "retrieve_single_manifest env opts ws = Some (Inl (ValueError ''dev''), ws)"
    "retrieve_release_set env opts ws = Some (Inl (ValueError ''dev''), ws)"
    by (simp_all add: retrieve_single_manifest_def retrieve_release_set_def retrieve_args_def bindP_def liftP_def)
qed

text \<open>A failed download is not an error of the program: \<open>main\<close> drops the result code.\<close>

lemma failed_download_succeeds:
  assumes "artifact_location cfg name manifest = None" "name \<noteq> []"
    and "ns_download ns = Some name" "ns_outfile ns = None"
  shows "deliver env ns cfg manifest ws = Some (Inr (Some 1), ws)"
  using assms by (simp add: deliver_def remove_outfile_def download_release_artifact_def bindP_def retP_def)

end
