(* ===== verification/Azure_Wrapper.thy ===== *)
theory Azure_Wrapper
  imports Calls
begin

text \<open>
  \<open>bin/azurewrapper.py\<close>: a class around the command line of Azure.  A command is a call with its argument list, and
  the world answers it with return code and output; \<open>loads\<close> parses JSON.
\<close>

record azure_wrapper =
  aw_subscription :: string
  aw_resource_group :: string
  aw_location :: string

definition mk_azure_wrapper :: "pobj \<Rightarrow> azure_wrapper res" where
  "mk_azure_wrapper config =
     bindR (item_str ''subscription'' config) (\<lambda>subscription.
     bindR (item_str ''resource_group'' config) (\<lambda>resource_group.
     bindR (item_str ''location'' config) (\<lambda>location.
       Inr \<lparr>aw_subscription = subscription, aw_resource_group = resource_group, aw_location = location\<rparr>)))"

subsection \<open>Commands\<close>

definition command_call :: "string list \<Rightarrow> call" where
  "command_call cmd = mk_call [''subprocess''] ''run'' [(''args'', PList (map PStr cmd)), (''capture_output'', PBool True)]"

datatype command_result = Failed string | Output string

definition result_of :: "pobj \<Rightarrow> command_result res" where
  "result_of r =
     bindR (bindR (item ''returncode'' r) as_int) (\<lambda>returncode.
       if returncode \<noteq> 0 then bindR (item_str ''stderr'' r) (\<lambda>e. Inr (Failed e))
       else bindR (item_str ''stdout'' r) (\<lambda>out. Inr (Output out)))"

definition run_cmd :: "world \<Rightarrow> string list \<Rightarrow> command_result prog" where
  "run_cmd w cmd = bindP (ask w (command_call cmd)) (\<lambda>r. liftP (result_of r))"

text \<open>The four ways the methods treat a failure: nothing is returned, the output is dropped, it is logged, it raises.\<close>

definition show_or_none :: "world \<Rightarrow> (string \<Rightarrow> pobj res) \<Rightarrow> string list \<Rightarrow> pobj prog" where
  "show_or_none w loads cmd =
     bindP (run_cmd w cmd) (\<lambda>r. case r of Failed _ \<Rightarrow> retP PNone | Output out \<Rightarrow> liftP (loads out))"

definition try_cmd :: "world \<Rightarrow> string list \<Rightarrow> unit prog" where
  "try_cmd w cmd = bindP (run_cmd w cmd) (\<lambda>_. retP ())"

definition load_or_raise :: "world \<Rightarrow> (string \<Rightarrow> pobj res) \<Rightarrow> string list \<Rightarrow> pobj prog" where
  "load_or_raise w loads cmd =
     bindP (run_cmd w cmd) (\<lambda>r. case r of Failed e \<Rightarrow> raiseP (OtherException e) | Output out \<Rightarrow> liftP (loads out))"

definition do_or_raise :: "world \<Rightarrow> string list \<Rightarrow> unit prog" where
  "do_or_raise w cmd =
     bindP (run_cmd w cmd) (\<lambda>r. case r of Failed e \<Rightarrow> raiseP (OtherException e) | Output _ \<Rightarrow> retP ())"

definition scope :: "azure_wrapper \<Rightarrow> string list" where
  "scope a = [''--subscription'', aw_subscription a, ''--resource-group'', aw_resource_group a]"

subsection \<open>Images, machines and disks\<close>

definition get_image :: "world \<Rightarrow> (string \<Rightarrow> pobj res) \<Rightarrow> azure_wrapper \<Rightarrow> string \<Rightarrow> pobj prog" where
  "get_image w loads a name = show_or_none w loads ([''az'', ''image'', ''show''] @ scope a @ [''--name'', name])"

definition create_vm :: "world \<Rightarrow> (string \<Rightarrow> pobj res) \<Rightarrow> azure_wrapper \<Rightarrow> string \<Rightarrow> string \<Rightarrow> string \<Rightarrow> string \<Rightarrow> string \<Rightarrow> string \<Rightarrow>
    string option \<Rightarrow> pobj prog" where
  "create_vm w loads a img name admin_username nsg ssh_key_name vm_size os_disk_size =
     load_or_raise w loads
       ([''az'', ''vm'', ''create'', ''--public-ip-sku'', ''Standard'', ''--image'', img, ''--name'', name] @ scope a @
        [''--admin-username'', admin_username, ''--nsg'', nsg, ''--ssh-key-name'', ssh_key_name, ''--size'', vm_size] @
        (case os_disk_size of None \<Rightarrow> [] | Some d \<Rightarrow> [''--os-disk-size-gb'', d]))"

definition get_vm :: "world \<Rightarrow> (string \<Rightarrow> pobj res) \<Rightarrow> azure_wrapper \<Rightarrow> string \<Rightarrow> pobj prog" where
  "get_vm w loads a name = show_or_none w loads
     [''az'', ''vm'', ''get-instance-view'', ''--resource-group'', aw_resource_group a, ''--subscription'', aw_subscription a,
      ''--name'', name]"

text \<open>The exception that describes a failure is returned, not raised; no caller of the method could tell.\<close>

definition returned_error :: "world \<Rightarrow> string list \<Rightarrow> string option prog" where
  "returned_error w cmd = bindP (run_cmd w cmd) (\<lambda>r. retP (case r of Failed e \<Rightarrow> Some e | Output _ \<Rightarrow> None))"

definition terminate_vm :: "world \<Rightarrow> azure_wrapper \<Rightarrow> string \<Rightarrow> string option prog" where
  "terminate_vm w a i = returned_error w ([''az'', ''vm'', ''delete''] @ scope a @ [''--yes'', ''--ids'', i])"

definition wrapper_delete_image :: "world \<Rightarrow> azure_wrapper \<Rightarrow> string \<Rightarrow> unit prog" where
  "wrapper_delete_image w a name = try_cmd w ([''az'', ''image'', ''delete''] @ scope a @ [''--name'', name])"

definition delete_disk :: "world \<Rightarrow> string \<Rightarrow> unit prog" where
  "delete_disk w i = try_cmd w [''az'', ''disk'', ''delete'', ''--yes'', ''--ids'', i]"

definition delete_vm_nic :: "world \<Rightarrow> string \<Rightarrow> unit prog" where
  "delete_vm_nic w i = try_cmd w [''az'', ''network'', ''nic'', ''delete'', ''--ids'', i]"

subsection \<open>Security groups and keys\<close>

definition named_scope :: "azure_wrapper \<Rightarrow> string \<Rightarrow> string list" where
  "named_scope a name = [''--subscription'', aw_subscription a, ''--name'', name, ''--resource-group'', aw_resource_group a]"

definition get_nsg :: "world \<Rightarrow> (string \<Rightarrow> pobj res) \<Rightarrow> azure_wrapper \<Rightarrow> string \<Rightarrow> pobj prog" where
  "get_nsg w loads a name = show_or_none w loads ([''az'', ''network'', ''nsg'', ''show''] @ named_scope a name)"

definition delete_nsg :: "world \<Rightarrow> azure_wrapper \<Rightarrow> string \<Rightarrow> string option prog" where
  "delete_nsg w a name = returned_error w ([''az'', ''network'', ''nsg'', ''delete''] @ named_scope a name)"

definition nsg_rule_cmd :: "azure_wrapper \<Rightarrow> string \<Rightarrow> string list" where
  "nsg_rule_cmd a name =
     [''az'', ''network'', ''nsg'', ''rule'', ''create'', ''--name'', ''ssh'', ''--nsg-name'', name, ''--priority'', ''300'',
      ''--destination-port-ranges'', ''22'', ''--access'', ''Allow'', ''--protocol'', ''Tcp'',
      ''--source-address-prefixes'', ''0.0.0.0/1'', ''128.0.0.0/1''] @ scope a"

definition create_nsg :: "world \<Rightarrow> azure_wrapper \<Rightarrow> string \<Rightarrow> unit prog" where
  "create_nsg w a name =
     bindP (do_or_raise w ([''az'', ''network'', ''nsg'', ''create'', ''--name'', name] @ scope a)) (\<lambda>_.
       do_or_raise w (nsg_rule_cmd a name))"

definition get_ssh_key :: "world \<Rightarrow> (string \<Rightarrow> pobj res) \<Rightarrow> azure_wrapper \<Rightarrow> string \<Rightarrow> pobj prog" where
  "get_ssh_key w loads a ssh_keyname =
     show_or_none w loads ([''az'', ''sshkey'', ''show''] @ scope a @ [''--name'', ssh_keyname])"

text \<open>\<open>public_key\<close> is the public part of the key file; the command runs twice, and the second result counts.\<close>

definition upload_key_cmd :: "azure_wrapper \<Rightarrow> string \<Rightarrow> string \<Rightarrow> string list" where
  "upload_key_cmd a pub ssh_keyname =
     [''az'', ''sshkey'', ''create''] @ scope a @ [''--public-key'', pub, ''--name'', ssh_keyname]"

definition upload_ssh_key :: "world \<Rightarrow> (string \<Rightarrow> string res) \<Rightarrow> azure_wrapper \<Rightarrow> string \<Rightarrow> string \<Rightarrow> unit prog" where
  "upload_ssh_key w public_key a ssh_keypath ssh_keyname =
     bindP (liftP (public_key ssh_keypath)) (\<lambda>pub.
     bindP (run_cmd w (upload_key_cmd a pub ssh_keyname)) (\<lambda>_.
       do_or_raise w (upload_key_cmd a pub ssh_keyname)))"

text \<open>The command is looked up in \<open>self.repo_root\<close>, which no object of the class has.\<close>

definition delete_ssh_key :: "azure_wrapper \<Rightarrow> string \<Rightarrow> unit prog" where
  "delete_ssh_key a ssh_keyname = raiseP (AttributeError ''repo_root'')"

subsection \<open>Resource groups and storage accounts\<close>

definition get_resource_group :: "world \<Rightarrow> (string \<Rightarrow> pobj res) \<Rightarrow> azure_wrapper \<Rightarrow> string \<Rightarrow> pobj prog" where
  "get_resource_group w loads a name = show_or_none w loads
     [''az'', ''group'', ''show'', ''--subscription'', aw_subscription a, ''--name'', name]"

definition create_resource_group :: "world \<Rightarrow> (string \<Rightarrow> pobj res) \<Rightarrow> azure_wrapper \<Rightarrow> string \<Rightarrow> string \<Rightarrow> pobj prog" where
  "create_resource_group w loads a location name = load_or_raise w loads
     [''az'', ''group'', ''create'', ''--subscription'', aw_subscription a, ''--location'', location, ''--name'', name]"

definition delete_resource_group :: "world \<Rightarrow> azure_wrapper \<Rightarrow> string \<Rightarrow> unit prog" where
  "delete_resource_group w a name = do_or_raise w
     [''az'', ''group'', ''delete'', ''--subscription'', aw_subscription a, ''--yes'', ''--name'', name]"

fun first_named :: "string \<Rightarrow> pobj list \<Rightarrow> pobj res" where
  "first_named name [] = Inr PNone"
| "first_named name (stg # stgs) =
     bindR (item ''name'' stg) (\<lambda>n. if n = PStr name then Inr stg else first_named name stgs)"

definition get_storage_account :: "world \<Rightarrow> (string \<Rightarrow> pobj res) \<Rightarrow> azure_wrapper \<Rightarrow> string \<Rightarrow> pobj prog" where
  "get_storage_account w loads a name =
     bindP (load_or_raise w loads ([''az'', ''storage'', ''account'', ''list''] @ scope a)) (\<lambda>stg_accounts.
       liftP (bindR (as_list stg_accounts) (first_named name)))"

definition create_storage_account :: "world \<Rightarrow> (string \<Rightarrow> pobj res) \<Rightarrow> azure_wrapper \<Rightarrow> string \<Rightarrow> pobj prog" where
  "create_storage_account w loads a name = load_or_raise w loads
     ([''az'', ''storage'', ''account'', ''create''] @ scope a @
      [''--allow-blob-public-access'', ''false'', ''--min-tls-version'', ''TLS1_2'', ''--https-only'', ''true'', ''--name'', name])"

definition delete_storage_account :: "world \<Rightarrow> azure_wrapper \<Rightarrow> string \<Rightarrow> unit prog" where
  "delete_storage_account w a name = do_or_raise w
     ([''az'', ''storage'', ''account'', ''delete''] @ scope a @ [''--name'', name, ''--yes''])"

subsection \<open>Failures\<close>

lemma command_call_inject [simp]: "command_call xs = command_call ys \<longleftrightarrow> xs = ys"
  by (auto simp: command_call_def mk_call_def inj_map_eq_map inj_def)

lemma run_cmd_runs: "\<exists>r. run_cmd w cmd h = Some (r, h @ [command_call cmd])"
  by (auto simp: run_cmd_def bindP_def ask_def liftP_def split: sum.splits)

text \<open>A security group is not open for ssh unless it could be created.\<close>

lemma nsg_rule_after_group:
  assumes "create_nsg w a name h = Some (r, h')"
    and "command_call (nsg_rule_cmd a name) \<in> set (drop (length h) h')"
  shows "\<exists>g. run_cmd w ([''az'', ''network'', ''nsg'', ''create'', ''--name'', name] @ scope a) h =
    Some (Inr (Output g), h @ [command_call ([''az'', ''network'', ''nsg'', ''create'', ''--name'', name] @ scope a)])"
proof -
  let ?c = "[''az'', ''network'', ''nsg'', ''create'', ''--name'', name] @ scope a"
  have no: "command_call ?c \<noteq> command_call (nsg_rule_cmd a name)" by (simp add: nsg_rule_cmd_def)
  obtain q where run: "run_cmd w ?c h = Some (q, h @ [command_call ?c])"
    using run_cmd_runs by blast
  show ?thesis
  proof (cases q)
    case (Inl e)
    with assms(1) run have "h' = h @ [command_call ?c]" by (simp add: create_nsg_def do_or_raise_def bindP_def)
    with assms(2) no show ?thesis by simp
  next
    case (Inr res)
    show ?thesis
    proof (cases res)
      case (Failed e)
      with Inr assms(1) run have "h' = h @ [command_call ?c]" by (simp add: create_nsg_def do_or_raise_def bindP_def raiseP_def)
      with assms(2) no show ?thesis by simp
    next
      case (Output out)
      with Inr run show ?thesis by auto
    qed
  qed
qed

end
