(* ===== verification/Spec2Isabelle.thy ===== *)
theory Spec2Isabelle
  imports Pipeline_Run Clean Timed_Waits Azure_Properties Promote_Properties Github_Properties Log_Properties
    Notify_Properties Test_Properties Component_Descriptor Container_Builds Package_Steps Cli Azure_Wrapper
begin

text \<open>
  Verification of the Garden Linux CI tooling (the Python programs under ci/ of the repository).

  What the program does.  Garden Linux is built in many flavours: a platform (aws, gcp, metal, ...),
  an architecture and a list of features, each feature a directory with an info.yaml that includes
  further features.  The flavours to build are listed in flavours.yaml.  The tooling expands that
  list, renders Tekton tasks, pipelines and pipeline runs from it, and the tasks, once they run in a
  cluster, store what they built in an S3 bucket: the files as objects named by their digest, and a
  release manifest under a key made of the identity of the release.  Later steps find releases by
  that key, publish their images with the cloud providers and note the published images, test
  results and logs in the manifest; jobs of their own remove what is outdated.

  How the theories correspond to the code (all files under src/ci).

  Basics.
    Prelude: errors of the program as values (Python's exceptions are the datatype py_err, a
      fallible function returns a sum), lists, sets and dictionaries with the order Python gives
      them; the named collections of simplification rules.
    Py_Strings: split, join, strip, replace, int and the padding of str.format.
    Enums: the enumerations of glci/model.py, each an interpretation of the locale string_enum,
      which gives the round trip between members and values once.

  Data model (glci/model.py).
    Build_Targets: BuildTarget, its prerequisites and set_from_str.
    Features: feature descriptors, included_features; the include graph may have cycles, on which
      the code raises RecursionError: the recursion has fuel, and any fuel above the number of
      features is enough (Naming.included_features_correct proves both directions).
    Modifiers: normalised_modifiers and canonicalised_features; Shipped: the include graph of the
      features directory of the repository, for which 27 is enough fuel.
    Flavours: GardenlinuxFlavour and GardenlinuxFlavourSet.flavours.
    Naming: ReleaseIdentifier and the keys of release manifests.
    Epoch, Version_File: epochs, snapshot names and the VERSION file.
    Manifest: release manifests and manifest sets, their conversions, and the plain values that
      util._json_serialisable_manifest makes of them.

  Rendering (steps.py, tasks.py, render_task.py, render_pipelines.py, render_pipeline_run.py,
  params.py, results.py, tkn/model.py).
    Tekton_Model: the resources; Params: the parameters and results of all steps; Step_Script: how
      the script of a step is put together from a file and its parameters; Steps: every step and
      the signature of the function that its script calls; Tasks, Pipelines, Pipeline_Run: the
      resources.  The lemmas of Tasks show that a task declares what its scripts refer to, those of
      Pipelines that a pipeline passes to each task what it declares and declares itself what it
      passes, those of Pipeline_Run that a run supplies what the pipelines declare.

  The store (glci/util.py, clean.py).
    Object_Store: the functions of util.py over an S3 client, which is a parameter: a record of
      functions on an abstract state.  The hypotheses about it are the laws s3_listing (the pages of
      a listing are those of the keys with the prefix), s3_read_your_writes and s3_deletion; those
      about the YAML library and dacite are codec_reads and its variants.  Store_Properties proves
      round trips and the completeness of the enumeration; sample_s3 and sample_codec are an
      instance that satisfies all laws.
    Clean: the jobs of clean.py, whose thread pool is an arbitrary order of the tasks.

  Services (glci/aws.py, alicloud.py, gcp.py, openstack_image.py, az.py, oci.py, model.CicdCfg).
    Calls: how the programs that talk to services are modelled.  A call is a value (who is called, with
      which arguments), the world answers a call from the history of all calls before it, and a program
      maps the history to a result, an error or (for a loop that never ends) to nothing, and the longer
      history.  So a property can speak of the order of the calls and of every behaviour of a service.
      The predicate guarded says which calls a program makes; the locale poller is the contract of a loop
      that polls a service, and its interpretations are the waits of the publishing modules.
    Cicd_Cfg: the configuration classes; Aws, Alicloud, Gcp_Openstack, Azure and Oci: one theory for each
      publishing module, with the thread pools as schedules; Aws_Properties, Azure_Properties,
      Oci_Properties and Timed_Waits: what the calls are, in which order they are made, and that the waits
      end.

  Steps (promote.py, steps/, logs.py, github_release.py, release.py, wait_for_pipelinerun.py, tkn/util.py).
    Workspace: a step is a program on the files of the shared volume, the store and the history of calls;
      an error leaves what was changed before it.
    Promotion, Build_Steps: publishing by platform, the steps around a build (pre_build_step,
      upload_results_step, pre_check_tests, upload_test_results, promote_step); Step_Properties and
      Promote_Properties relate them: what one step stores is what the next one finds.
    Github, Github_Properties: commit states, release branches, the release and its notes (Templates
      models string.Template); the run of a series of releases keeps VERSION and the branch in step.
    Tekton_Status: the state of a pipeline run and the wait for its end, another interpretation of poller.
    Logs, Attach_Logs, Log_Properties: the archive of the logs and its references in manifests.
    Notify, Notify_Properties: mails and messages about a run.
    Component_Descriptor: resources and versions of the descriptor.
    Run_Tests, Test_Properties: the test step; tests that passed are not repeated.
    Container_Builds: the base images and what kaniko purges; Clone_Steps: the clone of the repository and
      the paths of os.path; Package_Steps: directories in S3 and the package repository.

  Front ends (bin/.cicd-cli.py, render_all.py, render_credentials.py, bin/azurewrapper.py).
    Cli: the commands with their options and defaults; Azure_Wrapper: the class around the az command.

  Hypotheses.  Third-party code is a parameter: a field of a record (the S3 client, the YAML codec, the
  versions of packages) or an answer of the world.  Theorems name what they need of it: the laws of the
  S3 client and of the codec above, clock_runs (the clock advances between two rounds of a wait, by
  a bounded amount), the answers of git and GitHub in git_service.  Each such theorem has a witness in
  which the parameter is a concrete function.

  Bounds.  The recursion over includes has fuel (see Features); the other loops are structural, or they
  are partial functions whose result is None when they do not end, and theorems say when they end.

  Not modelled: the YAML and JSON texts themselves (a resource is the value that is dumped), the
  parsing of command lines into their options, log output and warnings, the files that a git clone
  creates, tools of bin/ without the suffix .py, which are not part of the pipelines, the VMware data
  source under features/vmware, which is third-party code of cloud-init, and the integration tests under
  tests/ and integration_tests/, which exercise built images on real machines.
\<close>

end
